(* ===== verification/Prelude.thy ===== *)
theory Prelude
  imports Main "HOL-Library.AList" "HOL-Library.Word" "HOL-Library.Sublist" "HOL-Library.Monad_Syntax"
begin

text \<open>
  Shared ground of the development: the Go values the program is written in.

  \<^item> Go maps (\<open>gomap\<close>): an association list. The list order is one iteration order of
    \<open>range\<close>, which Go leaves open; statements are about \<open>map_of\<close>, or hold for every order.
  \<^item> Nested maps \<open>map[ResourceType]map[string]V\<close> (\<open>gm2_get\<close>, \<open>gm2_put\<close>, \<open>gm2_del\<close>).
  \<^item> Strings: \<open>strings.Contains\<close>, \<open>strings.Split\<close> (one byte separator), \<open>strings.ToLower\<close>
    on ASCII, \<open>strconv.Itoa\<close>, \<open>net.JoinHostPort\<close>.
  \<^item> Errors: an \<open>error\<close> value is its message; \<open>None\<close> is \<open>nil\<close>.
  \<^item> Runs: a piece of code returns, blocks on a channel operation or panics.
  \<^item> Channels: a buffered channel is the list of its elements; a send on a full one blocks, and
    closing a closed one panics.
  \<^item> Step relations with an inductive invariant, as a locale.
\<close>

named_theorems gomap_simps "rewriting of lookups in updated Go maps"

subsection \<open>Go maps\<close>

type_synonym ('k, 'v) gomap = "('k \<times> 'v) list"

abbreviation gm_keys :: "('k, 'v) gomap \<Rightarrow> 'k list" where
  "gm_keys m \<equiv> map fst m"

abbreviation gm_wf :: "('k, 'v) gomap \<Rightarrow> bool" where
  "gm_wf m \<equiv> distinct (map fst m)"

abbreviation gm_put :: "'k \<Rightarrow> 'v \<Rightarrow> ('k, 'v) gomap \<Rightarrow> ('k, 'v) gomap" where
  "gm_put k v m \<equiv> AList.update k v m"

abbreviation gm_del :: "'k \<Rightarrow> ('k, 'v) gomap \<Rightarrow> ('k, 'v) gomap" where
  "gm_del k m \<equiv> AList.delete k m"

text \<open>Deleting every key that fails a test while ranging over the map.\<close>

definition gm_filter :: "('k \<Rightarrow> bool) \<Rightarrow> ('k, 'v) gomap \<Rightarrow> ('k, 'v) gomap" where
  "gm_filter P m = filter (\<lambda>kv. P (fst kv)) m"

text \<open>Reading a missing inner map gives the nil map, which reads and ranges as the empty one.\<close>

definition gm_sub :: "('k, ('n, 'v) gomap) gomap \<Rightarrow> 'k \<Rightarrow> ('n, 'v) gomap" where
  "gm_sub m k = (case map_of m k of None \<Rightarrow> [] | Some s \<Rightarrow> s)"

definition gm2_get :: "('k, ('n, 'v) gomap) gomap \<Rightarrow> 'k \<Rightarrow> 'n \<Rightarrow> 'v option" where
  "gm2_get m k n = map_of (gm_sub m k) n"

definition gm2_put :: "'k \<Rightarrow> 'n \<Rightarrow> 'v \<Rightarrow> ('k, ('n, 'v) gomap) gomap \<Rightarrow> ('k, ('n, 'v) gomap) gomap" where
  "gm2_put k n v m = gm_put k (gm_put n v (gm_sub m k)) m"

definition gm2_del :: "'k \<Rightarrow> 'n \<Rightarrow> ('k, ('n, 'v) gomap) gomap \<Rightarrow> ('k, ('n, 'v) gomap) gomap" where
  "gm2_del k n m = (case map_of m k of None \<Rightarrow> m | Some s \<Rightarrow> gm_put k (gm_del n s) m)"

definition gm2_wf :: "('k, ('n, 'v) gomap) gomap \<Rightarrow> bool" where
  "gm2_wf m \<longleftrightarrow> gm_wf m \<and> list_all (\<lambda>ks. gm_wf (snd ks)) m"

lemma gm_put_new: "k \<notin> fst ` set m \<Longrightarrow> gm_put k v m = m @ [(k, v)]"
  by (induction m) auto

lemma map_of_put [simp, gomap_simps]:
  "map_of (gm_put k v m) k' = (if k' = k then Some v else map_of m k')"
  by (simp add: update_conv)

lemma map_of_del [simp, gomap_simps]:
  "map_of (gm_del k m) k' = (if k' = k then None else map_of m k')"
  by (simp add: delete_conv)

lemma map_of_gm_filter [simp, gomap_simps]:
  "map_of (gm_filter P m) k = (if P k then map_of m k else None)"
  by (induction m) (auto simp: gm_filter_def)

lemma gm_wf_filter: "gm_wf m \<Longrightarrow> gm_wf (gm_filter P m)"
  by (induction m) (auto simp: gm_filter_def)

lemma gm_wf_put: "gm_wf m \<Longrightarrow> gm_wf (gm_put k v m)"
  by (rule distinct_update)

lemma gm_wf_del: "gm_wf m \<Longrightarrow> gm_wf (gm_del k m)"
  by (rule distinct_delete)

lemma set_keys_map_of: "k \<in> set (gm_keys m) \<longleftrightarrow> map_of m k \<noteq> None"
  by (simp add: map_of_eq_None_iff)

lemma gm_wf_map_of: "gm_wf m \<Longrightarrow> (k, v) \<in> set m \<longleftrightarrow> map_of m k = Some v"
  by (simp add: map_of_eq_Some_iff)

lemma concat_map_Nil [simp]: "concat (map (\<lambda>x. []) xs) = []"
  by (induction xs) auto

lemma map_le_SomeD: "m \<subseteq>\<^sub>m m' \<Longrightarrow> m k = Some v \<Longrightarrow> m' k = Some v"
  by (force simp: map_le_def dom_def)

lemma gm_sub_put [simp, gomap_simps]:
  "gm_sub (gm_put k s m) k' = (if k' = k then s else gm_sub m k')"
  by (simp add: gm_sub_def)

lemma gm_sub_gm2_put [gomap_simps]:
  "gm_sub (gm2_put k n v m) k' = (if k' = k then gm_put n v (gm_sub m k) else gm_sub m k')"
  by (simp add: gm2_put_def)

lemma gm_sub_gm2_del [gomap_simps]:
  "gm_sub (gm2_del k n m) k' = (if k' = k then gm_del n (gm_sub m k) else gm_sub m k')"
  by (auto simp: gm2_del_def gm_sub_def split: option.splits)

lemma gm2_get_put [simp, gomap_simps]:
  "gm2_get (gm2_put k n v m) k' n' = (if k' = k \<and> n' = n then Some v else gm2_get m k' n')"
  by (simp add: gm2_get_def gm_sub_gm2_put)

lemma gm2_get_del [simp, gomap_simps]:
  "gm2_get (gm2_del k n m) k' n' = (if k' = k \<and> n' = n then None else gm2_get m k' n')"
  by (simp add: gm2_get_def gm_sub_gm2_del)

lemma gm2_get_outer_put [simp, gomap_simps]:
  "gm2_get (gm_put k s m) k' n = (if k' = k then map_of s n else gm2_get m k' n)"
  by (simp add: gm2_get_def)

lemma gm2_wf_empty [simp]: "gm2_wf []"
  by (simp add: gm2_wf_def)

lemma gm2_wf_sub: "gm2_wf m \<Longrightarrow> gm_wf (gm_sub m k)"
  by (auto simp: gm2_wf_def gm_sub_def list_all_iff dest: map_of_SomeD split: option.splits)

lemma set_gm_put_subset: "set (gm_put k v m) \<subseteq> insert (k, v) (set m)"
  by (induction m) auto

lemma gm2_wf_outer_put: "gm2_wf m \<Longrightarrow> gm_wf s \<Longrightarrow> gm2_wf (gm_put k s m)"
  using set_gm_put_subset [of k s m]
  by (fastforce simp: gm2_wf_def list_all_iff distinct_update)

lemma gm2_wf_put: "gm2_wf m \<Longrightarrow> gm2_wf (gm2_put k n v m)"
  by (simp add: gm2_put_def gm2_wf_outer_put gm2_wf_sub distinct_update)

lemma gm2_wf_del: "gm2_wf m \<Longrightarrow> gm2_wf (gm2_del k n m)"
proof (cases "map_of m k")
  case None
  then show "gm2_wf m \<Longrightarrow> gm2_wf (gm2_del k n m)" by (simp add: gm2_del_def)
next
  case (Some s)
  assume wf: "gm2_wf m"
  from gm2_wf_sub [OF wf, of k] Some have "gm_wf s" by (simp add: gm_sub_def)
  with wf Some show ?thesis
    by (simp add: gm2_del_def gm2_wf_outer_put distinct_delete)
qed

subsection \<open>Strings\<close>

text \<open>\<open>strings.Contains\<close>.\<close>

fun str_contains :: "string \<Rightarrow> string \<Rightarrow> bool" where
  "str_contains [] sub = (sub = [])"
| "str_contains (c # cs) sub = (prefix sub (c # cs) \<or> str_contains cs sub)"

text \<open>\<open>strings.Split\<close> with a separator of one byte: always at least one part.\<close>

fun str_split :: "char \<Rightarrow> string \<Rightarrow> string list" where
  "str_split sep [] = [[]]"
| "str_split sep (c # cs) =
     (if c = sep then [] # str_split sep cs
      else (case str_split sep cs of [] \<Rightarrow> [[c]] | p # ps \<Rightarrow> (c # p) # ps))"

fun str_join :: "char \<Rightarrow> string list \<Rightarrow> string" where
  "str_join sep [] = []"
| "str_join sep [p] = p"
| "str_join sep (p # q # ps) = p @ sep # str_join sep (q # ps)"

text \<open>\<open>strings.ToLower\<close> on ASCII bytes.\<close>

definition lower_char :: "char \<Rightarrow> char" where
  "lower_char c =
     (if 65 \<le> (of_char c :: nat) \<and> (of_char c :: nat) \<le> 90 then char_of ((of_char c :: nat) + 32) else c)"

definition to_lower :: "string \<Rightarrow> string" where
  "to_lower s = map lower_char s"

text \<open>\<open>strconv.Itoa\<close> on non-negative numbers.\<close>

fun itoa :: "nat \<Rightarrow> string" where
  "itoa n = (if n < 10 then [char_of (48 + n)] else itoa (n div 10) @ [char_of (48 + n mod 10)])"

declare itoa.simps [simp del]

text \<open>\<open>net.JoinHostPort\<close>: a host with a colon (an IPv6 literal) is bracketed.\<close>

definition join_host_port :: "string \<Rightarrow> string \<Rightarrow> string" where
  "join_host_port host port =
     (if CHR '':'' \<in> set host then ''['' @ host @ '']:'' @ port else host @ '':'' @ port)"

lemma str_contains_iff: "str_contains s sub \<longleftrightarrow> sublist sub s"
  by (induction s) (auto simp: sublist_Cons_right)

lemma str_contains_mid [simp]: "str_contains (a @ sub @ b) sub"
  by (simp add: str_contains_iff sublist_appendI)

lemma str_split_neq_Nil [simp]: "str_split sep s \<noteq> []"
  by (cases s) (auto split: list.splits)

lemma str_join_split: "str_join sep (str_split sep s) = s"
proof (induction s)
  case (Cons c cs)
  then show ?case
    by (cases "str_split sep cs"; cases "tl (str_split sep cs)") auto
qed simp

lemma str_split_parts: "p \<in> set (str_split sep s) \<Longrightarrow> sep \<notin> set p"
proof (induction s arbitrary: p)
  case (Cons c cs)
  then show ?case
    by (cases "str_split sep cs") (auto split: if_splits)
qed simp

lemma str_split_no_sep: "sep \<notin> set s \<Longrightarrow> str_split sep s = [s]"
  by (induction s) auto

lemma str_split_append:
  "sep \<notin> set p \<Longrightarrow> str_split sep (p @ sep # s) = p # str_split sep s"
  by (induction p) auto

lemma length_str_split: "length (str_split sep s) = Suc (count_list s sep)"
proof (induction s)
  case (Cons c cs)
  then show ?case by (cases "str_split sep cs") auto
qed simp

lemma lower_char_idem [simp]: "lower_char (lower_char c) = lower_char c"
proof (cases "65 \<le> (of_char c :: nat) \<and> (of_char c :: nat) \<le> 90")
  case True
  then have "(of_char (char_of ((of_char c :: nat) + 32)) :: nat) = of_char c + 32"
    by simp
  with True show ?thesis by (simp add: lower_char_def)
qed (auto simp: lower_char_def)

lemma to_lower_idem [simp]: "to_lower (to_lower s) = to_lower s"
  by (simp add: to_lower_def)

subsection \<open>Runs of Go code\<close>

text \<open>
  A piece of Go code returns, blocks on a channel operation, or panics.
\<close>

datatype 'a run = Returns 'a | Blocks | Panics string

fun run_bind :: "'a run \<Rightarrow> ('a \<Rightarrow> 'b run) \<Rightarrow> 'b run" where
  "run_bind (Returns x) f = f x"
| "run_bind Blocks f = Blocks"
| "run_bind (Panics p) f = Panics p"

lemma run_bind_Returns_iff [simp]:
  "run_bind m f = Returns y \<longleftrightarrow> (\<exists>x. m = Returns x \<and> f x = Returns y)"
  by (cases m) auto

lemma run_bind_Panics_iff:
  "run_bind m f = Panics p \<longleftrightarrow> m = Panics p \<or> (\<exists>x. m = Returns x \<and> f x = Panics p)"
  by (cases m) auto

lemma run_bind_Blocks_iff:
  "run_bind m f = Blocks \<longleftrightarrow> m = Blocks \<or> (\<exists>x. m = Returns x \<and> f x = Blocks)"
  by (cases m) auto

text \<open>A buffered channel with the given capacity; \<open>close\<close> of a closed channel panics.\<close>

definition chan_send :: "nat \<Rightarrow> 'a \<Rightarrow> 'a list \<Rightarrow> 'a list run" where
  "chan_send cap x ch = (if length ch < cap then Returns (ch @ [x]) else Blocks)"

definition chan_close :: "bool \<Rightarrow> bool run" where
  "chan_close closed = (if closed then Panics ''close of closed channel'' else Returns True)"

subsection \<open>Invariants of step relations\<close>

text \<open>
  A step relation with an invariant that holds at the start and is kept by every step.
\<close>

locale inductive_invariant =
  fixes start :: "'s \<Rightarrow> bool"
    and step :: "'s \<Rightarrow> 's \<Rightarrow> bool"
    and invar :: "'s \<Rightarrow> bool"
  assumes invar_start: "start s \<Longrightarrow> invar s"
    and invar_step: "invar s \<Longrightarrow> step s s' \<Longrightarrow> invar s'"
begin

lemma invar_reachable: "step\<^sup>*\<^sup>* s s' \<Longrightarrow> start s \<Longrightarrow> invar s'"
  by (induction rule: rtranclp_induct) (auto intro: invar_start invar_step)

end

text \<open>A step relation whose runs from a state are bounded comes to rest from it.\<close>

lemma bounded_run_ends:
  assumes "\<And>n s'. (R ^^ n) s s' \<Longrightarrow> n \<le> (b :: nat)"
  shows "\<exists>s'. R\<^sup>*\<^sup>* s s' \<and> (\<nexists>t. R s' t)"
proof (rule ccontr)
  assume never: "\<not> (\<exists>s'. R\<^sup>*\<^sup>* s s' \<and> (\<nexists>t. R s' t))"
  have "\<exists>s'. (R ^^ n) s s'" for n
  proof (induction n)
    case (Suc n)
    then obtain s' where s': "(R ^^ n) s s'" by blast
    with never obtain t where "R s' t" using relpowp_imp_rtranclp by metis
    with s' show ?case by (blast intro: relpowp_Suc_I)
  qed auto
  with assms [of "Suc b"] show False by fastforce
qed

end
