(* ===== verification/Float64.thy ===== *)
theory Float64
  imports Complex_Main "HOL-Library.Log_Nat" "HOL-Library.Word"
begin

text \<open>
  Go's \<open>float64\<close> as far as the program uses it: values parsed from strings or JSON, the
  conversion of an unsigned 32 bit integer, one division by 100, and the conversion back to
  \<open>uint32\<close>. A finite value is a rational. The quotient of two exact values is the exact
  quotient rounded to 53 significant bits, ties to even (\<open>round53\<close>); the exponents that occur
  are far from the subnormal and overflow ranges, so both are left out of \<open>round53\<close>.
\<close>

datatype float64 = Fin rat | Inf bool | NaN

definition round_half_even :: "rat \<Rightarrow> int" where
  "round_half_even m =
     (let f = \<lfloor>m\<rfloor>; r = m - of_int f in
      if r < 1 / 2 then f else if 1 / 2 < r then f + 1 else if even f then f else f + 1)"

text \<open>The exponent \<open>k\<close> with \<open>2^k \<le> q < 2^(k+1)\<close> for a positive \<open>q\<close>.\<close>

definition exponent2 :: "rat \<Rightarrow> int" where
  "exponent2 q =
     (let (a, b) = quotient_of q; e = int (floorlog 2 (nat a)) - int (floorlog 2 (nat b)) in
      if 2 powi e \<le> q then e else e - 1)"

definition round53 :: "rat \<Rightarrow> rat" where
  "round53 q =
     (if q \<le> 0 then 0
      else let k = exponent2 q in of_int (round_half_even (q * 2 powi (52 - k))) * 2 powi (k - 52))"

text \<open>\<open>float64(x) / 100\<close> for a \<open>uint32\<close> \<open>x\<close>, which converts exactly.\<close>

definition f64_percent :: "32 word \<Rightarrow> float64" where
  "f64_percent x = Fin (round53 (of_nat (unat x) / 100))"

text \<open>
  \<open>uint32(f)\<close>: truncation towards zero; for a value out of range, an infinity or NaN the Go
  specification leaves the result to the implementation, here the argument \<open>oor\<close>.
\<close>

definition trunc_rat :: "rat \<Rightarrow> int" where
  "trunc_rat q = (if 0 \<le> q then \<lfloor>q\<rfloor> else \<lceil>q\<rceil>)"

definition f64_to_u32 :: "(float64 \<Rightarrow> 32 word) \<Rightarrow> float64 \<Rightarrow> 32 word" where
  "f64_to_u32 oor f =
     (case f of
        Fin q \<Rightarrow> if 0 \<le> trunc_rat q \<and> trunc_rat q < 2 ^ 32 then word_of_int (trunc_rat q) else oor f
      | _ \<Rightarrow> oor f)"

lemma round_half_even_error: "\<bar>of_int (round_half_even m) - m\<bar> \<le> 1 / 2"
proof -
  have "of_int \<lfloor>m\<rfloor> \<le> m" "m < of_int \<lfloor>m\<rfloor> + 1" by linarith+
  then show ?thesis by (auto simp: round_half_even_def Let_def)
qed

lemma floorlog2_bounds: "0 < n \<Longrightarrow> 2 ^ (floorlog 2 n - 1) \<le> n \<and> n < 2 ^ floorlog 2 n \<and> 0 < floorlog 2 n"
  using floorlog_bounds [of n 2] floorlog_ge_SucI [of 0 n 2]
  by (simp add: floorlog_def split: if_splits)

lemma exponent2_bounds:
  assumes q: "0 < q"
  shows "2 powi exponent2 q \<le> q"
proof -
  obtain a b where ab: "quotient_of q = (a, b)" by (cases "quotient_of q")
  have b: "0 < b" using quotient_of_denom_pos [OF ab] .
  have qab: "q = of_int a / of_int b" using quotient_of_div [OF ab] .
  with q b have a: "0 < a" by (simp add: zero_less_divide_iff)
  define x where "x = floorlog 2 (nat a)"
  define y where "y = floorlog 2 (nat b)"
  have x: "2 ^ (x - 1) \<le> nat a" "0 < x" and y: "nat b < 2 ^ y"
    using floorlog2_bounds [of "nat a"] floorlog2_bounds [of "nat b"] a b by (auto simp: x_def y_def)
  have xa: "(2::rat) ^ (x - 1) \<le> of_int a"
    using x(1) a by (metis nat_0_le of_int_le_iff of_int_numeral of_int_power of_nat_le_iff
        of_nat_numeral of_nat_power order_less_imp_le)
  have yb: "of_int b < (2::rat) ^ y"
    using y b by (metis nat_0_le of_int_less_iff of_int_numeral of_int_power of_nat_less_iff
        of_nat_numeral of_nat_power order_less_imp_le)
  have e: "int x - int y - 1 = int (x - 1) - int y" using x(2) by simp
  have "(2::rat) powi (int (x - 1) - int y) = 2 powi int (x - 1) / 2 powi int y"
    by (rule power_int_diff) simp
  then have "(2::rat) powi (int x - int y - 1) = 2 ^ (x - 1) / 2 ^ y"
    by (simp only: e power_int_of_nat)
  also have "\<dots> \<le> of_int a / of_int b"
    using xa yb a b by (intro frac_le) auto
  finally have "(2::rat) powi (int x - int y - 1) \<le> q" using qab by simp
  then show ?thesis by (auto simp: exponent2_def ab Let_def x_def y_def)
qed

text \<open>The relative error of a rounded quotient is at most \<open>2^-53\<close>.\<close>

lemma round53_error:
  assumes q: "0 < q"
  shows "\<bar>round53 q - q\<bar> \<le> q / 2 ^ 53"
proof -
  define k where "k = exponent2 q"
  have k: "2 powi k \<le> q" using exponent2_bounds [OF q] by (simp add: k_def)
  define m where "m = q * 2 powi (52 - k)"
  have inv: "(2::rat) powi (52 - k) * 2 powi (k - 52) = 1"
    by (simp flip: power_int_add)
  have "round53 q - q = (of_int (round_half_even m) - m) * 2 powi (k - 52)"
    using q inv by (simp add: round53_def Let_def k_def [symmetric] m_def algebra_simps)
  then have "\<bar>round53 q - q\<bar> = \<bar>of_int (round_half_even m) - m\<bar> * 2 powi (k - 52)"
    by (simp add: abs_mult)
  also have "\<dots> \<le> 1 / 2 * 2 powi (k - 52)"
    using round_half_even_error [of m] by (intro mult_right_mono) auto
  also have "\<dots> = 2 powi k / 2 ^ 53"
    by (simp add: power_int_diff)
  also have "\<dots> \<le> q / 2 ^ 53" using k by (simp add: divide_right_mono)
  finally show ?thesis .
qed

end
