(* ===== verification/Proto.thy ===== *)
theory Proto
  imports Prelude Float64
begin

text \<open>
  The protobuf messages of the control plane API that the program reads. They are generated
  types of \<open>go-control-plane\<close> and of Istio's name table; a message is a record of the fields
  the program reads, a message pointer that may be nil is an option, a \<open>oneof\<close> is a datatype
  with one constructor per alternative the program distinguishes and one for the others. The
  getters of generated code return the zero value on a nil receiver; \<open>u32_value\<close> is that
  getter for the \<open>UInt32Value\<close> wrapper.

  The library functions the program calls on them (\<open>proto.Unmarshal\<close> per message type,
  \<open>protojson.Unmarshal\<close>, \<open>durationpb.AsDuration\<close>, \<open>regexp\<close>, \<open>strconv.ParseFloat\<close>) are the
  fields of a record \<open>lib\<close>, an argument of the definitions that use them.
\<close>

type_synonym bytes = "8 word list"

type_synonym Duration = int \<comment> \<open>time.Duration, in nanoseconds\<close>

definition u32_value :: "32 word option \<Rightarrow> 32 word" where
  "u32_value w = (case w of None \<Rightarrow> 0 | Some v \<Rightarrow> v)"

record PbAny =
  any_TypeUrl :: string
  any_Value :: bytes

record PbDuration =
  pbd_Seconds :: int
  pbd_Nanos :: int

subsection \<open>Structs (google.protobuf.Struct)\<close>

datatype PbValue =
    NullValue
  | NumberValue float64
  | StringValue string
  | BoolValue bool
  | StructValue "(string \<times> PbValue) list"
  | ListValue "PbValue list"

type_synonym PbStruct = "(string, PbValue) gomap"

fun GetStringValue :: "PbValue \<Rightarrow> string" where
  "GetStringValue (StringValue s) = s"
| "GetStringValue _ = ''''"

fun GetNumberValue :: "PbValue \<Rightarrow> float64" where
  "GetNumberValue (NumberValue f) = f"
| "GetNumberValue _ = Fin 0"

text \<open>\<open>GetStructValue().GetFields()\<close>.\<close>

fun GetStructFields :: "PbValue \<Rightarrow> PbStruct" where
  "GetStructFields (StructValue fs) = fs"
| "GetStructFields _ = []"

subsection \<open>Header matchers and HTTP routes\<close>

datatype StringMatchPattern =
    SM_Exact string
  | SM_Prefix string
  | SM_SafeRegex "string option"
  | SM_Other

datatype HeaderMatchSpecifier =
    HM_StringMatch StringMatchPattern
  | HM_Other

record PbHeaderMatcher =
  hm_Name :: string
  hm_Specifier :: HeaderMatchSpecifier

text \<open>\<open>GetStringMatch()\<close> and \<open>GetExact()\<close>.\<close>

fun GetStringMatch :: "HeaderMatchSpecifier \<Rightarrow> StringMatchPattern option" where
  "GetStringMatch (HM_StringMatch p) = Some p"
| "GetStringMatch HM_Other = None"

fun GetExact :: "StringMatchPattern \<Rightarrow> string" where
  "GetExact (SM_Exact e) = e"
| "GetExact _ = ''''"

datatype PathSpecifier =
    PS_Prefix string
  | PS_Path string
  | PS_Other

record PbRouteMatch =
  pbrm_PathSpecifier :: PathSpecifier
  pbrm_Headers :: "PbHeaderMatcher list"

record PbClusterWeight =
  pbcw_Name :: string
  pbcw_Weight :: "32 word option"

datatype PbClusterSpecifier =
    CS_Cluster string
  | CS_WeightedClusters "PbClusterWeight list"
  | CS_Other

record PbRetryBackOff =
  pbrb_BaseInterval :: "PbDuration option"
  pbrb_MaxInterval :: "PbDuration option"

record PbRetryPolicy =
  pbrp_RetryOn :: string
  pbrp_NumRetries :: "32 word option"
  pbrp_PerTryTimeout :: "PbDuration option"
  pbrp_PerTryIdleTimeout :: "PbDuration option"
  pbrp_RetriableHeaders :: "PbHeaderMatcher list"
  pbrp_RetryBackOff :: "PbRetryBackOff option"

record PbRouteAction =
  pbra_ClusterSpecifier :: PbClusterSpecifier
  pbra_Timeout :: "PbDuration option"
  pbra_RetryPolicy :: "PbRetryPolicy option"

datatype PbAction =
    Route_Route PbRouteAction
  | Route_Other

record PbRoute =
  pbr_Name :: string
  pbr_Match :: "PbRouteMatch option"
  pbr_Action :: "PbAction option"

record PbVirtualHost =
  pbvh_Name :: string
  pbvh_Routes :: "PbRoute list"

record PbRouteConfiguration =
  pbrc_Name :: string
  pbrc_VirtualHosts :: "PbVirtualHost list"

subsection \<open>Thrift proxy, HTTP connection manager, listener\<close>

datatype TpMatchSpecifier =
    RouteMatch_MethodName string
  | RouteMatch_ServiceName string
  | RouteMatch_Unset

record TpRouteMatch =
  tprm_MatchSpecifier :: TpMatchSpecifier
  tprm_Headers :: "PbHeaderMatcher list"

record TpRoute =
  tpr_Match :: "TpRouteMatch option"
  tpr_Route :: "PbClusterSpecifier option"

record TpRouteConfiguration =
  tprc_Name :: string
  tprc_Routes :: "TpRoute list"

record PbThriftProxy =
  tp_RouteConfig :: "TpRouteConfiguration option"

datatype RouteSpecifier =
    HCM_Rds "string option"
  | HCM_RouteConfig "PbRouteConfiguration option"
  | HCM_Other

datatype HttpFilterConfig =
    HttpFilter_TypedConfig "PbAny option"
  | HttpFilter_Other

record PbHttpConnectionManager =
  hcm_RouteSpecifier :: RouteSpecifier
  hcm_HttpFilters :: "HttpFilterConfig list"

record PbTokenBucket =
  tb_MaxTokens :: "32 word"
  tb_TokensPerFill :: "32 word option"

record PbLocalRateLimit =
  lrl_TokenBucket :: "PbTokenBucket option"

record PbTypedStruct =
  ts_Value :: PbStruct

datatype FilterConfig =
    Filter_TypedConfig PbAny
  | Filter_Other

record PbFilterChain =
  fc_DestinationPort :: "32 word option"
  fc_Filters :: "FilterConfig list"

record PbListener =
  pbl_Name :: string
  pbl_FilterChains :: "PbFilterChain list"
  pbl_DefaultFilterChain :: "PbFilterChain option"

subsection \<open>Clusters, endpoints, name table\<close>

record PbSocketAddress =
  sa_Address :: string
  sa_PortValue :: "32 word"

record PbLbEndpoint =
  lbe_SocketAddress :: "PbSocketAddress option"
  lbe_LoadBalancingWeight :: "32 word option"

record PbClusterLoadAssignment =
  cla_ClusterName :: string
  cla_Endpoints :: "PbLbEndpoint list list"

datatype PbDiscoveryType =
  Cluster_STATIC | Cluster_STRICT_DNS | Cluster_LOGICAL_DNS | Cluster_EDS | Cluster_ORIGINAL_DST

datatype PbLbPolicy =
  Cluster_ROUND_ROBIN | Cluster_LEAST_REQUEST | Cluster_RING_HASH | Cluster_RANDOM | Cluster_MAGLEV
  | Cluster_CLUSTER_PROVIDED | Cluster_LOAD_BALANCING_POLICY_CONFIG

record PbOutlierDetection =
  pbod_FailurePercentageThreshold :: "32 word option"
  pbod_FailurePercentageRequestVolume :: "32 word option"

record PbCluster =
  pbc_Name :: string
  pbc_Type :: PbDiscoveryType
  pbc_LbPolicy :: PbLbPolicy
  pbc_OutlierDetection :: "PbOutlierDetection option"
  pbc_EdsServiceName :: "string option"
  pbc_LoadAssignment :: "PbClusterLoadAssignment option"

record PbNameTable =
  nt_Table :: "(string, string list) gomap"

subsection \<open>Discovery requests and responses\<close>

record PbNode =
  node_Id :: string
  node_Metadata :: PbStruct

record DiscoveryResponse =
  resp_VersionInfo :: string
  resp_Resources :: "PbAny list"
  resp_TypeUrl :: string
  resp_Nonce :: string

text \<open>\<open>ErrorDetail\<close> is a status code with a message.\<close>

record DiscoveryRequest =
  req_VersionInfo :: string
  req_Node :: PbNode
  req_TypeUrl :: string
  req_ResourceNames :: "string list"
  req_ResponseNonce :: string
  req_ErrorDetail :: "(nat \<times> string) option"

subsection \<open>The library functions\<close>

record lib =
  Unmarshal_Listener :: "bytes \<Rightarrow> string + PbListener"
  Unmarshal_RouteConfiguration :: "bytes \<Rightarrow> string + PbRouteConfiguration"
  Unmarshal_Cluster :: "bytes \<Rightarrow> string + PbCluster"
  Unmarshal_ClusterLoadAssignment :: "bytes \<Rightarrow> string + PbClusterLoadAssignment"
  Unmarshal_NameTable :: "bytes \<Rightarrow> string + PbNameTable"
  Unmarshal_ThriftProxy :: "bytes \<Rightarrow> string + PbThriftProxy"
  Unmarshal_HttpConnectionManager :: "bytes \<Rightarrow> string + PbHttpConnectionManager"
  Unmarshal_LocalRateLimit :: "bytes \<Rightarrow> string + PbLocalRateLimit"
  Unmarshal_TypedStruct :: "bytes \<Rightarrow> string + PbTypedStruct"
  ProtojsonUnmarshal :: "string \<Rightarrow> string + PbStruct"
  AsDuration :: "PbDuration option \<Rightarrow> Duration"
  ParseFloat :: "string \<Rightarrow> string + float64"
  RegexpCompile :: "string \<Rightarrow> string option" \<comment> \<open>the error of \<open>regexp.Compile\<close>, if any\<close>
  RegexpMatchString :: "string \<Rightarrow> string \<Rightarrow> bool" \<comment> \<open>by the pattern that was compiled\<close>
  F64OutOfRange :: "float64 \<Rightarrow> 32 word" \<comment> \<open>\<open>uint32\<close> of a float out of range\<close>

text \<open>A library instance for examples: byte strings that decode to nothing, literal patterns.\<close>

definition example_lib :: lib where
  "example_lib =
     \<lparr>Unmarshal_Listener = (\<lambda>_. Inl ''bad''), Unmarshal_RouteConfiguration = (\<lambda>_. Inl ''bad''),
      Unmarshal_Cluster = (\<lambda>_. Inl ''bad''), Unmarshal_ClusterLoadAssignment = (\<lambda>_. Inl ''bad''),
      Unmarshal_NameTable = (\<lambda>_. Inl ''bad''), Unmarshal_ThriftProxy = (\<lambda>_. Inl ''bad''),
      Unmarshal_HttpConnectionManager = (\<lambda>_. Inl ''bad''), Unmarshal_LocalRateLimit = (\<lambda>_. Inl ''bad''),
      Unmarshal_TypedStruct = (\<lambda>_. Inl ''bad''), ProtojsonUnmarshal = (\<lambda>_. Inl ''bad''),
      AsDuration = (\<lambda>_. 0), ParseFloat = (\<lambda>_. Inl ''bad''), RegexpCompile = (\<lambda>_. None),
      RegexpMatchString = (\<lambda>p s. p = s), F64OutOfRange = (\<lambda>_. 0)\<rparr>"

end
