(* ===== verification/Bootstrap.thy ===== *)
theory Bootstrap
  imports Proto
begin

text \<open>
  \<open>core/manager/bootstrap.go\<close>, \<open>option.go\<close>, \<open>config.go\<close> and the root package's \<open>option.go\<close>: what
  the client reads from the environment, the node identity it announces, the options of the
  manager and the expansion of host names. The environment is a function from names to values
  (\<open>os.Getenv\<close>: the empty string when unset). A panic of an option is \<open>Inl\<close>.
\<close>

type_synonym env = "string \<Rightarrow> string"

definition PodNamespace :: string where "PodNamespace = ''POD_NAMESPACE''"
definition PodName :: string where "PodName = ''POD_NAME''"
definition MetaNamespace :: string where "MetaNamespace = ''NAMESPACE''"
definition InstanceIP :: string where "InstanceIP = ''INSTANCE_IP''"
definition KitexXdsDomain :: string where "KitexXdsDomain = ''KITEX_XDS_DOMAIN''"
definition KitexXdsMetas :: string where "KitexXdsMetas = ''KITEX_XDS_METAS''"
definition IstioAddrEnvKey :: string where "IstioAddrEnvKey = ''KITEX_XDS_ISTIO_ADDR''"
definition IstioServiceNameEnvKey :: string where "IstioServiceNameEnvKey = ''KITEX_XDS_ISTIO_SERVICE_NAME''"
definition IstioAuthEnvKey :: string where "IstioAuthEnvKey = ''KITEX_XDS_ISTIO_AUTH''"
definition IstioVersion :: string where "IstioVersion = ''ISTIO_VERSION''"
definition IstioMetaInstanceIPs :: string where "IstioMetaInstanceIPs = ''INSTANCE_IPS''"

definition defaultXDSFetchTimeout :: Duration where
  "defaultXDSFetchTimeout = 1000000000"

definition defaultCacheExpireTime :: Duration where
  "defaultCacheExpireTime = 1000000000 * 30"

definition defaultDumpPath :: string where
  "defaultDumpPath = ''/tmp/dumped_xds_resource_manager.json''"

text \<open>The package variables, set by \<open>init\<close>.\<close>

record IstioVars =
  iv_IstiodAddr :: string
  iv_IstiodSvrName :: string
  iv_IstioAuthEnable :: bool

definition bootstrap_init :: "env \<Rightarrow> IstioVars" where
  "bootstrap_init getenv =
     \<lparr>iv_IstiodAddr = (if getenv IstioAddrEnvKey \<noteq> '''' then getenv IstioAddrEnvKey
                       else ''istiod.istio-system.svc:15010''),
      iv_IstiodSvrName = (if getenv IstioServiceNameEnvKey \<noteq> '''' then getenv IstioServiceNameEnvKey
                          else ''istiod.istio-system.svc''),
      iv_IstioAuthEnable = (getenv IstioAuthEnvKey = ''true'')\<rparr>"

record XDSServerConfig =
  xsc_SvrName :: string
  xsc_SvrAddr :: string
  xsc_XDSAuth :: bool
  xsc_NDSNotRequired :: bool
  xsc_LDSNotRequired :: bool
  xsc_FetchXDSTimeout :: Duration

record BootstrapConfig =
  bc_configNamespace :: string
  bc_nodeDomain :: string
  bc_node :: PbNode
  bc_xdsSvrCfg :: XDSServerConfig

definition GetFetchXDSTimeout :: "XDSServerConfig \<Rightarrow> Duration" where
  "GetFetchXDSTimeout xsc =
     (if xsc_FetchXDSTimeout xsc = 0 then defaultXDSFetchTimeout else xsc_FetchXDSTimeout xsc)"

definition merge_instance_ips :: "string \<Rightarrow> string \<Rightarrow> string" where
  "merge_instance_ips existips podIP =
     (if existips = '''' then podIP
      else if \<not> str_contains existips podIP then existips @ '','' @ podIP
      else existips)"

definition parseMetaEnvs :: "lib \<Rightarrow> string \<Rightarrow> string \<Rightarrow> string \<Rightarrow> PbStruct" where
  "parseMetaEnvs L envs istioVersion podIP =
     (let defaultMeta = [(IstioVersion, StringValue istioVersion)]
      in if envs = '''' then defaultMeta
         else case ProtojsonUnmarshal L envs of
           Inl err \<Rightarrow> defaultMeta
         | Inr pbmeta \<Rightarrow>
             (case map_of pbmeta IstioMetaInstanceIPs of
                None \<Rightarrow> pbmeta
              | Some ips \<Rightarrow> gm_put IstioMetaInstanceIPs
                  (StringValue (merge_instance_ips (GetStringValue ips) podIP)) pbmeta))"

definition nodeId :: "string \<Rightarrow> string \<Rightarrow> string \<Rightarrow> string \<Rightarrow> string" where
  "nodeId podIP podName namespace nodeDomain =
     ''sidecar~'' @ podIP @ ''~'' @ podName @ ''.'' @ namespace @ ''~'' @ namespace @ ''.svc.'' @ nodeDomain"

definition tryExpandFQDN :: "BootstrapConfig \<Rightarrow> string \<Rightarrow> string" where
  "tryExpandFQDN bc host =
     (if str_contains host ''.svc.'' then host
      else let parts = str_split (CHR ''.'') host
           in if length parts = 1 then
                host @ ''.'' @ bc_configNamespace bc @ ''.svc.'' @ bc_nodeDomain bc
              else if length parts = 2 then host @ ''.svc.'' @ bc_nodeDomain bc
              else if length parts = 3 then
                (if parts ! 2 = ''svc'' then host @ ''.'' @ bc_nodeDomain bc else host)
              else host @ ''.'' @ bc_configNamespace bc @ ''.svc.'' @ bc_nodeDomain bc)"

definition newBootstrapConfig :: "lib \<Rightarrow> env \<Rightarrow> XDSServerConfig \<Rightarrow> string + BootstrapConfig" where
  "newBootstrapConfig L getenv config =
     (let namespace = getenv PodNamespace; podName = getenv PodName; podIP = getenv InstanceIP
      in if namespace = '''' then Inl ''[XDS] Bootstrap, POD_NAMESPACE is not set in env''
         else if podName = '''' then Inl ''[XDS] Bootstrap, POD_NAME is not set in env''
         else if podIP = '''' then Inl ''[XDS] Bootstrap, INSTANCE_IP is not set in env''
         else
           let config = (if xsc_FetchXDSTimeout config = 0
                         then config\<lparr>xsc_FetchXDSTimeout := defaultXDSFetchTimeout\<rparr> else config);
               istioVersion = getenv IstioVersion;
               nodeDomain = (if getenv KitexXdsDomain = '''' then ''cluster.local'' else getenv KitexXdsDomain);
               metadata = parseMetaEnvs L (getenv KitexXdsMetas) istioVersion podIP;
               bsConfig = \<lparr>bc_configNamespace = namespace, bc_nodeDomain = nodeDomain,
                           bc_node = \<lparr>node_Id = nodeId podIP podName namespace nodeDomain,
                                      node_Metadata = metadata\<rparr>,
                           bc_xdsSvrCfg = config\<rparr>
           in Inr (case map_of metadata MetaNamespace of
                     None \<Rightarrow> bsConfig
                   | Some field \<Rightarrow>
                       if GetStringValue field \<noteq> ''''
                       then bsConfig\<lparr>bc_configNamespace := GetStringValue field\<rparr> else bsConfig))"

subsection \<open>Options of the manager\<close>

record Options =
  opt_XDSSvrConfig :: XDSServerConfig
  opt_DumpPath :: string

type_synonym Option = "Options \<Rightarrow> string + Options"

definition DefaultOptions :: "IstioVars \<Rightarrow> Options" where
  "DefaultOptions v =
     \<lparr>opt_XDSSvrConfig = \<lparr>xsc_SvrName = iv_IstiodSvrName v, xsc_SvrAddr = iv_IstiodAddr v,
        xsc_XDSAuth = iv_IstioAuthEnable v, xsc_NDSNotRequired = False, xsc_LDSNotRequired = False,
        xsc_FetchXDSTimeout = 0\<rparr>,
      opt_DumpPath = defaultDumpPath\<rparr>"

fun Options_Apply :: "Options \<Rightarrow> Option list \<Rightarrow> string + Options" where
  "Options_Apply o' [] = Inr o'"
| "Options_Apply o' (op # opts) = (case op o' of Inl p \<Rightarrow> Inl p | Inr o'' \<Rightarrow> Options_Apply o'' opts)"

definition NewOptions :: "IstioVars \<Rightarrow> Option list \<Rightarrow> string + Options" where
  "NewOptions v opts = Options_Apply (DefaultOptions v) opts"

definition CheckXDSSvrConfig :: "IstioVars \<Rightarrow> XDSServerConfig \<Rightarrow> string + XDSServerConfig" where
  "CheckXDSSvrConfig v cfg =
     (if xsc_SvrAddr cfg = '''' then Inl ''[XDS] Option: xDS server address should be specified''
      else Inr (if xsc_SvrName cfg = '''' then cfg\<lparr>xsc_SvrName := iv_IstiodSvrName v\<rparr> else cfg))"

definition WithXDSServerAddress :: "string \<Rightarrow> Option" where
  "WithXDSServerAddress address o' =
     Inr (o'\<lparr>opt_XDSSvrConfig := (opt_XDSSvrConfig o')\<lparr>xsc_SvrAddr := address\<rparr>\<rparr>)"

definition WithXDSServerConfig :: "IstioVars \<Rightarrow> XDSServerConfig \<Rightarrow> Option" where
  "WithXDSServerConfig v cfg o' =
     (case CheckXDSSvrConfig v cfg of Inl err \<Rightarrow> Inl err | Inr cfg' \<Rightarrow> Inr (o'\<lparr>opt_XDSSvrConfig := cfg'\<rparr>))"

subsection \<open>Host names\<close>

lemma str_split_3: "str_split c h = [a, b, d] \<Longrightarrow> h = a @ c # b @ c # d"
  using str_join_split [of c h] by simp

lemma tryExpandFQDN_svc:
  "str_contains (tryExpandFQDN bc host) ''.svc.'' \<or> tryExpandFQDN bc host = host"
proof -
  let ?p = "str_split (CHR ''.'') host"
  have svc: "str_contains (x @ ''.svc.'' @ y) ''.svc.''" for x y by (rule str_contains_mid)
  have "str_contains (host @ ''.'' @ bc_nodeDomain bc) ''.svc.''" if "length ?p = 3" "?p ! 2 = ''svc''"
  proof -
    from that(1) obtain a b d where abd: "?p = [a, b, d]" by (auto simp: numeral_eq_Suc length_Suc_conv)
    with that(2) have "host = a @ CHR ''.'' # b @ ''.svc''" using str_split_3 [OF abd] by simp
    then show ?thesis using svc [of "a @ CHR ''.'' # b" "bc_nodeDomain bc"] by simp
  qed
  then show ?thesis
    using svc [of "host @ ''.'' @ bc_configNamespace bc" "bc_nodeDomain bc"] svc [of host "bc_nodeDomain bc"]
    by (auto simp: tryExpandFQDN_def Let_def)
qed

lemma tryExpandFQDN_contains: "str_contains h ''.svc.'' \<Longrightarrow> tryExpandFQDN bc h = h"
  by (simp add: tryExpandFQDN_def)

text \<open>Expanding a host name twice is expanding it once, for every configuration and host:
  \<open>resolveAddr\<close> may be given names that are already expanded.\<close>

theorem tryExpandFQDN_idem: "tryExpandFQDN bc (tryExpandFQDN bc host) = tryExpandFQDN bc host"
  using tryExpandFQDN_svc [of bc host] tryExpandFQDN_contains [of "tryExpandFQDN bc host" bc] by auto

text \<open>\<open>newBootstrapConfig\<close> fails exactly if one of the three required variables is unset;
  otherwise the node id is built from them, a fetch timeout of 0 becomes the default, the domain
  defaults to \<open>cluster.local\<close>, and the namespace of the metadata overrides \<open>POD_NAMESPACE\<close>.\<close>

theorem newBootstrapConfig_spec:
  "case newBootstrapConfig L getenv cfg of
     Inl e \<Rightarrow> getenv PodNamespace = '''' \<or> getenv PodName = '''' \<or> getenv InstanceIP = ''''
   | Inr bc \<Rightarrow>
       getenv PodNamespace \<noteq> '''' \<and> getenv PodName \<noteq> '''' \<and> getenv InstanceIP \<noteq> '''' \<and>
       bc_nodeDomain bc = (if getenv KitexXdsDomain = '''' then ''cluster.local'' else getenv KitexXdsDomain) \<and>
       node_Id (bc_node bc) = nodeId (getenv InstanceIP) (getenv PodName) (getenv PodNamespace) (bc_nodeDomain bc) \<and>
       xsc_FetchXDSTimeout (bc_xdsSvrCfg bc) \<noteq> 0 \<and>
       bc_configNamespace bc = (case map_of (node_Metadata (bc_node bc)) MetaNamespace of
           None \<Rightarrow> getenv PodNamespace
         | Some f \<Rightarrow> if GetStringValue f = '''' then getenv PodNamespace else GetStringValue f)"
  by (auto simp: newBootstrapConfig_def Let_def defaultXDSFetchTimeout_def split: option.splits)

text \<open>The pod's address is a substring of the merged list in every case.\<close>

lemma merge_instance_ips_contains: "str_contains (merge_instance_ips existips podIP) podIP"
  using str_contains_mid [of "existips @ '',''" podIP "[]"] str_contains_mid [of "[]" podIP "[]"]
  by (auto simp: merge_instance_ips_def)

text \<open>The membership test of the address list is a substring test. With the pod address
  \<open>10.0.0.1\<close> and the announced list \<open>10.0.0.12\<close> the pod's own address is not among the comma
  separated addresses of the node metadata.\<close>

theorem instance_ips_substring:
  "\<exists>existips podIP L. ProtojsonUnmarshal L ''{}'' = Inr [(IstioMetaInstanceIPs, StringValue existips)] \<and>
     existips \<noteq> '''' \<and> podIP \<notin> set (str_split (CHR '','') existips) \<and>
     (\<exists>ips. map_of (parseMetaEnvs L ''{}'' v podIP) IstioMetaInstanceIPs = Some (StringValue ips) \<and>
       podIP \<notin> set (str_split (CHR '','') ips))"
proof -
  let ?ex = "''10.0.0.12''" let ?ip = "''10.0.0.1''"
  define L :: lib where "L = example_lib\<lparr>ProtojsonUnmarshal := \<lambda>_. Inr [(IstioMetaInstanceIPs, StringValue ?ex)]\<rparr>"
  have "parseMetaEnvs L ''{}'' v ?ip = [(IstioMetaInstanceIPs, StringValue ?ex)]"
    by (simp add: parseMetaEnvs_def L_def merge_instance_ips_def)
  then show ?thesis
    by (intro exI [of _ ?ex] exI [of _ ?ip] exI [of _ L]) (simp add: L_def)
qed

text \<open>A server configuration is accepted exactly if it has an address. An accepted one replaces the
  configuration of the options, with the server name of the package where it has none, and nothing else.\<close>

theorem WithXDSServerConfig_spec:
  "case WithXDSServerConfig v cfg o' of
     Inl e \<Rightarrow> xsc_SvrAddr cfg = ''''
   | Inr o'' \<Rightarrow> xsc_SvrAddr cfg \<noteq> '''' \<and>
       o'' = o'\<lparr>opt_XDSSvrConfig := cfg\<lparr>xsc_SvrName :=
         if xsc_SvrName cfg = '''' then iv_IstiodSvrName v else xsc_SvrName cfg\<rparr>\<rparr>"
  by (auto simp: WithXDSServerConfig_def CheckXDSSvrConfig_def)

end
