(* ===== verification/XdsResource.thy ===== *)
theory XdsResource
  imports Proto
begin

text \<open>
  \<open>core/xdsresource\<close>: the resource types with their URLs (\<open>xdsresource.go\<close>), the parsed
  resources the cache holds (\<open>lds.go\<close>, \<open>rds.go\<close>, \<open>cds.go\<close>, \<open>eds.go\<close>, \<open>nds.go\<close>) and the
  error messages of a partly invalid response (\<open>util.go\<close>).
\<close>

subsection \<open>Resource types\<close>

text \<open>
  \<open>type ResourceType int\<close>: the named values, and \<open>OtherResource\<close> for every other int a caller
  may pass (the tests pass 10).
\<close>

datatype ResourceType =
    UnknownResource
  | ListenerType
  | RouteConfigType
  | ClusterType
  | EndpointsType
  | NameTableType
  | OtherResource int

fun resource_type_code :: "ResourceType \<Rightarrow> int" where
  "resource_type_code UnknownResource = 0"
| "resource_type_code ListenerType = 1"
| "resource_type_code RouteConfigType = 2"
| "resource_type_code ClusterType = 3"
| "resource_type_code EndpointsType = 4"
| "resource_type_code NameTableType = 5"
| "resource_type_code (OtherResource i) = i"

definition RequireFullADSResponse :: "ResourceType \<Rightarrow> bool" where
  "RequireFullADSResponse rt \<longleftrightarrow> rt = ListenerType \<or> rt = ClusterType"

definition ReservedLdsResourceName :: string where
  "ReservedLdsResourceName = ''virtualInbound''"

definition DefaultServerPort :: "32 word" where
  "DefaultServerPort = 0"

definition apiTypePrefix :: string where
  "apiTypePrefix = ''type.googleapis.com/''"

definition ListenerTypeURL :: string where
  "ListenerTypeURL = apiTypePrefix @ ''envoy.config.listener.v3.Listener''"

definition RouteTypeURL :: string where
  "RouteTypeURL = apiTypePrefix @ ''envoy.config.route.v3.RouteConfiguration''"

definition ClusterTypeURL :: string where
  "ClusterTypeURL = apiTypePrefix @ ''envoy.config.cluster.v3.Cluster''"

definition EndpointTypeURL :: string where
  "EndpointTypeURL = apiTypePrefix @ ''envoy.config.endpoint.v3.ClusterLoadAssignment''"

definition HTTPConnManagerTypeURL :: string where
  "HTTPConnManagerTypeURL =
     apiTypePrefix @ ''envoy.extensions.filters.network.http_connection_manager.v3.HttpConnectionManager''"

definition ThriftProxyTypeURL :: string where
  "ThriftProxyTypeURL = apiTypePrefix @ ''envoy.extensions.filters.network.thrift_proxy.v3.ThriftProxy''"

definition RateLimitTypeURL :: string where
  "RateLimitTypeURL = apiTypePrefix @ ''envoy.extensions.filters.http.local_ratelimit.v3.LocalRateLimit''"

definition TypedStructTypeURL :: string where
  "TypedStructTypeURL = apiTypePrefix @ ''udpa.type.v1.TypedStruct''"

definition NameTableTypeURL :: string where
  "NameTableTypeURL = apiTypePrefix @ ''istio.networking.nds.v1.NameTable''"

definition ResourceTypeToURL :: "(ResourceType, string) gomap" where
  "ResourceTypeToURL =
     [(ListenerType, ListenerTypeURL), (RouteConfigType, RouteTypeURL), (ClusterType, ClusterTypeURL),
      (EndpointsType, EndpointTypeURL), (NameTableType, NameTableTypeURL)]"

definition ResourceURLToType :: "(string, ResourceType) gomap" where
  "ResourceURLToType =
     [(ListenerTypeURL, ListenerType), (RouteTypeURL, RouteConfigType), (ClusterTypeURL, ClusterType),
      (EndpointTypeURL, EndpointsType), (NameTableTypeURL, NameTableType)]"

definition ResourceTypeToName :: "(ResourceType, string) gomap" where
  "ResourceTypeToName =
     [(ListenerType, ''Listener''), (RouteConfigType, ''RouteConfig''), (ClusterType, ''Cluster''),
      (EndpointsType, ''ClusterLoadAssignment''), (NameTableType, ''NameTable'')]"

text \<open>Reading a Go map of strings: the zero value for a missing key.\<close>

definition gm_str :: "('k, string) gomap \<Rightarrow> 'k \<Rightarrow> string" where
  "gm_str m k = (case map_of m k of None \<Rightarrow> '''' | Some s \<Rightarrow> s)"

lemmas url_defs =
  ListenerTypeURL_def RouteTypeURL_def ClusterTypeURL_def EndpointTypeURL_def NameTableTypeURL_def
  HTTPConnManagerTypeURL_def ThriftProxyTypeURL_def RateLimitTypeURL_def TypedStructTypeURL_def

lemma urls_distinct [simp]:
  "distinct [ListenerTypeURL, RouteTypeURL, ClusterTypeURL, EndpointTypeURL, NameTableTypeURL]"
  by (simp add: url_defs)

text \<open>The two tables are inverse to each other on the five served types.\<close>

lemma ResourceURLToType_iff:
  "map_of ResourceURLToType url = Some rt \<longleftrightarrow> map_of ResourceTypeToURL rt = Some url"
  using urls_distinct by (auto simp: ResourceURLToType_def ResourceTypeToURL_def split: if_splits)

lemma ResourceTypeToURL_dom:
  "map_of ResourceTypeToURL rt \<noteq> None \<longleftrightarrow>
     rt \<in> {ListenerType, RouteConfigType, ClusterType, EndpointsType, NameTableType}"
  by (auto simp: ResourceTypeToURL_def)

subsection \<open>Routes\<close>

text \<open>A compiled regular expression is named by its pattern.\<close>

datatype Matcher =
    PrefixMatcher string
  | ExactMatcher string
  | RegexMatcher string

type_synonym Matchers = "(string, Matcher) gomap"

record HTTPRouteMatch =
  hrm_Path :: string
  hrm_Prefix :: string
  hrm_Headers :: Matchers

record ThriftRouteMatch =
  trm_Method :: string
  trm_ServiceName :: string
  trm_Tags :: Matchers

datatype RouteMatch =
    HTTPMatch HTTPRouteMatch
  | ThriftMatch ThriftRouteMatch

record WeightedCluster =
  wc_Name :: string
  wc_Weight :: "32 word"

record RetryBackOff =
  rbo_BaseInterval :: Duration
  rbo_MaxInterval :: Duration

record RetryPolicy =
  rp_RetryOn :: string
  rp_NumRetries :: int
  rp_PerTryTimeout :: Duration
  rp_PerTryIdleTimeout :: Duration
  rp_CBErrorRate :: float64
  rp_RetryBackOff :: "RetryBackOff option"
  rp_Methods :: "string list"

definition zero_RetryPolicy :: RetryPolicy where
  "zero_RetryPolicy =
     \<lparr>rp_RetryOn = '''', rp_NumRetries = 0, rp_PerTryTimeout = 0, rp_PerTryIdleTimeout = 0,
      rp_CBErrorRate = Fin 0, rp_RetryBackOff = None, rp_Methods = []\<rparr>"

record Route =
  rt_Match :: "RouteMatch option"
  rt_WeightedClusters :: "WeightedCluster list"
  rt_Timeout :: Duration
  rt_RetryPolicy :: RetryPolicy

definition zero_Route :: Route where
  "zero_Route =
     \<lparr>rt_Match = None, rt_WeightedClusters = [], rt_Timeout = 0, rt_RetryPolicy = zero_RetryPolicy\<rparr>"

record VirtualHost =
  vh_Name :: string
  vh_Routes :: "Route list"

text \<open>\<open>HTTPRouteConfig\<close> and \<open>ThriftRouteConfig\<close> wrap one list each; nil is \<open>None\<close>.\<close>

record RouteConfigResource =
  rc_HTTPRouteConfig :: "VirtualHost list option"
  rc_ThriftRouteConfig :: "Route list option"
  rc_MaxTokens :: "32 word"
  rc_TokensPerFill :: "32 word"

subsection \<open>Listeners, clusters, endpoints\<close>

datatype NetworkFilterType = NetworkFilterTypeHTTP | NetworkFilterTypeThrift

record NetworkFilter =
  nf_FilterType :: NetworkFilterType
  nf_RouteConfigName :: string
  nf_RoutePort :: "32 word"
  nf_InlineRouteConfig :: "RouteConfigResource option"

record ListenerResource =
  lr_NetworkFilters :: "NetworkFilter list"

definition ListenerResource_ResourceType :: "ListenerResource option \<Rightarrow> ResourceType" where
  "ListenerResource_ResourceType r = ListenerType"

text \<open>\<open>utils.NewNetAddr\<close> keeps its two arguments, which \<open>Network()\<close> and \<open>String()\<close> return.\<close>

datatype NetAddr = NewNetAddr (Network: string) (AddrString: string)

record Endpoint =
  ep_addr :: NetAddr
  ep_weight :: "32 word"
  ep_meta :: "(string, string) gomap"

text \<open>A locality is the list of its endpoints, an \<open>EndpointsResource\<close> the list of its localities.\<close>

record EndpointsResource =
  er_Localities :: "Endpoint list list"

datatype ClusterDiscoveryType =
  ClusterDiscoveryTypeEDS | ClusterDiscoveryTypeLogicalDNS | ClusterDiscoveryTypeStatic

datatype ClusterLbPolicy = ClusterLbRoundRobin | ClusterLbRingHash

record OutlierDetection =
  od_FailurePercentageThreshold :: "32 word"
  od_FailurePercentageRequestVolume :: "32 word"

record ClusterResource =
  cr_DiscoveryType :: ClusterDiscoveryType
  cr_LbPolicy :: ClusterLbPolicy
  cr_EndpointName :: string
  cr_InlineEndpoints :: "EndpointsResource option"
  cr_OutlierDetection :: "OutlierDetection option"

text \<open>
  \<open>type Resource interface{}\<close>: a non-nil interface value holds a pointer of one of the four
  types, and that pointer may itself be nil (\<open>None\<close> under the constructor).
\<close>

datatype Resource =
    ResListener "ListenerResource option"
  | ResRouteConfig "RouteConfigResource option"
  | ResCluster "ClusterResource option"
  | ResEndpoints "EndpointsResource option"

fun resource_has_type :: "ResourceType \<Rightarrow> Resource \<Rightarrow> bool" where
  "resource_has_type ListenerType (ResListener _) = True"
| "resource_has_type RouteConfigType (ResRouteConfig _) = True"
| "resource_has_type ClusterType (ResCluster _) = True"
| "resource_has_type EndpointsType (ResEndpoints _) = True"
| "resource_has_type _ _ = False"

record ResourceMeta =
  rm_Version :: string
  rm_UpdateTime :: int
  rm_LastAccessTime :: "int option" \<comment> \<open>\<open>atomic.Value\<close>: empty until the first store\<close>

subsection \<open>Errors of a response\<close>

fun write_errors :: "string list \<Rightarrow> string" where
  "write_errors [] = ''''"
| "write_errors (e # es) = e @ ''\<newline>'' @ write_errors es"

fun write_error_map :: "(string, string) gomap \<Rightarrow> string" where
  "write_error_map [] = ''''"
| "write_error_map ((name, e) # m) = ''resource '' @ name @ '': '' @ e @ '';\<newline>'' @ write_error_map m"

definition processUnmarshalErrors :: "string list \<Rightarrow> (string, string) gomap \<Rightarrow> string" where
  "processUnmarshalErrors errs errMap =
     write_errors errs @ (if errMap \<noteq> [] then ''Error per resource:\<newline>'' @ write_error_map errMap else '''')"

fun join_errors :: "string list \<Rightarrow> string" where
  "join_errors [] = ''''"
| "join_errors [e] = e"
| "join_errors (e # e' # es) = e @ ''\<newline>'' @ join_errors (e' # es)"

definition combineErrors :: "string list \<Rightarrow> string option" where
  "combineErrors errs = (if errs = [] then None else Some (join_errors errs))"

lemma write_errors_eq_Nil [simp]: "write_errors es = '''' \<longleftrightarrow> es = []"
  by (cases es) auto

lemma processUnmarshalErrors_eq_Nil [simp]:
  "processUnmarshalErrors errs errMap = '''' \<longleftrightarrow> errs = [] \<and> errMap = []"
  by (simp add: processUnmarshalErrors_def)

end
