(* ===== verification/Client.thy ===== *)
theory Client
  imports Bootstrap XdsResource
begin

text \<open>
  \<open>core/manager/client.go\<close> without the response handlers: the name resolver, the subscription
  and version bookkeeping, the requests it puts on its queue, the sender and receiver steps and
  the reconnection. A critical section under \<open>c.mu\<close> is one operation. The client's record holds
  every field the code mutates; streams are numbered. What the stream's \<open>Send\<close> and the backoff
  retry of \<open>connect\<close> answer are arguments.
\<close>

subsection \<open>ndsResolver\<close>

record ndsResolver =
  nr_lookupTable :: "(string, string list) gomap"
  nr_initRequestCh :: bool \<comment> \<open>the channel has been closed\<close>
  nr_closed :: bool

definition newNdsResolver :: ndsResolver where
  "newNdsResolver = \<lparr>nr_lookupTable = [], nr_initRequestCh = False, nr_closed = False\<rparr>"

definition lookupHost :: "ndsResolver \<Rightarrow> string \<Rightarrow> string list option" where
  "lookupHost r host = map_of (nr_lookupTable r) host"

definition updateLookupTable :: "(string, string list) gomap \<Rightarrow> ndsResolver \<Rightarrow> ndsResolver run" where
  "updateLookupTable up r =
     (if \<not> nr_closed r then
        run_bind (chan_close (nr_initRequestCh r))
          (\<lambda>ch. Returns (r\<lparr>nr_initRequestCh := ch, nr_closed := True, nr_lookupTable := up\<rparr>))
      else Returns (r\<lparr>nr_lookupTable := up\<rparr>))"

subsection \<open>xdsClient\<close>

record xdsClient =
  xc_config :: BootstrapConfig
  xc_watchedResource :: "(ResourceType, (string, bool) gomap) gomap"
  xc_cipResolver :: ndsResolver
  xc_versionMap :: "(ResourceType, string) gomap"
  xc_nonceMap :: "(ResourceType, string) gomap"
  xc_streamCh :: "nat list"
  xc_reqCh :: "DiscoveryRequest list"
  xc_closeCh :: bool
  xc_inboundInitRequestCh :: bool
  xc_closedInboundInitCh :: bool

definition reqCh_cap :: nat where "reqCh_cap = 1024"
definition streamCh_cap :: nat where "streamCh_cap = 1"

text \<open>\<open>codes.InvalidArgument\<close> of the gRPC status codes.\<close>

definition InvalidArgument :: nat where "InvalidArgument = 3"

text \<open>The struct \<open>newXdsClient\<close> allocates; \<open>run\<close> then connects and starts the goroutines.\<close>

definition newXdsClient :: "BootstrapConfig \<Rightarrow> xdsClient" where
  "newXdsClient bCfg =
     \<lparr>xc_config = bCfg, xc_watchedResource = [], xc_cipResolver = newNdsResolver,
      xc_versionMap = [], xc_nonceMap = [], xc_streamCh = [], xc_reqCh = [],
      xc_closeCh = False, xc_inboundInitRequestCh = False, xc_closedInboundInitCh = False\<rparr>"

definition prepareRequest ::
  "xdsClient \<Rightarrow> ResourceType \<Rightarrow> string \<Rightarrow> string \<Rightarrow> (string, bool) gomap \<Rightarrow> DiscoveryRequest" where
  "prepareRequest c rType version nonce res =
     \<lparr>req_VersionInfo = version, req_Node = bc_node (xc_config c),
      req_TypeUrl = gm_str ResourceTypeToURL rType, req_ResourceNames = gm_keys res,
      req_ResponseNonce = nonce, req_ErrorDetail = None\<rparr>"

definition sendRequest :: "DiscoveryRequest \<Rightarrow> xdsClient \<Rightarrow> xdsClient run" where
  "sendRequest req c =
     run_bind (chan_send reqCh_cap req (xc_reqCh c)) (\<lambda>ch. Returns (c\<lparr>xc_reqCh := ch\<rparr>))"

definition Watch :: "ResourceType \<Rightarrow> string \<Rightarrow> bool \<Rightarrow> xdsClient \<Rightarrow> xdsClient run" where
  "Watch rType rName remove c =
     (let w = (case map_of (xc_watchedResource c) rType of
                 None \<Rightarrow> gm_put rType [] (xc_watchedResource c)
               | Some r \<Rightarrow> xc_watchedResource c);
          w = (if remove then gm2_del rType rName w else gm2_put rType rName True w);
          c = c\<lparr>xc_watchedResource := w\<rparr>;
          req = prepareRequest c rType (gm_str (xc_versionMap c) rType) (gm_str (xc_nonceMap c) rType)
                  (gm_sub (xc_watchedResource c) rType)
      in sendRequest req c)"

definition updateAndACK :: "ResourceType \<Rightarrow> string \<Rightarrow> string \<Rightarrow> string option \<Rightarrow> xdsClient \<Rightarrow> xdsClient run" where
  "updateAndACK rType nonce version err c =
     (let c = (case err of
                 None \<Rightarrow> c\<lparr>xc_versionMap := gm_put rType version (xc_versionMap c)\<rparr>
               | Some e \<Rightarrow> c);
          errMsg = (case err of None \<Rightarrow> '''' | Some e \<Rightarrow> e);
          c = c\<lparr>xc_nonceMap := gm_put rType nonce (xc_nonceMap c)\<rparr>;
          req = prepareRequest c rType (gm_str (xc_versionMap c) rType) (gm_str (xc_nonceMap c) rType)
                  (gm_sub (xc_watchedResource c) rType);
          req = (if errMsg \<noteq> '''' then req\<lparr>req_ErrorDetail := Some (InvalidArgument, errMsg)\<rparr> else req)
      in sendRequest req c)"

definition ndsRequired :: "xdsClient \<Rightarrow> bool" where
  "ndsRequired c \<longleftrightarrow> \<not> xsc_NDSNotRequired (bc_xdsSvrCfg (xc_config c))"

definition ldsRequired :: "xdsClient \<Rightarrow> bool" where
  "ldsRequired c \<longleftrightarrow> \<not> xsc_LDSNotRequired (bc_xdsSvrCfg (xc_config c))"

text \<open>The subscription half of \<open>ndsWarmup\<close> and \<open>listenerWarmup\<close>; each then waits for a channel.\<close>

definition ndsWarmup_watch :: "xdsClient \<Rightarrow> xdsClient run" where
  "ndsWarmup_watch c = Watch NameTableType '''' False c"

definition listenerWarmup_watch :: "xdsClient \<Rightarrow> xdsClient run" where
  "listenerWarmup_watch c = Watch ListenerType ReservedLdsResourceName False c"

text \<open>
  \<open>warmup\<close>: each wait is on the channel the resolver or the first listener response closes.
  \<open>serve\<close> is what the other goroutines do until the wait ends, to the client and to the rest of
  the state.
\<close>

definition warmup :: "(xdsClient \<times> 'x \<Rightarrow> xdsClient \<times> 'x) \<Rightarrow> xdsClient \<times> 'x \<Rightarrow> (xdsClient \<times> 'x) run" where
  "warmup serve s =
     run_bind
       (if ndsRequired (fst s) then
          run_bind (ndsWarmup_watch (fst s)) (\<lambda>c. let s = serve (c, snd s) in
            if nr_initRequestCh (xc_cipResolver (fst s)) then Returns s else Blocks)
        else Returns s)
       (\<lambda>s. if ldsRequired (fst s) then
          run_bind (listenerWarmup_watch (fst s)) (\<lambda>c. let s = serve (c, snd s) in
            if xc_inboundInitRequestCh (fst s) then Returns s else Blocks)
        else Returns s)"

text \<open>
  \<open>run\<close>: a failure to connect is only logged; the client then has neither sender nor receiver.
\<close>

definition client_run ::
  "string + nat \<Rightarrow> (xdsClient \<times> 'x \<Rightarrow> xdsClient \<times> 'x) \<Rightarrow> xdsClient \<times> 'x \<Rightarrow> (nat option \<times> xdsClient \<times> 'x) run" where
  "client_run connect serve s =
     (case connect of
        Inl err \<Rightarrow> Returns (None, s)
      | Inr as \<Rightarrow> run_bind (warmup serve s) (\<lambda>s. Returns (Some as, s)))"

text \<open>\<open>close\<close> of the client.\<close>

definition client_close :: "xdsClient \<Rightarrow> xdsClient" where
  "client_close c = (if xc_closeCh c then c else c\<lparr>xc_closeCh := True\<rparr>)"

fun clearRequestCh :: "'a list \<Rightarrow> nat \<Rightarrow> 'a list" where
  "clearRequestCh ch 0 = ch"
| "clearRequestCh [] (Suc n) = []"
| "clearRequestCh (x # ch) (Suc n) = clearRequestCh ch n"

text \<open>The critical section of \<open>reconnect\<close>, and the hand-over of the new stream to the sender.\<close>

definition reset_for_reconnect :: "xdsClient \<Rightarrow> xdsClient" where
  "reset_for_reconnect c =
     c\<lparr>xc_nonceMap := [], xc_reqCh := clearRequestCh (xc_reqCh c) (length (xc_reqCh c))\<rparr>"

definition reconnect :: "string + nat \<Rightarrow> xdsClient \<Rightarrow> ((string + nat) \<times> xdsClient) run" where
  "reconnect connect c =
     (case connect of
        Inl err \<Rightarrow> Returns (Inl err, c)
      | Inr as \<Rightarrow>
          (let c = reset_for_reconnect c in
           run_bind (chan_send streamCh_cap as (xc_streamCh c))
             (\<lambda>ch. Returns (Inr as, c\<lparr>xc_streamCh := ch\<rparr>))))"

text \<open>The requests sent on the new stream, up to the first failing \<open>Send\<close>, and its error.\<close>

fun send_watched ::
  "(DiscoveryRequest \<Rightarrow> string option) \<Rightarrow> xdsClient \<Rightarrow> (ResourceType \<times> (string, bool) gomap) list \<Rightarrow>
     DiscoveryRequest list \<times> string option" where
  "send_watched send c [] = ([], None)"
| "send_watched send c ((rType, res) # ws) =
     (let req = prepareRequest c rType (gm_str (xc_versionMap c) rType) (gm_str (xc_nonceMap c) rType) res
      in case send req of
           Some err \<Rightarrow> ([], Some err)
         | None \<Rightarrow> (let (sent, e) = send_watched send c ws in (req # sent, e)))"

definition reqWhenReconnect ::
  "(DiscoveryRequest \<Rightarrow> string option) \<Rightarrow> xdsClient \<Rightarrow> DiscoveryRequest list \<times> string option" where
  "reqWhenReconnect send c = send_watched send c (xc_watchedResource c)"

text \<open>
  The two data cases of the sender's \<open>select\<close>: a new stream, or a queued request. The result is
  the current stream afterwards, the client, and what went out on which stream.
\<close>

definition sender_on_stream ::
  "(DiscoveryRequest \<Rightarrow> string option) \<Rightarrow> xdsClient \<Rightarrow> nat option \<times> xdsClient \<times> (nat \<times> DiscoveryRequest) list" where
  "sender_on_stream send c =
     (case xc_streamCh c of
        [] \<Rightarrow> (None, c, [])
      | s # ch \<Rightarrow>
          (let c = c\<lparr>xc_streamCh := ch\<rparr>; (sent, err) = reqWhenReconnect send c
           in (if err = None then Some s else None, c, map (Pair s) sent)))"

definition sender_on_request ::
  "(DiscoveryRequest \<Rightarrow> string option) \<Rightarrow> nat option \<Rightarrow> xdsClient \<Rightarrow>
     nat option \<times> xdsClient \<times> (nat \<times> DiscoveryRequest) list" where
  "sender_on_request send currStream c =
     (case xc_reqCh c of
        [] \<Rightarrow> (currStream, c, [])
      | req # ch \<Rightarrow>
          (let c = c\<lparr>xc_reqCh := ch\<rparr>
           in case currStream of
                None \<Rightarrow> (None, c, [])
              | Some s \<Rightarrow> (case send req of
                             Some err \<Rightarrow> (None, c, [])
                           | None \<Rightarrow> (Some s, c, [(s, req)]))))"

definition client_version :: "xdsClient \<Rightarrow> ResourceType \<Rightarrow> string" where
  "client_version c t = gm_str (xc_versionMap c) t"

definition client_nonce :: "xdsClient \<Rightarrow> ResourceType \<Rightarrow> string" where
  "client_nonce c t = gm_str (xc_nonceMap c) t"

subsection \<open>Listener names\<close>

definition resolveAddr :: "xdsClient \<Rightarrow> string \<Rightarrow> string" where
  "resolveAddr c host0 =
     (let host = to_lower host0;
          fqdn = tryExpandFQDN (xc_config c) host;
          second = (if fqdn \<noteq> host then
                      (case lookupHost (xc_cipResolver c) host of Some (ip # _) \<Rightarrow> ip | _ \<Rightarrow> '''')
                    else '''')
      in case lookupHost (xc_cipResolver c) fqdn of Some (ip # _) \<Rightarrow> ip | _ \<Rightarrow> second)"

definition getListenerName :: "xdsClient \<Rightarrow> string \<Rightarrow> string + string" where
  "getListenerName c rName =
     (let tmp = str_split (CHR '':'') rName;
          resolve = (\<lambda>addr port. let cip = resolveAddr c addr in
            if length cip > 0 then Inr (cip @ ''_'' @ port)
            else Inl (''failed to convert listener name for '' @ rName @ '' addr '' @ addr))
      in case tmp of
           [addr] \<Rightarrow> resolve addr ''80''
         | [addr, port] \<Rightarrow> resolve addr port
         | _ \<Rightarrow> Inl (''invalid listener name: '' @ rName))"

subsection \<open>The invariant of the client\<close>

text \<open>
  The queues stay within their capacities, each one-shot channel is closed exactly when its flag
  says so (so neither is closed twice), the maps have distinct keys.
\<close>

definition client_inv :: "xdsClient \<Rightarrow> bool" where
  "client_inv c \<longleftrightarrow>
     length (xc_reqCh c) \<le> reqCh_cap \<and> length (xc_streamCh c) \<le> streamCh_cap \<and>
     nr_closed (xc_cipResolver c) = nr_initRequestCh (xc_cipResolver c) \<and>
     xc_closedInboundInitCh c = xc_inboundInitRequestCh c \<and>
     gm2_wf (xc_watchedResource c) \<and> gm_wf (xc_versionMap c) \<and> gm_wf (xc_nonceMap c)"

lemma client_inv_new: "client_inv (newXdsClient bCfg)"
  by (simp add: client_inv_def newXdsClient_def newNdsResolver_def)

lemma sendRequest_Returns [simp]:
  "sendRequest req c = Returns c' \<longleftrightarrow>
     length (xc_reqCh c) < reqCh_cap \<and> c' = c\<lparr>xc_reqCh := xc_reqCh c @ [req]\<rparr>"
  by (auto simp: sendRequest_def chan_send_def)

lemma sendRequest_not_Panics [simp]: "sendRequest req c \<noteq> Panics p"
  by (simp add: sendRequest_def chan_send_def run_bind_Panics_iff)

lemma sendRequest_Blocks [simp]: "sendRequest req c = Blocks \<longleftrightarrow> reqCh_cap \<le> length (xc_reqCh c)"
  by (auto simp: sendRequest_def chan_send_def)

text \<open>The names watched of a type.\<close>

definition watched :: "xdsClient \<Rightarrow> ResourceType \<Rightarrow> string set" where
  "watched c rt = set (gm_keys (gm_sub (xc_watchedResource c) rt))"

lemma watched_iff: "n \<in> watched c rt \<longleftrightarrow> gm2_get (xc_watchedResource c) rt n \<noteq> None"
  by (simp only: watched_def set_keys_map_of gm2_get_def)

lemma watched_frame [simp]:
  "watched (c\<lparr>xc_reqCh := q\<rparr>) = watched c"
  "watched (c\<lparr>xc_streamCh := s\<rparr>) = watched c"
  "watched (c\<lparr>xc_versionMap := v\<rparr>) = watched c"
  "watched (c\<lparr>xc_nonceMap := nn\<rparr>) = watched c"
  "watched (c\<lparr>xc_closeCh := b\<rparr>) = watched c"
  "watched (c\<lparr>xc_cipResolver := r\<rparr>) = watched c"
  by (auto simp: watched_def fun_eq_iff)

text \<open>The request a subscription change or an acknowledgement of a type carries.\<close>

definition current_request :: "xdsClient \<Rightarrow> ResourceType \<Rightarrow> DiscoveryRequest" where
  "current_request c rt =
     prepareRequest c rt (gm_str (xc_versionMap c) rt) (gm_str (xc_nonceMap c) rt) (gm_sub (xc_watchedResource c) rt)"

lemma set_current_request_names [simp]: "set (req_ResourceNames (current_request c rt)) = watched c rt"
  by (simp add: current_request_def prepareRequest_def watched_def)

lemma current_request_sel [simp]:
  "req_TypeUrl (current_request c rt) = gm_str ResourceTypeToURL rt"
  "req_VersionInfo (current_request c rt) = client_version c rt"
  "req_ResponseNonce (current_request c rt) = client_nonce c rt"
  "req_ErrorDetail (current_request c rt) = None"
  "req_Node (current_request c rt) = bc_node (xc_config c)"
  by (simp_all add: current_request_def prepareRequest_def client_version_def client_nonce_def)

lemma current_request_frame [simp]:
  "current_request (c\<lparr>xc_reqCh := q\<rparr>) = current_request c"
  by (simp add: current_request_def prepareRequest_def fun_eq_iff)

lemma Watch_Returns:
  assumes "Watch rt n rm c = Returns c'"
  shows "length (xc_reqCh c) < reqCh_cap"
    and "xc_reqCh c' = xc_reqCh c @ [current_request c' rt]"
    and "gm2_get (xc_watchedResource c') rt' n' =
      (if rt' = rt \<and> n' = n then (if rm then None else Some True) else gm2_get (xc_watchedResource c) rt' n')"
    and "map_of (xc_watchedResource c') rt' = None \<longleftrightarrow> rt' \<noteq> rt \<and> map_of (xc_watchedResource c) rt' = None"
    and "c' = c\<lparr>xc_watchedResource := xc_watchedResource c', xc_reqCh := xc_reqCh c'\<rparr>"
proof -
  define w where "w = (case map_of (xc_watchedResource c) rt of
      None \<Rightarrow> gm_put rt [] (xc_watchedResource c) | Some r \<Rightarrow> xc_watchedResource c)"
  define w' where "w' = (if rm then gm2_del rt n w else gm2_put rt n True w)"
  have w: "gm2_get w rt' n' = gm2_get (xc_watchedResource c) rt' n'" for rt' n'
    by (auto simp: w_def gm2_get_def gm_sub_def split: option.split)
  have wd: "map_of w rt' = None \<longleftrightarrow> rt' \<noteq> rt \<and> map_of (xc_watchedResource c) rt' = None" for rt'
    by (auto simp: w_def split: option.split)
  from assms have "length (xc_reqCh c) < reqCh_cap \<and>
      c' = c\<lparr>xc_watchedResource := w', xc_reqCh := xc_reqCh c @ [current_request (c\<lparr>xc_watchedResource := w'\<rparr>) rt]\<rparr>"
    by (simp add: Watch_def Let_def w_def [symmetric] w'_def [symmetric] current_request_def prepareRequest_def)
  then have c': "length (xc_reqCh c) < reqCh_cap"
      "c' = c\<lparr>xc_watchedResource := w', xc_reqCh := xc_reqCh c @ [current_request (c\<lparr>xc_watchedResource := w'\<rparr>) rt]\<rparr>"
    by blast+
  show "length (xc_reqCh c) < reqCh_cap" by (rule c'(1))
  show "xc_reqCh c' = xc_reqCh c @ [current_request c' rt]"
    by (simp add: c'(2))
  show "gm2_get (xc_watchedResource c') rt' n' =
      (if rt' = rt \<and> n' = n then (if rm then None else Some True) else gm2_get (xc_watchedResource c) rt' n')"
    by (simp add: c'(2) w'_def w)
  show "map_of (xc_watchedResource c') rt' = None \<longleftrightarrow> rt' \<noteq> rt \<and> map_of (xc_watchedResource c) rt' = None"
    using wd by (auto simp: c'(2) w'_def gm2_del_def gm2_put_def split: option.split)
  show "c' = c\<lparr>xc_watchedResource := xc_watchedResource c', xc_reqCh := xc_reqCh c'\<rparr>"
    by (simp add: c'(2))
qed

lemma Watch_watched:
  "Watch rt n rm c = Returns c' \<Longrightarrow>
     watched c' rt' = (if rt' = rt then (if rm then watched c rt - {n} else insert n (watched c rt)) else watched c rt')"
  by (auto simp: set_eq_iff watched_iff Watch_Returns(3) split: if_splits)

lemma Watch_not_Panics: "Watch rt n rm c \<noteq> Panics p"
  by (simp add: Watch_def Let_def)

lemma Watch_Blocks_iff: "Watch rt n rm c = Blocks \<longleftrightarrow> reqCh_cap \<le> length (xc_reqCh c)"
  by (simp add: Watch_def Let_def)

lemma Watch_Returns_iff: "(\<exists>c'. Watch rt n rm c = Returns c') \<longleftrightarrow> length (xc_reqCh c) < reqCh_cap"
  by (simp add: Watch_def Let_def)

lemma Watch_inv:
  assumes inv: "client_inv c" and run: "Watch rt n rm c = Returns c'"
  shows "client_inv c'"
proof -
  have "gm2_wf (xc_watchedResource c')"
    using inv run
    by (auto simp: Watch_def Let_def client_inv_def gm2_wf_put gm2_wf_del gm2_wf_outer_put split: option.splits if_splits)
  moreover from Watch_Returns(1,2) [OF run] have "length (xc_reqCh c') \<le> reqCh_cap" by simp
  ultimately show ?thesis
    using inv by (subst Watch_Returns(5) [OF run]) (simp add: client_inv_def)
qed

lemma updateAndACK_Returns:
  assumes "updateAndACK rt nonce version err c = Returns c'"
  shows "length (xc_reqCh c) < reqCh_cap"
    and "xc_reqCh c' = xc_reqCh c @ [(current_request c' rt)\<lparr>req_ErrorDetail :=
      (case err of Some e \<Rightarrow> if e \<noteq> '''' then Some (InvalidArgument, e) else None | None \<Rightarrow> None)\<rparr>]"
    and "xc_nonceMap c' = gm_put rt nonce (xc_nonceMap c)"
    and "xc_versionMap c' = (if err = None then gm_put rt version (xc_versionMap c) else xc_versionMap c)"
    and "c' = c\<lparr>xc_versionMap := xc_versionMap c', xc_nonceMap := xc_nonceMap c', xc_reqCh := xc_reqCh c'\<rparr>"
proof -
  define d where "d = c\<lparr>xc_versionMap := (if err = None then gm_put rt version (xc_versionMap c) else xc_versionMap c),
      xc_nonceMap := gm_put rt nonce (xc_nonceMap c)\<rparr>"
  define det where "det = (case err of Some e \<Rightarrow> if e \<noteq> '''' then Some (InvalidArgument, e) else None | None \<Rightarrow> None)"
  have "updateAndACK rt nonce version err c = sendRequest ((current_request d rt)\<lparr>req_ErrorDetail := det\<rparr>) d"
    by (cases err) (simp_all add: updateAndACK_def d_def det_def current_request_def prepareRequest_def)
  with assms have run: "length (xc_reqCh d) < reqCh_cap"
      "c' = d\<lparr>xc_reqCh := xc_reqCh d @ [(current_request d rt)\<lparr>req_ErrorDetail := det\<rparr>]\<rparr>"
    by simp_all
  show "length (xc_reqCh c) < reqCh_cap"
    and "xc_reqCh c' = xc_reqCh c @ [(current_request c' rt)\<lparr>req_ErrorDetail := det\<rparr>]"
    and "xc_nonceMap c' = gm_put rt nonce (xc_nonceMap c)"
    and "xc_versionMap c' = (if err = None then gm_put rt version (xc_versionMap c) else xc_versionMap c)"
    and "c' = c\<lparr>xc_versionMap := xc_versionMap c', xc_nonceMap := xc_nonceMap c', xc_reqCh := xc_reqCh c'\<rparr>"
    using run by (simp_all add: d_def)
qed

text \<open>The answer to a response, in the terms of the protocol.\<close>

lemma updateAndACK_answer:
  assumes run: "updateAndACK rt nonce version err c = Returns c'" and err: "err \<noteq> Some ''''"
  shows "client_version c' = (client_version c)(rt := if err = None then version else client_version c rt)"
    and "client_nonce c' = (client_nonce c)(rt := nonce)"
    and "watched c' = watched c"
    and "\<exists>req. xc_reqCh c' = xc_reqCh c @ [req] \<and> set (req_ResourceNames req) = watched c rt \<and>
          req_TypeUrl req = gm_str ResourceTypeToURL rt \<and>
          req_VersionInfo req = (if err = None then version else client_version c rt) \<and>
          req_ResponseNonce req = nonce \<and> req_ErrorDetail req = map_option (Pair InvalidArgument) err"
proof -
  note r = updateAndACK_Returns [OF run]
  show w: "watched c' = watched c" by (subst r(5)) (simp add: fun_eq_iff watched_def)
  show v: "client_version c' = (client_version c)(rt := if err = None then version else client_version c rt)"
    and n: "client_nonce c' = (client_nonce c)(rt := nonce)"
    by (simp_all add: fun_eq_iff r(3,4) gm_str_def client_version_def client_nonce_def)
  show "\<exists>req. xc_reqCh c' = xc_reqCh c @ [req] \<and> set (req_ResourceNames req) = watched c rt \<and>
          req_TypeUrl req = gm_str ResourceTypeToURL rt \<and>
          req_VersionInfo req = (if err = None then version else client_version c rt) \<and>
          req_ResponseNonce req = nonce \<and> req_ErrorDetail req = map_option (Pair InvalidArgument) err"
    using err w r(2) by (cases err) (auto simp: v n)
qed

lemma updateAndACK_Blocks_iff: "updateAndACK rt nonce version err c = Blocks \<longleftrightarrow> reqCh_cap \<le> length (xc_reqCh c)"
  by (simp add: updateAndACK_def Let_def split: option.split)

lemma updateAndACK_not_Panics: "updateAndACK rt nonce version err c \<noteq> Panics p"
  by (simp add: updateAndACK_def Let_def split: option.split)

lemma updateAndACK_inv:
  assumes inv: "client_inv c" and run: "updateAndACK rt nonce version err c = Returns c'"
  shows "client_inv c'"
proof -
  from updateAndACK_Returns(1,2) [OF run] have "length (xc_reqCh c') \<le> reqCh_cap" by simp
  moreover have "gm_wf (xc_versionMap c')" "gm_wf (xc_nonceMap c')"
    using inv by (simp_all add: updateAndACK_Returns(3,4) [OF run] client_inv_def distinct_update)
  ultimately show ?thesis
    using inv by (subst updateAndACK_Returns(5) [OF run]) (simp add: client_inv_def)
qed

lemma clearRequestCh_eq: "clearRequestCh ch n = drop n ch"
  by (induction ch n rule: clearRequestCh.induct) auto

lemma reset_for_reconnect_inv: "client_inv c \<Longrightarrow> client_inv (reset_for_reconnect c)"
  by (simp add: client_inv_def reset_for_reconnect_def clearRequestCh_eq)

lemma client_close_inv: "client_inv c \<Longrightarrow> client_inv (client_close c)"
  by (simp add: client_inv_def client_close_def)

lemma updateLookupTable_ok:
  "nr_closed r = nr_initRequestCh r \<Longrightarrow>
     updateLookupTable up r = Returns \<lparr>nr_lookupTable = up, nr_initRequestCh = True, nr_closed = True\<rparr>"
  by (auto simp: updateLookupTable_def chan_close_def)

subsection \<open>Properties of the client\<close>

text \<open>\<open>Watch\<close> adds or removes exactly the given name of the given type and queues exactly one
  request, which asks for all names then watched of that type with the version and the nonce last
  recorded for it and no error; it blocks exactly if the queue holds 1024 requests, and never panics.\<close>

theorem Watch_spec:
  "case Watch rt n remove c of
     Returns c' \<Rightarrow>
       length (xc_reqCh c) < 1024 \<and>
       watched c' = (watched c)(rt := if remove then watched c rt - {n} else insert n (watched c rt)) \<and>
       (\<exists>req. xc_reqCh c' = xc_reqCh c @ [req] \<and> set (req_ResourceNames req) = watched c' rt \<and>
          req_TypeUrl req = gm_str ResourceTypeToURL rt \<and>
          req_VersionInfo req = client_version c rt \<and> req_ResponseNonce req = client_nonce c rt \<and>
          req_ErrorDetail req = None) \<and>
       xc_versionMap c' = xc_versionMap c \<and> xc_nonceMap c' = xc_nonceMap c
   | Blocks \<Rightarrow> 1024 \<le> length (xc_reqCh c)
   | Panics p \<Rightarrow> False"
proof (cases "Watch rt n remove c")
  case (Returns c')
  have keep: "xc_versionMap c' = xc_versionMap c \<and> xc_nonceMap c' = xc_nonceMap c"
    by (subst (1 2) Watch_Returns(5) [OF Returns]) simp
  moreover have "watched c' = (watched c)(rt := if remove then watched c rt - {n} else insert n (watched c rt))"
    by (simp add: fun_eq_iff Watch_watched [OF Returns])
  ultimately show ?thesis
    using Returns Watch_Returns(1,2) [OF Returns]
    by (simp add: reqCh_cap_def client_version_def client_nonce_def del: fun_upd_apply)
next
  case Blocks
  with Watch_Blocks_iff [of rt n remove c] show ?thesis by (simp add: Blocks reqCh_cap_def)
next
  case (Panics p)
  then show ?thesis using Watch_not_Panics by blast
qed

text \<open>C20: the answer to a response. An accepted response is acknowledged with its own version and
  nonce and no error. A rejected one leaves the version of the type as it was, records the nonce,
  and is refused with the old version, the response's nonce and the error message. Either way exactly
  one request is queued, it asks for the watched names, and no other type is affected.\<close>

theorem updateAndACK_spec:
  "err \<noteq> Some '''' \<Longrightarrow>
   case updateAndACK rt nonce version err c of
     Returns c' \<Rightarrow>
       client_version c' rt = (if err = None then version else client_version c rt) \<and>
       client_nonce c' rt = nonce \<and>
       (\<forall>rt'. rt' \<noteq> rt \<longrightarrow> client_version c' rt' = client_version c rt' \<and> client_nonce c' rt' = client_nonce c rt') \<and>
       watched c' = watched c \<and>
       (\<exists>req. xc_reqCh c' = xc_reqCh c @ [req] \<and> set (req_ResourceNames req) = watched c rt \<and>
          req_TypeUrl req = gm_str ResourceTypeToURL rt \<and>
          req_VersionInfo req = (if err = None then version else client_version c rt) \<and>
          req_ResponseNonce req = nonce \<and> req_ErrorDetail req = map_option (Pair InvalidArgument) err)
   | Blocks \<Rightarrow> 1024 \<le> length (xc_reqCh c)
   | Panics p \<Rightarrow> False"
proof (cases "updateAndACK rt nonce version err c")
  case (Returns c')
  assume err: "err \<noteq> Some ''''"
  show ?thesis
    using Returns updateAndACK_answer [OF Returns err] by simp
next
  case Blocks
  with updateAndACK_Blocks_iff [of rt nonce version err c] show ?thesis by (simp add: Blocks reqCh_cap_def)
next
  case (Panics p)
  then show ?thesis using updateAndACK_not_Panics by blast
qed


definition example_config :: BootstrapConfig where
  "example_config =
     \<lparr>bc_configNamespace = ''default'', bc_nodeDomain = ''cluster.local'',
      bc_node = \<lparr>node_Id = ''sidecar~kitex-test-node'', node_Metadata = []\<rparr>,
      bc_xdsSvrCfg = \<lparr>xsc_SvrName = ''istiod'', xsc_SvrAddr = '':8889'', xsc_XDSAuth = False,
        xsc_NDSNotRequired = False, xsc_LDSNotRequired = False, xsc_FetchXDSTimeout = 0\<rparr>\<rparr>"

theorem updateAndACK_spec_witness:
  "\<exists>c'. updateAndACK ClusterType ''n1'' ''v1'' (Some ''bad'') (newXdsClient example_config) = Returns c' \<and>
     client_version c' ClusterType = '''' \<and> client_nonce c' ClusterType = ''n1''"
proof -
  let ?u = "updateAndACK ClusterType ''n1'' ''v1'' (Some ''bad'') (newXdsClient example_config)"
  have "?u \<noteq> Blocks" by (simp add: updateAndACK_Blocks_iff newXdsClient_def reqCh_cap_def)
  with updateAndACK_not_Panics obtain c' where c': "?u = Returns c'" by (cases ?u) auto
  moreover have "client_version (newXdsClient example_config) ClusterType = ''''"
    by (simp add: newXdsClient_def client_version_def gm_str_def)
  ultimately show ?thesis
    using updateAndACK_spec [where err = "Some ''bad''" and rt = ClusterType and nonce = "''n1''"
        and version = "''v1''" and c = "newXdsClient example_config"]
    by simp
qed

lemma send_watched_all:
  "send_watched (\<lambda>_. None) c ws =
     (map (\<lambda>(rt, res). prepareRequest c rt (gm_str (xc_versionMap c) rt) (gm_str (xc_nonceMap c) rt) res) ws, None)"
  by (induction ws) (auto simp: Let_def)

lemma gm_sub_in: "gm_wf m \<Longrightarrow> (k, s) \<in> set m \<Longrightarrow> gm_sub m k = s"
  using map_of_is_SomeI [of m k s] by (simp add: gm_sub_def)

lemma watched_requests_eq:
  assumes "gm_wf (xc_watchedResource c)"
  shows "map (\<lambda>(rt, res). prepareRequest c rt (gm_str (xc_versionMap c) rt) (gm_str (xc_nonceMap c) rt) res)
      (xc_watchedResource c) = map (current_request c) (gm_keys (xc_watchedResource c))"
  unfolding map_map
proof (rule map_cong [OF refl])
  fix x :: "ResourceType \<times> (string, bool) gomap"
  obtain rt res where x: "x = (rt, res)" by (cases x)
  assume "x \<in> set (xc_watchedResource c)"
  with x assms show "(case x of (rt, res) \<Rightarrow>
      prepareRequest c rt (gm_str (xc_versionMap c) rt) (gm_str (xc_nonceMap c) rt) res) = (current_request c \<circ> fst) x"
    by (simp add: current_request_def gm_sub_in)
qed

lemma reqWhenReconnect_all:
  assumes "client_inv c"
  shows "reqWhenReconnect (\<lambda>_. None) c = (map (current_request c) (gm_keys (xc_watchedResource c)), None)"
  using assms
  by (simp add: reqWhenReconnect_def send_watched_all watched_requests_eq client_inv_def gm2_wf_def)

text \<open>C10: a reconnection that gets its stream forgets every nonce and every queued request, keeps
  the versions and the subscriptions, and hands the stream to the sender. What the sender then sends
  on it, if no send fails, is exactly one request per type with a subscription, with the names
  watched, the version kept and an empty nonce.\<close>

theorem reconnect_resubscribes:
  assumes "client_inv c" and "xc_streamCh c = []"
  shows "\<exists>c' c'' types sent. reconnect (Inr s) c = Returns (Inr s, c') \<and> client_inv c' \<and>
    xc_reqCh c' = [] \<and> client_nonce c' = (\<lambda>_. '''') \<and> client_version c' = client_version c \<and>
    watched c' = watched c \<and>
    sender_on_stream (\<lambda>_. None) c' = (Some s, c'', sent) \<and> xc_streamCh c'' = [] \<and>
    distinct types \<and> (\<forall>rt. rt \<in> set types \<longleftrightarrow> map_of (xc_watchedResource c) rt \<noteq> None) \<and>
    map fst sent = replicate (length types) s \<and>
    map (\<lambda>x. (req_TypeUrl (snd x), set (req_ResourceNames (snd x)), req_VersionInfo (snd x),
              req_ResponseNonce (snd x), req_ErrorDetail (snd x))) sent =
      map (\<lambda>rt. (gm_str ResourceTypeToURL rt, watched c rt, client_version c rt, '''', None)) types"
proof -
  let ?c = "reset_for_reconnect c\<lparr>xc_streamCh := [s]\<rparr>"
  let ?c2 = "?c\<lparr>xc_streamCh := []\<rparr>"
  let ?types = "gm_keys (xc_watchedResource c)"
  have inv: "client_inv ?c" "client_inv ?c2"
    using assms(1) by (simp_all add: client_inv_def reset_for_reconnect_def clearRequestCh_eq streamCh_cap_def)
  have run: "reconnect (Inr s) c = Returns (Inr s, ?c)"
    using assms(2) by (simp add: reconnect_def reset_for_reconnect_def chan_send_def streamCh_cap_def Let_def)
  have snd: "sender_on_stream (\<lambda>_. None) ?c =
      (Some s, ?c2, map (Pair s) (map (current_request ?c2) ?types))"
    using reqWhenReconnect_all [OF inv(2)]
    by (simp add: sender_on_stream_def Let_def reset_for_reconnect_def)
  have w: "watched ?c = watched c" "watched ?c2 = watched c" and v: "client_version ?c = client_version c"
    "client_version ?c2 = client_version c" and n: "client_nonce ?c = (\<lambda>_. '''')" "client_nonce ?c2 = (\<lambda>_. '''')"
    by (auto simp: watched_def client_version_def client_nonce_def gm_str_def reset_for_reconnect_def fun_eq_iff)
  have "distinct ?types" using assms(1) by (simp add: client_inv_def gm2_wf_def)
  moreover have "\<forall>rt. rt \<in> set ?types \<longleftrightarrow> map_of (xc_watchedResource c) rt \<noteq> None"
    by (simp only: set_keys_map_of) simp
  moreover have "map fst (map (Pair s) (map (current_request ?c2) ?types)) = replicate (length ?types) s"
    by (simp add: map_replicate_const [symmetric] comp_def)
  moreover have "xc_reqCh ?c = []" by (simp add: reset_for_reconnect_def clearRequestCh_eq)
  moreover have "map (\<lambda>x. (req_TypeUrl (snd x), set (req_ResourceNames (snd x)), req_VersionInfo (snd x),
        req_ResponseNonce (snd x), req_ErrorDetail (snd x))) (map (Pair s) (map (current_request ?c2) ?types)) =
      map (\<lambda>rt. (gm_str ResourceTypeToURL rt, watched c rt, client_version c rt, '''', None)) ?types"
    unfolding map_map comp_def snd_conv current_request_sel set_current_request_names w v n ..
  moreover have "xc_streamCh ?c2 = []" by simp
  ultimately show ?thesis using run inv(1) n(1) v(1) w(1) snd by blast
qed

theorem reconnect_resubscribes_witness:
  "\<exists>c. Watch ClusterType ''c1'' False (newXdsClient example_config) = Returns c \<and>
     (\<exists>c' c'' sent. reconnect (Inr 7) c = Returns (Inr 7, c') \<and> xc_reqCh c' = [] \<and>
       sender_on_stream (\<lambda>_. None) c' = (Some 7, c'', sent) \<and> length sent = 1)"
proof -
  obtain c where c: "Watch ClusterType ''c1'' False (newXdsClient example_config) = Returns c"
    using Watch_Returns_iff [of ClusterType "''c1''" False "newXdsClient example_config"]
    by (auto simp: newXdsClient_def reqCh_cap_def)
  have inv: "client_inv c" using Watch_inv [OF client_inv_new c] .
  have s: "xc_streamCh c = []" by (subst Watch_Returns(5) [OF c]) (simp add: newXdsClient_def)
  have w: "map_of (xc_watchedResource c) rt \<noteq> None \<longleftrightarrow> rt = ClusterType" for rt
    using Watch_Returns(4) [OF c, of rt] by (auto simp: newXdsClient_def)
  from reconnect_resubscribes [OF inv s, of 7] w
  obtain c' c'' types sent where r: "reconnect (Inr 7) c = Returns (Inr 7, c')" "xc_reqCh c' = []"
    "sender_on_stream (\<lambda>_. None) c' = (Some 7, c'', sent)" "distinct types" "\<forall>rt. rt \<in> set types \<longleftrightarrow> rt = ClusterType"
    "map fst sent = replicate (length types) 7"
    by auto
  then have "set types = {ClusterType}" by auto
  with r(4) have "length types = 1" using distinct_card [of types] by simp
  moreover have "length sent = length types" using r(6) by (metis length_map length_replicate)
  ultimately show ?thesis using c r by auto
qed

end
