(* ===== verification/Manager.thy ===== *)
theory Manager
  imports Client
begin

text \<open>
  \<open>core/manager/manager.go\<close>: the cache of resources with its metadata, the notifiers of waiting
  \<open>Get\<close> calls, the update handlers, the cleaner. A critical section under \<open>m.mu\<close> is one operation.
  Notifiers are shared by pointer (the map drops its pointer while a waiter still holds one), so
  they live in a store \<open>m_notifiers\<close> under numbers. A registered handler is a number; calling it
  is recorded in \<open>m_handlerCalls\<close>, in order, with the map it was given.
\<close>

record notifier =
  nt_ch :: bool \<comment> \<open>the channel has been closed\<close>
  nt_err :: "string option"

record xdsResourceManager =
  m_cache :: "(ResourceType, (string, Resource) gomap) gomap"
  m_meta :: "(ResourceType, (string, ResourceMeta) gomap) gomap"
  m_notifierMap :: "(ResourceType, (string, nat) gomap) gomap"
  m_notifiers :: "(nat, notifier) gomap"
  m_nextNotifier :: nat
  m_closeCh :: bool
  m_opts :: Options
  m_xdsHandlers :: "(ResourceType, nat list) gomap"
  m_handlerCalls :: "(nat \<times> (string, Resource) gomap) list"

definition new_manager :: "Options \<Rightarrow> xdsResourceManager" where
  "new_manager opts =
     \<lparr>m_cache = [], m_meta = [], m_notifierMap = [], m_notifiers = [], m_nextNotifier = 0,
      m_closeCh = False, m_opts = opts, m_xdsHandlers = [], m_handlerCalls = []\<rparr>"

definition notify :: "nat \<Rightarrow> string option \<Rightarrow> xdsResourceManager \<Rightarrow> xdsResourceManager run" where
  "notify p err m =
     (case map_of (m_notifiers m) p of
        None \<Rightarrow> Panics ''nil pointer dereference''
      | Some n \<Rightarrow> run_bind (chan_close (nt_ch n))
          (\<lambda>ch. Returns (m\<lparr>m_notifiers := gm_put p \<lparr>nt_ch = ch, nt_err = err\<rparr> (m_notifiers m)\<rparr>)))"

definition isReservedResource :: "ResourceType \<Rightarrow> string \<Rightarrow> bool" where
  "isReservedResource resourceType resourceName \<longleftrightarrow>
     resourceType = ListenerType \<and> resourceName = ReservedLdsResourceName"

definition getFromCache ::
  "int \<Rightarrow> ResourceType \<Rightarrow> string \<Rightarrow> xdsResourceManager \<Rightarrow> Resource option \<times> xdsResourceManager" where
  "getFromCache now rType rName m =
     (let m = (case map_of (m_meta m) rType of
                 None \<Rightarrow> m
               | Some ms \<Rightarrow>
                   (case map_of ms rName of
                      None \<Rightarrow> m
                    | Some mt \<Rightarrow>
                        m\<lparr>m_meta := gm_put rType (gm_put rName (mt\<lparr>rm_LastAccessTime := Some now\<rparr>) ms) (m_meta m)\<rparr>))
      in (case map_of (m_cache m) rType of
            None \<Rightarrow> None
          | Some c \<Rightarrow> map_of c rName, m))"

definition RegisterXDSUpdateHandler :: "ResourceType \<Rightarrow> nat \<Rightarrow> xdsResourceManager \<Rightarrow> xdsResourceManager" where
  "RegisterXDSUpdateHandler resourceType handler m =
     (let hs = (case map_of (m_xdsHandlers m) resourceType of None \<Rightarrow> [] | Some hs \<Rightarrow> hs);
          m = m\<lparr>m_xdsHandlers := gm_put resourceType (hs @ [handler]) (m_xdsHandlers m)\<rparr>
      in case map_of (m_cache m) resourceType of
           None \<Rightarrow> m
         | Some res \<Rightarrow> m\<lparr>m_handlerCalls := m_handlerCalls m @ [(handler, res)]\<rparr>)"

subsection \<open>UpdateResource\<close>

fun updateMeta_names ::
  "int \<Rightarrow> string \<Rightarrow> string list \<Rightarrow> (string, ResourceMeta) gomap \<Rightarrow> (string, ResourceMeta) gomap" where
  "updateMeta_names now version [] ms = ms"
| "updateMeta_names now version (name # names) ms =
     updateMeta_names now version names
       (case map_of ms name of
          Some mt \<Rightarrow> gm_put name (mt\<lparr>rm_Version := version, rm_UpdateTime := now\<rparr>) ms
        | None \<Rightarrow> gm_put name \<lparr>rm_Version = version, rm_UpdateTime = now, rm_LastAccessTime = None\<rparr> ms)"

definition updateMeta :: "int \<Rightarrow> ResourceType \<Rightarrow> string \<Rightarrow> xdsResourceManager \<Rightarrow> xdsResourceManager" where
  "updateMeta now rType version m =
     m\<lparr>m_meta := gm_put rType
         (updateMeta_names now version (gm_keys (gm_sub (m_cache m) rType)) (gm_sub (m_meta m) rType))
         (m_meta m)\<rparr>"

text \<open>One iteration of the loop over the update: cache the resource, wake its waiter if any.\<close>

definition update_one ::
  "ResourceType \<Rightarrow> string \<Rightarrow> Resource \<Rightarrow> xdsResourceManager \<Rightarrow> xdsResourceManager run" where
  "update_one rt name res m =
     (let m = m\<lparr>m_cache := gm2_put rt name res (m_cache m)\<rparr>
      in case map_of (m_notifierMap m) rt of
           None \<Rightarrow> Returns m
         | Some nfs \<Rightarrow>
             (case map_of nfs name of
                None \<Rightarrow> Returns m
              | Some nf \<Rightarrow> run_bind (notify nf None m)
                  (\<lambda>m. Returns (m\<lparr>m_notifierMap := gm2_del rt name (m_notifierMap m)\<rparr>))))"

fun update_loop ::
  "ResourceType \<Rightarrow> (string \<times> Resource) list \<Rightarrow> xdsResourceManager \<Rightarrow> xdsResourceManager run" where
  "update_loop rt [] m = Returns m"
| "update_loop rt ((name, res) # up) m = run_bind (update_one rt name res m) (update_loop rt up)"

text \<open>Resources of a full response that are gone from it leave the cache.\<close>

definition drop_stale ::
  "ResourceType \<Rightarrow> (string, Resource) gomap \<Rightarrow> xdsResourceManager \<Rightarrow> xdsResourceManager" where
  "drop_stale rt up m =
     (if RequireFullADSResponse rt then
        (case map_of (m_cache m) rt of
           None \<Rightarrow> m
         | Some c \<Rightarrow> m\<lparr>m_cache := gm_put rt (gm_filter (\<lambda>name. map_of up name \<noteq> None) c) (m_cache m)\<rparr>)
      else m)"

definition UpdateResource ::
  "int \<Rightarrow> ResourceType \<Rightarrow> (string, Resource) gomap \<Rightarrow> string \<Rightarrow> xdsResourceManager \<Rightarrow> xdsResourceManager run" where
  "UpdateResource now rt up version m =
     (let hs = (case map_of (m_xdsHandlers m) rt of None \<Rightarrow> [] | Some hs \<Rightarrow> hs);
          m = m\<lparr>m_handlerCalls := m_handlerCalls m @ map (\<lambda>h. (h, up)) hs\<rparr>
      in run_bind (update_loop rt up m)
           (\<lambda>m. Returns (updateMeta now rt version (drop_stale rt up m))))"

subsection \<open>Get\<close>

datatype get_result = GetOk "Resource option" | GetErr string

text \<open>
  \<open>Get\<close> up to its first critical section: an invalid type is an error, a hit is returned;
  \<open>None\<close> is a miss.
\<close>

definition get_lookup ::
  "int \<Rightarrow> ResourceType \<Rightarrow> string \<Rightarrow> xdsResourceManager \<Rightarrow> get_result option \<times> xdsResourceManager" where
  "get_lookup now rType rName m =
     (if map_of ResourceTypeToURL rType = None then
        (Some (GetErr (''[XDS] manager, invalid resource type: '' @
           (if resource_type_code rType < 0 then ''-'' else '''') @ itoa (nat \<bar>resource_type_code rType\<bar>))), m)
      else case getFromCache now rType rName m of
        (Some res, m) \<Rightarrow> (Some (GetOk (Some res)), m)
      | (None, m) \<Rightarrow> (None, m))"

text \<open>The second critical section: join the waiters of this resource, or be the first and watch it.\<close>

definition get_register ::
  "ResourceType \<Rightarrow> string \<Rightarrow> xdsResourceManager \<Rightarrow> xdsClient \<Rightarrow> (nat \<times> xdsResourceManager \<times> xdsClient) run" where
  "get_register rType rName m c =
     (let nm = (case map_of (m_notifierMap m) rType of
                  None \<Rightarrow> gm_put rType [] (m_notifierMap m)
                | Some _ \<Rightarrow> m_notifierMap m);
          m = m\<lparr>m_notifierMap := nm\<rparr>
      in case gm2_get nm rType rName of
           Some nf \<Rightarrow> Returns (nf, m, c)
         | None \<Rightarrow>
             (let nf = m_nextNotifier m;
                  m = m\<lparr>m_notifiers := gm_put nf \<lparr>nt_ch = False, nt_err = None\<rparr> (m_notifiers m),
                        m_nextNotifier := Suc nf,
                        m_notifierMap := gm2_put rType rName nf nm\<rparr>
              in run_bind (Watch rType rName False c) (\<lambda>c. Returns (nf, m, c))))"

text \<open>The two cases of the final \<open>select\<close>: the notifier's channel was closed, or the context is done.\<close>

definition get_notified ::
  "int \<Rightarrow> ResourceType \<Rightarrow> string \<Rightarrow> nat \<Rightarrow> xdsResourceManager \<Rightarrow> get_result \<times> xdsResourceManager" where
  "get_notified now rType rName nf m =
     (case Option.bind (map_of (m_notifiers m) nf) nt_err of
        Some e \<Rightarrow>
          (GetErr (''[XDS] manager, fetch '' @ gm_str ResourceTypeToName rType @ '' resource['' @ rName @
             ''] failed, error='' @ e), m)
      | None \<Rightarrow> (let (res, m) = getFromCache now rType rName m in (GetOk res, m)))"

definition get_timeout ::
  "ResourceType \<Rightarrow> string \<Rightarrow> xdsResourceManager \<Rightarrow> get_result \<times> xdsResourceManager" where
  "get_timeout rType rName m =
     (GetErr (''[XDS] manager, fetch '' @ gm_str ResourceTypeToName rType @ '' resource['' @ rName @ ''] timeout''),
      m\<lparr>m_notifierMap := gm2_del rType rName (m_notifierMap m)\<rparr>)"

text \<open>
  \<open>Get\<close> as its caller sees it. \<open>wait\<close> is what the other goroutines do until the \<open>select\<close> ends:
  the state then and whether the notifier's channel won.
\<close>

definition Get ::
  "int \<Rightarrow> (nat \<Rightarrow> xdsResourceManager \<Rightarrow> xdsClient \<Rightarrow> bool \<times> xdsResourceManager \<times> xdsClient) \<Rightarrow>
     ResourceType \<Rightarrow> string \<Rightarrow> xdsResourceManager \<Rightarrow> xdsClient \<Rightarrow>
     (get_result \<times> xdsResourceManager \<times> xdsClient) run" where
  "Get now wait rType rName m c =
     (case get_lookup now rType rName m of
        (Some r, m) \<Rightarrow> Returns (r, m, c)
      | (None, m) \<Rightarrow>
          run_bind (get_register rType rName m c)
            (\<lambda>(nf, m, c).
               let (notified, m, c) = wait nf m c;
                   (r, m) = (if notified then get_notified now rType rName nf m else get_timeout rType rName m)
               in Returns (r, m, c)))"

subsection \<open>Cleaner, Dump, Close\<close>

definition expired :: "int \<Rightarrow> ResourceType \<Rightarrow> string \<Rightarrow> ResourceMeta \<Rightarrow> bool" where
  "expired now rt rName mt \<longleftrightarrow>
     (case rm_LastAccessTime mt of
        None \<Rightarrow> False
      | Some t \<Rightarrow> \<not> isReservedResource rt rName \<and> now - t > defaultCacheExpireTime)"

fun clean_names ::
  "int \<Rightarrow> ResourceType \<Rightarrow> (string \<times> ResourceMeta) list \<Rightarrow> xdsResourceManager \<Rightarrow> xdsClient \<Rightarrow>
     (xdsResourceManager \<times> xdsClient) run" where
  "clean_names now rt [] m c = Returns (m, c)"
| "clean_names now rt ((rName, mt) # es) m c =
     (if expired now rt rName mt then
        (let m = m\<lparr>m_meta := gm2_del rt rName (m_meta m), m_cache := gm2_del rt rName (m_cache m)\<rparr>
         in run_bind (Watch rt rName True c) (\<lambda>c. clean_names now rt es m c))
      else clean_names now rt es m c)"

fun clean_types ::
  "int \<Rightarrow> (ResourceType \<times> (string, ResourceMeta) gomap) list \<Rightarrow> xdsResourceManager \<Rightarrow> xdsClient \<Rightarrow>
     (xdsResourceManager \<times> xdsClient) run" where
  "clean_types now [] m c = Returns (m, c)"
| "clean_types now ((rt, ms) # rts) m c =
     run_bind (clean_names now rt ms m c) (\<lambda>(m, c). clean_types now rts m c)"

text \<open>One tick of the cleaner.\<close>

definition cleaner_tick ::
  "int \<Rightarrow> xdsResourceManager \<Rightarrow> xdsClient \<Rightarrow> (xdsResourceManager \<times> xdsClient) run" where
  "cleaner_tick now m c = clean_types now (m_meta m) m c"

text \<open>The map that \<open>Dump\<close> marshals to JSON and writes to \<open>DumpPath\<close>.\<close>

fun dump_names ::
  "(ResourceType \<times> string) list \<Rightarrow> xdsResourceManager \<Rightarrow> (string, (string, Resource) gomap) gomap \<Rightarrow>
     (string, (string, Resource) gomap) gomap" where
  "dump_names [] m d = d"
| "dump_names ((rType, n) # ns) m d =
     dump_names ns m (case map_of (m_cache m) rType of None \<Rightarrow> d | Some res \<Rightarrow> gm_put n res d)"

definition Dump :: "xdsResourceManager \<Rightarrow> string \<times> (string, (string, Resource) gomap) gomap" where
  "Dump m = (opt_DumpPath (m_opts m), dump_names ResourceTypeToName m [])"

definition manager_Close :: "xdsResourceManager \<Rightarrow> xdsClient \<Rightarrow> (xdsResourceManager \<times> xdsClient) run" where
  "manager_Close m c =
     (let c = client_close c in
      run_bind (chan_close (m_closeCh m)) (\<lambda>ch. Returns (m\<lparr>m_closeCh := ch\<rparr>, c)))"

subsection \<open>The invariant of the manager\<close>

text \<open>
  A notifier that the map points to is allocated, open and without error, and no two entries
  share one: closing it once per entry cannot panic.
\<close>

definition notifiers_ok :: "xdsResourceManager \<Rightarrow> bool" where
  "notifiers_ok m \<longleftrightarrow>
     (\<forall>rt n p. gm2_get (m_notifierMap m) rt n = Some p \<longrightarrow>
        p < m_nextNotifier m \<and> map_of (m_notifiers m) p = Some \<lparr>nt_ch = False, nt_err = None\<rparr>) \<and>
     (\<forall>rt n rt' n' p. gm2_get (m_notifierMap m) rt n = Some p \<longrightarrow> gm2_get (m_notifierMap m) rt' n' = Some p \<longrightarrow>
        rt = rt' \<and> n = n') \<and>
     (\<forall>p. map_of (m_notifiers m) p \<noteq> None \<longrightarrow> p < m_nextNotifier m)"

definition cache_typed :: "xdsResourceManager \<Rightarrow> bool" where
  "cache_typed m \<longleftrightarrow> (\<forall>rt n r. gm2_get (m_cache m) rt n = Some r \<longrightarrow> resource_has_type rt r)"

definition maps_wf :: "xdsResourceManager \<Rightarrow> bool" where
  "maps_wf m \<longleftrightarrow> gm2_wf (m_cache m) \<and> gm2_wf (m_meta m) \<and> gm2_wf (m_notifierMap m)"

definition manager_inv :: "xdsResourceManager \<Rightarrow> bool" where
  "manager_inv m \<longleftrightarrow> notifiers_ok m \<and> cache_typed m \<and> maps_wf m"

lemmas manager_inv_defs = manager_inv_def notifiers_ok_def cache_typed_def maps_wf_def

lemma manager_inv_new: "manager_inv (new_manager opts)"
  by (simp add: manager_inv_defs new_manager_def gm2_get_def gm_sub_def)

lemma notifiers_okD:
  "manager_inv m \<Longrightarrow> gm2_get (m_notifierMap m) rt n = Some p \<Longrightarrow>
     p < m_nextNotifier m \<and> map_of (m_notifiers m) p = Some \<lparr>nt_ch = False, nt_err = None\<rparr>"
  by (simp add: manager_inv_def notifiers_ok_def)

lemma notifiers_inj:
  "manager_inv m \<Longrightarrow> gm2_get (m_notifierMap m) rt n = Some p \<Longrightarrow>
     gm2_get (m_notifierMap m) rt' n' = Some p \<Longrightarrow> rt = rt' \<and> n = n'"
  unfolding manager_inv_def notifiers_ok_def by blast

lemma notifiers_bound: "manager_inv m \<Longrightarrow> map_of (m_notifiers m) p = Some x \<Longrightarrow> p < m_nextNotifier m"
  unfolding manager_inv_def notifiers_ok_def by blast

lemma cache_typedD:
  "manager_inv m \<Longrightarrow> gm2_get (m_cache m) rt n = Some r \<Longrightarrow> resource_has_type rt r"
  unfolding manager_inv_def cache_typed_def by blast

lemma notifiers_ok_frame [simp]:
  "notifiers_ok (m\<lparr>m_cache := x\<rparr>) = notifiers_ok m"
  "notifiers_ok (m\<lparr>m_meta := y\<rparr>) = notifiers_ok m"
  by (simp_all add: notifiers_ok_def)

lemma manager_inv_cache_put:
  assumes "manager_inv m" and "resource_has_type rt r"
  shows "manager_inv (m\<lparr>m_cache := gm2_put rt n r (m_cache m)\<rparr>)"
proof -
  have "cache_typed (m\<lparr>m_cache := gm2_put rt n r (m_cache m)\<rparr>)"
    using assms cache_typedD [OF assms(1)] unfolding cache_typed_def by auto
  with assms(1) show ?thesis by (simp add: manager_inv_def maps_wf_def gm2_wf_put)
qed

text \<open>Nothing but the five fields the invariant reads matters to it.\<close>

lemma manager_inv_frame [simp]:
  "manager_inv (m\<lparr>m_handlerCalls := h\<rparr>) = manager_inv m"
  "manager_inv (m\<lparr>m_xdsHandlers := x\<rparr>) = manager_inv m"
  "manager_inv (m\<lparr>m_closeCh := b\<rparr>) = manager_inv m"
  by (simp_all add: manager_inv_defs)

lemma manager_inv_meta: "manager_inv m \<Longrightarrow> gm2_wf ms \<Longrightarrow> manager_inv (m\<lparr>m_meta := ms\<rparr>)"
  by (simp add: manager_inv_defs)

subsection \<open>UpdateResource implements its specification\<close>

text \<open>One iteration, as an equation on the fields it changes.\<close>

lemma update_one_eq:
  assumes "manager_inv m"
  shows "update_one rt name res m = Returns (
    m\<lparr>m_cache := gm2_put rt name res (m_cache m),
      m_notifiers := (case gm2_get (m_notifierMap m) rt name of
          None \<Rightarrow> m_notifiers m
        | Some p \<Rightarrow> gm_put p \<lparr>nt_ch = True, nt_err = None\<rparr> (m_notifiers m)),
      m_notifierMap := (case gm2_get (m_notifierMap m) rt name of
          None \<Rightarrow> m_notifierMap m
        | Some p \<Rightarrow> gm2_del rt name (m_notifierMap m))\<rparr>)"
proof (cases "gm2_get (m_notifierMap m) rt name")
  case None
  then show ?thesis
    by (auto simp: update_one_def gm2_get_def gm_sub_def split: option.splits)
next
  case (Some p)
  with assms have "map_of (m_notifiers m) p = Some \<lparr>nt_ch = False, nt_err = None\<rparr>"
    by (simp add: notifiers_okD)
  with Some show ?thesis
    by (auto simp: update_one_def notify_def chan_close_def gm2_get_def gm_sub_def split: option.splits)
qed

lemma update_one_inv:
  assumes inv: "manager_inv m" and typed: "resource_has_type rt res"
    and run: "update_one rt name res m = Returns m'"
  shows "manager_inv m'"
proof (cases "gm2_get (m_notifierMap m) rt name")
  case None
  with inv typed run show ?thesis
    using manager_inv_cache_put [OF inv typed, of name] by (simp add: update_one_eq)
next
  case (Some p)
  from run inv Some have m': "m' = m\<lparr>m_cache := gm2_put rt name res (m_cache m),
      m_notifiers := gm_put p \<lparr>nt_ch = True, nt_err = None\<rparr> (m_notifiers m),
      m_notifierMap := gm2_del rt name (m_notifierMap m)\<rparr>"
    by (simp add: update_one_eq)
  have "notifiers_ok m'"
    unfolding m' notifiers_ok_def
    using notifiers_okD [OF inv] notifiers_inj [OF inv] notifiers_bound [OF inv] Some
    by (auto split: if_splits)
  moreover have "cache_typed m'" "maps_wf m'"
    using inv manager_inv_cache_put [OF inv typed, of name]
    by (simp_all add: m' manager_inv_def cache_typed_def maps_wf_def gm2_wf_del)
  ultimately show ?thesis by (simp add: manager_inv_def)
qed

text \<open>
  The loop: every resource of the update is cached, every waiter on one of them is woken and
  leaves the map, and nothing else changes. The update is a Go map, so its keys are distinct.
\<close>

definition updated_by :: "ResourceType \<Rightarrow> (string, Resource) gomap \<Rightarrow> xdsResourceManager \<Rightarrow> xdsResourceManager \<Rightarrow> bool" where
  "updated_by rt up m m' \<longleftrightarrow>
    (\<forall>rt' n. gm2_get (m_cache m') rt' n =
       (if rt' = rt \<and> map_of up n \<noteq> None then map_of up n else gm2_get (m_cache m) rt' n)) \<and>
    (\<forall>rt' n. gm2_get (m_notifierMap m') rt' n =
       (if rt' = rt \<and> map_of up n \<noteq> None then None else gm2_get (m_notifierMap m) rt' n)) \<and>
    (\<forall>p. map_of (m_notifiers m') p =
       (if \<exists>n. map_of up n \<noteq> None \<and> gm2_get (m_notifierMap m) rt n = Some p
        then Some \<lparr>nt_ch = True, nt_err = None\<rparr> else map_of (m_notifiers m) p)) \<and>
    m_nextNotifier m' = m_nextNotifier m \<and> m_meta m' = m_meta m \<and> m_closeCh m' = m_closeCh m \<and>
    m_opts m' = m_opts m \<and> m_xdsHandlers m' = m_xdsHandlers m \<and> m_handlerCalls m' = m_handlerCalls m"

lemma updated_by_one:
  assumes "manager_inv m" and "update_one rt name res m = Returns m'"
  shows "updated_by rt [(name, res)] m m'"
proof -
  have "m' = m\<lparr>m_cache := gm2_put rt name res (m_cache m),
      m_notifiers := (case gm2_get (m_notifierMap m) rt name of
          None \<Rightarrow> m_notifiers m
        | Some p \<Rightarrow> gm_put p \<lparr>nt_ch = True, nt_err = None\<rparr> (m_notifiers m)),
      m_notifierMap := (case gm2_get (m_notifierMap m) rt name of
          None \<Rightarrow> m_notifierMap m
        | Some p \<Rightarrow> gm2_del rt name (m_notifierMap m))\<rparr>"
    using assms(2) update_one_eq [OF assms(1)] by simp
  then show ?thesis by (auto simp: updated_by_def split: option.split)
qed

lemma updated_byD:
  assumes "updated_by rt up m m'"
  shows "gm2_get (m_cache m') rt' n = (if rt' = rt \<and> map_of up n \<noteq> None then map_of up n else gm2_get (m_cache m) rt' n)"
    and "gm2_get (m_notifierMap m') rt' n = (if rt' = rt \<and> map_of up n \<noteq> None then None else gm2_get (m_notifierMap m) rt' n)"
    and "map_of (m_notifiers m') p = (if \<exists>n. map_of up n \<noteq> None \<and> gm2_get (m_notifierMap m) rt n = Some p
        then Some \<lparr>nt_ch = True, nt_err = None\<rparr> else map_of (m_notifiers m) p)"
    and "m_nextNotifier m' = m_nextNotifier m" "m_meta m' = m_meta m" "m_closeCh m' = m_closeCh m"
      "m_opts m' = m_opts m" "m_xdsHandlers m' = m_xdsHandlers m" "m_handlerCalls m' = m_handlerCalls m"
  using assms unfolding updated_by_def by blast+

lemma if_or: "(if P \<or> Q then x else y) = (if Q then x else if P then x else y)"
  by simp

lemma updated_by_Cons:
  assumes one: "updated_by rt [(name, res)] m m1" and more: "updated_by rt up m1 m'" and fresh: "map_of up name = None"
  shows "updated_by rt ((name, res) # up) m m'"
proof -
  note o = updated_byD [OF one] and u = updated_byD [OF more]
  have "gm2_get (m_notifierMap m1) rt n = gm2_get (m_notifierMap m) rt n" if "map_of up n \<noteq> None" for n
    using fresh that by (auto simp: o(2))
  then have ex: "(\<exists>n. map_of up n \<noteq> None \<and> gm2_get (m_notifierMap m1) rt n = Some p) \<longleftrightarrow>
      (\<exists>n. map_of up n \<noteq> None \<and> gm2_get (m_notifierMap m) rt n = Some p)" for p
    by metis
  have split: "(\<exists>n. map_of ((name, res) # up) n \<noteq> None \<and> gm2_get (m_notifierMap m) rt n = Some p) \<longleftrightarrow>
      (\<exists>n. map_of [(name, res)] n \<noteq> None \<and> gm2_get (m_notifierMap m) rt n = Some p) \<or>
      (\<exists>n. map_of up n \<noteq> None \<and> gm2_get (m_notifierMap m) rt n = Some p)" for p
    by auto
  have "map_of (m_notifiers m') p =
      (if \<exists>n. map_of ((name, res) # up) n \<noteq> None \<and> gm2_get (m_notifierMap m) rt n = Some p
       then Some \<lparr>nt_ch = True, nt_err = None\<rparr> else map_of (m_notifiers m) p)" for p
    unfolding split u(3) o(3) ex by (simp only: if_or)
  moreover have "gm2_get (m_cache m') rt' n =
      (if rt' = rt \<and> map_of ((name, res) # up) n \<noteq> None then map_of ((name, res) # up) n else gm2_get (m_cache m) rt' n)" for rt' n
    unfolding u(1) o(1) using fresh by auto
  moreover have "gm2_get (m_notifierMap m') rt' n =
      (if rt' = rt \<and> map_of ((name, res) # up) n \<noteq> None then None else gm2_get (m_notifierMap m) rt' n)" for rt' n
    unfolding u(2) o(2) by auto
  ultimately show ?thesis unfolding updated_by_def using o(4-) u(4-) by simp
qed

lemma update_loop_spec:
  assumes "manager_inv m" and "gm_wf up" and "\<forall>(n, r) \<in> set up. resource_has_type rt r"
  shows "\<exists>m'. update_loop rt up m = Returns m' \<and> manager_inv m' \<and> updated_by rt up m m'"
  using assms
proof (induction up arbitrary: m)
  case Nil
  then show ?case by (simp add: updated_by_def)
next
  case (Cons nr up)
  obtain name res where nr: "nr = (name, res)" by (cases nr)
  obtain m1 where m1: "update_one rt name res m = Returns m1"
    using update_one_eq [OF Cons.prems(1)] by blast
  have "manager_inv m1" using update_one_inv [OF Cons.prems(1) _ m1] Cons.prems(3) nr by auto
  from Cons.IH [OF this] Cons.prems(2,3)
  obtain m' where m': "update_loop rt up m1 = Returns m'" "manager_inv m'" "updated_by rt up m1 m'" by auto
  have "map_of up name = None" using Cons.prems(2) nr by (auto simp: map_of_eq_None_iff)
  with updated_by_Cons [OF updated_by_one [OF Cons.prems(1) m1] m'(3)] m1 m'(1,2) nr show ?case by simp
qed

lemma updateMeta_names_lookup:
  "map_of (updateMeta_names now version names ms) n =
     (if n \<in> set names then
        Some \<lparr>rm_Version = version, rm_UpdateTime = now,
              rm_LastAccessTime = Option.bind (map_of ms n) rm_LastAccessTime\<rparr>
      else map_of ms n)"
  by (induction now version names ms rule: updateMeta_names.induct) (auto split: option.splits)

lemma gm_wf_updateMeta_names: "gm_wf ms \<Longrightarrow> gm_wf (updateMeta_names now version names ms)"
  by (induction now version names ms rule: updateMeta_names.induct) (auto simp: distinct_update split: option.splits)

lemma updateMeta_inv: "manager_inv m \<Longrightarrow> manager_inv (updateMeta now rt version m)"
  unfolding updateMeta_def
  by (rule manager_inv_meta)
    (simp_all add: manager_inv_def maps_wf_def gm2_wf_outer_put gm_wf_updateMeta_names gm2_wf_sub)

lemma updateMeta_frame [simp]:
  "m_cache (updateMeta now rt version m) = m_cache m"
  "m_notifierMap (updateMeta now rt version m) = m_notifierMap m"
  "m_notifiers (updateMeta now rt version m) = m_notifiers m"
  "m_nextNotifier (updateMeta now rt version m) = m_nextNotifier m"
  "m_handlerCalls (updateMeta now rt version m) = m_handlerCalls m"
  "m_xdsHandlers (updateMeta now rt version m) = m_xdsHandlers m"
  "m_closeCh (updateMeta now rt version m) = m_closeCh m"
  "m_opts (updateMeta now rt version m) = m_opts m"
  by (simp_all add: updateMeta_def)

lemma drop_stale_frame [simp]:
  "m_meta (drop_stale rt up m) = m_meta m"
  "m_notifierMap (drop_stale rt up m) = m_notifierMap m"
  "m_notifiers (drop_stale rt up m) = m_notifiers m"
  "m_nextNotifier (drop_stale rt up m) = m_nextNotifier m"
  "m_handlerCalls (drop_stale rt up m) = m_handlerCalls m"
  "m_xdsHandlers (drop_stale rt up m) = m_xdsHandlers m"
  "m_closeCh (drop_stale rt up m) = m_closeCh m"
  "m_opts (drop_stale rt up m) = m_opts m"
  by (simp_all add: drop_stale_def split: option.split)

lemma drop_stale_cache:
  "gm2_get (m_cache (drop_stale rt up m)) rt' n =
     (if rt' = rt \<and> RequireFullADSResponse rt \<and> map_of up n = None then None
      else gm2_get (m_cache m) rt' n)"
  by (auto simp: drop_stale_def gm2_get_def gm_sub_def split: option.split)

lemma drop_stale_inv:
  assumes inv: "manager_inv m"
  shows "manager_inv (drop_stale rt up m)"
proof -
  have "cache_typed (drop_stale rt up m)"
    using cache_typedD [OF inv] unfolding cache_typed_def drop_stale_cache by (auto split: if_splits)
  moreover have "gm_wf s" if "map_of (m_cache m) rt = Some s" for s
    using gm2_wf_sub [of "m_cache m" rt] inv that by (simp add: manager_inv_def maps_wf_def gm_sub_def)
  then have "gm2_wf (m_cache (drop_stale rt up m))"
    using inv by (auto simp: drop_stale_def manager_inv_def maps_wf_def
        intro!: gm2_wf_outer_put gm_wf_filter split: option.split)
  ultimately show ?thesis
    using inv by (simp add: manager_inv_def maps_wf_def notifiers_ok_def)
qed

text \<open>
  The abstract cache is a partial function from type and name to resource, and this is what an
  update promises: for the two types whose responses are complete the new map replaces the old
  one, for the others it overrides it.
\<close>

type_synonym abs_cache = "ResourceType \<Rightarrow> string \<Rightarrow> Resource option"

definition abs_cache :: "xdsResourceManager \<Rightarrow> abs_cache" where
  "abs_cache m rt n = gm2_get (m_cache m) rt n"

definition spec_update :: "ResourceType \<Rightarrow> (string, Resource) gomap \<Rightarrow> abs_cache \<Rightarrow> abs_cache" where
  "spec_update rt up A =
     A(rt := (if RequireFullADSResponse rt then map_of up else A rt ++ map_of up))"

text \<open>What is kept of the other fields by an update that returns.\<close>

lemma UpdateResource_Returns:
  assumes "manager_inv m" and "gm_wf up" and "\<forall>(n, r) \<in> set up. resource_has_type rt r"
  obtains m' where "UpdateResource now rt up version m = Returns m'" and "manager_inv m'"
    and "abs_cache m' = spec_update rt up (abs_cache m)"
    and "\<And>rt' n. gm2_get (m_notifierMap m') rt' n =
       (if rt' = rt \<and> map_of up n \<noteq> None then None else gm2_get (m_notifierMap m) rt' n)"
    and "\<And>p. map_of (m_notifiers m') p =
       (if \<exists>n. map_of up n \<noteq> None \<and> gm2_get (m_notifierMap m) rt n = Some p
        then Some \<lparr>nt_ch = True, nt_err = None\<rparr> else map_of (m_notifiers m) p)"
    and "m_handlerCalls m' = m_handlerCalls m @
       map (\<lambda>h. (h, up)) (case map_of (m_xdsHandlers m) rt of None \<Rightarrow> [] | Some hs \<Rightarrow> hs)"
    and "\<And>rt' n. gm2_get (m_meta m') rt' n =
       (if rt' = rt \<and> abs_cache m' rt n \<noteq> None
        then Some \<lparr>rm_Version = version, rm_UpdateTime = now,
                   rm_LastAccessTime = Option.bind (gm2_get (m_meta m) rt n) rm_LastAccessTime\<rparr>
        else gm2_get (m_meta m) rt' n)"
    and "m_nextNotifier m' = m_nextNotifier m" and "m_xdsHandlers m' = m_xdsHandlers m"
    and "m_closeCh m' = m_closeCh m" and "m_opts m' = m_opts m"
proof -
  let ?hs = "case map_of (m_xdsHandlers m) rt of None \<Rightarrow> [] | Some hs \<Rightarrow> hs"
  define m0 where "m0 = m\<lparr>m_handlerCalls := m_handlerCalls m @ map (\<lambda>h. (h, up)) ?hs\<rparr>"
  have m0: "m_cache m0 = m_cache m" "m_notifierMap m0 = m_notifierMap m" "m_notifiers m0 = m_notifiers m"
    "m_nextNotifier m0 = m_nextNotifier m" "m_meta m0 = m_meta m" "m_closeCh m0 = m_closeCh m"
    "m_opts m0 = m_opts m" "m_xdsHandlers m0 = m_xdsHandlers m"
    "m_handlerCalls m0 = m_handlerCalls m @ map (\<lambda>h. (h, up)) ?hs"
    by (simp_all add: m0_def)
  from assms(1) have "manager_inv m0" by (simp add: m0_def)
  from update_loop_spec [OF this assms(2,3), unfolded updated_by_def m0]
  obtain m1 where m1: "update_loop rt up m0 = Returns m1" "manager_inv m1"
    and cache: "\<And>rt' n. gm2_get (m_cache m1) rt' n =
       (if rt' = rt \<and> map_of up n \<noteq> None then map_of up n else gm2_get (m_cache m) rt' n)"
    and nm: "\<And>rt' n. gm2_get (m_notifierMap m1) rt' n =
       (if rt' = rt \<and> map_of up n \<noteq> None then None else gm2_get (m_notifierMap m) rt' n)"
    and nts: "\<And>p. map_of (m_notifiers m1) p =
       (if \<exists>n. map_of up n \<noteq> None \<and> gm2_get (m_notifierMap m) rt n = Some p
        then Some \<lparr>nt_ch = True, nt_err = None\<rparr> else map_of (m_notifiers m) p)"
    and rest: "m_nextNotifier m1 = m_nextNotifier m" "m_meta m1 = m_meta m" "m_closeCh m1 = m_closeCh m"
      "m_opts m1 = m_opts m" "m_xdsHandlers m1 = m_xdsHandlers m"
      "m_handlerCalls m1 = m_handlerCalls m @ map (\<lambda>h. (h, up)) ?hs"
    by blast
  define m' where "m' = updateMeta now rt version (drop_stale rt up m1)"
  have abs: "abs_cache m' = spec_update rt up (abs_cache m)"
    by (rule ext, rule ext)
      (auto simp: m'_def abs_cache_def spec_update_def drop_stale_cache cache map_add_def
        split: option.split)
  show thesis
  proof (rule that [of m'])
    show "UpdateResource now rt up version m = Returns m'"
      using m1(1) by (simp add: UpdateResource_def Let_def m'_def m0_def [symmetric])
    show "manager_inv m'" using m1(2) by (simp add: m'_def updateMeta_inv drop_stale_inv)
    show "abs_cache m' = spec_update rt up (abs_cache m)" by (rule abs)
    show "gm2_get (m_meta m') rt' n =
       (if rt' = rt \<and> abs_cache m' rt n \<noteq> None
        then Some \<lparr>rm_Version = version, rm_UpdateTime = now,
                   rm_LastAccessTime = Option.bind (gm2_get (m_meta m) rt n) rm_LastAccessTime\<rparr>
        else gm2_get (m_meta m) rt' n)" for rt' n
    proof -
      have "n \<in> set (gm_keys (gm_sub (m_cache (drop_stale rt up m1)) rt)) \<longleftrightarrow> abs_cache m' rt n \<noteq> None"
        by (simp only: set_keys_map_of) (simp add: m'_def abs_cache_def gm2_get_def)
      then show ?thesis
        by (simp add: m'_def updateMeta_def updateMeta_names_lookup rest gm2_get_def)
    qed
  qed (use nm nts rest in \<open>simp_all add: m'_def\<close>)
qed

subsection \<open>The other operations keep the invariant\<close>

lemma getFromCache_result: "fst (getFromCache now rt n m) = abs_cache m rt n"
  by (auto simp: getFromCache_def Let_def abs_cache_def gm2_get_def gm_sub_def split: option.split)

lemma getFromCache_frame [simp]:
  "m_cache (snd (getFromCache now rt n m)) = m_cache m"
  "m_notifierMap (snd (getFromCache now rt n m)) = m_notifierMap m"
  "m_notifiers (snd (getFromCache now rt n m)) = m_notifiers m"
  "m_nextNotifier (snd (getFromCache now rt n m)) = m_nextNotifier m"
  "m_handlerCalls (snd (getFromCache now rt n m)) = m_handlerCalls m"
  "m_xdsHandlers (snd (getFromCache now rt n m)) = m_xdsHandlers m"
  "m_closeCh (snd (getFromCache now rt n m)) = m_closeCh m"
  by (simp_all add: getFromCache_def Let_def split: option.split)

lemma getFromCache_abs: "getFromCache now rt n m = (r, m') \<Longrightarrow> r = abs_cache m rt n \<and> abs_cache m' = abs_cache m"
  using getFromCache_result [of now rt n m] getFromCache_frame(1) [of now rt n m] by (simp add: abs_cache_def fun_eq_iff)

lemma getFromCache_meta:
  "gm2_get (m_meta (snd (getFromCache now rt n m))) rt' n' =
     (if rt' = rt \<and> n' = n then map_option (\<lambda>mt. mt\<lparr>rm_LastAccessTime := Some now\<rparr>) (gm2_get (m_meta m) rt n)
      else gm2_get (m_meta m) rt' n')"
  by (auto simp: getFromCache_def Let_def gm2_get_def gm_sub_def split: option.split)

lemma getFromCache_inv:
  assumes "manager_inv m"
  shows "manager_inv (snd (getFromCache now rt n m))"
proof -
  let ?ms = "m_meta (snd (getFromCache now rt n m))"
  have wf: "gm2_wf (m_meta m)" using assms by (simp add: manager_inv_def maps_wf_def)
  have "gm_wf s" if "map_of (m_meta m) rt = Some s" for s
    using gm2_wf_sub [OF wf, of rt] that by (simp add: gm_sub_def)
  with wf have "gm2_wf ?ms"
    by (auto simp: getFromCache_def Let_def intro!: gm2_wf_outer_put distinct_update split: option.split)
  moreover have "snd (getFromCache now rt n m) = m\<lparr>m_meta := ?ms\<rparr>"
    by (simp add: getFromCache_def Let_def split: option.split)
  ultimately show ?thesis using manager_inv_meta [OF assms, of ?ms] by simp
qed

lemma Register_inv: "manager_inv m \<Longrightarrow> manager_inv (RegisterXDSUpdateHandler rt h m)"
  by (simp add: RegisterXDSUpdateHandler_def Let_def split: option.split)

lemma manager_inv_del_notifier:
  assumes inv: "manager_inv m"
  shows "manager_inv (m\<lparr>m_notifierMap := gm2_del rt n (m_notifierMap m)\<rparr>)"
proof -
  have "notifiers_ok (m\<lparr>m_notifierMap := gm2_del rt n (m_notifierMap m)\<rparr>)"
    unfolding notifiers_ok_def
    using notifiers_okD [OF inv] notifiers_inj [OF inv] notifiers_bound [OF inv] by (auto split: if_splits)
  with inv show ?thesis by (simp add: manager_inv_def cache_typed_def maps_wf_def gm2_wf_del)
qed

lemma get_timeout_inv: "manager_inv m \<Longrightarrow> manager_inv (snd (get_timeout rt n m))"
  by (simp add: get_timeout_def manager_inv_del_notifier)

lemma get_notified_inv: "manager_inv m \<Longrightarrow> manager_inv (snd (get_notified now rt n nf m))"
  using getFromCache_inv [of m now rt n] by (auto simp: get_notified_def split: option.split prod.split)

lemma get_lookup_inv: "manager_inv m \<Longrightarrow> manager_inv (snd (get_lookup now rt n m))"
  using getFromCache_inv [of m now rt n]
  by (auto simp: get_lookup_def split: option.split prod.split)

lemma get_register_Returns:
  assumes "get_register rt n m c = Returns (nf, m', c')"
  shows "m' = m\<lparr>m_notifierMap := m_notifierMap m', m_notifiers := m_notifiers m', m_nextNotifier := m_nextNotifier m'\<rparr>"
    and "gm2_get (m_notifierMap m') rt n = Some nf"
    and "rt' \<noteq> rt \<or> n' \<noteq> n \<Longrightarrow> gm2_get (m_notifierMap m') rt' n' = gm2_get (m_notifierMap m) rt' n'"
    and "case gm2_get (m_notifierMap m) rt n of
       Some p \<Rightarrow> nf = p \<and> m_notifiers m' = m_notifiers m \<and> m_nextNotifier m' = m_nextNotifier m \<and> c' = c
     | None \<Rightarrow> nf = m_nextNotifier m \<and> m_nextNotifier m' = Suc nf \<and>
         m_notifiers m' = gm_put nf \<lparr>nt_ch = False, nt_err = None\<rparr> (m_notifiers m) \<and> Watch rt n False c = Returns c'"
    and "gm2_wf (m_notifierMap m) \<Longrightarrow> gm2_wf (m_notifierMap m')"
proof -
  define nm where "nm = (case map_of (m_notifierMap m) rt of
      None \<Rightarrow> gm_put rt [] (m_notifierMap m) | Some _ \<Rightarrow> m_notifierMap m)"
  have nm: "gm2_get nm rt' n' = gm2_get (m_notifierMap m) rt' n'" for rt' n'
    by (auto simp: nm_def gm2_get_def gm_sub_def split: option.split)
  have wf: "gm2_wf (m_notifierMap m) \<Longrightarrow> gm2_wf nm"
    by (auto simp: nm_def gm2_wf_outer_put split: option.split)
  have run: "case gm2_get (m_notifierMap m) rt n of
      Some p \<Rightarrow> nf = p \<and> m' = m\<lparr>m_notifierMap := nm\<rparr> \<and> c' = c
    | None \<Rightarrow> Watch rt n False c = Returns c' \<and> nf = m_nextNotifier m \<and>
        m' = m\<lparr>m_notifierMap := gm2_put rt n nf nm,
               m_notifiers := gm_put nf \<lparr>nt_ch = False, nt_err = None\<rparr> (m_notifiers m),
               m_nextNotifier := Suc nf\<rparr>"
    using assms
    by (auto simp: get_register_def Let_def nm_def [symmetric] nm split: option.splits)
  show "m' = m\<lparr>m_notifierMap := m_notifierMap m', m_notifiers := m_notifiers m', m_nextNotifier := m_nextNotifier m'\<rparr>"
    and "gm2_get (m_notifierMap m') rt n = Some nf"
    and "rt' \<noteq> rt \<or> n' \<noteq> n \<Longrightarrow> gm2_get (m_notifierMap m') rt' n' = gm2_get (m_notifierMap m) rt' n'"
    and "case gm2_get (m_notifierMap m) rt n of
       Some p \<Rightarrow> nf = p \<and> m_notifiers m' = m_notifiers m \<and> m_nextNotifier m' = m_nextNotifier m \<and> c' = c
     | None \<Rightarrow> nf = m_nextNotifier m \<and> m_nextNotifier m' = Suc nf \<and>
         m_notifiers m' = gm_put nf \<lparr>nt_ch = False, nt_err = None\<rparr> (m_notifiers m) \<and> Watch rt n False c = Returns c'"
    and "gm2_wf (m_notifierMap m) \<Longrightarrow> gm2_wf (m_notifierMap m')"
    using run nm wf by (cases "gm2_get (m_notifierMap m) rt n"; auto simp: gm2_wf_put)+
qed

lemma get_register_inv:
  assumes inv: "manager_inv m" and run: "get_register rt n m c = Returns (nf, m', c')"
  shows "manager_inv m'"
proof -
  note r = get_register_Returns [OF run]
  have nm: "gm2_get (m_notifierMap m') rt' n' = (if rt' = rt \<and> n' = n then Some nf else gm2_get (m_notifierMap m) rt' n')"
    for rt' n' using r(2) r(3) [of rt' n'] by auto
  have "notifiers_ok m'"
  proof (cases "gm2_get (m_notifierMap m) rt n")
    case None
    with r(4) have m': "nf = m_nextNotifier m" "m_nextNotifier m' = Suc nf"
      "m_notifiers m' = gm_put nf \<lparr>nt_ch = False, nt_err = None\<rparr> (m_notifiers m)" by simp_all
    have old: "p < nf" if "gm2_get (m_notifierMap m) rt' n' = Some p" for rt' n' p
      using notifiers_okD [OF inv that] m'(1) by simp
    have "p < Suc nf \<and> map_of (m_notifiers m') p = Some \<lparr>nt_ch = False, nt_err = None\<rparr>"
      if "gm2_get (m_notifierMap m') rt' n' = Some p" for rt' n' p
    proof (cases "rt' = rt \<and> n' = n")
      case False
      with that nm [of rt' n'] have g: "gm2_get (m_notifierMap m) rt' n' = Some p" by auto
      with old [OF g] notifiers_okD [OF inv g] show ?thesis by (simp add: m'(3))
    qed (use that nm [of rt' n'] in \<open>simp add: m'(3)\<close>)
    moreover have "rt' = rt'' \<and> n' = n''"
      if "gm2_get (m_notifierMap m') rt' n' = Some p" "gm2_get (m_notifierMap m') rt'' n'' = Some p"
      for rt' n' rt'' n'' p
      using that nm [of rt' n'] nm [of rt'' n''] old [of rt' n'] old [of rt'' n''] notifiers_inj [OF inv, of rt' n' p rt'' n'']
      by (auto split: if_splits)
    moreover have "p < Suc nf" if "map_of (m_notifiers m') p \<noteq> None" for p
      using that notifiers_bound [OF inv, of p] m'(1) by (auto simp: m'(3) split: if_splits)
    ultimately show ?thesis unfolding notifiers_ok_def m'(2) by blast
  next
    case (Some p)
    with r(4) have m': "nf = p" "m_nextNotifier m' = m_nextNotifier m" "m_notifiers m' = m_notifiers m" by simp_all
    have nm': "gm2_get (m_notifierMap m') = gm2_get (m_notifierMap m)"
      using nm Some m'(1) by (auto simp: fun_eq_iff)
    show ?thesis using inv unfolding manager_inv_def notifiers_ok_def nm' m' by blast
  qed
  moreover have "cache_typed m'" "maps_wf m'"
    using inv r(5) by (subst r(1); simp add: manager_inv_def cache_typed_def maps_wf_def)+
  ultimately show ?thesis by (simp add: manager_inv_def)
qed

lemma get_register_client_inv:
  assumes "client_inv c" and "get_register rt n m c = Returns (nf, m', c')"
  shows "client_inv c'"
  using get_register_Returns(4) [OF assms(2)] Watch_inv [OF assms(1)] assms(1)
  by (auto split: option.splits)

lemma get_register_not_Panics: "get_register rt n m c \<noteq> Panics p"
  by (auto simp: get_register_def Let_def run_bind_Panics_iff Watch_not_Panics split: option.splits)

subsection \<open>The cleaner\<close>

lemma manager_inv_clean:
  assumes inv: "manager_inv m"
  shows "manager_inv (m\<lparr>m_meta := gm2_del rt n (m_meta m), m_cache := gm2_del rt n (m_cache m)\<rparr>)"
proof -
  have "cache_typed (m\<lparr>m_meta := gm2_del rt n (m_meta m), m_cache := gm2_del rt n (m_cache m)\<rparr>)"
    using cache_typedD [OF inv] unfolding cache_typed_def by (auto split: if_splits)
  then show ?thesis
    using inv by (simp add: manager_inv_def maps_wf_def gm2_wf_del notifiers_ok_def)
qed

text \<open>
  The effect of the cleaner, given which entries it found expired: those leave the cache, the
  metadata and the subscriptions; every other field stays, and one request was queued for each.
\<close>

definition cleaned ::
  "(ResourceType \<Rightarrow> string \<Rightarrow> bool) \<Rightarrow> nat \<Rightarrow> xdsResourceManager \<times> xdsClient \<Rightarrow> xdsResourceManager \<times> xdsClient \<Rightarrow> bool" where
  "cleaned E k = (\<lambda>(m, c) (m', c').
     (\<forall>rt n. gm2_get (m_meta m') rt n = (if E rt n then None else gm2_get (m_meta m) rt n)) \<and>
     (\<forall>rt n. abs_cache m' rt n = (if E rt n then None else abs_cache m rt n)) \<and>
     (\<forall>rt. watched c' rt = watched c rt - {n. E rt n}) \<and>
     m' = m\<lparr>m_meta := m_meta m', m_cache := m_cache m'\<rparr> \<and>
     length (xc_reqCh c') = length (xc_reqCh c) + k \<and>
     c' = c\<lparr>xc_watchedResource := xc_watchedResource c', xc_reqCh := xc_reqCh c'\<rparr> \<and>
     (manager_inv m \<longrightarrow> manager_inv m') \<and> (client_inv c \<longrightarrow> client_inv c'))"

lemma cleaned_refl: "cleaned (\<lambda>_ _. False) 0 s s"
  by (auto simp: cleaned_def)

lemma cleaned_trans:
  assumes ab: "cleaned E k a b" and bd: "cleaned F l b d"
  shows "cleaned (\<lambda>rt n. E rt n \<or> F rt n) (k + l) a d"
proof -
  obtain m c m' c' m'' c'' where s: "a = (m, c)" "b = (m', c')" "d = (m'', c'')"
    by (cases a, cases b, cases d)
  have m: "m' = m\<lparr>m_meta := m_meta m', m_cache := m_cache m'\<rparr>"
    "m'' = m'\<lparr>m_meta := m_meta m'', m_cache := m_cache m''\<rparr>"
    "c' = c\<lparr>xc_watchedResource := xc_watchedResource c', xc_reqCh := xc_reqCh c'\<rparr>"
    "c'' = c'\<lparr>xc_watchedResource := xc_watchedResource c'', xc_reqCh := xc_reqCh c''\<rparr>"
    using ab bd by (simp_all add: cleaned_def s)
  have "m'' = m\<lparr>m_meta := m_meta m'', m_cache := m_cache m''\<rparr>"
    by (subst m(2), subst m(1)) simp
  moreover have "c'' = c\<lparr>xc_watchedResource := xc_watchedResource c'', xc_reqCh := xc_reqCh c''\<rparr>"
    by (subst m(4), subst m(3)) simp
  ultimately show ?thesis
    using ab bd unfolding cleaned_def s prod.case by auto
qed

lemma clean_one:
  assumes "Watch rt n True c = Returns c'"
  shows "cleaned (\<lambda>rt' n'. rt' = rt \<and> n' = n) 1 (m, c)
     (m\<lparr>m_meta := gm2_del rt n (m_meta m), m_cache := gm2_del rt n (m_cache m)\<rparr>, c')"
  using Watch_watched [OF assms] Watch_Returns(2) [OF assms] Watch_Returns(5) [OF assms]
    manager_inv_clean [of m rt n] Watch_inv [OF _ assms]
  by (auto simp: cleaned_def abs_cache_def)

lemma clean_names_cleaned:
  "clean_names now rt es m c = Returns s' \<Longrightarrow>
     cleaned (\<lambda>rt' n. rt' = rt \<and> (\<exists>mt. (n, mt) \<in> set es \<and> expired now rt n mt))
       (length (filter (\<lambda>(n, mt). expired now rt n mt) es)) (m, c) s'"
proof (induction now rt es m c rule: clean_names.induct)
  case (1 now rt m c)
  then show ?case by (simp add: cleaned_refl)
next
  case (2 now rt n mt es m c)
  show ?case
  proof (cases "expired now rt n mt")
    case True
    let ?m = "m\<lparr>m_meta := gm2_del rt n (m_meta m), m_cache := gm2_del rt n (m_cache m)\<rparr>"
    from 2(3) True obtain c1 where c1: "Watch rt n True c = Returns c1" "clean_names now rt es ?m c1 = Returns s'"
      by (auto simp: Let_def)
    note IH = 2(1) [OF True refl c1(2)]
    have "(\<lambda>rt' n'. rt' = rt \<and> n' = n \<or> rt' = rt \<and> (\<exists>mt. (n', mt) \<in> set es \<and> expired now rt n' mt)) =
        (\<lambda>rt' n'. rt' = rt \<and> (\<exists>mt'. (n', mt') \<in> set ((n, mt) # es) \<and> expired now rt n' mt'))"
      using True by (auto simp: fun_eq_iff)
    with cleaned_trans [OF clean_one [OF c1(1), of m] IH] True show ?thesis by simp
  next
    case False
    then have "(\<lambda>rt' n'. rt' = rt \<and> (\<exists>mt. (n', mt) \<in> set es \<and> expired now rt n' mt)) =
        (\<lambda>rt' n'. rt' = rt \<and> (\<exists>mt'. (n', mt') \<in> set ((n, mt) # es) \<and> expired now rt n' mt'))"
      by (auto simp: fun_eq_iff)
    with 2(2) [OF False] 2(3) False show ?thesis by simp
  qed
qed

definition expired_count :: "int \<Rightarrow> (ResourceType \<times> (string, ResourceMeta) gomap) list \<Rightarrow> nat" where
  "expired_count now rts = sum_list (map (\<lambda>(rt, ms). length (filter (\<lambda>(n, mt). expired now rt n mt) ms)) rts)"

lemma clean_types_cleaned:
  "clean_types now rts m c = Returns s' \<Longrightarrow>
     cleaned (\<lambda>rt n. \<exists>ms mt. (rt, ms) \<in> set rts \<and> (n, mt) \<in> set ms \<and> expired now rt n mt)
       (expired_count now rts) (m, c) s'"
proof (induction now rts m c rule: clean_types.induct)
  case (1 now m c)
  then show ?case by (simp add: cleaned_refl expired_count_def)
next
  case (2 now rt ms rts m c)
  from 2(2) obtain s1 where s1: "clean_names now rt ms m c = Returns s1"
    "clean_types now rts (fst s1) (snd s1) = Returns s'"
    by auto
  have IH: "cleaned (\<lambda>rt n. \<exists>ms mt. (rt, ms) \<in> set rts \<and> (n, mt) \<in> set ms \<and> expired now rt n mt)
      (expired_count now rts) s1 s'"
    using 2(1) s1(2) by (cases s1) simp
  have "(\<lambda>rt' n. (rt' = rt \<and> (\<exists>mt. (n, mt) \<in> set ms \<and> expired now rt n mt)) \<or>
        (\<exists>ms mt. (rt', ms) \<in> set rts \<and> (n, mt) \<in> set ms \<and> expired now rt' n mt)) =
      (\<lambda>rt' n. \<exists>ms' mt. (rt', ms') \<in> set ((rt, ms) # rts) \<and> (n, mt) \<in> set ms' \<and> expired now rt' n mt)"
    by (auto simp: fun_eq_iff)
  with cleaned_trans [OF clean_names_cleaned [OF s1(1)] IH] show ?case
    by (simp add: expired_count_def)
qed

lemma clean_names_total:
  "clean_names now rt es m c \<noteq> Panics p"
  "length (xc_reqCh c) + length (filter (\<lambda>(n, mt). expired now rt n mt) es) \<le> reqCh_cap \<Longrightarrow>
     clean_names now rt es m c \<noteq> Blocks"
proof (induction now rt es m c rule: clean_names.induct)
  case (2 now rt n mt es m c)
  {
    case 1
    then show ?case using 2 by (auto simp: Let_def run_bind_Panics_iff Watch_not_Panics)
  next
    case prems: 2
    then show ?case
    proof (cases "expired now rt n mt")
      case True
      with prems have "Watch rt n True c \<noteq> Blocks" by (simp add: Watch_Blocks_iff)
      with Watch_not_Panics obtain c1 where c1: "Watch rt n True c = Returns c1"
        by (cases "Watch rt n True c") auto
      from Watch_Returns(2) [OF c1] prems True
      have "length (xc_reqCh c1) + length (filter (\<lambda>(n, mt). expired now rt n mt) es) \<le> reqCh_cap" by simp
      with 2(2) [OF True refl] c1 True show ?thesis by (simp add: Let_def)
    qed (use 2(4) prems in simp)
  }
qed simp_all

lemma clean_types_total:
  "clean_types now rts m c \<noteq> Panics p"
  "length (xc_reqCh c) + expired_count now rts \<le> reqCh_cap \<Longrightarrow> clean_types now rts m c \<noteq> Blocks"
proof (induction now rts m c rule: clean_types.induct)
  case (2 now rt ms rts m c)
  {
    case 1
    then show ?case using 2(1) by (auto simp: run_bind_Panics_iff clean_names_total(1) split: prod.splits)
  next
    case prems: 2
    from prems have "clean_names now rt ms m c \<noteq> Blocks"
      by (intro clean_names_total(2)) (simp add: expired_count_def)
    with clean_names_total(1) obtain s1 where s1: "clean_names now rt ms m c = Returns s1"
      by (cases "clean_names now rt ms m c") auto
    obtain m1 c1 where s1': "s1 = (m1, c1)" by (cases s1)
    from clean_names_cleaned [OF s1] prems
    have "length (xc_reqCh c1) + expired_count now rts \<le> reqCh_cap"
      by (simp add: cleaned_def s1' expired_count_def)
    with 2(2) s1 s1' show ?case by simp
  }
qed simp_all

lemma gm2_get_mem:
  assumes "gm2_wf m"
  shows "(\<exists>s v. (k, s) \<in> set m \<and> (n, v) \<in> set s \<and> P v) \<longleftrightarrow> (\<exists>v. gm2_get m k n = Some v \<and> P v)"
proof -
  have wf: "gm_wf m" using assms by (simp add: gm2_wf_def)
  have "(\<exists>s v. (k, s) \<in> set m \<and> (n, v) \<in> set s \<and> P v) \<longleftrightarrow> (\<exists>v. (n, v) \<in> set (gm_sub m k) \<and> P v)"
  proof (cases "map_of m k")
    case None
    then have "(k, s) \<notin> set m" for s by (force simp: map_of_eq_None_iff)
    with None show ?thesis by (simp add: gm_sub_def)
  next
    case (Some s0)
    then have "(k, s) \<in> set m \<longleftrightarrow> s = s0" for s
      using map_of_is_SomeI [OF wf, of k s] map_of_SomeD [OF Some] by auto
    with Some show ?thesis by (simp add: gm_sub_def)
  qed
  also have "\<dots> \<longleftrightarrow> (\<exists>v. gm2_get m k n = Some v \<and> P v)"
    using gm2_wf_sub [OF assms, of k] by (metis gm2_get_def map_of_SomeD map_of_is_SomeI)
  finally show ?thesis .
qed

lemma cleaner_tick_Returns:
  assumes inv: "manager_inv m" and run: "cleaner_tick now m c = Returns s'"
  shows "cleaned (\<lambda>rt n. \<exists>mt. gm2_get (m_meta m) rt n = Some mt \<and> expired now rt n mt)
    (expired_count now (m_meta m)) (m, c) s'"
proof -
  have wf: "gm2_wf (m_meta m)" using inv by (simp add: manager_inv_def maps_wf_def)
  from clean_types_cleaned [OF run [unfolded cleaner_tick_def]]
  show ?thesis unfolding gm2_get_mem [OF wf] .
qed

subsection \<open>Properties of the manager\<close>

text \<open>C4: an update from the control plane implements the abstract specification of the cache (a
  complete response replaces the resources of its type, an incremental one overrides them), never
  panics, keeps the invariant, calls every handler registered for the type once with the update,
  and stamps every cached resource of the type with the version and the time while its last access
  time is kept.\<close>

theorem UpdateResource_refines:
  assumes "manager_inv m" and "gm_wf up" and "\<forall>(n, r) \<in> set up. resource_has_type rt r"
  shows "\<exists>m'. UpdateResource now rt up version m = Returns m' \<and> manager_inv m' \<and>
    abs_cache m' = spec_update rt up (abs_cache m) \<and>
    m_handlerCalls m' = m_handlerCalls m @
      map (\<lambda>h. (h, up)) (case map_of (m_xdsHandlers m) rt of None \<Rightarrow> [] | Some hs \<Rightarrow> hs) \<and>
    (\<forall>rt' n. gm2_get (m_meta m') rt' n =
       (if rt' = rt \<and> abs_cache m' rt n \<noteq> None
        then Some \<lparr>rm_Version = version, rm_UpdateTime = now,
                   rm_LastAccessTime = Option.bind (gm2_get (m_meta m) rt n) rm_LastAccessTime\<rparr>
        else gm2_get (m_meta m) rt' n))"
  using UpdateResource_Returns [OF assms, of now version] by metis

definition example_opts :: Options where
  "example_opts = \<lparr>opt_XDSSvrConfig = bc_xdsSvrCfg example_config, opt_DumpPath = ''/tmp/d''\<rparr>"

theorem UpdateResource_refines_witness:
  "\<exists>m'. UpdateResource 5 ClusterType [(''c1'', ResCluster None)] ''v1'' (new_manager example_opts) = Returns m' \<and>
     abs_cache m' ClusterType ''c1'' = Some (ResCluster None) \<and> abs_cache m' ClusterType ''c2'' = None"
proof -
  have "\<forall>(n, r) \<in> set [(''c1'', ResCluster None)]. resource_has_type ClusterType r" by simp
  from UpdateResource_refines [OF manager_inv_new _ this, of 5 "''v1''" example_opts]
  show ?thesis
    by (auto simp: spec_update_def RequireFullADSResponse_def)
qed

text \<open>C9: no wake-up is lost between one waiter and one update. A \<open>Get\<close> that registered for a name
  holds an open notifier; an update that contains the name closes it, and the \<open>Get\<close> then returns
  the resource of that update.\<close>

theorem get_woken_by_update:
  assumes "manager_inv m" and "gm_wf up" and "\<forall>(n, r) \<in> set up. resource_has_type rt r"
    and "get_register rt n m c = Returns (nf, m1, c1)" and "map_of up n = Some r"
  shows "map_option nt_ch (map_of (m_notifiers m1) nf) = Some False \<and>
    (\<exists>m2. UpdateResource now rt up version m1 = Returns m2 \<and>
       map_option nt_ch (map_of (m_notifiers m2) nf) = Some True \<and>
       fst (get_notified now' rt n nf m2) = GetOk (Some r))"
proof -
  note inv1 = get_register_inv [OF assms(1,4)]
  have nf: "gm2_get (m_notifierMap m1) rt n = Some nf" by (rule get_register_Returns(2) [OF assms(4)])
  obtain m2 where m2: "UpdateResource now rt up version m1 = Returns m2"
    "abs_cache m2 = spec_update rt up (abs_cache m1)"
    "map_of (m_notifiers m2) nf =
       (if \<exists>n. map_of up n \<noteq> None \<and> gm2_get (m_notifierMap m1) rt n = Some nf
        then Some \<lparr>nt_ch = True, nt_err = None\<rparr> else map_of (m_notifiers m1) nf)"
    using UpdateResource_Returns [OF inv1 assms(2,3), of now version] by metis
  have "\<exists>n. map_of up n \<noteq> None \<and> gm2_get (m_notifierMap m1) rt n = Some nf"
    using nf assms(5) by (intro exI [of _ n]) simp
  with m2(3) have woken: "map_of (m_notifiers m2) nf = Some \<lparr>nt_ch = True, nt_err = None\<rparr>" by (simp only: if_True)
  have "abs_cache m2 rt n = Some r" using m2(2) assms(5) by (simp add: spec_update_def)
  with woken have "fst (get_notified now' rt n nf m2) = GetOk (Some r)"
    using getFromCache_result [of now' rt n m2] by (auto simp: get_notified_def split: prod.split)
  with m2(1) woken notifiers_okD [OF inv1 nf] show ?thesis by simp
qed

theorem get_woken_by_update_witness:
  "\<exists>nf m1 c1 m2. get_register ClusterType ''c1'' (new_manager example_opts) (newXdsClient example_config) = Returns (nf, m1, c1) \<and>
     UpdateResource 5 ClusterType [(''c1'', ResCluster None)] ''v1'' m1 = Returns m2 \<and>
     fst (get_notified 6 ClusterType ''c1'' nf m2) = GetOk (Some (ResCluster None))"
proof -
  let ?g = "get_register ClusterType ''c1'' (new_manager example_opts) (newXdsClient example_config)"
  have "Watch ClusterType ''c1'' False (newXdsClient example_config) \<noteq> Blocks"
    by (simp add: Watch_Blocks_iff newXdsClient_def reqCh_cap_def)
  with Watch_not_Panics obtain c where "Watch ClusterType ''c1'' False (newXdsClient example_config) = Returns c"
    by (cases "Watch ClusterType ''c1'' False (newXdsClient example_config)") auto
  then obtain nf m1 c1 where g: "?g = Returns (nf, m1, c1)"
    by (auto simp: get_register_def new_manager_def gm2_get_def gm_sub_def Let_def)
  have "\<forall>(n, r) \<in> set [(''c1'', ResCluster None)]. resource_has_type ClusterType r" by simp
  from get_woken_by_update [OF manager_inv_new _ this g, of "ResCluster None" 5 "''v1''" 6] g
  show ?thesis by auto
qed

text \<open>\<open>Get\<close> of an unknown resource type fails and changes nothing. Of a cached resource it
  returns it, without a request, and records the access. Otherwise it joins the notifier of this
  resource, without a request if another \<open>Get\<close> already waits for it, and with exactly one
  subscription if none does.\<close>

theorem get_phases:
  "(case get_lookup now rt n m of
      (Some (GetErr e), m') \<Rightarrow> map_of ResourceTypeToURL rt = None \<and> m' = m
    | (Some (GetOk res), m') \<Rightarrow> map_of ResourceTypeToURL rt \<noteq> None \<and> res = abs_cache m rt n \<and> res \<noteq> None \<and>
        abs_cache m' = abs_cache m \<and>
        gm2_get (m_meta m') rt n = map_option (\<lambda>mt. mt\<lparr>rm_LastAccessTime := Some now\<rparr>) (gm2_get (m_meta m) rt n)
    | (None, m') \<Rightarrow> map_of ResourceTypeToURL rt \<noteq> None \<and> abs_cache m rt n = None) \<and>
   (case get_register rt n m c of
      Returns (nf, m', c') \<Rightarrow> gm2_get (m_notifierMap m') rt n = Some nf \<and>
        (case gm2_get (m_notifierMap m) rt n of
           Some p \<Rightarrow> nf = p \<and> c' = c
         | None \<Rightarrow> Watch rt n False c = Returns c' \<and> n \<in> watched c' rt \<and>
             xc_reqCh c' = xc_reqCh c @ [current_request c' rt])
    | Blocks \<Rightarrow> gm2_get (m_notifierMap m) rt n = None \<and> 1024 \<le> length (xc_reqCh c)
    | Panics p \<Rightarrow> False)"
proof
  show "case get_lookup now rt n m of
      (Some (GetErr e), m') \<Rightarrow> map_of ResourceTypeToURL rt = None \<and> m' = m
    | (Some (GetOk res), m') \<Rightarrow> map_of ResourceTypeToURL rt \<noteq> None \<and> res = abs_cache m rt n \<and> res \<noteq> None \<and>
        abs_cache m' = abs_cache m \<and>
        gm2_get (m_meta m') rt n = map_option (\<lambda>mt. mt\<lparr>rm_LastAccessTime := Some now\<rparr>) (gm2_get (m_meta m) rt n)
    | (None, m') \<Rightarrow> map_of ResourceTypeToURL rt \<noteq> None \<and> abs_cache m rt n = None"
  proof -
    obtain res m' where g: "getFromCache now rt n m = (res, m')" by (cases "getFromCache now rt n m")
    have "res = abs_cache m rt n" "abs_cache m' = abs_cache m"
      "gm2_get (m_meta m') rt n = map_option (\<lambda>mt. mt\<lparr>rm_LastAccessTime := Some now\<rparr>) (gm2_get (m_meta m) rt n)"
      using getFromCache_result [of now rt n m] getFromCache_frame(1) [of now rt n m]
        getFromCache_meta [of now rt n m rt n]
      by (simp_all add: g abs_cache_def fun_eq_iff)
    then show ?thesis by (cases "abs_cache m rt n") (simp_all add: get_lookup_def g)
  qed
next
  show "case get_register rt n m c of
      Returns (nf, m', c') \<Rightarrow> gm2_get (m_notifierMap m') rt n = Some nf \<and>
        (case gm2_get (m_notifierMap m) rt n of
           Some p \<Rightarrow> nf = p \<and> c' = c
         | None \<Rightarrow> Watch rt n False c = Returns c' \<and> n \<in> watched c' rt \<and>
             xc_reqCh c' = xc_reqCh c @ [current_request c' rt])
    | Blocks \<Rightarrow> gm2_get (m_notifierMap m) rt n = None \<and> 1024 \<le> length (xc_reqCh c)
    | Panics p \<Rightarrow> False"
  proof (cases "get_register rt n m c")
    case (Returns x)
    then obtain nf m' c' where x: "x = (nf, m', c')" by (cases x)
    note r = get_register_Returns [OF Returns [unfolded x]]
    from r(2,4) show ?thesis
      using Returns x Watch_watched [of rt n False c c'] Watch_Returns(2) [of rt n False c c']
      by (auto split: option.splits)
  next
    case Blocks
    then have "gm2_get (m_notifierMap m) rt n = None \<and> Watch rt n False c = Blocks"
      by (auto simp: get_register_def Let_def gm2_get_def gm_sub_def run_bind_Blocks_iff split: option.splits)
    with Blocks show ?thesis by (simp add: Watch_Blocks_iff reqCh_cap_def)
  next
    case (Panics p)
    then show ?thesis using get_register_not_Panics by blast
  qed
qed

text \<open>C21: one tick of the cleaner. Exactly the entries whose last access is more than the expiry
  time ago, the reserved listener excepted, leave the metadata, the cache and the subscriptions; an
  entry that was never accessed stays. One request is queued for each, and the tick cannot get stuck
  while the request queue has room for them.\<close>

theorem cleaner_tick_spec:
  assumes "manager_inv m" and "client_inv c"
    and "length (xc_reqCh c) + expired_count now (m_meta m) \<le> 1024"
  shows "\<exists>m' c'. cleaner_tick now m c = Returns (m', c') \<and> manager_inv m' \<and> client_inv c' \<and>
    (\<forall>rt n. gm2_get (m_meta m') rt n =
       (case gm2_get (m_meta m) rt n of
          Some mt \<Rightarrow> if expired now rt n mt then None else Some mt
        | None \<Rightarrow> None)) \<and>
    (\<forall>rt n. abs_cache m' rt n =
       (case gm2_get (m_meta m) rt n of
          Some mt \<Rightarrow> if expired now rt n mt then None else abs_cache m rt n
        | None \<Rightarrow> abs_cache m rt n)) \<and>
    (\<forall>rt. watched c' rt =
       watched c rt - {n. \<exists>mt t. gm2_get (m_meta m) rt n = Some mt \<and> rm_LastAccessTime mt = Some t \<and>
         now - t > defaultCacheExpireTime \<and> \<not> (rt = ListenerType \<and> n = ReservedLdsResourceName)}) \<and>
    length (xc_reqCh c') = length (xc_reqCh c) + expired_count now (m_meta m)"
proof -
  have "cleaner_tick now m c \<noteq> Blocks"
    unfolding cleaner_tick_def using assms(3) by (intro clean_types_total(2)) (simp add: reqCh_cap_def)
  moreover have "cleaner_tick now m c \<noteq> Panics p" for p
    unfolding cleaner_tick_def by (rule clean_types_total(1))
  ultimately obtain m' c' where run: "cleaner_tick now m c = Returns (m', c')"
    by (cases "cleaner_tick now m c") auto
  have ex: "{n. \<exists>mt. gm2_get (m_meta m) rt n = Some mt \<and> expired now rt n mt} =
      {n. \<exists>mt t. gm2_get (m_meta m) rt n = Some mt \<and> rm_LastAccessTime mt = Some t \<and>
         now - t > defaultCacheExpireTime \<and> \<not> (rt = ListenerType \<and> n = ReservedLdsResourceName)}" for rt
    by (auto simp: expired_def isReservedResource_def split: option.splits)
  from cleaner_tick_Returns [OF assms(1) run] assms(1,2) run show ?thesis
    by (intro exI [of _ m'] exI [of _ c']) (simp add: cleaned_def ex split: option.split)
qed

text \<open>C33: a timed-out \<open>Get\<close> removes the notifier it shares with every other \<open>Get\<close> of the same
  resource. An update that brings the resource afterwards closes no channel for them: a \<open>Get\<close> that
  still waits is not woken and runs into its own timeout although the resource is cached.\<close>

theorem timeout_orphans_waiters:
  assumes "manager_inv m" and "gm_wf up" and "\<forall>(n, r) \<in> set up. resource_has_type rt r"
    and "gm2_get (m_notifierMap m) rt n = Some nf" and "map_of up n = Some r"
  shows "\<exists>m2. UpdateResource now rt up version (snd (get_timeout rt n m)) = Returns m2 \<and>
    abs_cache m2 rt n = Some r \<and> map_option nt_ch (map_of (m_notifiers m2) nf) = Some False"
proof -
  let ?m1 = "snd (get_timeout rt n m)"
  have nm: "gm2_get (m_notifierMap ?m1) rt n' \<noteq> Some nf" for n'
    using notifiers_inj [OF assms(1,4), of rt n'] by (auto simp: get_timeout_def)
  have nts: "map_of (m_notifiers ?m1) nf = Some \<lparr>nt_ch = False, nt_err = None\<rparr>"
    using notifiers_okD [OF assms(1,4)] by (simp add: get_timeout_def)
  obtain m2 where "UpdateResource now rt up version ?m1 = Returns m2"
    "abs_cache m2 = spec_update rt up (abs_cache ?m1)"
    "map_of (m_notifiers m2) nf =
       (if \<exists>n. map_of up n \<noteq> None \<and> gm2_get (m_notifierMap ?m1) rt n = Some nf
        then Some \<lparr>nt_ch = True, nt_err = None\<rparr> else map_of (m_notifiers ?m1) nf)"
    using UpdateResource_Returns [OF get_timeout_inv [OF assms(1)] assms(2,3)] by metis
  then show ?thesis using nm nts assms(5) by (simp add: spec_update_def)
qed

text \<open>Closing the manager closes the client and its own channel; a second \<open>Close\<close> panics.\<close>

theorem manager_Close_once:
  "manager_Close m c =
     (if m_closeCh m then Panics ''close of closed channel''
      else Returns (m\<lparr>m_closeCh := True\<rparr>, c\<lparr>xc_closeCh := True\<rparr>))"
  by (simp add: manager_Close_def client_close_def chan_close_def)

theorem cleaner_tick_spec_witness:
  "\<exists>m' c'. cleaner_tick (2 * defaultCacheExpireTime)
     (new_manager example_opts\<lparr>m_meta := [(ClusterType, [(''c1'', \<lparr>rm_Version = ''v'', rm_UpdateTime = 0, rm_LastAccessTime = Some 0\<rparr>)])]\<rparr>)
     (newXdsClient example_config) = Returns (m', c') \<and> gm2_get (m_meta m') ClusterType ''c1'' = None \<and>
     length (xc_reqCh c') = 1"
proof -
  let ?ms = "[(ClusterType, [(''c1'', \<lparr>rm_Version = ''v'', rm_UpdateTime = 0, rm_LastAccessTime = Some 0\<rparr>)])]"
  let ?m = "new_manager example_opts\<lparr>m_meta := ?ms\<rparr>"
  have q: "xc_reqCh (newXdsClient example_config) = []" by (simp add: newXdsClient_def)
  have "manager_inv ?m" by (rule manager_inv_meta [OF manager_inv_new]) (simp add: gm2_wf_def)
  moreover have n: "expired_count (2 * defaultCacheExpireTime) ?ms = 1"
    by (simp add: expired_count_def expired_def isReservedResource_def defaultCacheExpireTime_def)
  ultimately have "\<exists>m' c'. cleaner_tick (2 * defaultCacheExpireTime) ?m (newXdsClient example_config) = Returns (m', c') \<and>
      gm2_get (m_meta m') ClusterType ''c1'' = (case gm2_get ?ms ClusterType ''c1'' of
          Some mt \<Rightarrow> if expired (2 * defaultCacheExpireTime) ClusterType ''c1'' mt then None else Some mt
        | None \<Rightarrow> None) \<and> length (xc_reqCh c') = 1"
    using cleaner_tick_spec [of ?m "newXdsClient example_config" "2 * defaultCacheExpireTime"]
    by (force simp: client_inv_new q)
  moreover have "gm2_get ?ms ClusterType ''c1'' = Some \<lparr>rm_Version = ''v'', rm_UpdateTime = 0, rm_LastAccessTime = Some 0\<rparr>"
    by (simp add: gm2_get_def gm_sub_def)
  ultimately show ?thesis
    by (simp add: expired_def isReservedResource_def defaultCacheExpireTime_def)
qed

theorem timeout_orphans_waiters_witness:
  "\<exists>m m2. gm2_get (m_notifierMap m) ClusterType ''c1'' = Some 0 \<and>
     UpdateResource 5 ClusterType [(''c1'', ResCluster None)] ''v1'' (snd (get_timeout ClusterType ''c1'' m)) = Returns m2 \<and>
     abs_cache m2 ClusterType ''c1'' = Some (ResCluster None) \<and> map_option nt_ch (map_of (m_notifiers m2) 0) = Some False"
proof -
  let ?m = "new_manager example_opts\<lparr>m_notifierMap := [(ClusterType, [(''c1'', 0)])],
      m_notifiers := [(0, \<lparr>nt_ch = False, nt_err = None\<rparr>)], m_nextNotifier := 1\<rparr>"
  have inv: "manager_inv ?m"
    by (auto simp: manager_inv_defs new_manager_def gm2_get_def gm_sub_def gm2_wf_def split: if_splits option.splits)
  have nf: "gm2_get (m_notifierMap ?m) ClusterType ''c1'' = Some 0" by (simp add: gm2_get_def gm_sub_def)
  have "\<forall>(n, r) \<in> set [(''c1'', ResCluster None)]. resource_has_type ClusterType r" by simp
  from timeout_orphans_waiters [OF inv _ this nf, of "ResCluster None" 5 "''v1''"]
  obtain m2 where "UpdateResource 5 ClusterType [(''c1'', ResCluster None)] ''v1'' (snd (get_timeout ClusterType ''c1'' ?m)) = Returns m2 \<and>
      abs_cache m2 ClusterType ''c1'' = Some (ResCluster None) \<and> map_option nt_ch (map_of (m_notifiers m2) 0) = Some False"
    by auto
  with nf show ?thesis by (intro exI [of _ ?m] exI [of _ m2] conjI) simp_all
qed

end
