(* ===== verification/Unmarshal.thy ===== *)
theory Unmarshal
  imports XdsResource
begin

text \<open>
  The loop that \<open>UnmarshalLDS\<close>, \<open>UnmarshalRDS\<close>, \<open>UnmarshalCDS\<close> and \<open>UnmarshalEDS\<close> share: every
  raw resource is decoded on its own; its outcome goes to the result map, the error list or the
  error map; a response with any error is reported as a whole, beside the partial result.
  The locale \<open>resource_decoder\<close> is the contract of one decoding step.
\<close>

text \<open>
  What one iteration does: \<open>ParseErr\<close> appends to the error list, \<open>NamedErr\<close> stores in the error
  map, \<open>Parsed\<close> stores the resource, \<open>PartlyParsed\<close> stores both the resource and an error.
\<close>

datatype 'r parsed =
    ParseErr string
  | NamedErr string string
  | Parsed string 'r
  | PartlyParsed string 'r string

record 'r unmarshal_acc =
  ua_ret :: "(string, 'r) gomap"
  ua_errMap :: "(string, string) gomap"
  ua_errSlice :: "string list"

definition empty_acc :: "'r unmarshal_acc" where
  "empty_acc = \<lparr>ua_ret = [], ua_errMap = [], ua_errSlice = []\<rparr>"

fun acc_step :: "'r parsed \<Rightarrow> 'r unmarshal_acc \<Rightarrow> 'r unmarshal_acc" where
  "acc_step (ParseErr e) a = a\<lparr>ua_errSlice := ua_errSlice a @ [e]\<rparr>"
| "acc_step (NamedErr n e) a = a\<lparr>ua_errMap := gm_put n e (ua_errMap a)\<rparr>"
| "acc_step (Parsed n r) a = a\<lparr>ua_ret := gm_put n r (ua_ret a)\<rparr>"
| "acc_step (PartlyParsed n r e) a =
     a\<lparr>ua_ret := gm_put n r (ua_ret a), ua_errMap := gm_put n e (ua_errMap a)\<rparr>"

fun unmarshal_loop :: "(PbAny \<Rightarrow> 'r parsed) \<Rightarrow> PbAny list \<Rightarrow> 'r unmarshal_acc \<Rightarrow> 'r unmarshal_acc" where
  "unmarshal_loop one [] a = a"
| "unmarshal_loop one (r # rs) a = unmarshal_loop one rs (acc_step (one r) a)"

definition unmarshal_result :: "'r unmarshal_acc \<Rightarrow> (string, 'r) gomap \<times> string option" where
  "unmarshal_result a =
     (ua_ret a,
      if ua_errMap a = [] \<and> ua_errSlice a = [] then None
      else Some (processUnmarshalErrors (ua_errSlice a) (ua_errMap a)))"

definition unmarshal_all :: "(PbAny \<Rightarrow> 'r parsed) \<Rightarrow> PbAny list \<Rightarrow> (string, 'r) gomap \<times> string option" where
  "unmarshal_all one raws = unmarshal_result (unmarshal_loop one raws empty_acc)"

fun is_Parsed :: "'r parsed \<Rightarrow> bool" where
  "is_Parsed (Parsed _ _) = True"
| "is_Parsed _ = False"

text \<open>The name and resource an outcome stores in the result map.\<close>

fun stored :: "'r parsed \<Rightarrow> (string \<times> 'r) list" where
  "stored (Parsed n r) = [(n, r)]"
| "stored (PartlyParsed n r e) = [(n, r)]"
| "stored _ = []"

lemma gm_put_neq_Nil [simp]: "gm_put k v m \<noteq> []"
  by (cases m) auto

lemma acc_step_errs:
  "ua_errMap (acc_step p a) = [] \<and> ua_errSlice (acc_step p a) = [] \<longleftrightarrow>
     is_Parsed p \<and> ua_errMap a = [] \<and> ua_errSlice a = []"
  by (cases p) auto

lemma unmarshal_loop_errs:
  "ua_errMap (unmarshal_loop one raws a) = [] \<and> ua_errSlice (unmarshal_loop one raws a) = [] \<longleftrightarrow>
     list_all (\<lambda>r. is_Parsed (one r)) raws \<and> ua_errMap a = [] \<and> ua_errSlice a = []"
proof (induction raws arbitrary: a)
  case (Cons r raws)
  then show ?case using acc_step_errs [of "one r" a] by auto
qed simp

lemma map_of_acc_step:
  "map_of (ua_ret (acc_step p a)) k = map_of (stored p @ ua_ret a) k"
  by (cases p) auto

lemma unmarshal_loop_ret:
  "map_of (ua_ret (unmarshal_loop one raws a)) k =
     map_of (rev (concat (map (stored \<circ> one) raws)) @ ua_ret a) k"
proof (induction raws arbitrary: a)
  case (Cons r raws)
  have "length (stored (one r)) \<le> 1" by (cases "one r") auto
  then have "rev (stored (one r)) = stored (one r)" by (cases "stored (one r)") auto
  with Cons show ?case
    by (simp add: map_of_acc_step map_add_def [abs_def] map_of_append [symmetric] split: option.splits)
qed simp

lemma gm_wf_unmarshal_loop: "gm_wf (ua_ret a) \<Longrightarrow> gm_wf (ua_ret (unmarshal_loop one raws a))"
proof (induction raws arbitrary: a)
  case (Cons r raws)
  have "gm_wf (ua_ret (acc_step (one r) a))"
    using Cons.prems by (cases "one r") (auto simp: distinct_update)
  then show ?case by (simp add: Cons.IH)
qed simp

subsection \<open>The contract of a decoding step\<close>

locale resource_decoder =
  fixes url :: string
    and one :: "lib \<Rightarrow> PbAny \<Rightarrow> 'r parsed"
  assumes wrong_url: "any_TypeUrl r \<noteq> url \<Longrightarrow> \<exists>e. one L r = ParseErr e"
begin

lemma no_error_iff:
  "snd (unmarshal_all (one L) raws) = None \<longleftrightarrow> list_all (\<lambda>r. is_Parsed (one L r)) raws"
  using unmarshal_loop_errs [of "one L" raws empty_acc]
  by (auto simp: unmarshal_all_def unmarshal_result_def empty_acc_def)

lemma error_not_empty: "snd (unmarshal_all (one L) raws) \<noteq> Some ''''"
  by (auto simp: unmarshal_all_def unmarshal_result_def)

lemma no_error_urls:
  assumes "snd (unmarshal_all (one L) raws) = None" and "r \<in> set raws"
  shows "any_TypeUrl r = url"
proof (rule ccontr)
  assume "any_TypeUrl r \<noteq> url"
  then obtain e where "one L r = ParseErr e" using wrong_url by blast
  moreover have "is_Parsed (one L r)"
    using assms by (simp add: no_error_iff list_all_iff)
  ultimately show False by simp
qed

lemma ret_lookup:
  "map_of (fst (unmarshal_all (one L) raws)) n =
     map_of (rev (concat (map (stored \<circ> one L) raws))) n"
  by (simp add: unmarshal_all_def unmarshal_result_def unmarshal_loop_ret empty_acc_def)

lemma ret_wf: "gm_wf (fst (unmarshal_all (one L) raws))"
  by (simp add: unmarshal_all_def unmarshal_result_def empty_acc_def gm_wf_unmarshal_loop)

lemma ret_SomeD:
  assumes "map_of (fst (unmarshal_all (one L) raws)) n = Some x"
  shows "\<exists>r \<in> set raws. (n, x) \<in> set (stored (one L r))"
  using assms by (auto simp: ret_lookup dest!: map_of_SomeD)

text \<open>A response that decodes completely gives, under each name, its last resource of that name.\<close>

lemma lookup_last:
  assumes "\<And>r. r \<in> set raws \<Longrightarrow> one L r = Parsed (nm r) (val r)"
  shows "map_of (fst (unmarshal_all (one L) raws)) n = map_option val (find (\<lambda>r. nm r = n) (rev raws))"
proof -
  have "map_of (concat (map (rev \<circ> stored \<circ> one L) rs)) n = map_option val (find (\<lambda>r. nm r = n) rs)"
    if "set rs \<subseteq> set raws" for rs
    using that assms by (induction rs) auto
  from this [of "rev raws"] show ?thesis by (simp add: ret_lookup rev_concat rev_map comp_assoc)
qed

end

end
