(* ===== verification/RouteMatching.thy ===== *)
theory RouteMatching
  imports XdsResource
begin

text \<open>
  \<open>core/xdsresource/matcher.go\<close> and the two implementations of the Go interface \<open>RouteMatch\<close>
  (\<open>rds.go\<close>): matchers on one string, matcher sets on the request metadata, their construction
  from header matchers, and path matching. The interface is the locale \<open>route_match\<close>.
\<close>

subsection \<open>Matchers\<close>

fun Matcher_Match :: "lib \<Rightarrow> Matcher \<Rightarrow> string \<Rightarrow> bool" where
  "Matcher_Match L (PrefixMatcher pm) other = prefix pm other"
| "Matcher_Match L (ExactMatcher em) other = (em = other)"
| "Matcher_Match L (RegexMatcher re) other = RegexpMatchString L re other"

fun Matchers_Match :: "lib \<Rightarrow> Matchers \<Rightarrow> (string, string) gomap \<Rightarrow> bool" where
  "Matchers_Match L [] other = True"
| "Matchers_Match L ((key, m) # ms) other =
     (case map_of other key of
        None \<Rightarrow> False
      | Some val \<Rightarrow> if \<not> Matcher_Match L m val then False else Matchers_Match L ms other)"

text \<open>One header of \<open>BuildMatchers\<close>; a header the switch does not know adds nothing.\<close>

definition build_matcher :: "lib \<Rightarrow> PbHeaderMatcher \<Rightarrow> Matchers \<Rightarrow> Matchers" where
  "build_matcher L header ms =
     (case hm_Specifier header of
        HM_StringMatch (SM_Exact e) \<Rightarrow>
          if e \<noteq> '''' then gm_put (hm_Name header) (ExactMatcher e) ms else ms
      | HM_StringMatch (SM_Prefix p) \<Rightarrow>
          if p \<noteq> '''' then gm_put (hm_Name header) (PrefixMatcher p) ms else ms
      | HM_StringMatch (SM_SafeRegex (Some re)) \<Rightarrow>
          if re \<noteq> '''' then
            (case RegexpCompile L re of
               Some err \<Rightarrow> ms
             | None \<Rightarrow> gm_put (hm_Name header) (RegexMatcher re) ms)
          else ms
      | _ \<Rightarrow> ms)"

fun build_matchers_loop :: "lib \<Rightarrow> PbHeaderMatcher list \<Rightarrow> Matchers \<Rightarrow> Matchers" where
  "build_matchers_loop L [] ms = ms"
| "build_matchers_loop L (h # hs) ms = build_matchers_loop L hs (build_matcher L h ms)"

definition BuildMatchers :: "lib \<Rightarrow> PbHeaderMatcher list \<Rightarrow> Matchers" where
  "BuildMatchers L headers = build_matchers_loop L headers []"

subsection \<open>RouteMatch\<close>

definition HTTP_MatchPath :: "HTTPRouteMatch \<Rightarrow> string \<Rightarrow> bool" where
  "HTTP_MatchPath rm path = (if hrm_Path rm \<noteq> '''' then hrm_Path rm = path else hrm_Prefix rm = ''/'')"

definition HTTP_MatchMeta :: "lib \<Rightarrow> HTTPRouteMatch \<Rightarrow> (string, string) gomap \<Rightarrow> bool" where
  "HTTP_MatchMeta L rm md = Matchers_Match L (hrm_Headers rm) md"

definition Thrift_MatchPath :: "ThriftRouteMatch \<Rightarrow> string \<Rightarrow> bool" where
  "Thrift_MatchPath tm path = (if trm_Method tm \<noteq> '''' \<and> trm_Method tm \<noteq> path then False else True)"

definition Thrift_MatchMeta :: "lib \<Rightarrow> ThriftRouteMatch \<Rightarrow> (string, string) gomap \<Rightarrow> bool" where
  "Thrift_MatchMeta L tm md = Matchers_Match L (trm_Tags tm) md"

text \<open>Dispatch on the dynamic type of the interface value.\<close>

fun MatchPath :: "RouteMatch \<Rightarrow> string \<Rightarrow> bool" where
  "MatchPath (HTTPMatch rm) path = HTTP_MatchPath rm path"
| "MatchPath (ThriftMatch tm) path = Thrift_MatchPath tm path"

fun MatchMeta :: "lib \<Rightarrow> RouteMatch \<Rightarrow> (string, string) gomap \<Rightarrow> bool" where
  "MatchMeta L (HTTPMatch rm) md = HTTP_MatchMeta L rm md"
| "MatchMeta L (ThriftMatch tm) md = Thrift_MatchMeta L tm md"

subsection \<open>Matching against metadata\<close>

text \<open>
  The reference meaning of a matcher set: every header named by a matcher is present and its
  value matches. It does not mention the iteration order.
\<close>

lemma Matchers_Match_iff:
  "gm_wf ms \<Longrightarrow>
     Matchers_Match L ms md \<longleftrightarrow>
       (\<forall>key m. map_of ms key = Some m \<longrightarrow> (\<exists>v. map_of md key = Some v \<and> Matcher_Match L m v))"
proof (induction ms)
  case (Cons km ms)
  obtain key m where km: "km = (key, m)" by (cases km)
  with Cons have IH: "Matchers_Match L ms md \<longleftrightarrow>
      (\<forall>key m. map_of ms key = Some m \<longrightarrow> (\<exists>v. map_of md key = Some v \<and> Matcher_Match L m v))"
    and nk: "map_of ms key = None"
    by (auto simp: map_of_eq_None_iff)
  then show ?case using km by (auto split: option.splits if_splits)
qed simp

lemma Matchers_Match_mono:
  "Matchers_Match L ms md \<Longrightarrow> map_of md \<subseteq>\<^sub>m map_of md' \<Longrightarrow> Matchers_Match L ms md'"
proof (induction ms)
  case (Cons km ms)
  obtain key m where km: "km = (key, m)" by (cases km)
  with Cons.prems(1) obtain v where v: "map_of md key = Some v" "Matcher_Match L m v" "Matchers_Match L ms md"
    by (auto split: option.splits if_splits)
  then have "map_of md' key = Some v" using Cons.prems(2) by (blast intro: map_le_SomeD)
  with v km Cons.IH Cons.prems(2) show ?case by simp
qed simp

lemma gm_wf_build_matcher: "gm_wf ms \<Longrightarrow> gm_wf (build_matcher L h ms)"
  by (auto simp: build_matcher_def distinct_update
      split: HeaderMatchSpecifier.split StringMatchPattern.split option.split)

lemma gm_wf_build_loop: "gm_wf ms \<Longrightarrow> gm_wf (build_matchers_loop L hs ms)"
  by (induction hs arbitrary: ms) (auto intro: gm_wf_build_matcher)

lemma gm_wf_BuildMatchers: "gm_wf (BuildMatchers L hs)"
  by (simp add: BuildMatchers_def gm_wf_build_loop)

subsection \<open>The interface\<close>

locale route_match =
  fixes match_path :: "'m \<Rightarrow> string \<Rightarrow> bool"
    and match_meta :: "'m \<Rightarrow> (string, string) gomap \<Rightarrow> bool"
  assumes meta_mono: "match_meta m md \<Longrightarrow> map_of md \<subseteq>\<^sub>m map_of md' \<Longrightarrow> match_meta m md'"
begin

definition matched :: "string \<Rightarrow> (string, string) gomap \<Rightarrow> 'm \<Rightarrow> bool" where
  "matched path md m \<longleftrightarrow> match_path m path \<and> match_meta m md"

lemma matched_mono: "matched path md m \<Longrightarrow> map_of md \<subseteq>\<^sub>m map_of md' \<Longrightarrow> matched path md' m"
  by (auto simp: matched_def intro: meta_mono)

text \<open>More metadata never loses a match: the first matching entry can only move forward.\<close>

lemma first_matched_mono:
  assumes "find (matched path md) ms = Some m" and "map_of md \<subseteq>\<^sub>m map_of md'"
  shows "\<exists>i j. i \<le> j \<and> j < length ms \<and> ms ! j = m \<and> find (matched path md') ms = Some (ms ! i)"
proof -
  from assms(1) obtain j where j: "j < length ms" "matched path md (ms ! j)" "ms ! j = m"
    by (auto simp: find_Some_iff)
  then have "matched path md' (ms ! j)" using assms(2) matched_mono by blast
  with j(1) have "find (matched path md') ms \<noteq> None"
    by (auto simp: find_None_iff intro!: exI [of _ "ms ! j"])
  then obtain x where "find (matched path md') ms = Some x" by blast
  then obtain i where i: "i < length ms" "ms ! i = x" "\<forall>k<i. \<not> matched path md' (ms ! k)"
    "find (matched path md') ms = Some (ms ! i)"
    by (auto simp: find_Some_iff)
  with \<open>matched path md' (ms ! j)\<close> have "i \<le> j" by (meson not_le_imp_less)
  with i j show ?thesis by blast
qed

end

interpretation http_match: route_match HTTP_MatchPath "HTTP_MatchMeta L" for L
  by unfold_locales (auto simp: HTTP_MatchMeta_def intro: Matchers_Match_mono)

interpretation thrift_match: route_match Thrift_MatchPath "Thrift_MatchMeta L" for L
  by unfold_locales (auto simp: Thrift_MatchMeta_def intro: Matchers_Match_mono)

interpretation any_match: route_match MatchPath "MatchMeta L" for L
proof unfold_locales
  fix m md md'
  assume "MatchMeta L m md" and "map_of md \<subseteq>\<^sub>m map_of md'"
  then show "MatchMeta L m md'"
    by (cases m) (auto intro: http_match.meta_mono thrift_match.meta_mono)
qed

subsection \<open>Header matchers\<close>

text \<open>
  The reference: what the matcher of one configured header is, if it has one. Matchers of an
  unsupported kind, with an empty pattern or with a pattern that does not compile have none.
\<close>

definition header_matcher :: "lib \<Rightarrow> PbHeaderMatcher \<Rightarrow> Matcher option" where
  "header_matcher L h =
     (case hm_Specifier h of
        HM_StringMatch (SM_Exact e) \<Rightarrow> if e = '''' then None else Some (ExactMatcher e)
      | HM_StringMatch (SM_Prefix p) \<Rightarrow> if p = '''' then None else Some (PrefixMatcher p)
      | HM_StringMatch (SM_SafeRegex (Some re)) \<Rightarrow>
          if re = '''' \<or> RegexpCompile L re \<noteq> None then None else Some (RegexMatcher re)
      | _ \<Rightarrow> None)"

lemma build_matcher_eq:
  "build_matcher L h ms = (case header_matcher L h of None \<Rightarrow> ms | Some m \<Rightarrow> gm_put (hm_Name h) m ms)"
  by (auto simp: build_matcher_def header_matcher_def split: HeaderMatchSpecifier.split StringMatchPattern.split option.split)

lemma build_matchers_loop_lookup:
  "map_of (build_matchers_loop L hs ms) n =
     (case find (\<lambda>h. hm_Name h = n \<and> header_matcher L h \<noteq> None) (rev hs) of
        Some h \<Rightarrow> header_matcher L h
      | None \<Rightarrow> map_of ms n)"
proof (induction hs arbitrary: ms rule: list.induct)
  case (Cons h hs)
  have find_snoc: "find P (xs @ [x]) = (case find P xs of Some y \<Rightarrow> Some y | None \<Rightarrow> if P x then Some x else None)"
    for P :: "PbHeaderMatcher \<Rightarrow> bool" and xs x by (induction xs) auto
  show ?case
    by (cases "header_matcher L h") (auto simp: Cons.IH build_matcher_eq find_snoc split: option.split)
qed simp

text \<open>C23: what a route's header matchers mean. The metadata of a request match exactly if, for every
  header name, the last configured matcher of that name that is supported and valid finds the header
  present with a matching value; a header whose matchers are all unsupported or invalid restricts
  nothing. The order in which the code visits them does not matter.\<close>

theorem headers_match_spec:
  "Matchers_Match L (BuildMatchers L hs) md \<longleftrightarrow>
     (\<forall>name h m. find (\<lambda>h. hm_Name h = name \<and> header_matcher L h \<noteq> None) (rev hs) = Some h \<longrightarrow>
        header_matcher L h = Some m \<longrightarrow> (\<exists>v. map_of md name = Some v \<and> Matcher_Match L m v))"
  unfolding Matchers_Match_iff [OF gm_wf_BuildMatchers]
  unfolding BuildMatchers_def build_matchers_loop_lookup
  by (auto split: option.split)

theorem headers_match_spec_witness:
  "\<not> Matchers_Match example_lib (BuildMatchers example_lib
     [\<lparr>hm_Name = ''k'', hm_Specifier = HM_StringMatch (SM_Exact ''v'')\<rparr>]) [(''k'', ''w'')]"
  using headers_match_spec [of example_lib "[\<lparr>hm_Name = ''k'', hm_Specifier = HM_StringMatch (SM_Exact ''v'')\<rparr>]" "[(''k'', ''w'')]"]
  by (simp add: header_matcher_def)

end
