(* ===== verification/Rds.thy ===== *)
theory Rds
  imports Unmarshal RouteMatching
begin

text \<open>
  \<open>core/xdsresource/rds.go\<close>: parsing of HTTP route configurations. \<open>unmarshalRoutes\<close> stops at
  the first route without a match or an action; retry policies take the error rate and the
  method list from two retriable headers.
\<close>

definition cBErrorRateKey :: string where
  "cBErrorRateKey = ''kitexRetryErrorRate''"

definition retryMethods :: string where
  "retryMethods = ''kitexRetryMethods''"

text \<open>The clusters of an action, as both the HTTP and the thrift parser build them.\<close>

definition parse_weighted_clusters :: "PbClusterSpecifier \<Rightarrow> WeightedCluster list" where
  "parse_weighted_clusters cs =
     (case cs of
        CS_Cluster c \<Rightarrow> [\<lparr>wc_Name = c, wc_Weight = 1\<rparr>]
      | CS_WeightedClusters wcs \<Rightarrow>
          map (\<lambda>wc. \<lparr>wc_Name = pbcw_Name wc, wc_Weight = u32_value (pbcw_Weight wc)\<rparr>) wcs
      | CS_Other \<Rightarrow> [])"

fun retriable_headers :: "lib \<Rightarrow> PbHeaderMatcher list \<Rightarrow> RetryPolicy \<Rightarrow> RetryPolicy" where
  "retriable_headers L [] rp = rp"
| "retriable_headers L (h # hs) rp =
     (case GetStringMatch (hm_Specifier h) of
        None \<Rightarrow> retriable_headers L hs rp
      | Some m \<Rightarrow>
          let value = GetExact m in
          if value = '''' then retriable_headers L hs rp
          else if hm_Name h = cBErrorRateKey then
            (case ParseFloat L value of
               Inl err \<Rightarrow> retriable_headers L hs rp
             | Inr errRate \<Rightarrow> retriable_headers L hs (rp\<lparr>rp_CBErrorRate := errRate\<rparr>))
          else if hm_Name h = retryMethods then
            retriable_headers L hs (rp\<lparr>rp_Methods := str_split (CHR '','') value\<rparr>)
          else retriable_headers L hs rp)"

definition parse_retry_policy :: "lib \<Rightarrow> PbRetryPolicy \<Rightarrow> RetryPolicy" where
  "parse_retry_policy L p =
     (let rp = \<lparr>rp_RetryOn = pbrp_RetryOn p,
                rp_NumRetries = int (unat (u32_value (pbrp_NumRetries p))),
                rp_PerTryTimeout = AsDuration L (pbrp_PerTryTimeout p),
                rp_PerTryIdleTimeout = AsDuration L (pbrp_PerTryIdleTimeout p),
                rp_CBErrorRate = Fin 0, rp_RetryBackOff = None, rp_Methods = []\<rparr>;
          rp = retriable_headers L (pbrp_RetriableHeaders p) rp
      in case pbrp_RetryBackOff p of
           None \<Rightarrow> rp
         | Some backoff \<Rightarrow>
             rp\<lparr>rp_RetryBackOff :=
                 Some \<lparr>rbo_BaseInterval = AsDuration L (pbrb_MaxInterval backoff),
                       rbo_MaxInterval = AsDuration L (pbrb_MaxInterval backoff)\<rparr>\<rparr>)"

definition parse_http_match :: "lib \<Rightarrow> PbRouteMatch \<Rightarrow> HTTPRouteMatch" where
  "parse_http_match L m =
     \<lparr>hrm_Path = (case pbrm_PathSpecifier m of PS_Path p \<Rightarrow> p | _ \<Rightarrow> ''''),
      hrm_Prefix = (case pbrm_PathSpecifier m of PS_Prefix p \<Rightarrow> p | _ \<Rightarrow> ''''),
      hrm_Headers = BuildMatchers L (pbrm_Headers m)\<rparr>"

definition parse_route_action :: "lib \<Rightarrow> PbRouteAction \<Rightarrow> Route \<Rightarrow> Route" where
  "parse_route_action L a route =
     (let route = route\<lparr>rt_WeightedClusters := parse_weighted_clusters (pbra_ClusterSpecifier a),
                        rt_Timeout := AsDuration L (pbra_Timeout a)\<rparr>
      in case pbra_RetryPolicy a of
           None \<Rightarrow> route
         | Some p \<Rightarrow> route\<lparr>rt_RetryPolicy := parse_retry_policy L p\<rparr>)"

definition unmarshalRoute :: "lib \<Rightarrow> PbRoute \<Rightarrow> string + Route" where
  "unmarshalRoute L r =
     (case pbr_Match r of
        None \<Rightarrow> Inl (''no match in route '' @ pbr_Name r)
      | Some m \<Rightarrow>
          (let route = zero_Route\<lparr>rt_Match := Some (HTTPMatch (parse_http_match L m))\<rparr>
           in case pbr_Action r of
                None \<Rightarrow> Inl (''no action in route '' @ pbr_Name r)
              | Some (Route_Route a) \<Rightarrow> Inr (parse_route_action L a route)
              | Some Route_Other \<Rightarrow> Inr route))"

fun unmarshalRoutes :: "lib \<Rightarrow> PbRoute list \<Rightarrow> string + Route list" where
  "unmarshalRoutes L [] = Inr []"
| "unmarshalRoutes L (r # rs) =
     (case unmarshalRoute L r of
        Inl e \<Rightarrow> Inl e
      | Inr route \<Rightarrow> (case unmarshalRoutes L rs of Inl e \<Rightarrow> Inl e | Inr routes \<Rightarrow> Inr (route # routes)))"

fun unmarshalVirtualHosts :: "lib \<Rightarrow> PbVirtualHost list \<Rightarrow> string + VirtualHost list" where
  "unmarshalVirtualHosts L [] = Inr []"
| "unmarshalVirtualHosts L (vh # vhs) =
     (case unmarshalRoutes L (pbvh_Routes vh) of
        Inl err \<Rightarrow> Inl (''processing route in virtual host '' @ pbvh_Name vh @ '' failed: '' @ err)
      | Inr routes \<Rightarrow>
          (case unmarshalVirtualHosts L vhs of
             Inl e \<Rightarrow> Inl e
           | Inr hosts \<Rightarrow> Inr (\<lparr>vh_Name = pbvh_Name vh, vh_Routes = routes\<rparr> # hosts)))"

definition unmarshalRouteConfig :: "lib \<Rightarrow> PbRouteConfiguration \<Rightarrow> string + RouteConfigResource" where
  "unmarshalRouteConfig L rc =
     (case unmarshalVirtualHosts L (pbrc_VirtualHosts rc) of
        Inl e \<Rightarrow> Inl e
      | Inr hosts \<Rightarrow>
          Inr \<lparr>rc_HTTPRouteConfig = Some hosts, rc_ThriftRouteConfig = None,
               rc_MaxTokens = 0, rc_TokensPerFill = 0\<rparr>)"

definition rds_one :: "lib \<Rightarrow> PbAny \<Rightarrow> Resource parsed" where
  "rds_one L r =
     (if any_TypeUrl r \<noteq> RouteTypeURL then
        ParseErr (''invalid route config resource type: '' @ any_TypeUrl r)
      else case Unmarshal_RouteConfiguration L (any_Value r) of
        Inl err \<Rightarrow> ParseErr (''unmarshal failed: '' @ err)
      | Inr rcfg \<Rightarrow>
          (case unmarshalRouteConfig L rcfg of
             Inl err \<Rightarrow> NamedErr (pbrc_Name rcfg) err
           | Inr res \<Rightarrow> Parsed (pbrc_Name rcfg) (ResRouteConfig (Some res))))"

definition UnmarshalRDS :: "lib \<Rightarrow> PbAny list \<Rightarrow> (string, Resource) gomap \<times> string option" where
  "UnmarshalRDS L rawResources = unmarshal_all (rds_one L) rawResources"

interpretation rds: resource_decoder RouteTypeURL rds_one
  by unfold_locales (simp add: rds_one_def)

subsection \<open>What a parsed route configuration looks like\<close>

lemma unmarshalRoutes_Inr:
  "unmarshalRoutes L rs = Inr routes \<Longrightarrow>
     length routes = length rs \<and> (\<forall>i < length rs. unmarshalRoute L (rs ! i) = Inr (routes ! i))"
proof (induction rs arbitrary: routes)
  case (Cons r rs)
  then obtain route rest where r: "unmarshalRoute L r = Inr route" "unmarshalRoutes L rs = Inr rest"
    "routes = route # rest"
    by (auto split: sum.splits)
  with Cons.IH [of rest] show ?case by (auto simp: nth_Cons split: nat.splits)
qed simp

lemma unmarshalRoutes_Inl_iff:
  "(\<exists>e. unmarshalRoutes L rs = Inl e) \<longleftrightarrow> (\<exists>r \<in> set rs. pbr_Match r = None \<or> pbr_Action r = None)"
proof (induction rs)
  case (Cons r rs)
  have "(\<exists>e. unmarshalRoute L r = Inl e) \<longleftrightarrow> pbr_Match r = None \<or> pbr_Action r = None"
    by (auto simp: unmarshalRoute_def Let_def split: option.splits PbAction.splits)
  with Cons show ?case by (auto split: sum.splits)
qed simp

lemma unmarshalRoute_match:
  "unmarshalRoute L r = Inr route \<Longrightarrow> \<exists>m. pbr_Match r = Some m \<and> rt_Match route = Some (HTTPMatch (parse_http_match L m))"
  by (auto simp: unmarshalRoute_def parse_route_action_def zero_Route_def Let_def
      split: option.splits PbAction.splits)

lemma retriable_headers_frame [simp]:
  "rp_NumRetries (retriable_headers L hs rp) = rp_NumRetries rp"
  "rp_PerTryTimeout (retriable_headers L hs rp) = rp_PerTryTimeout rp"
  "rp_RetryBackOff (retriable_headers L hs rp) = rp_RetryBackOff rp"
  by (induction L hs rp rule: retriable_headers.induct) (auto simp: Let_def split: option.splits sum.splits)

text \<open>
  Every backoff a retry policy is parsed to has equal intervals: \<open>BaseInterval\<close> is read from
  \<open>GetMaxInterval()\<close>.
\<close>

lemma parse_retry_policy_backoff:
  "rp_RetryBackOff (parse_retry_policy L p) = Some b \<Longrightarrow> rbo_BaseInterval b = rbo_MaxInterval b"
  by (auto simp: parse_retry_policy_def Let_def split: option.splits)

lemma parse_route_action_backoff:
  "rp_RetryBackOff (rt_RetryPolicy (parse_route_action L a route)) = Some b \<Longrightarrow>
     rp_RetryBackOff (rt_RetryPolicy route) = None \<Longrightarrow> rbo_BaseInterval b = rbo_MaxInterval b"
  by (auto simp: parse_route_action_def Let_def dest: parse_retry_policy_backoff split: option.splits)

lemma unmarshalRoute_backoff:
  assumes "unmarshalRoute L r = Inr route" and "rp_RetryBackOff (rt_RetryPolicy route) = Some b"
  shows "rbo_BaseInterval b = rbo_MaxInterval b"
  using assms
  by (auto simp: unmarshalRoute_def zero_Route_def zero_RetryPolicy_def Let_def
      dest!: parse_route_action_backoff split: option.splits PbAction.splits)

lemma unmarshalVirtualHosts_routes:
  assumes "unmarshalVirtualHosts L vhs = Inr hosts" and "h \<in> set hosts" and "route \<in> set (vh_Routes h)"
  shows "\<exists>vh \<in> set vhs. \<exists>r \<in> set (pbvh_Routes vh). unmarshalRoute L r = Inr route"
  using assms
proof (induction vhs arbitrary: hosts)
  case (Cons vh vhs)
  from Cons.prems(1) obtain routes rest where r: "unmarshalRoutes L (pbvh_Routes vh) = Inr routes"
    "unmarshalVirtualHosts L vhs = Inr rest" "hosts = \<lparr>vh_Name = pbvh_Name vh, vh_Routes = routes\<rparr> # rest"
    by (auto split: sum.splits)
  show ?case
  proof (cases "h \<in> set rest")
    case True
    with Cons.IH [OF r(2)] Cons.prems(3) show ?thesis by auto
  next
    case False
    with Cons.prems(2,3) r(3) have "route \<in> set routes" by auto
    then obtain i where "i < length routes" "routes ! i = route" by (auto simp: in_set_conv_nth)
    with unmarshalRoutes_Inr [OF r(1)] have "\<exists>q \<in> set (pbvh_Routes vh). unmarshalRoute L q = Inr route"
      by (auto intro: nth_mem)
    then show ?thesis by simp
  qed
qed simp

lemma rds_one_typed: "(n, x) \<in> set (stored (rds_one L r)) \<Longrightarrow> \<exists>res. x = ResRouteConfig (Some res)"
  by (auto simp: rds_one_def split: if_splits sum.splits)

end
