(* ===== verification/Lds.thy ===== *)
theory Lds
  imports Rds
begin

text \<open>
  \<open>core/xdsresource/lds.go\<close>: network filters of a listener, from its thrift proxies and HTTP
  connection managers, with the local rate limit of the first HTTP filter that has one.
\<close>

subsection \<open>Thrift proxy\<close>

definition parse_thrift_match :: "lib \<Rightarrow> TpRouteMatch \<Rightarrow> ThriftRouteMatch" where
  "parse_thrift_match L m =
     \<lparr>trm_Method = (case tprm_MatchSpecifier m of RouteMatch_MethodName n \<Rightarrow> n | _ \<Rightarrow> ''''),
      trm_ServiceName = (case tprm_MatchSpecifier m of RouteMatch_ServiceName n \<Rightarrow> n | _ \<Rightarrow> ''''),
      trm_Tags = BuildMatchers L (tprm_Headers m)\<rparr>"

fun thrift_routes :: "lib \<Rightarrow> string \<Rightarrow> TpRoute list \<Rightarrow> string + Route list" where
  "thrift_routes L name [] = Inr []"
| "thrift_routes L name (r # rs) =
     (case tpr_Match r of
        None \<Rightarrow> Inl (''no match in routeConfig:'' @ name)
      | Some m \<Rightarrow>
          (case tpr_Route r of
             None \<Rightarrow> Inl (''no action in routeConfig:'' @ name)
           | Some cs \<Rightarrow>
               (let route = zero_Route\<lparr>rt_Match := Some (ThriftMatch (parse_thrift_match L m)),
                                        rt_WeightedClusters := parse_weighted_clusters cs\<rparr>
                in case thrift_routes L name rs of Inl e \<Rightarrow> Inl e | Inr routes \<Rightarrow> Inr (route # routes))))"

definition unmarshalThriftProxy :: "lib \<Rightarrow> PbAny \<Rightarrow> string + RouteConfigResource" where
  "unmarshalThriftProxy L raw =
     (case Unmarshal_ThriftProxy L (any_Value raw) of
        Inl err \<Rightarrow> Inl (''unmarshal HttpConnectionManager failed: '' @ err)
      | Inr tp \<Rightarrow>
          (let (name, rs) = (case tp_RouteConfig tp of
                               None \<Rightarrow> ('''', [])
                             | Some rc \<Rightarrow> (tprc_Name rc, tprc_Routes rc))
           in case thrift_routes L name rs of
                Inl e \<Rightarrow> Inl e
              | Inr routes \<Rightarrow> Inr \<lparr>rc_HTTPRouteConfig = None, rc_ThriftRouteConfig = Some routes,
                                   rc_MaxTokens = 0, rc_TokensPerFill = 0\<rparr>))"

subsection \<open>HTTP connection manager\<close>

text \<open>
  The loop over the HTTP filters. The two \<open>continue\<close> branches go on with the next filter; every
  other path leaves the loop at the first filter, the last \<open>return 0, 0, nil\<close> of the loop body
  included.
\<close>

fun getLocalRateLimitFromHttpConnectionManager ::
  "lib \<Rightarrow> HttpFilterConfig list \<Rightarrow> string + (32 word \<times> 32 word)" where
  "getLocalRateLimitFromHttpConnectionManager L [] = Inr (0, 0)"
| "getLocalRateLimitFromHttpConnectionManager L (HttpFilter_Other # fs) = Inr (0, 0)"
| "getLocalRateLimitFromHttpConnectionManager L (HttpFilter_TypedConfig None # fs) =
     getLocalRateLimitFromHttpConnectionManager L fs"
| "getLocalRateLimitFromHttpConnectionManager L (HttpFilter_TypedConfig (Some cfg) # fs) =
     (if any_TypeUrl cfg = RateLimitTypeURL then
        (case Unmarshal_LocalRateLimit L (any_Value cfg) of
           Inl err \<Rightarrow> Inl (''unmarshal LocalRateLimit failed: '' @ err)
         | Inr lrl \<Rightarrow>
             (case lrl_TokenBucket lrl of
                Some tb \<Rightarrow> Inr (tb_MaxTokens tb, u32_value (tb_TokensPerFill tb))
              | None \<Rightarrow> Inr (0, 0)))
      else if any_TypeUrl cfg = TypedStructTypeURL then
        (case Unmarshal_TypedStruct L (any_Value cfg) of
           Inl err \<Rightarrow> Inl (''unmarshal TypedStruct failed: '' @ err)
         | Inr ts \<Rightarrow>
             (case map_of (ts_Value ts) ''token_bucket'' of
                None \<Rightarrow> getLocalRateLimitFromHttpConnectionManager L fs
              | Some tokenBucket \<Rightarrow>
                  (case map_of (GetStructFields tokenBucket) ''max_tokens'' of
                     None \<Rightarrow> getLocalRateLimitFromHttpConnectionManager L fs
                   | Some maxTokens \<Rightarrow>
                       (case map_of (GetStructFields tokenBucket) ''tokens_per_fill'' of
                          None \<Rightarrow> getLocalRateLimitFromHttpConnectionManager L fs
                        | Some tokensPerfill \<Rightarrow>
                            Inr (f64_to_u32 (F64OutOfRange L) (GetNumberValue maxTokens),
                                 f64_to_u32 (F64OutOfRange L) (GetNumberValue tokensPerfill))))))
      else Inr (0, 0))"

text \<open>The route config name and the inline route config, which is nil without a route specifier.\<close>

definition unmarshallHTTPConnectionManager ::
  "lib \<Rightarrow> PbAny \<Rightarrow> string + (string \<times> RouteConfigResource option)" where
  "unmarshallHTTPConnectionManager L raw =
     (case Unmarshal_HttpConnectionManager L (any_Value raw) of
        Inl err \<Rightarrow> Inl (''unmarshal HttpConnectionManager failed: '' @ err)
      | Inr hcm \<Rightarrow>
          (case getLocalRateLimitFromHttpConnectionManager L (hcm_HttpFilters hcm) of
             Inl err \<Rightarrow> Inl err
           | Inr (maxTokens, tokensPerfill) \<Rightarrow>
               (case hcm_RouteSpecifier hcm of
                  HCM_Rds None \<Rightarrow> Inl ''no Rds in the apiListener''
                | HCM_Rds (Some name) \<Rightarrow>
                    if name = '''' then Inl ''no route config Name''
                    else Inr (name, Some \<lparr>rc_HTTPRouteConfig = None, rc_ThriftRouteConfig = None,
                                          rc_MaxTokens = maxTokens, rc_TokensPerFill = tokensPerfill\<rparr>)
                | HCM_RouteConfig None \<Rightarrow> Inl ''no inline route config''
                | HCM_RouteConfig (Some rcfg) \<Rightarrow>
                    (case unmarshalRouteConfig L rcfg of
                       Inl err \<Rightarrow> Inl err
                     | Inr inline \<Rightarrow>
                         Inr (pbrc_Name rcfg, Some (inline\<lparr>rc_MaxTokens := maxTokens,
                                                            rc_TokensPerFill := tokensPerfill\<rparr>)))
                | HCM_Other \<Rightarrow> Inr ('''', None))))"

subsection \<open>Filter chains and listeners\<close>

fun filters_loop ::
  "lib \<Rightarrow> 32 word \<Rightarrow> FilterConfig list \<Rightarrow> NetworkFilter list \<Rightarrow> string list \<Rightarrow> NetworkFilter list \<times> string list" where
  "filters_loop L matchPort [] filters errSlice = (filters, errSlice)"
| "filters_loop L matchPort (Filter_Other # fs) filters errSlice =
     filters_loop L matchPort fs filters errSlice"
| "filters_loop L matchPort (Filter_TypedConfig cfg # fs) filters errSlice =
     (if any_TypeUrl cfg = ThriftProxyTypeURL then
        (case unmarshalThriftProxy L cfg of
           Inl err \<Rightarrow> filters_loop L matchPort fs filters (errSlice @ [err])
         | Inr r \<Rightarrow> filters_loop L matchPort fs
             (filters @ [\<lparr>nf_FilterType = NetworkFilterTypeThrift, nf_RouteConfigName = '''',
                          nf_RoutePort = 0, nf_InlineRouteConfig = Some r\<rparr>]) errSlice)
      else if any_TypeUrl cfg = HTTPConnManagerTypeURL then
        (case unmarshallHTTPConnectionManager L cfg of
           Inl err \<Rightarrow> filters_loop L matchPort fs filters (errSlice @ [err])
         | Inr (n, r) \<Rightarrow> filters_loop L matchPort fs
             (filters @ [\<lparr>nf_FilterType = NetworkFilterTypeHTTP, nf_RouteConfigName = n,
                          nf_RoutePort = matchPort, nf_InlineRouteConfig = r\<rparr>]) errSlice)
      else filters_loop L matchPort fs filters errSlice)"

definition unmarshalFilterChain :: "lib \<Rightarrow> PbFilterChain \<Rightarrow> NetworkFilter list \<times> string option" where
  "unmarshalFilterChain L fc =
     (let (filters, errSlice) = filters_loop L (u32_value (fc_DestinationPort fc)) (fc_Filters fc) [] []
      in (filters, combineErrors errSlice))"

text \<open>\<open>FilterChains\<close>: a chain with an error contributes the error only.\<close>

fun chains_loop ::
  "lib \<Rightarrow> PbFilterChain list \<Rightarrow> NetworkFilter list \<Rightarrow> string list \<Rightarrow> NetworkFilter list \<times> string list" where
  "chains_loop L [] nfs filtersErr = (nfs, filtersErr)"
| "chains_loop L (fc # fcs) nfs filtersErr =
     (case unmarshalFilterChain L fc of
        (res, Some err) \<Rightarrow> chains_loop L fcs nfs (filtersErr @ [err])
      | (res, None) \<Rightarrow> chains_loop L fcs (nfs @ res) filtersErr)"

text \<open>\<open>DefaultFilterChain\<close>: its filters are appended even beside an error.\<close>

definition default_chain ::
  "lib \<Rightarrow> PbFilterChain option \<Rightarrow> NetworkFilter list \<times> string list \<Rightarrow> NetworkFilter list \<times> string list" where
  "default_chain L fc acc =
     (case fc of
        None \<Rightarrow> acc
      | Some c \<Rightarrow>
          (case unmarshalFilterChain L c of
             (res, Some err) \<Rightarrow> (fst acc @ res, snd acc @ [err])
           | (res, None) \<Rightarrow> (fst acc @ res, snd acc)))"

definition lds_one :: "lib \<Rightarrow> PbAny \<Rightarrow> ListenerResource parsed" where
  "lds_one L r =
     (if any_TypeUrl r \<noteq> ListenerTypeURL then
        ParseErr (''invalid listener resource type: '' @ any_TypeUrl r)
      else case Unmarshal_Listener L (any_Value r) of
        Inl err \<Rightarrow> ParseErr (''unmarshal Listener failed, error='' @ ''unmarshal Listener failed, error='' @ err)
      | Inr lis \<Rightarrow>
          (let (nfs, filtersErr) = default_chain L (pbl_DefaultFilterChain lis)
                                     (chains_loop L (pbl_FilterChains lis) [] []);
               res = \<lparr>lr_NetworkFilters = nfs\<rparr>
           in case combineErrors filtersErr of
                None \<Rightarrow> Parsed (pbl_Name lis) res
              | Some e \<Rightarrow> PartlyParsed (pbl_Name lis) res e))"

definition UnmarshalLDS :: "lib \<Rightarrow> PbAny list \<Rightarrow> (string, ListenerResource) gomap \<times> string option" where
  "UnmarshalLDS L rawResources = unmarshal_all (lds_one L) rawResources"

interpretation lds: resource_decoder ListenerTypeURL lds_one
  by unfold_locales (simp add: lds_one_def)

subsection \<open>Facts about the parsed filters\<close>

lemma ThriftProxy_neq_HTTPConnManager [simp]: "ThriftProxyTypeURL \<noteq> HTTPConnManagerTypeURL"
  by (simp add: url_defs)

lemma TypedStruct_neq_RateLimit [simp]: "TypedStructTypeURL \<noteq> RateLimitTypeURL"
  by (simp add: url_defs)

lemma thrift_routes_Inr:
  "thrift_routes L name rs = Inr routes \<Longrightarrow>
     length routes = length rs \<and> list_all (\<lambda>r. tpr_Match r \<noteq> None \<and> tpr_Route r \<noteq> None) rs"
  by (induction rs arbitrary: routes) (auto simp: Let_def split: option.splits sum.splits)

text \<open>
  What one filter contributes, as a reference for the accumulating loop: at most one network
  filter, or one error.
\<close>

definition filter_one :: "lib \<Rightarrow> 32 word \<Rightarrow> FilterConfig \<Rightarrow> NetworkFilter list \<times> string list" where
  "filter_one L port f = filters_loop L port [f] [] []"

lemma filters_loop_eq:
  "filters_loop L port fs nfs es =
     (nfs @ concat (map (\<lambda>f. fst (filter_one L port f)) fs),
      es @ concat (map (\<lambda>f. snd (filter_one L port f)) fs))"
  by (induction L port fs nfs es rule: filters_loop.induct)
    (auto simp: filter_one_def split: sum.split)

lemma unmarshalFilterChain_ok:
  "snd (unmarshalFilterChain L fc) = None \<longleftrightarrow>
     list_all (\<lambda>f. snd (filter_one L (u32_value (fc_DestinationPort fc)) f) = []) (fc_Filters fc)"
  by (auto simp: unmarshalFilterChain_def filters_loop_eq combineErrors_def list_all_iff)

lemma unmarshalFilterChain_filters:
  "fst (unmarshalFilterChain L fc) =
     concat (map (\<lambda>f. fst (filter_one L (u32_value (fc_DestinationPort fc)) f)) (fc_Filters fc))"
  by (simp add: unmarshalFilterChain_def filters_loop_eq)

lemma chains_loop_eq:
  "chains_loop L fcs nfs es =
     (nfs @ concat (map (\<lambda>fc. if snd (unmarshalFilterChain L fc) = None
                              then fst (unmarshalFilterChain L fc) else []) fcs),
      es @ concat (map (\<lambda>fc. case snd (unmarshalFilterChain L fc) of None \<Rightarrow> [] | Some e \<Rightarrow> [e]) fcs))"
  by (induction L fcs nfs es rule: chains_loop.induct) (auto split: prod.splits option.splits)

text \<open>A listener parses without error exactly if none of its chains has a failing filter.\<close>

lemma lds_one_Parsed_iff:
  assumes "any_TypeUrl r = ListenerTypeURL" and "Unmarshal_Listener L (any_Value r) = Inr lis"
  shows "is_Parsed (lds_one L r) \<longleftrightarrow>
    list_all (\<lambda>fc. snd (unmarshalFilterChain L fc) = None)
      (pbl_FilterChains lis @ (case pbl_DefaultFilterChain lis of None \<Rightarrow> [] | Some fc \<Rightarrow> [fc]))"
  using assms
  by (auto simp: lds_one_def default_chain_def chains_loop_eq combineErrors_def list_all_iff
      split: option.splits prod.splits)

text \<open>The filters of a listener that parsed without error: those of all chains, in order.\<close>

lemma lds_one_Parsed_filters:
  assumes "lds_one L r = Parsed n res"
  shows "\<exists>lis. Unmarshal_Listener L (any_Value r) = Inr lis \<and> n = pbl_Name lis \<and>
    lr_NetworkFilters res = concat (map (\<lambda>fc. fst (unmarshalFilterChain L fc))
      (pbl_FilterChains lis @ (case pbl_DefaultFilterChain lis of None \<Rightarrow> [] | Some fc \<Rightarrow> [fc])))"
proof -
  from assms obtain lis where lis: "any_TypeUrl r = ListenerTypeURL"
    "Unmarshal_Listener L (any_Value r) = Inr lis"
    by (auto simp: lds_one_def split: if_splits sum.splits)
  from assms lds_one_Parsed_iff [OF lis]
  have "list_all (\<lambda>fc. snd (unmarshalFilterChain L fc) = None)
      (pbl_FilterChains lis @ (case pbl_DefaultFilterChain lis of None \<Rightarrow> [] | Some fc \<Rightarrow> [fc]))"
    by simp
  with assms lis show ?thesis
    by (auto simp: lds_one_def default_chain_def chains_loop_eq list_all_iff Let_def combineErrors_def
        split: option.splits prod.splits if_splits cong: map_cong)
qed

subsection \<open>Decoding a response\<close>

text \<open>All filter chains of a listener, the default one last.\<close>

definition listener_chains :: "PbListener \<Rightarrow> PbFilterChain list" where
  "listener_chains lis = pbl_FilterChains lis @ (case pbl_DefaultFilterChain lis of None \<Rightarrow> [] | Some fc \<Rightarrow> [fc])"

lemma lds_one_ParsedE:
  assumes "is_Parsed (lds_one L r)"
  obtains lis where "any_TypeUrl r = ListenerTypeURL" and "Unmarshal_Listener L (any_Value r) = Inr lis"
    and "lds_one L r = Parsed (pbl_Name lis) \<lparr>lr_NetworkFilters = concat (map (\<lambda>fc. fst (unmarshalFilterChain L fc)) (listener_chains lis))\<rparr>"
proof -
  obtain n res where p: "lds_one L r = Parsed n res" using assms by (cases "lds_one L r") auto
  have u: "any_TypeUrl r = ListenerTypeURL" using p by (auto simp: lds_one_def split: if_splits)
  obtain lis where "Unmarshal_Listener L (any_Value r) = Inr lis" "n = pbl_Name lis"
    "lr_NetworkFilters res = concat (map (\<lambda>fc. fst (unmarshalFilterChain L fc)) (listener_chains lis))"
    using lds_one_Parsed_filters [OF p] by (auto simp: listener_chains_def)
  with p u that show thesis by (cases res) auto
qed



text \<open>
  The reference for the rate limit of an HTTP connection manager: what one filter says. \<open>None\<close> is a
  filter that the loop passes over.
\<close>

definition filter_limit :: "lib \<Rightarrow> HttpFilterConfig \<Rightarrow> (string + (32 word \<times> 32 word)) option" where
  "filter_limit L f =
     (case f of
        HttpFilter_Other \<Rightarrow> Some (Inr (0, 0))
      | HttpFilter_TypedConfig None \<Rightarrow> None
      | HttpFilter_TypedConfig (Some cfg) \<Rightarrow>
          if any_TypeUrl cfg = RateLimitTypeURL then
            Some (case Unmarshal_LocalRateLimit L (any_Value cfg) of
                    Inl err \<Rightarrow> Inl (''unmarshal LocalRateLimit failed: '' @ err)
                  | Inr lrl \<Rightarrow> Inr (case lrl_TokenBucket lrl of
                      Some tb \<Rightarrow> (tb_MaxTokens tb, u32_value (tb_TokensPerFill tb)) | None \<Rightarrow> (0, 0)))
          else if any_TypeUrl cfg = TypedStructTypeURL then
            (case Unmarshal_TypedStruct L (any_Value cfg) of
               Inl err \<Rightarrow> Some (Inl (''unmarshal TypedStruct failed: '' @ err))
             | Inr ts \<Rightarrow>
                 Option.bind (map_of (ts_Value ts) ''token_bucket'') (\<lambda>tb.
                 Option.bind (map_of (GetStructFields tb) ''max_tokens'') (\<lambda>mx.
                 map_option (\<lambda>fill. Inr (f64_to_u32 (F64OutOfRange L) (GetNumberValue mx),
                                         f64_to_u32 (F64OutOfRange L) (GetNumberValue fill)))
                   (map_of (GetStructFields tb) ''tokens_per_fill''))))
          else Some (Inr (0, 0)))"

text \<open>C32: the rate limit is that of the first filter that the loop does not pass over, and a filter of any
  other type is not passed over: it ends the search with no limit, so that a rate limit filter behind it
  is ignored.\<close>

theorem rate_limit_first_filter:
  "getLocalRateLimitFromHttpConnectionManager L fs =
     (case filter (\<lambda>x. x \<noteq> None) (map (filter_limit L) fs) of Some x # _ \<Rightarrow> x | _ \<Rightarrow> Inr (0, 0))"
  by (induction L fs rule: getLocalRateLimitFromHttpConnectionManager.induct)
    (auto simp: filter_limit_def split: sum.splits option.splits)

end
