(* ===== verification/Cds.thy ===== *)
theory Cds
  imports Unmarshal
begin

text \<open>
  \<open>core/xdsresource/eds.go\<close> and \<open>cds.go\<close>: endpoints of a load assignment, clusters with their
  inline endpoints and outlier detection.
\<close>

subsection \<open>Endpoints\<close>

definition parse_lb_endpoint :: "PbLbEndpoint \<Rightarrow> Endpoint" where
  "parse_lb_endpoint ep =
     (let (addr, port) = (case lbe_SocketAddress ep of
                            None \<Rightarrow> ('''', 0)
                          | Some sa \<Rightarrow> (sa_Address sa, sa_PortValue sa))
      in \<lparr>ep_addr = NewNetAddr ''tcp'' (join_host_port addr (itoa (unat port))),
          ep_weight = u32_value (lbe_LoadBalancingWeight ep),
          ep_meta = []\<rparr>)"

definition parseClusterLoadAssignment ::
  "PbClusterLoadAssignment option \<Rightarrow> string + EndpointsResource option" where
  "parseClusterLoadAssignment cla =
     (case cla of
        None \<Rightarrow> Inr None
      | Some c \<Rightarrow>
          if length (cla_Endpoints c) = 0 then Inr None
          else Inr (Some \<lparr>er_Localities = map (map parse_lb_endpoint) (cla_Endpoints c)\<rparr>))"

text \<open>\<open>Endpoint.Tag\<close>.\<close>

definition Endpoint_Tag :: "Endpoint \<Rightarrow> string \<Rightarrow> string \<times> bool" where
  "Endpoint_Tag e key =
     (case map_of (ep_meta e) key of None \<Rightarrow> ('''', False) | Some v \<Rightarrow> (v, True))"

definition eds_one :: "lib \<Rightarrow> PbAny \<Rightarrow> Resource parsed" where
  "eds_one L r =
     (if any_TypeUrl r \<noteq> EndpointTypeURL then
        ParseErr (''invalid endpoint resource type: '' @ any_TypeUrl r)
      else case Unmarshal_ClusterLoadAssignment L (any_Value r) of
        Inl err \<Rightarrow> ParseErr (''unmarshal ClusterLoadAssignment failed, error='' @ err)
      | Inr cla \<Rightarrow>
          (case parseClusterLoadAssignment (Some cla) of
             Inl err \<Rightarrow> NamedErr (cla_ClusterName cla) err
           | Inr endpoints \<Rightarrow> Parsed (cla_ClusterName cla) (ResEndpoints endpoints)))"

definition UnmarshalEDS :: "lib \<Rightarrow> PbAny list \<Rightarrow> (string, Resource) gomap \<times> string option" where
  "UnmarshalEDS L rawResources = unmarshal_all (eds_one L) rawResources"

interpretation eds: resource_decoder EndpointTypeURL eds_one
  by unfold_locales (simp add: eds_one_def)

subsection \<open>Clusters\<close>

definition ClusterDiscoveryType_String :: "ClusterDiscoveryType \<Rightarrow> string" where
  "ClusterDiscoveryType_String d =
     (case d of
        ClusterDiscoveryTypeEDS \<Rightarrow> ''EDS''
      | ClusterDiscoveryTypeLogicalDNS \<Rightarrow> ''LOGICAL_DNS''
      | _ \<Rightarrow> ''Static'')"

definition ClusterLbPolicy_String :: "ClusterLbPolicy \<Rightarrow> string" where
  "ClusterLbPolicy_String p =
     (case p of ClusterLbRoundRobin \<Rightarrow> ''roundrobin'' | ClusterLbRingHash \<Rightarrow> ''ringhash'')"

definition convertDiscoveryType :: "PbDiscoveryType \<Rightarrow> ClusterDiscoveryType" where
  "convertDiscoveryType t =
     (case t of
        Cluster_EDS \<Rightarrow> ClusterDiscoveryTypeEDS
      | Cluster_LOGICAL_DNS \<Rightarrow> ClusterDiscoveryTypeLogicalDNS
      | Cluster_STATIC \<Rightarrow> ClusterDiscoveryTypeStatic
      | _ \<Rightarrow> ClusterDiscoveryTypeEDS)"

definition convertLbPolicy :: "PbLbPolicy \<Rightarrow> ClusterLbPolicy" where
  "convertLbPolicy lb =
     (case lb of
        Cluster_ROUND_ROBIN \<Rightarrow> ClusterLbRoundRobin
      | Cluster_RING_HASH \<Rightarrow> ClusterLbRingHash
      | _ \<Rightarrow> ClusterLbRoundRobin)"

text \<open>The name, the resource or nil, and the error or nil, as the function returns them.\<close>

definition unmarshalCluster :: "lib \<Rightarrow> PbAny \<Rightarrow> string \<times> (string + ClusterResource)" where
  "unmarshalCluster L r =
     (if any_TypeUrl r \<noteq> ClusterTypeURL then
        ('''', Inl (''invalid cluster resource type: '' @ any_TypeUrl r))
      else case Unmarshal_Cluster L (any_Value r) of
        Inl err \<Rightarrow> ('''', Inl (''unmarshal cluster failed: '' @ err))
      | Inr c \<Rightarrow>
          (let ret = \<lparr>cr_DiscoveryType = convertDiscoveryType (pbc_Type c),
                      cr_LbPolicy = convertLbPolicy (pbc_LbPolicy c),
                      cr_EndpointName = pbc_Name c,
                      cr_InlineEndpoints = None,
                      cr_OutlierDetection = None\<rparr>;
               ret = (case pbc_OutlierDetection c of
                        None \<Rightarrow> ret
                      | Some od \<Rightarrow> ret\<lparr>cr_OutlierDetection := Some
                          \<lparr>od_FailurePercentageThreshold = u32_value (pbod_FailurePercentageThreshold od),
                           od_FailurePercentageRequestVolume = u32_value (pbod_FailurePercentageRequestVolume od)\<rparr>\<rparr>);
               ret = (case pbc_EdsServiceName c of
                        None \<Rightarrow> ret
                      | Some n \<Rightarrow> if n \<noteq> '''' then ret\<lparr>cr_EndpointName := n\<rparr> else ret)
           in case parseClusterLoadAssignment (pbc_LoadAssignment c) of
                Inl err \<Rightarrow> (pbc_Name c, Inl err)
              | Inr inlineEndpoints \<Rightarrow> (pbc_Name c, Inr (ret\<lparr>cr_InlineEndpoints := inlineEndpoints\<rparr>))))"

definition cds_one :: "lib \<Rightarrow> PbAny \<Rightarrow> Resource parsed" where
  "cds_one L r =
     (case unmarshalCluster L r of
        (name, Inl err) \<Rightarrow> if name = '''' then ParseErr err else NamedErr name err
      | (name, Inr res) \<Rightarrow> Parsed name (ResCluster (Some res)))"

definition UnmarshalCDS :: "lib \<Rightarrow> PbAny list \<Rightarrow> (string, Resource) gomap \<times> string option" where
  "UnmarshalCDS L rawResources = unmarshal_all (cds_one L) rawResources"

interpretation cds: resource_decoder ClusterTypeURL cds_one
  by unfold_locales (simp add: cds_one_def unmarshalCluster_def)

subsection \<open>Facts about the parsed resources\<close>

lemma parseClusterLoadAssignment_total: "\<exists>x. parseClusterLoadAssignment cla = Inr x"
  by (cases cla) (auto simp: parseClusterLoadAssignment_def)

lemma parseClusterLoadAssignment_Some:
  "parseClusterLoadAssignment cla = Inr (Some e) \<longleftrightarrow>
     (\<exists>c. cla = Some c \<and> cla_Endpoints c \<noteq> [] \<and> er_Localities e = map (map parse_lb_endpoint) (cla_Endpoints c))"
  by (cases cla; cases e) (auto simp: parseClusterLoadAssignment_def)

text \<open>A well formed cluster resource never fails to parse and carries its endpoint name.\<close>

lemma unmarshalCluster_ok:
  assumes "any_TypeUrl r = ClusterTypeURL" and "Unmarshal_Cluster L (any_Value r) = Inr c"
  shows "\<exists>res. unmarshalCluster L r = (pbc_Name c, Inr res) \<and>
    cr_EndpointName res = (case pbc_EdsServiceName c of None \<Rightarrow> pbc_Name c
      | Some n \<Rightarrow> if n = '''' then pbc_Name c else n) \<and>
    Inr (cr_InlineEndpoints res) = parseClusterLoadAssignment (pbc_LoadAssignment c) \<and>
    cr_OutlierDetection res = map_option
      (\<lambda>od. \<lparr>od_FailurePercentageThreshold = u32_value (pbod_FailurePercentageThreshold od),
        od_FailurePercentageRequestVolume = u32_value (pbod_FailurePercentageRequestVolume od)\<rparr>)
      (pbc_OutlierDetection c)"
  using assms parseClusterLoadAssignment_total [of "pbc_LoadAssignment c"]
  by (auto simp: unmarshalCluster_def Let_def split: option.splits)

lemma cds_one_typed: "(n, x) \<in> set (stored (cds_one L r)) \<Longrightarrow> \<exists>res. x = ResCluster (Some res)"
  by (auto simp: cds_one_def split: prod.splits sum.splits if_splits)

lemma eds_one_typed: "(n, x) \<in> set (stored (eds_one L r)) \<Longrightarrow> \<exists>res. x = ResEndpoints res"
  by (auto simp: eds_one_def split: sum.splits if_splits)

subsection \<open>Decoding a response\<close>

lemma cds_one_Parsed_iff:
  "is_Parsed (cds_one L r) \<longleftrightarrow> any_TypeUrl r = ClusterTypeURL \<and> (\<exists>c. Unmarshal_Cluster L (any_Value r) = Inr c)"
  using unmarshalCluster_ok [of r L]
  by (cases "any_TypeUrl r = ClusterTypeURL"; cases "Unmarshal_Cluster L (any_Value r)")
    (auto simp: cds_one_def unmarshalCluster_def split: prod.splits sum.splits)

text \<open>Decoding a cluster response is all or nothing. It succeeds exactly if every resource has the
  cluster type URL and is a valid protobuf message; then the clusters are found under their names, each
  name giving the last cluster of the response that has it, and no other name gives anything.\<close>

theorem UnmarshalCDS_spec:
  "(snd (UnmarshalCDS L raws) = None \<longleftrightarrow>
      (\<forall>r \<in> set raws. any_TypeUrl r = ClusterTypeURL \<and> (\<exists>c. Unmarshal_Cluster L (any_Value r) = Inr c))) \<and>
   (snd (UnmarshalCDS L raws) = None \<longrightarrow>
      map_of (fst (UnmarshalCDS L raws)) n =
        map_option (\<lambda>r. ResCluster (Some (projr (snd (unmarshalCluster L r)))))
          (find (\<lambda>r. pbc_Name (projr (Unmarshal_Cluster L (any_Value r))) = n) (rev raws)))"
proof -
  have ok: "snd (UnmarshalCDS L raws) = None \<longleftrightarrow>
      (\<forall>r \<in> set raws. any_TypeUrl r = ClusterTypeURL \<and> (\<exists>c. Unmarshal_Cluster L (any_Value r) = Inr c))"
    by (simp add: UnmarshalCDS_def cds.no_error_iff cds_one_Parsed_iff list_all_iff)
  moreover have "cds_one L r = Parsed (pbc_Name (projr (Unmarshal_Cluster L (any_Value r))))
      (ResCluster (Some (projr (snd (unmarshalCluster L r)))))"
    if "any_TypeUrl r = ClusterTypeURL" "Unmarshal_Cluster L (any_Value r) = Inr c" for r c
    using unmarshalCluster_ok [OF that] by (auto simp: cds_one_def that)
  ultimately show ?thesis
    unfolding UnmarshalCDS_def by (auto intro!: cds.lookup_last)
qed

definition example_pb_cluster :: PbCluster where
  "example_pb_cluster = \<lparr>pbc_Name = ''c1'', pbc_Type = Cluster_EDS, pbc_LbPolicy = Cluster_ROUND_ROBIN,
     pbc_OutlierDetection = None, pbc_EdsServiceName = None, pbc_LoadAssignment = None\<rparr>"

theorem UnmarshalCDS_spec_witness:
  "map_of (fst (UnmarshalCDS (example_lib\<lparr>Unmarshal_Cluster := \<lambda>_. Inr example_pb_cluster\<rparr>)
     [\<lparr>any_TypeUrl = ClusterTypeURL, any_Value = []\<rparr>])) ''c1'' \<noteq> None"
  using UnmarshalCDS_spec [of "example_lib\<lparr>Unmarshal_Cluster := \<lambda>_. Inr example_pb_cluster\<rparr>"
      "[\<lparr>any_TypeUrl = ClusterTypeURL, any_Value = []\<rparr>]" "''c1''"]
  by (simp add: example_pb_cluster_def)

end
