(* ===== verification/Nds.thy ===== *)
theory Nds
  imports XdsResource
begin

text \<open>
  \<open>core/xdsresource/nds.go\<close>: the name table of the first resource of a response.
\<close>

definition UnmarshalNDS :: "lib \<Rightarrow> PbAny list \<Rightarrow> string + (string, string list) gomap" where
  "UnmarshalNDS L rawResources =
     (case rawResources of
        [] \<Rightarrow> Inl ''no NDS resource found in the response''
      | r # _ \<Rightarrow>
          if any_TypeUrl r \<noteq> NameTableTypeURL then
            Inl (''invalid nameTable resource type: '' @ any_TypeUrl r)
          else case Unmarshal_NameTable L (any_Value r) of
            Inl err \<Rightarrow> Inl (''unmarshal NameTable failed: '' @ err)
          | Inr nt \<Rightarrow> Inr (foldr (\<lambda>(k, ips) res. gm_put k ips res) (nt_Table nt) []))"

lemma foldr_put_lookup:
  "map_of (foldr (\<lambda>(k, v) res. gm_put k v res) m []) k = map_of m k"
  by (induction m) auto

lemma UnmarshalNDS_error_not_empty: "UnmarshalNDS L raws \<noteq> Inl ''''"
  by (auto simp: UnmarshalNDS_def split: list.splits sum.splits)

lemma UnmarshalNDS_table:
  "UnmarshalNDS L (r # rs) = Inr t \<Longrightarrow>
     \<exists>nt. Unmarshal_NameTable L (any_Value r) = Inr nt \<and> map_of t = map_of (nt_Table nt)"
  by (auto simp: UnmarshalNDS_def foldr_put_lookup fun_eq_iff split: if_splits sum.splits)

end
