(* ===== verification/Auth.thy ===== *)
theory Auth
  imports Prelude
begin

text \<open>
  \<open>core/manager/auth\<close>: the JWT sent in the metadata of a stream, the TLS configuration, the
  classification of authentication errors. Files, the environment, the certificate pool and the
  RPC information are arguments.
\<close>

subsection \<open>utils.go\<close>

text \<open>\<open>gs_Status\<close> is what \<open>status.FromError\<close> extracts: the code, if the error carries a status.\<close>

record go_error =
  ge_Msg :: string
  ge_Status :: "nat option"

definition Unauthenticated :: nat where "Unauthenticated = 16"

definition IsAuthError :: "go_error \<Rightarrow> bool" where
  "IsAuthError err = (case ge_Status err of Some code \<Rightarrow> code = Unauthenticated | None \<Rightarrow> False)"

subsection \<open>jwt.go\<close>

definition jwtTokenPath :: string where "jwtTokenPath = ''/var/run/secrets/kubernetes.io/serviceaccount/token''"
definition jwtTokenKey :: string where "jwtTokenKey = ''Authorization''"
definition clusterIDEnvKey :: string where "clusterIDEnvKey = ''ISTIO_META_CLUSTER_ID''"
definition clusterIDMetadataKey :: string where "clusterIDMetadataKey = ''clusterid''"
definition KitexXdsTokenPath :: string where "KitexXdsTokenPath = ''KITEX_XDS_SA_TOKEN_PATH''"

text \<open>\<open>os.Getenv\<close> gives the empty string for an unset variable; \<open>readFile\<close> is \<open>os.ReadFile\<close>.\<close>

definition getJWTToken :: "(string \<Rightarrow> string) \<Rightarrow> (string \<Rightarrow> string + string) \<Rightarrow> string + string" where
  "getJWTToken getenv readFile =
     (let saToken = getenv KitexXdsTokenPath;
          saToken = (if saToken = '''' then jwtTokenPath else saToken)
      in readFile saToken)"

record auth_vars =
  av_clusterID :: string
  av_jwtToken :: string

definition auth_init :: "(string \<Rightarrow> string) \<Rightarrow> (string \<Rightarrow> string + string) \<Rightarrow> auth_vars" where
  "auth_init getenv readFile =
     \<lparr>av_clusterID = getenv clusterIDEnvKey,
      av_jwtToken = (case getJWTToken getenv readFile of Inl err \<Rightarrow> '''' | Inr token \<Rightarrow> token)\<rparr>"

definition jwtTokenValueFmt :: "string \<Rightarrow> string" where
  "jwtTokenValueFmt jwtToken = ''Bearer '' @ jwtToken"

text \<open>The bit test of \<open>transport.Protocol\<close>; the value of \<open>transport.GRPC\<close> is an argument.\<close>

definition isGRPC :: "int \<Rightarrow> int \<Rightarrow> bool" where
  "isGRPC grpc transportProtocol = (and transportProtocol grpc = grpc)"

text \<open>
  \<open>OnConnectStream\<close> on a context that carries outgoing metadata or none. \<open>md_set\<close> is
  \<open>metadata.MD.Set\<close>, \<open>md_empty\<close> the empty metadata.
\<close>

definition OnConnectStream ::
  "(string \<Rightarrow> string \<Rightarrow> 'md \<Rightarrow> 'md) \<Rightarrow> 'md \<Rightarrow> int \<Rightarrow> auth_vars \<Rightarrow> int \<Rightarrow> 'md option \<Rightarrow> 'md option" where
  "OnConnectStream md_set md_empty grpc vars transportProtocol ctx =
     (if \<not> isGRPC grpc transportProtocol then ctx
      else
        (let md = (case ctx of None \<Rightarrow> md_empty | Some md \<Rightarrow> md);
             md = md_set jwtTokenKey (jwtTokenValueFmt (av_jwtToken vars)) md;
             md = md_set clusterIDMetadataKey (av_clusterID vars) md
         in Some md))"

text \<open>The other hooks of the handler give the context back.\<close>

definition OnReadStream :: "'ctx \<Rightarrow> 'ctx \<times> string option" where
  "OnReadStream ctx = (ctx, None)"

definition WriteMeta :: "'ctx \<Rightarrow> 'msg \<Rightarrow> 'ctx \<times> string option" where
  "WriteMeta ctx msg = (ctx, None)"

definition ReadMeta :: "'ctx \<Rightarrow> 'msg \<Rightarrow> 'ctx \<times> string option" where
  "ReadMeta ctx msg = (ctx, None)"

subsection \<open>tls.go\<close>

record tls_config =
  tls_InsecureSkipVerify :: bool
  tls_ServerName :: string

definition GetTLSConfig :: "string \<Rightarrow> string + tls_config" where
  "GetTLSConfig xdsServerName = Inr \<lparr>tls_InsecureSkipVerify = True, tls_ServerName = ''''\<rparr>"

text \<open>A gRPC stream carries the bearer token and the cluster id and keeps every other entry of
  its metadata; a context of another transport is untouched. The one law used of the metadata library
  is that \<open>Set\<close> replaces the value of its key, where keys are compared in lower case.\<close>

theorem OnConnectStream_credentials:
  assumes set_get: "\<And>k v md k'. md_get k' (md_set k v md) = (if to_lower k' = to_lower k then [v] else md_get k' md)"
  shows "if isGRPC grpc proto then
       (\<exists>md. OnConnectStream md_set md_empty grpc vars proto ctx = Some md \<and>
          md_get ''Authorization'' md = [''Bearer '' @ av_jwtToken vars] \<and>
          md_get ''clusterid'' md = [av_clusterID vars] \<and>
          (\<forall>k. to_lower k \<noteq> ''authorization'' \<and> to_lower k \<noteq> ''clusterid'' \<longrightarrow>
             md_get k md = md_get k (case ctx of None \<Rightarrow> md_empty | Some md0 \<Rightarrow> md0)))
     else OnConnectStream md_set md_empty grpc vars proto ctx = ctx"
proof -
  have low: "to_lower jwtTokenKey = ''authorization''" "to_lower clusterIDMetadataKey = ''clusterid''"
    "to_lower ''Authorization'' = ''authorization''" "to_lower ''clusterid'' = ''clusterid''"
    by code_simp+
  show ?thesis
    by (auto simp: OnConnectStream_def Let_def set_get low jwtTokenValueFmt_def)
qed

theorem OnConnectStream_credentials_witness:
  "(\<lambda>md. md ''Authorization'' = [''Bearer t''] \<and> md ''clusterid'' = [''c1''] \<and> md ''x'' = [''y''])
     (the (OnConnectStream (\<lambda>k v md k'. if to_lower k' = to_lower k then [v] else md k') (\<lambda>_. []) 4
        \<lparr>av_clusterID = ''c1'', av_jwtToken = ''t''\<rparr> 6 (Some (\<lambda>k. if k = ''x'' then [''y''] else []))))"
proof -
  let ?set = "\<lambda>k v (md :: string \<Rightarrow> string list) k'. if to_lower k' = to_lower k then [v] else md k'"
  have "isGRPC 4 6" by code_simp
  moreover have "to_lower ''x'' = ''x''" by code_simp
  moreover note OnConnectStream_credentials [where md_get = "\<lambda>k md. md k" and md_set = ?set and
    md_empty = "\<lambda>_. []" and grpc = 4 and vars = "\<lparr>av_clusterID = ''c1'', av_jwtToken = ''t''\<rparr>" and proto = 6 and
    ctx = "Some (\<lambda>k. if k = ''x'' then [''y''] else [])"]
  ultimately show ?thesis by force
qed

end
