(* ===== verification/Handlers.thy ===== *)
theory Handlers
  imports Manager Lds Rds Cds Nds Auth
begin

text \<open>
  The response handlers of \<open>core/manager/client.go\<close> and the receiver loop: they work on the client
  and on the manager it updates. The order of the code is kept: decode, acknowledge, filter by the
  subscriptions, update the cache. A handler gives the error it returns, the client and the manager.
\<close>

type_synonym handled = "string option \<times> xdsClient \<times> xdsResourceManager"

fun lds_filter_loop ::
  "xdsClient \<Rightarrow> (string, ListenerResource) gomap \<Rightarrow> string list \<Rightarrow> (string, Resource) gomap \<Rightarrow> (string, Resource) gomap" where
  "lds_filter_loop c res [] filteredRes = filteredRes"
| "lds_filter_loop c res (n # ns) filteredRes =
     (if ndsRequired c \<and> n \<noteq> ReservedLdsResourceName then
        (case getListenerName c n of
           Inl err \<Rightarrow> lds_filter_loop c res ns filteredRes
         | Inr lname \<Rightarrow>
             if lname = '''' then lds_filter_loop c res ns filteredRes
             else (case map_of res lname of
                     None \<Rightarrow> lds_filter_loop c res ns filteredRes
                   | Some lis \<Rightarrow> lds_filter_loop c res ns (gm_put n (ResListener (Some lis)) filteredRes)))
      else lds_filter_loop c res ns (gm_put n (ResListener (map_of res n)) filteredRes))"

definition lds_filter :: "xdsClient \<Rightarrow> (string, ListenerResource) gomap \<Rightarrow> (string, Resource) gomap" where
  "lds_filter c res = lds_filter_loop c res (gm_keys (gm_sub (xc_watchedResource c) ListenerType)) []"

text \<open>The compare-and-swap of \<open>closedInboundInitCh\<close> with the \<open>close\<close> it guards.\<close>

definition signal_inbound :: "xdsClient \<Rightarrow> xdsClient run" where
  "signal_inbound c =
     (if \<not> xc_closedInboundInitCh c then
        run_bind (chan_close (xc_inboundInitRequestCh c))
          (\<lambda>ch. Returns (c\<lparr>xc_closedInboundInitCh := True, xc_inboundInitRequestCh := ch\<rparr>))
      else Returns c)"

definition handleLDS :: "int \<Rightarrow> lib \<Rightarrow> DiscoveryResponse \<Rightarrow> xdsClient \<Rightarrow> xdsResourceManager \<Rightarrow> handled run" where
  "handleLDS now L resp c m =
     (let (res, err) = UnmarshalLDS L (resp_Resources resp) in
      run_bind (updateAndACK ListenerType (resp_Nonce resp) (resp_VersionInfo resp) err c)
        (\<lambda>c. case err of
           Some e \<Rightarrow> Returns (Some e, c, m)
         | None \<Rightarrow>
             (let filteredRes = lds_filter c res in
              run_bind (UpdateResource now ListenerType filteredRes (resp_VersionInfo resp) m)
                (\<lambda>m. run_bind (signal_inbound c) (\<lambda>c. Returns (None, c, m))))))"

text \<open>Deleting from the decoded map every name that is not watched.\<close>

definition only_watched :: "xdsClient \<Rightarrow> ResourceType \<Rightarrow> (string, Resource) gomap \<Rightarrow> (string, Resource) gomap" where
  "only_watched c rt res = gm_filter (\<lambda>name. gm2_get (xc_watchedResource c) rt name \<noteq> None) res"

definition handleRDS :: "int \<Rightarrow> lib \<Rightarrow> DiscoveryResponse \<Rightarrow> xdsClient \<Rightarrow> xdsResourceManager \<Rightarrow> handled run" where
  "handleRDS now L resp c m =
     (let (res, err) = UnmarshalRDS L (resp_Resources resp) in
      run_bind (updateAndACK RouteConfigType (resp_Nonce resp) (resp_VersionInfo resp) err c)
        (\<lambda>c. case err of
           Some e \<Rightarrow> Returns (Some e, c, m)
         | None \<Rightarrow>
             (let res = only_watched c RouteConfigType res in
              run_bind (UpdateResource now RouteConfigType res (resp_VersionInfo resp) m)
                (\<lambda>m. Returns (None, c, m)))))"

definition handleCDS :: "int \<Rightarrow> lib \<Rightarrow> DiscoveryResponse \<Rightarrow> xdsClient \<Rightarrow> xdsResourceManager \<Rightarrow> handled run" where
  "handleCDS now L resp c m =
     (let (res, err) = UnmarshalCDS L (resp_Resources resp) in
      run_bind (updateAndACK ClusterType (resp_Nonce resp) (resp_VersionInfo resp) err c)
        (\<lambda>c. case err of
           Some e \<Rightarrow> Returns (Some (''handle cluster failed: '' @ e), c, m)
         | None \<Rightarrow>
             (let res = only_watched c ClusterType res in
              run_bind (UpdateResource now ClusterType res (resp_VersionInfo resp) m)
                (\<lambda>m. Returns (None, c, m)))))"

definition handleEDS :: "int \<Rightarrow> lib \<Rightarrow> DiscoveryResponse \<Rightarrow> xdsClient \<Rightarrow> xdsResourceManager \<Rightarrow> handled run" where
  "handleEDS now L resp c m =
     (let (res, err) = UnmarshalEDS L (resp_Resources resp) in
      run_bind (updateAndACK EndpointsType (resp_Nonce resp) (resp_VersionInfo resp) err c)
        (\<lambda>c. case err of
           Some e \<Rightarrow> Returns (Some (''handle endpoint failed: '' @ e), c, m)
         | None \<Rightarrow>
             (let res = only_watched c EndpointsType res in
              run_bind (UpdateResource now EndpointsType res (resp_VersionInfo resp) m)
                (\<lambda>m. Returns (None, c, m)))))"

definition handleNDS :: "lib \<Rightarrow> DiscoveryResponse \<Rightarrow> xdsClient \<Rightarrow> xdsResourceManager \<Rightarrow> handled run" where
  "handleNDS L resp c m =
     (case UnmarshalNDS L (resp_Resources resp) of
        Inl e \<Rightarrow>
          run_bind (updateAndACK NameTableType (resp_Nonce resp) (resp_VersionInfo resp) (Some e) c)
            (\<lambda>c. Returns (Some e, c, m))
      | Inr nt \<Rightarrow>
          run_bind (updateAndACK NameTableType (resp_Nonce resp) (resp_VersionInfo resp) None c)
            (\<lambda>c. run_bind (updateLookupTable nt (xc_cipResolver c))
               (\<lambda>r. Returns (None, c\<lparr>xc_cipResolver := r\<rparr>, m))))"

text \<open>The \<open>interface{}\<close> that \<open>handleResponse\<close> is given.\<close>

datatype message = NilMessage | OtherMessage | Response DiscoveryResponse

definition handleResponse :: "int \<Rightarrow> lib \<Rightarrow> message \<Rightarrow> xdsClient \<Rightarrow> xdsResourceManager \<Rightarrow> handled run" where
  "handleResponse now L msg c m =
     (case msg of
        NilMessage \<Rightarrow> Returns (None, c, m)
      | OtherMessage \<Rightarrow> Returns (Some ''invalid discovery response'', c, m)
      | Response resp \<Rightarrow>
          (case map_of ResourceURLToType (resp_TypeUrl resp) of
             None \<Rightarrow> Returns (None, c, m)
           | Some rType \<Rightarrow>
               if map_of (xc_watchedResource c) rType = None then Returns (None, c, m)
               else
                 (case rType of
                    ListenerType \<Rightarrow> handleLDS now L resp c m
                  | RouteConfigType \<Rightarrow> handleRDS now L resp c m
                  | ClusterType \<Rightarrow> handleCDS now L resp c m
                  | EndpointsType \<Rightarrow> handleEDS now L resp c m
                  | NameTableType \<Rightarrow> handleNDS L resp c m
                  | _ \<Rightarrow> Returns (None, c, m))))"

text \<open>
  One turn of the receiver loop: what it continues with. \<open>recv\<close> is what \<open>Recv\<close> on the current
  stream gives, \<open>connect\<close> what the backoff retry gives. A panic of the turn is recovered by
  stopping the receiver.
\<close>

datatype receiver = Receiving "nat option" | ReceiverStopped

definition receiver_turn ::
  "int \<Rightarrow> lib \<Rightarrow> go_error + message \<Rightarrow> string + nat \<Rightarrow> nat option \<Rightarrow> xdsClient \<Rightarrow> xdsResourceManager \<Rightarrow>
     (receiver \<times> xdsClient \<times> xdsResourceManager) run" where
  "receiver_turn now L recv connect currStream c m =
     (if xc_closeCh c then Returns (ReceiverStopped, c, m)
      else case currStream of
        None \<Rightarrow> Returns (Receiving None, c, m)
      | Some s \<Rightarrow>
          (case recv of
             Inl err \<Rightarrow>
               if IsAuthError err then Returns (ReceiverStopped, client_close c, m)
               else run_bind (reconnect connect c)
                 (\<lambda>(r, c). Returns (Receiving (case r of Inl e \<Rightarrow> Some s | Inr s' \<Rightarrow> Some s'), c, m))
           | Inr resp \<Rightarrow>
               run_bind (handleResponse now L resp c m)
                 (\<lambda>(err, c, m). Returns (Receiving (Some s), c, m))))"

lemmas handler_defs = handleLDS_def handleRDS_def handleCDS_def handleEDS_def handleNDS_def

subsection \<open>The listener filter\<close>

text \<open>What a watched listener name gets out of a response.\<close>

definition lds_entry :: "xdsClient \<Rightarrow> (string, ListenerResource) gomap \<Rightarrow> string \<Rightarrow> Resource option" where
  "lds_entry c res n =
     (if ndsRequired c \<and> n \<noteq> ReservedLdsResourceName then
        (case getListenerName c n of
           Inl e \<Rightarrow> None
         | Inr lname \<Rightarrow> if lname = '''' then None else map_option (\<lambda>lis. ResListener (Some lis)) (map_of res lname))
      else Some (ResListener (map_of res n)))"

lemma lds_filter_loop_Cons:
  "lds_filter_loop c res (n # ns) acc =
     lds_filter_loop c res ns (case lds_entry c res n of None \<Rightarrow> acc | Some r \<Rightarrow> gm_put n r acc)"
  by (auto simp: lds_entry_def split: sum.split option.split)

lemma lds_filter_loop_lookup:
  "map_of (lds_filter_loop c res ns acc) n =
     (if n \<in> set ns \<and> lds_entry c res n \<noteq> None then lds_entry c res n else map_of acc n)"
proof (induction ns arbitrary: acc)
  case (Cons n' ns)
  then show ?case
    unfolding lds_filter_loop_Cons by (cases "lds_entry c res n'"; cases "n = n'"; cases "lds_entry c res n") simp_all
qed simp

lemma lds_filter_loop_wf: "gm_wf acc \<Longrightarrow> gm_wf (lds_filter_loop c res ns acc)"
proof (induction ns arbitrary: acc)
  case (Cons n' ns)
  then show ?case
    unfolding lds_filter_loop_Cons by (cases "lds_entry c res n'") (simp_all add: distinct_update)
qed simp

lemma lds_filter_lookup:
  "map_of (lds_filter c res) n = (if n \<in> watched c ListenerType then lds_entry c res n else None)"
  by (simp add: lds_filter_def lds_filter_loop_lookup watched_def)

lemma lds_filter_wf: "gm_wf (lds_filter c res)"
  by (simp add: lds_filter_def lds_filter_loop_wf)

lemma lds_entry_typed: "lds_entry c res n = Some r \<Longrightarrow> resource_has_type ListenerType r"
  by (auto simp: lds_entry_def split: if_splits sum.splits)

lemma lds_filter_typed: "\<forall>(n, r) \<in> set (lds_filter c res). resource_has_type ListenerType r"
proof safe
  fix n r
  assume "(n, r) \<in> set (lds_filter c res)"
  then have "map_of (lds_filter c res) n = Some r" by (rule map_of_is_SomeI [OF lds_filter_wf])
  then show "resource_has_type ListenerType r"
    by (auto simp: lds_filter_lookup split: if_splits dest: lds_entry_typed)
qed

lemma signal_inbound_Returns:
  assumes "client_inv c"
  shows "signal_inbound c = Returns (c\<lparr>xc_closedInboundInitCh := True, xc_inboundInitRequestCh := True\<rparr>)"
  using assms by (cases c) (auto simp: signal_inbound_def client_inv_def chan_close_def)

lemma only_watched_lookup:
  "map_of (only_watched c rt res) n = (if n \<in> watched c rt then map_of res n else None)"
  by (simp add: only_watched_def watched_iff)

subsection \<open>The contract of a response handler\<close>

text \<open>
  The three handlers of named resources share one contract: decode, acknowledge or refuse, keep the
  watched names, update the cache. \<open>wrap\<close> is what the handler adds to the decoder's error.
\<close>

locale response_handler =
  fixes rt :: ResourceType
    and decode :: "lib \<Rightarrow> PbAny list \<Rightarrow> (string, Resource) gomap \<times> string option"
    and wrap :: "string \<Rightarrow> string"
    and handle :: "int \<Rightarrow> lib \<Rightarrow> DiscoveryResponse \<Rightarrow> xdsClient \<Rightarrow> xdsResourceManager \<Rightarrow> handled run"
  assumes handle_eq: "handle now L resp c m =
      run_bind (updateAndACK rt (resp_Nonce resp) (resp_VersionInfo resp) (snd (decode L (resp_Resources resp))) c)
        (\<lambda>c. case snd (decode L (resp_Resources resp)) of
           Some e \<Rightarrow> Returns (Some (wrap e), c, m)
         | None \<Rightarrow> run_bind (UpdateResource now rt (only_watched c rt (fst (decode L (resp_Resources resp)))) (resp_VersionInfo resp) m)
                (\<lambda>m. Returns (None, c, m)))"
    and decode_wf: "gm_wf (fst (decode L raws))"
    and decode_typed: "map_of (fst (decode L raws)) n = Some r \<Longrightarrow> resource_has_type rt r"
begin

lemma filtered_typed: "\<forall>(n, r) \<in> set (only_watched c rt (fst (decode L raws))). resource_has_type rt r"
proof safe
  fix n r
  assume "(n, r) \<in> set (only_watched c rt (fst (decode L raws)))"
  then have "(n, r) \<in> set (fst (decode L raws))" by (auto simp: only_watched_def gm_filter_def)
  then show "resource_has_type rt r" using decode_typed map_of_is_SomeI [OF decode_wf] by blast
qed

lemma filtered_wf: "gm_wf (only_watched c rt (fst (decode L raws)))"
  by (simp add: only_watched_def gm_wf_filter decode_wf)

lemma rejected:
  assumes "snd (decode L (resp_Resources resp)) = Some e"
    and "updateAndACK rt (resp_Nonce resp) (resp_VersionInfo resp) (Some e) c = Returns c'"
  shows "handle now L resp c m = Returns (Some (wrap e), c', m)"
  using assms by (simp add: handle_eq)

lemma accepted:
  assumes "manager_inv m" and "snd (decode L (resp_Resources resp)) = None"
    and ack: "updateAndACK rt (resp_Nonce resp) (resp_VersionInfo resp) None c = Returns c'"
  obtains m' where "handle now L resp c m = Returns (None, c', m')" and "manager_inv m'"
    and "UpdateResource now rt (only_watched c' rt (fst (decode L (resp_Resources resp)))) (resp_VersionInfo resp) m = Returns m'"
    and "abs_cache m' = spec_update rt (only_watched c' rt (fst (decode L (resp_Resources resp)))) (abs_cache m)"
proof -
  obtain m' where m': "UpdateResource now rt (only_watched c' rt (fst (decode L (resp_Resources resp)))) (resp_VersionInfo resp) m = Returns m'"
    "manager_inv m'" "abs_cache m' = spec_update rt (only_watched c' rt (fst (decode L (resp_Resources resp)))) (abs_cache m)"
    using UpdateResource_Returns [OF assms(1) filtered_wf filtered_typed] by metis
  with assms(2) ack that show thesis by (simp add: handle_eq)
qed

lemma handled:
  assumes "manager_inv m"
    and "updateAndACK rt (resp_Nonce resp) (resp_VersionInfo resp) (snd (decode L (resp_Resources resp))) c = Returns c'"
  shows "\<exists>err m'. handle now L resp c m = Returns (err, c', m') \<and>
    (case snd (decode L (resp_Resources resp)) of
       Some e \<Rightarrow> err \<noteq> None \<and> m' = m
     | None \<Rightarrow> err = None \<and>
         abs_cache m' = spec_update rt (only_watched c' rt (fst (decode L (resp_Resources resp)))) (abs_cache m))"
proof (cases "snd (decode L (resp_Resources resp))")
  case None
  with assms(2) have "updateAndACK rt (resp_Nonce resp) (resp_VersionInfo resp) None c = Returns c'" by simp
  from accepted [OF assms(1) None this, of now] None show ?thesis by auto
next
  case (Some e)
  with assms(2) rejected [OF Some] show ?thesis by simp
qed

text \<open>Neither branch can panic, and both keep the invariants.\<close>

lemma safe:
  assumes "client_inv c" and "manager_inv m"
  shows "case handle now L resp c m of
      Returns (e, c', m') \<Rightarrow> client_inv c' \<and> manager_inv m' | Blocks \<Rightarrow> reqCh_cap \<le> length (xc_reqCh c) | Panics p \<Rightarrow> False"
proof (cases "updateAndACK rt (resp_Nonce resp) (resp_VersionInfo resp) (snd (decode L (resp_Resources resp))) c")
  case (Returns c')
  then have c': "client_inv c'" by (rule updateAndACK_inv [OF assms(1)])
  show ?thesis
  proof (cases "snd (decode L (resp_Resources resp))")
    case None
    with Returns have "updateAndACK rt (resp_Nonce resp) (resp_VersionInfo resp) None c = Returns c'" by simp
    from accepted [OF assms(2) None this] obtain m' where "handle now L resp c m = Returns (None, c', m')" "manager_inv m'"
      by metis
    with c' show ?thesis by simp
  next
    case (Some e)
    with Returns have "updateAndACK rt (resp_Nonce resp) (resp_VersionInfo resp) (Some e) c = Returns c'" by simp
    from rejected [OF Some this] c' assms(2) show ?thesis by simp
  qed
next
  case Blocks
  then have "reqCh_cap \<le> length (xc_reqCh c)" by (simp only: updateAndACK_Blocks_iff)
  with Blocks show ?thesis by (simp add: handle_eq)
next
  case (Panics p)
  then show ?thesis using updateAndACK_not_Panics by blast
qed

end

interpretation rds_handler: response_handler RouteConfigType UnmarshalRDS "\<lambda>e. e" handleRDS
proof (unfold_locales, goal_cases)
  case (1 now L resp c m)
  show ?case unfolding handleRDS_def Let_def case_prod_beta by (rule refl)
next
  case (3 L raws n r)
  then show ?case by (auto simp: UnmarshalRDS_def dest!: rds.ret_SomeD rds_one_typed)
qed (simp add: UnmarshalRDS_def rds.ret_wf)

interpretation cds_handler: response_handler ClusterType UnmarshalCDS "\<lambda>e. ''handle cluster failed: '' @ e" handleCDS
proof (unfold_locales, goal_cases)
  case (1 now L resp c m)
  show ?case unfolding handleCDS_def Let_def case_prod_beta by (rule refl)
next
  case (3 L raws n r)
  then show ?case by (auto simp: UnmarshalCDS_def dest!: cds.ret_SomeD cds_one_typed)
qed (simp add: UnmarshalCDS_def cds.ret_wf)

interpretation eds_handler: response_handler EndpointsType UnmarshalEDS "\<lambda>e. ''handle endpoint failed: '' @ e" handleEDS
proof (unfold_locales, goal_cases)
  case (1 now L resp c m)
  show ?case unfolding handleEDS_def Let_def case_prod_beta by (rule refl)
next
  case (3 L raws n r)
  then show ?case by (auto simp: UnmarshalEDS_def dest!: eds.ret_SomeD eds_one_typed)
qed (simp add: UnmarshalEDS_def eds.ret_wf)

subsection \<open>Listener and name table responses\<close>

lemma handleLDS_cases:
  assumes "client_inv c" and "manager_inv m"
    and ack: "updateAndACK ListenerType (resp_Nonce resp) (resp_VersionInfo resp) (snd (UnmarshalLDS L (resp_Resources resp))) c = Returns c'"
  shows "case snd (UnmarshalLDS L (resp_Resources resp)) of
      Some e \<Rightarrow> handleLDS now L resp c m = Returns (Some e, c', m)
    | None \<Rightarrow> \<exists>m'. handleLDS now L resp c m =
          Returns (None, c'\<lparr>xc_closedInboundInitCh := True, xc_inboundInitRequestCh := True\<rparr>, m') \<and> manager_inv m' \<and>
          UpdateResource now ListenerType (lds_filter c' (fst (UnmarshalLDS L (resp_Resources resp)))) (resp_VersionInfo resp) m = Returns m' \<and>
          abs_cache m' = spec_update ListenerType (lds_filter c' (fst (UnmarshalLDS L (resp_Resources resp)))) (abs_cache m)"
proof -
  let ?res = "fst (UnmarshalLDS L (resp_Resources resp))"
  have inv: "client_inv c'" by (rule updateAndACK_inv [OF assms(1) ack])
  obtain m' where m': "UpdateResource now ListenerType (lds_filter c' ?res) (resp_VersionInfo resp) m = Returns m'"
    "manager_inv m'" "abs_cache m' = spec_update ListenerType (lds_filter c' ?res) (abs_cache m)"
    using UpdateResource_Returns [OF assms(2) lds_filter_wf lds_filter_typed] by metis
  then show ?thesis
    using ack signal_inbound_Returns [OF inv]
    by (auto simp: handleLDS_def case_prod_beta split: option.split)
qed

lemma handleNDS_cases:
  assumes "client_inv c"
    and ack: "updateAndACK NameTableType (resp_Nonce resp) (resp_VersionInfo resp)
      (case UnmarshalNDS L (resp_Resources resp) of Inl e \<Rightarrow> Some e | Inr _ \<Rightarrow> None) c = Returns c'"
  shows "handleNDS L resp c m =
    (case UnmarshalNDS L (resp_Resources resp) of
       Inl e \<Rightarrow> Returns (Some e, c', m)
     | Inr nt \<Rightarrow> Returns (None, c'\<lparr>xc_cipResolver := \<lparr>nr_lookupTable = nt, nr_initRequestCh = True, nr_closed = True\<rparr>\<rparr>, m))"
proof -
  have "client_inv c'" by (rule updateAndACK_inv [OF assms(1) ack])
  then have "nr_closed (xc_cipResolver c') = nr_initRequestCh (xc_cipResolver c')" by (simp add: client_inv_def)
  with ack show ?thesis by (auto simp: handleNDS_def updateLookupTable_ok split: sum.splits)
qed

definition handler_ok :: "xdsClient \<Rightarrow> handled run \<Rightarrow> bool" where
  "handler_ok c r =
     (case r of
        Returns (e, c', m') \<Rightarrow> client_inv c' \<and> manager_inv m'
      | Blocks \<Rightarrow> reqCh_cap \<le> length (xc_reqCh c)
      | Panics p \<Rightarrow> False)"

lemma run_bind_ack_cases:
  obtains (Returns) c' where "updateAndACK rt nonce version err c = Returns c'"
  | (Blocks) "updateAndACK rt nonce version err c = Blocks" and "reqCh_cap \<le> length (xc_reqCh c)"
  using updateAndACK_not_Panics [of rt nonce version err c] updateAndACK_Blocks_iff [of rt nonce version err c]
  by (cases "updateAndACK rt nonce version err c") auto

lemma handleLDS_safe:
  assumes "client_inv c" and "manager_inv m"
  shows "handler_ok c (handleLDS now L resp c m)"
proof (cases rule: run_bind_ack_cases [of ListenerType "resp_Nonce resp" "resp_VersionInfo resp"
      "snd (UnmarshalLDS L (resp_Resources resp))" c])
  case (Returns c')
  have "client_inv c'" by (rule updateAndACK_inv [OF assms(1) Returns])
  then have "client_inv (c'\<lparr>xc_closedInboundInitCh := True, xc_inboundInitRequestCh := True\<rparr>)"
    by (simp add: client_inv_def)
  with handleLDS_cases [OF assms Returns, of now] \<open>client_inv c'\<close> assms(2) show ?thesis
    by (auto simp: handler_ok_def split: option.splits)
next
  case Blocks
  then show ?thesis by (simp add: handleLDS_def handler_ok_def case_prod_beta)
qed

lemma handleNDS_safe:
  assumes "client_inv c" and "manager_inv m"
  shows "handler_ok c (handleNDS L resp c m)"
proof (cases rule: run_bind_ack_cases [of NameTableType "resp_Nonce resp" "resp_VersionInfo resp"
      "case UnmarshalNDS L (resp_Resources resp) of Inl e \<Rightarrow> Some e | Inr _ \<Rightarrow> None" c])
  case (Returns c')
  have "client_inv c'" by (rule updateAndACK_inv [OF assms(1) Returns])
  then show ?thesis
    unfolding handleNDS_cases [OF assms(1) Returns] using assms(2)
    by (auto simp: handler_ok_def client_inv_def split: sum.split)
next
  case Blocks
  then show ?thesis by (auto simp: handleNDS_def handler_ok_def split: sum.splits)
qed

lemmas named_handlers_safe =
  rds_handler.safe [folded handler_ok_def] cds_handler.safe [folded handler_ok_def] eds_handler.safe [folded handler_ok_def]

lemma handleResponse_ok:
  assumes "client_inv c" and "manager_inv m"
  shows "handler_ok c (handleResponse now L msg c m)"
proof -
  have ignored: "handler_ok c (Returns (e, c, m))" for e using assms by (simp add: handler_ok_def)
  show ?thesis
    using assms ignored
    by (auto simp: handleResponse_def handleLDS_safe handleNDS_safe named_handlers_safe
        split: message.split option.split ResourceType.split)
qed

subsection \<open>Properties of the handlers\<close>

text \<open>C6: whatever the control plane sends, handling it never panics and keeps the invariants of the
  client and of the manager (in particular no channel is closed twice and every cached value has the
  Go type of its resource type); it can only get stuck on a full request queue.\<close>

theorem handleResponse_safe:
  assumes "client_inv c" and "manager_inv m"
  shows "case handleResponse now L msg c m of
      Returns (err, c', m') \<Rightarrow> client_inv c' \<and> manager_inv m'
    | Blocks \<Rightarrow> 1024 \<le> length (xc_reqCh c)
    | Panics p \<Rightarrow> False"
  using handleResponse_ok [OF assms, of now L msg] unfolding handler_ok_def reqCh_cap_def .

definition example_resp :: "string \<Rightarrow> DiscoveryResponse" where
  "example_resp url = \<lparr>resp_VersionInfo = ''v1'', resp_Resources = [], resp_TypeUrl = url, resp_Nonce = ''n1''\<rparr>"

theorem handleResponse_safe_witness:
  "\<exists>c. Watch ClusterType ''c1'' False (newXdsClient example_config) = Returns c \<and>
     (case handleResponse 0 example_lib (Response (example_resp ClusterTypeURL)) c (new_manager example_opts) of
        Returns (err, c', m') \<Rightarrow> client_inv c' \<and> manager_inv m'
      | Blocks \<Rightarrow> 1024 \<le> length (xc_reqCh c)
      | Panics p \<Rightarrow> False)"
proof -
  obtain c where c: "Watch ClusterType ''c1'' False (newXdsClient example_config) = Returns c"
    using Watch_Returns_iff [of ClusterType "''c1''" False "newXdsClient example_config"]
    by (auto simp: newXdsClient_def reqCh_cap_def)
  with handleResponse_safe [OF Watch_inv [OF client_inv_new c] manager_inv_new] show ?thesis by blast
qed

text \<open>The decoders of the resources that are cached under the name they carry.\<close>

fun named_decoder :: "ResourceType \<Rightarrow> lib \<Rightarrow> PbAny list \<Rightarrow> (string, Resource) gomap \<times> string option" where
  "named_decoder RouteConfigType = UnmarshalRDS"
| "named_decoder ClusterType = UnmarshalCDS"
| "named_decoder _ = UnmarshalEDS"

lemma named_decoder_error: "snd (named_decoder rt L raws) \<noteq> Some ''''"
  using rds.error_not_empty cds.error_not_empty eds.error_not_empty
  by (cases rt) (auto simp: UnmarshalRDS_def UnmarshalCDS_def UnmarshalEDS_def)

text \<open>C5: a response with routes, clusters or endpoints. If every resource decodes, it is
  acknowledged with its version and nonce; of its resources exactly the watched ones are cached, the
  old ones of the type stay unless the type is one of those whose responses are complete, and no other
  type is touched. If some resource does not decode, it is refused with the version of the last
  accepted response and the error, and the manager is unchanged.\<close>

theorem handle_named_response:
  assumes "client_inv c" and "manager_inv m" and "length (xc_reqCh c) < 1024"
    and rt: "rt = RouteConfigType \<or> rt = ClusterType \<or> rt = EndpointsType"
    and url: "resp_TypeUrl resp = gm_str ResourceTypeToURL rt" and w: "map_of (xc_watchedResource c) rt \<noteq> None"
  shows "\<exists>err c' m' req. handleResponse now L (Response resp) c m = Returns (err, c', m') \<and>
    watched c' = watched c \<and> client_nonce c' rt = resp_Nonce resp \<and>
    xc_reqCh c' = xc_reqCh c @ [req] \<and> req_ResponseNonce req = resp_Nonce resp \<and>
    set (req_ResourceNames req) = watched c rt \<and> req_VersionInfo req = client_version c' rt \<and>
    (case named_decoder rt L (resp_Resources resp) of
       (res, Some e) \<Rightarrow> err \<noteq> None \<and> client_version c' rt = client_version c rt \<and>
         req_ErrorDetail req = Some (InvalidArgument, e) \<and> m' = m
     | (res, None) \<Rightarrow> err = None \<and> client_version c' rt = resp_VersionInfo resp \<and> req_ErrorDetail req = None \<and>
         (\<forall>rt' n. abs_cache m' rt' n =
            (if rt' \<noteq> rt then abs_cache m rt' n
             else if n \<in> watched c rt \<and> map_of res n \<noteq> None then map_of res n
             else if RequireFullADSResponse rt then None else abs_cache m rt n)))"
proof -
  let ?d = "named_decoder rt L (resp_Resources resp)"
  obtain c' where ack: "updateAndACK rt (resp_Nonce resp) (resp_VersionInfo resp) (snd ?d) c = Returns c'"
    using run_bind_ack_cases [of rt "resp_Nonce resp" "resp_VersionInfo resp" "snd ?d" c] assms(3)
    by (auto simp: reqCh_cap_def)
  note a = updateAndACK_answer [OF ack named_decoder_error]
  obtain req where req: "xc_reqCh c' = xc_reqCh c @ [req] \<and> set (req_ResourceNames req) = watched c rt \<and>
      req_VersionInfo req = (if snd ?d = None then resp_VersionInfo resp else client_version c rt) \<and>
      req_ResponseNonce req = resp_Nonce resp \<and> req_ErrorDetail req = map_option (Pair InvalidArgument) (snd ?d)"
    using a(4) by blast
  have t: "map_of ResourceURLToType (resp_TypeUrl resp) = Some rt"
    using rt url by (auto simp: gm_str_def ResourceTypeToURL_def ResourceURLToType_def url_defs)
  have "\<exists>err m'. handleResponse now L (Response resp) c m = Returns (err, c', m') \<and>
      (case snd ?d of Some e \<Rightarrow> err \<noteq> None \<and> m' = m
       | None \<Rightarrow> err = None \<and> abs_cache m' = spec_update rt (only_watched c' rt (fst ?d)) (abs_cache m))"
    using rt
  proof (elim disjE)
    assume r: "rt = RouteConfigType"
    with t w have "handleResponse now L (Response resp) c m = handleRDS now L resp c m" by (auto simp: handleResponse_def)
    with ack [unfolded r] rds_handler.handled [OF assms(2), of resp L c c' now] show ?thesis
      unfolding r named_decoder.simps by simp
  next
    assume r: "rt = ClusterType"
    with t w have "handleResponse now L (Response resp) c m = handleCDS now L resp c m" by (auto simp: handleResponse_def)
    with ack [unfolded r] cds_handler.handled [OF assms(2), of resp L c c' now] show ?thesis
      unfolding r named_decoder.simps by simp
  next
    assume r: "rt = EndpointsType"
    with t w have "handleResponse now L (Response resp) c m = handleEDS now L resp c m" by (auto simp: handleResponse_def)
    with ack [unfolded r] eds_handler.handled [OF assms(2), of resp L c c' now] show ?thesis
      unfolding r named_decoder.simps by simp
  qed
  then obtain err m' where h: "handleResponse now L (Response resp) c m = Returns (err, c', m')"
    "case snd ?d of Some e \<Rightarrow> err \<noteq> None \<and> m' = m
       | None \<Rightarrow> err = None \<and> abs_cache m' = spec_update rt (only_watched c' rt (fst ?d)) (abs_cache m)"
    by blast
  have lookup: "map_of (only_watched c' rt (fst ?d)) n = (if n \<in> watched c rt then map_of (fst ?d) n else None)" for n
    by (simp add: only_watched_lookup a(3))
  show ?thesis
    using h req a(1,2,3)
    by (intro exI [of _ err] exI [of _ c'] exI [of _ m'] exI [of _ req])
      (auto simp: case_prod_beta spec_update_def lookup map_add_def split: option.splits)
qed

lemma handle_named_witness_aux:
  "\<exists>c. Watch ClusterType ''c1'' False (newXdsClient example_config) = Returns c \<and> client_inv c \<and>
     length (xc_reqCh c) < 1024 \<and> map_of (xc_watchedResource c) ClusterType \<noteq> None \<and> watched c ClusterType = {''c1''}"
proof -
  obtain c where c: "Watch ClusterType ''c1'' False (newXdsClient example_config) = Returns c"
    using Watch_Returns_iff [of ClusterType "''c1''" False "newXdsClient example_config"]
    by (auto simp: newXdsClient_def reqCh_cap_def)
  moreover have "watched c ClusterType = {''c1''}"
    using Watch_watched [OF c, of ClusterType] by (simp add: newXdsClient_def watched_def gm_sub_def)
  ultimately show ?thesis
    using Watch_inv [OF client_inv_new c] Watch_Returns(2,4) [OF c] by (auto simp: newXdsClient_def)
qed

theorem handle_named_response_witness:
  "\<exists>c err c' m'. Watch ClusterType ''c1'' False (newXdsClient example_config) = Returns c \<and>
     handleResponse 0 example_lib (Response (example_resp ClusterTypeURL)) c (new_manager example_opts) = Returns (err, c', m') \<and>
     err = None \<and> client_version c' ClusterType = ''v1'' \<and> abs_cache m' ClusterType ''c1'' = None"
proof -
  obtain c where c: "Watch ClusterType ''c1'' False (newXdsClient example_config) = Returns c" "client_inv c"
    "length (xc_reqCh c) < 1024" "map_of (xc_watchedResource c) ClusterType \<noteq> None" "watched c ClusterType = {''c1''}"
    using handle_named_witness_aux by blast
  have url: "resp_TypeUrl (example_resp ClusterTypeURL) = gm_str ResourceTypeToURL ClusterType"
    by (simp add: example_resp_def gm_str_def ResourceTypeToURL_def)
  have d: "named_decoder ClusterType example_lib (resp_Resources (example_resp ClusterTypeURL)) = ([], None)"
    by (simp add: UnmarshalCDS_def unmarshal_all_def unmarshal_result_def empty_acc_def example_resp_def)
  from handle_named_response [OF c(2) manager_inv_new c(3) _ url c(4), of 0 example_lib example_opts, unfolded d] c(1)
  show ?thesis by (auto simp: example_resp_def RequireFullADSResponse_def)
qed

text \<open>C7: a listener response. Accepted, it is acknowledged, the inbound warm-up is released, and the
  cached listeners become exactly: for every watched name the listener found under the name that the
  lookup table translates it to (nothing if it has no translation or the response has no such
  listener), and for the reserved name, or without a name table, whatever the response holds under
  the name itself, a nil listener if it holds none. Refused, the manager is unchanged.\<close>

theorem handle_listener_response:
  assumes "client_inv c" and "manager_inv m" and "length (xc_reqCh c) < 1024"
    and url: "resp_TypeUrl resp = ListenerTypeURL" and w: "map_of (xc_watchedResource c) ListenerType \<noteq> None"
  shows "\<exists>err c' m' req. handleResponse now L (Response resp) c m = Returns (err, c', m') \<and>
    watched c' = watched c \<and> xc_reqCh c' = xc_reqCh c @ [req] \<and> req_ResponseNonce req = resp_Nonce resp \<and>
    (case UnmarshalLDS L (resp_Resources resp) of
       (res, Some e) \<Rightarrow> err = Some e \<and> req_ErrorDetail req = Some (InvalidArgument, e) \<and>
         req_VersionInfo req = client_version c ListenerType \<and> m' = m
     | (res, None) \<Rightarrow> err = None \<and> req_ErrorDetail req = None \<and> req_VersionInfo req = resp_VersionInfo resp \<and>
         xc_inboundInitRequestCh c' \<and>
         (\<forall>rt n. rt \<noteq> ListenerType \<longrightarrow> abs_cache m' rt n = abs_cache m rt n) \<and>
         (\<forall>n. abs_cache m' ListenerType n =
            (if n \<notin> watched c ListenerType then None
             else if n = ReservedLdsResourceName \<or> \<not> ndsRequired c then Some (ResListener (map_of res n))
             else case getListenerName c n of
               Inl e \<Rightarrow> None
             | Inr lname \<Rightarrow> if lname = '''' then None else map_option (\<lambda>l. ResListener (Some l)) (map_of res lname))))"
proof -
  let ?d = "UnmarshalLDS L (resp_Resources resp)"
  have noterr: "snd ?d \<noteq> Some ''''" using lds.error_not_empty by (simp add: UnmarshalLDS_def)
  obtain c1 where ack: "updateAndACK ListenerType (resp_Nonce resp) (resp_VersionInfo resp) (snd ?d) c = Returns c1"
    using run_bind_ack_cases [of ListenerType "resp_Nonce resp" "resp_VersionInfo resp" "snd ?d" c] assms(3)
    by (auto simp: reqCh_cap_def)
  note a = updateAndACK_answer [OF ack noterr]
  obtain req where req: "xc_reqCh c1 = xc_reqCh c @ [req] \<and>
      req_VersionInfo req = (if snd ?d = None then resp_VersionInfo resp else client_version c ListenerType) \<and>
      req_ResponseNonce req = resp_Nonce resp \<and> req_ErrorDetail req = map_option (Pair InvalidArgument) (snd ?d)"
    using a(4) by blast
  have "xc_config c1 = xc_config c" "xc_cipResolver c1 = xc_cipResolver c"
    by (subst updateAndACK_Returns(5) [OF ack], simp)+
  then have same: "ndsRequired c1 = ndsRequired c" "getListenerName c1 = getListenerName c"
    by (simp_all only: ndsRequired_def getListenerName_def [abs_def] resolveAddr_def [abs_def])
  have h: "handleResponse now L (Response resp) c m = handleLDS now L resp c m"
    using url w by (auto simp: handleResponse_def ResourceURLToType_def url_defs)
  show ?thesis
  proof (cases "snd ?d")
    case None
    then obtain m' where m': "handleLDS now L resp c m =
          Returns (None, c1\<lparr>xc_closedInboundInitCh := True, xc_inboundInitRequestCh := True\<rparr>, m')"
        "abs_cache m' = spec_update ListenerType (lds_filter c1 (fst ?d)) (abs_cache m)"
      using handleLDS_cases [OF assms(1,2) ack, of now] by auto
    let ?c' = "c1\<lparr>xc_closedInboundInitCh := True, xc_inboundInitRequestCh := True\<rparr>"
    have wc: "watched ?c' = watched c" using a(3) by (simp add: watched_def fun_eq_iff)
    have cache: "abs_cache m' ListenerType n = (if n \<notin> watched c ListenerType then None else lds_entry c (fst ?d) n)" for n
      using m'(2) a(3) same by (simp add: spec_update_def RequireFullADSResponse_def lds_filter_lookup lds_entry_def)
    have other: "abs_cache m' rt n = abs_cache m rt n" if "rt \<noteq> ListenerType" for rt n
      using m'(2) that by (simp add: spec_update_def)
    show ?thesis
      using h m'(1) wc req None
      by (intro exI [of _ None] exI [of _ ?c'] exI [of _ m'] exI [of _ req])
        (auto simp: case_prod_beta cache other lds_entry_def)
  next
    case (Some e)
    then have "handleLDS now L resp c m = Returns (Some e, c1, m)"
      using handleLDS_cases [OF assms(1,2) ack, of now] by simp
    with h req a(3) Some show ?thesis
      by (intro exI [of _ "Some e"] exI [of _ c1] exI [of _ m] exI [of _ req]) (simp add: case_prod_beta)
  qed
qed

theorem handle_listener_response_witness:
  "\<exists>c err c' m'. Watch ListenerType ReservedLdsResourceName False (newXdsClient example_config) = Returns c \<and>
     handleResponse 0 example_lib (Response (example_resp ListenerTypeURL)) c (new_manager example_opts) = Returns (err, c', m') \<and>
     abs_cache m' ListenerType ReservedLdsResourceName = Some (ResListener None)"
proof -
  obtain c where c: "Watch ListenerType ReservedLdsResourceName False (newXdsClient example_config) = Returns c"
    using Watch_Returns_iff [of ListenerType ReservedLdsResourceName False "newXdsClient example_config"]
    by (auto simp: newXdsClient_def reqCh_cap_def)
  have w: "map_of (xc_watchedResource c) ListenerType \<noteq> None" "length (xc_reqCh c) < 1024"
    using Watch_Returns(2,4) [OF c] by (auto simp: newXdsClient_def)
  have n: "ReservedLdsResourceName \<in> watched c ListenerType" using Watch_watched [OF c, of ListenerType] by simp
  have d: "UnmarshalLDS example_lib (resp_Resources (example_resp ListenerTypeURL)) = ([], None)"
    by (simp add: UnmarshalLDS_def unmarshal_all_def unmarshal_result_def empty_acc_def example_resp_def)
  have url: "resp_TypeUrl (example_resp ListenerTypeURL) = ListenerTypeURL" by (simp add: example_resp_def)
  from handle_listener_response [OF Watch_inv [OF client_inv_new c] manager_inv_new w(2) url w(1), of 0 example_lib example_opts,
      unfolded d] c n
  show ?thesis by auto
qed

text \<open>An accepted name table replaces the lookup table, releases the warm-up and leaves the cache
  and the subscriptions alone; a refused one leaves the lookup table as it was.\<close>

theorem handle_name_table_response:
  assumes "client_inv c" and "length (xc_reqCh c) < 1024"
    and url: "resp_TypeUrl resp = NameTableTypeURL" and w: "map_of (xc_watchedResource c) NameTableType \<noteq> None"
  shows "\<exists>err c'. handleResponse now L (Response resp) c m = Returns (err, c', m) \<and> watched c' = watched c \<and>
    (case UnmarshalNDS L (resp_Resources resp) of
       Inl e \<Rightarrow> err = Some e \<and> xc_cipResolver c' = xc_cipResolver c \<and>
         client_version c' NameTableType = client_version c NameTableType
     | Inr nt \<Rightarrow> err = None \<and> lookupHost (xc_cipResolver c') = map_of nt \<and> nr_initRequestCh (xc_cipResolver c') \<and>
         client_version c' NameTableType = resp_VersionInfo resp)"
proof -
  let ?e = "case UnmarshalNDS L (resp_Resources resp) of Inl e \<Rightarrow> Some e | Inr _ \<Rightarrow> None"
  have noterr: "?e \<noteq> Some ''''" using UnmarshalNDS_error_not_empty by (auto split: sum.split)
  obtain c1 where ack: "updateAndACK NameTableType (resp_Nonce resp) (resp_VersionInfo resp) ?e c = Returns c1"
    using run_bind_ack_cases [of NameTableType "resp_Nonce resp" "resp_VersionInfo resp" ?e c] assms(2)
    by (auto simp: reqCh_cap_def)
  note a = updateAndACK_answer [OF ack noterr]
  have r: "xc_cipResolver c1 = xc_cipResolver c" by (subst updateAndACK_Returns(5) [OF ack]) simp
  have h: "handleResponse now L (Response resp) c m = handleNDS L resp c m"
    using url w by (auto simp: handleResponse_def ResourceURLToType_def url_defs)
  show ?thesis
    unfolding h handleNDS_cases [OF assms(1) ack] using a(1,3) r
    by (cases "UnmarshalNDS L (resp_Resources resp)")
      (auto simp: lookupHost_def fun_eq_iff client_version_def)
qed

theorem handle_name_table_response_witness:
  "\<exists>c err c'. Watch NameTableType '''' False (newXdsClient example_config) = Returns c \<and>
     handleResponse 0 example_lib (Response (example_resp NameTableTypeURL)) c (new_manager example_opts) =
       Returns (err, c', new_manager example_opts) \<and> err \<noteq> None"
proof -
  obtain c where c: "Watch NameTableType '''' False (newXdsClient example_config) = Returns c"
    using Watch_Returns_iff [of NameTableType "''''" False "newXdsClient example_config"]
    by (auto simp: newXdsClient_def reqCh_cap_def)
  have w: "map_of (xc_watchedResource c) NameTableType \<noteq> None" "length (xc_reqCh c) < 1024"
    using Watch_Returns(2,4) [OF c] by (auto simp: newXdsClient_def)
  have url: "resp_TypeUrl (example_resp NameTableTypeURL) = NameTableTypeURL" by (simp add: example_resp_def)
  have d: "UnmarshalNDS example_lib (resp_Resources (example_resp NameTableTypeURL)) = Inl ''no NDS resource found in the response''"
    by (simp add: UnmarshalNDS_def example_resp_def)
  from handle_name_table_response [OF Watch_inv [OF client_inv_new c] w(2) url w(1), of 0 example_lib "new_manager example_opts",
      unfolded d] c
  show ?thesis by auto
qed

end
