(* ===== verification/System.thy ===== *)
theory System
  imports Handlers
begin

text \<open>
  The running client: the goroutines that call \<open>Get\<close>, the warm-up, the receiver, the sender, the
  cleaner, a closing manager, interleaved at their critical sections and channel operations. One rule of
  \<open>step\<close> is one critical section (under \<open>m.mu\<close> or \<open>c.mu\<close>) or one channel operation; an operation that
  would block is not enabled. The messages received, the outcome of sending and connecting, the time and
  the choice of goroutine are left open. Streams are numbers, and what is sent on each is recorded.
\<close>

subsection \<open>Goroutines\<close>

text \<open>A call of \<open>Get\<close>: before its lookup, after a miss, waiting on a notifier, finished.\<close>

datatype getter_state =
    GStart ResourceType string
  | GMiss ResourceType string
  | GWaiting ResourceType string nat
  | GDone ResourceType string get_result

text \<open>What a handler holds between its acknowledgement and its update.\<close>

datatype decoded =
    DListeners "(string, ListenerResource) gomap"
  | DNamed ResourceType "(string, Resource) gomap"
  | DNames "(string, string list) gomap"

datatype receiver_state =
    RRecv nat
  | RAcked nat string decoded
  | RFiltered nat string ResourceType "(string, Resource) gomap"
  | RSignal nat
  | RReset nat nat \<comment> \<open>reconnected: queue and nonces reset, new stream not yet handed over\<close>
  | RStopped

datatype warmup_state = WNds | WNdsWait | WLds | WLdsWait | WDone

record sys =
  sy_m :: xdsResourceManager
  sy_c :: xdsClient
  sy_getters :: "(nat, getter_state) gomap"
  sy_recv :: receiver_state
  sy_warm :: warmup_state
  sy_stream :: "nat option" \<comment> \<open>\<open>currStream\<close> of the sender\<close>
  sy_sent :: "(nat \<times> DiscoveryRequest) list"
  sy_sender :: bool \<comment> \<open>the sender has not returned\<close>
  sy_cleaner :: bool \<comment> \<open>the cleaner has not returned\<close>

definition decode :: "lib \<Rightarrow> ResourceType \<Rightarrow> PbAny list \<Rightarrow> string + decoded" where
  "decode L rt raws =
     (case rt of
        ListenerType \<Rightarrow> (case UnmarshalLDS L raws of (res, None) \<Rightarrow> Inr (DListeners res) | (res, Some e) \<Rightarrow> Inl e)
      | NameTableType \<Rightarrow> (case UnmarshalNDS L raws of Inl e \<Rightarrow> Inl e | Inr nt \<Rightarrow> Inr (DNames nt))
      | _ \<Rightarrow> (case named_decoder rt L raws of (res, None) \<Rightarrow> Inr (DNamed rt res) | (res, Some e) \<Rightarrow> Inl e))"

text \<open>The acknowledgement of a response, after which the receiver holds what it decoded.\<close>

definition recv_ack :: "lib \<Rightarrow> nat \<Rightarrow> DiscoveryResponse \<Rightarrow> ResourceType \<Rightarrow> xdsClient \<Rightarrow> (receiver_state \<times> xdsClient) run" where
  "recv_ack L s resp rt c =
     (let d = decode L rt (resp_Resources resp) in
      run_bind (updateAndACK rt (resp_Nonce resp) (resp_VersionInfo resp) (case d of Inl e \<Rightarrow> Some e | Inr _ \<Rightarrow> None) c)
        (\<lambda>c. Returns (case d of Inl e \<Rightarrow> RRecv s | Inr x \<Rightarrow> RAcked s (resp_VersionInfo resp) x, c)))"

text \<open>The critical section after it: filter by the subscriptions, or replace the lookup table.\<close>

definition recv_filter :: "nat \<Rightarrow> string \<Rightarrow> decoded \<Rightarrow> xdsClient \<Rightarrow> (receiver_state \<times> xdsClient) run" where
  "recv_filter s ver d c =
     (case d of
        DListeners res \<Rightarrow> Returns (RFiltered s ver ListenerType (lds_filter c res), c)
      | DNamed rt res \<Rightarrow> Returns (RFiltered s ver rt (only_watched c rt res), c)
      | DNames nt \<Rightarrow> run_bind (updateLookupTable nt (xc_cipResolver c)) (\<lambda>r. Returns (RRecv s, c\<lparr>xc_cipResolver := r\<rparr>)))"

subsection \<open>Steps\<close>

inductive step :: "sys \<Rightarrow> sys \<Rightarrow> bool" where
  call_get: "map_of (sy_getters s) t = None \<Longrightarrow> step s (s\<lparr>sy_getters := gm_put t (GStart rt n) (sy_getters s)\<rparr>)"
| lookup_hit: "map_of (sy_getters s) t = Some (GStart rt n) \<Longrightarrow> get_lookup now rt n (sy_m s) = (Some r, m') \<Longrightarrow>
    step s (s\<lparr>sy_m := m', sy_getters := gm_put t (GDone rt n r) (sy_getters s)\<rparr>)"
| lookup_miss: "map_of (sy_getters s) t = Some (GStart rt n) \<Longrightarrow> get_lookup now rt n (sy_m s) = (None, m') \<Longrightarrow>
    step s (s\<lparr>sy_m := m', sy_getters := gm_put t (GMiss rt n) (sy_getters s)\<rparr>)"
| register: "map_of (sy_getters s) t = Some (GMiss rt n) \<Longrightarrow> get_register rt n (sy_m s) (sy_c s) = Returns (nf, m', c') \<Longrightarrow>
    step s (s\<lparr>sy_m := m', sy_c := c', sy_getters := gm_put t (GWaiting rt n nf) (sy_getters s)\<rparr>)"
| notified: "map_of (sy_getters s) t = Some (GWaiting rt n nf) \<Longrightarrow>
    map_option nt_ch (map_of (m_notifiers (sy_m s)) nf) = Some True \<Longrightarrow> get_notified now rt n nf (sy_m s) = (r, m') \<Longrightarrow>
    step s (s\<lparr>sy_m := m', sy_getters := gm_put t (GDone rt n r) (sy_getters s)\<rparr>)"
| timeout: "map_of (sy_getters s) t = Some (GWaiting rt n nf) \<Longrightarrow> get_timeout rt n (sy_m s) = (r, m') \<Longrightarrow>
    step s (s\<lparr>sy_m := m', sy_getters := gm_put t (GDone rt n r) (sy_getters s)\<rparr>)"
| warm_nds: "sy_warm s = WNds \<Longrightarrow> ndsRequired (sy_c s) \<Longrightarrow> ndsWarmup_watch (sy_c s) = Returns c' \<Longrightarrow>
    step s (s\<lparr>sy_c := c', sy_warm := WNdsWait\<rparr>)"
| warm_nds_skip: "sy_warm s = WNds \<Longrightarrow> \<not> ndsRequired (sy_c s) \<Longrightarrow> step s (s\<lparr>sy_warm := WLds\<rparr>)"
| warm_nds_done: "sy_warm s = WNdsWait \<Longrightarrow> nr_initRequestCh (xc_cipResolver (sy_c s)) \<Longrightarrow> step s (s\<lparr>sy_warm := WLds\<rparr>)"
| warm_lds: "sy_warm s = WLds \<Longrightarrow> ldsRequired (sy_c s) \<Longrightarrow> listenerWarmup_watch (sy_c s) = Returns c' \<Longrightarrow>
    step s (s\<lparr>sy_c := c', sy_warm := WLdsWait\<rparr>)"
| warm_lds_skip: "sy_warm s = WLds \<Longrightarrow> \<not> ldsRequired (sy_c s) \<Longrightarrow> step s (s\<lparr>sy_warm := WDone\<rparr>)"
| warm_lds_done: "sy_warm s = WLdsWait \<Longrightarrow> xc_inboundInitRequestCh (sy_c s) \<Longrightarrow> step s (s\<lparr>sy_warm := WDone\<rparr>)"
| recv_response: "sy_recv s = RRecv st \<Longrightarrow> map_of ResourceURLToType (resp_TypeUrl resp) = Some rt \<Longrightarrow>
    map_of (xc_watchedResource (sy_c s)) rt \<noteq> None \<Longrightarrow> recv_ack L st resp rt (sy_c s) = Returns (r', c') \<Longrightarrow>
    step s (s\<lparr>sy_c := c', sy_recv := r'\<rparr>)"
| recv_filter: "sy_recv s = RAcked st ver d \<Longrightarrow> recv_filter st ver d (sy_c s) = Returns (r', c') \<Longrightarrow>
    step s (s\<lparr>sy_c := c', sy_recv := r'\<rparr>)"
| recv_update: "sy_recv s = RFiltered st ver rt up \<Longrightarrow> UpdateResource now rt up ver (sy_m s) = Returns m' \<Longrightarrow>
    step s (s\<lparr>sy_m := m', sy_recv := (if rt = ListenerType then RSignal st else RRecv st)\<rparr>)"
| recv_signal: "sy_recv s = RSignal st \<Longrightarrow> signal_inbound (sy_c s) = Returns c' \<Longrightarrow>
    step s (s\<lparr>sy_c := c', sy_recv := RRecv st\<rparr>)"
| recv_auth_error: "sy_recv s = RRecv st \<Longrightarrow> IsAuthError err \<Longrightarrow>
    step s (s\<lparr>sy_c := client_close (sy_c s), sy_recv := RStopped\<rparr>)"
| recv_reconnect: "sy_recv s = RRecv st \<Longrightarrow>
    step s (s\<lparr>sy_c := reset_for_reconnect (sy_c s), sy_recv := RReset st st'\<rparr>)"
| recv_hand_over: "sy_recv s = RReset st st' \<Longrightarrow> chan_send streamCh_cap st' (xc_streamCh (sy_c s)) = Returns ch \<Longrightarrow>
    step s (s\<lparr>sy_c := (sy_c s)\<lparr>xc_streamCh := ch\<rparr>, sy_recv := RRecv st'\<rparr>)"
| recv_closed: "sy_recv s = RRecv st \<Longrightarrow> xc_closeCh (sy_c s) \<Longrightarrow> step s (s\<lparr>sy_recv := RStopped\<rparr>)"
| send_stream: "sy_sender s \<Longrightarrow> xc_streamCh (sy_c s) \<noteq> [] \<Longrightarrow> sender_on_stream send (sy_c s) = (cur, c', out) \<Longrightarrow>
    step s (s\<lparr>sy_c := c', sy_stream := cur, sy_sent := sy_sent s @ out\<rparr>)"
| send_request: "sy_sender s \<Longrightarrow> xc_reqCh (sy_c s) \<noteq> [] \<Longrightarrow> sender_on_request send (sy_stream s) (sy_c s) = (cur, c', out) \<Longrightarrow>
    step s (s\<lparr>sy_c := c', sy_stream := cur, sy_sent := sy_sent s @ out\<rparr>)"
| send_closed: "xc_closeCh (sy_c s) \<Longrightarrow> step s (s\<lparr>sy_sender := False\<rparr>)"
| clean: "sy_cleaner s \<Longrightarrow> cleaner_tick now (sy_m s) (sy_c s) = Returns (m', c') \<Longrightarrow> step s (s\<lparr>sy_m := m', sy_c := c'\<rparr>)"
| clean_closed: "m_closeCh (sy_m s) \<Longrightarrow> step s (s\<lparr>sy_cleaner := False\<rparr>)"
| register_handler: "step s (s\<lparr>sy_m := RegisterXDSUpdateHandler rt h (sy_m s)\<rparr>)"
| close: "manager_Close (sy_m s) (sy_c s) = Returns (m', c') \<Longrightarrow> step s (s\<lparr>sy_m := m', sy_c := c'\<rparr>)"

text \<open>The state in which \<open>NewXDSResourceManager\<close> starts the goroutines on the stream it connected.\<close>

definition init_sys :: "BootstrapConfig \<Rightarrow> Options \<Rightarrow> nat \<Rightarrow> sys" where
  "init_sys bc opts st =
     \<lparr>sy_m = new_manager opts, sy_c = newXdsClient bc, sy_getters = [], sy_recv = RRecv st, sy_warm = WNds,
      sy_stream = Some st, sy_sent = [], sy_sender = True, sy_cleaner = True\<rparr>"

definition start :: "sys \<Rightarrow> bool" where
  "start s \<longleftrightarrow> (\<exists>bc opts st. s = init_sys bc opts st)"

subsection \<open>What the control plane has been told\<close>

definition served :: "ResourceType \<Rightarrow> bool" where
  "served rt \<longleftrightarrow> map_of ResourceTypeToURL rt \<noteq> None"

lemma served_url_inj: "served rt \<Longrightarrow> gm_str ResourceTypeToURL rt' = gm_str ResourceTypeToURL rt \<longleftrightarrow> rt' = rt"
  using ResourceURLToType_iff [of "gm_str ResourceTypeToURL rt"]
  by (cases "map_of ResourceTypeToURL rt'"; cases "map_of ResourceTypeToURL rt")
    (auto simp: served_def gm_str_def ResourceTypeToURL_def url_defs split: if_splits)

text \<open>A request that carries exactly the client's current view of a type.\<close>

definition tells :: "xdsClient \<Rightarrow> ResourceType \<Rightarrow> DiscoveryRequest \<Rightarrow> bool" where
  "tells c rt req \<longleftrightarrow>
     req_TypeUrl req = gm_str ResourceTypeToURL rt \<and> set (req_ResourceNames req) = watched c rt \<and>
     req_VersionInfo req = client_version c rt \<and> req_ResponseNonce req = client_nonce c rt"

definition last_req :: "ResourceType \<Rightarrow> DiscoveryRequest list \<Rightarrow> DiscoveryRequest option" where
  "last_req rt reqs =
     (let rs = filter (\<lambda>r. req_TypeUrl r = gm_str ResourceTypeToURL rt) reqs
      in if rs = [] then None else Some (last rs))"

lemma last_req_Nil [simp]: "last_req rt [] = None"
  by (simp add: last_req_def)

lemma last_req_append:
  "last_req rt (xs @ ys) = (case last_req rt ys of Some r \<Rightarrow> Some r | None \<Rightarrow> last_req rt xs)"
  by (simp add: last_req_def Let_def last_append)

lemma last_req_single:
  "last_req rt [r] = (if req_TypeUrl r = gm_str ResourceTypeToURL rt then Some r else None)"
  by (simp add: last_req_def)

lemma last_req_Cons:
  "last_req rt (r # rs) = (case last_req rt rs of Some q \<Rightarrow> Some q
     | None \<Rightarrow> if req_TypeUrl r = gm_str ResourceTypeToURL rt then Some r else None)"
  using last_req_append [of rt "[r]" rs] by (cases "last_req rt rs") (simp_all add: last_req_single)

definition same_view :: "xdsClient \<Rightarrow> xdsClient \<Rightarrow> ResourceType \<Rightarrow> bool" where
  "same_view c c' rt \<longleftrightarrow>
     watched c' rt = watched c rt \<and> client_version c' rt = client_version c rt \<and> client_nonce c' rt = client_nonce c rt \<and>
     (map_of (xc_watchedResource c') rt = None \<longleftrightarrow> map_of (xc_watchedResource c) rt = None)"

lemma tells_same_view: "same_view c c' rt \<Longrightarrow> tells c' rt = tells c rt"
  by (auto simp: same_view_def tells_def fun_eq_iff)

text \<open>An operation announces a type: it queues one request with the new view and leaves the other types alone.\<close>

definition announces :: "ResourceType \<Rightarrow> xdsClient \<Rightarrow> xdsClient \<Rightarrow> bool" where
  "announces rt c c' \<longleftrightarrow>
     (\<exists>req. xc_reqCh c' = xc_reqCh c @ [req] \<and> tells c' rt req) \<and>
     (\<forall>rt'. rt' \<noteq> rt \<longrightarrow> same_view c c' rt') \<and> xc_streamCh c' = xc_streamCh c"

lemma Watch_announces:
  assumes "Watch rt n rm c = Returns c'"
  shows "announces rt c c'"
proof -
  have v: "xc_versionMap c' = xc_versionMap c" "xc_nonceMap c' = xc_nonceMap c" "xc_streamCh c' = xc_streamCh c"
    by (subst Watch_Returns(5) [OF assms], simp)+
  have "tells c' rt (current_request c' rt)" by (simp add: tells_def)
  then show ?thesis
    using Watch_Returns(2) [OF assms] Watch_watched [OF assms] Watch_Returns(4) [OF assms] v
    by (auto simp: announces_def same_view_def client_version_def client_nonce_def)
qed

lemma ack_announces:
  assumes run: "updateAndACK rt nonce ver err c = Returns c'" and "err \<noteq> Some ''''"
  shows "announces rt c c'"
proof -
  note a = updateAndACK_answer [OF assms]
  have w: "xc_watchedResource c' = xc_watchedResource c" "xc_streamCh c' = xc_streamCh c"
    by (subst updateAndACK_Returns(5) [OF run], simp)+
  show ?thesis
    using a w unfolding announces_def same_view_def tells_def by auto
qed

definition queue_ok :: "xdsClient \<Rightarrow> bool" where
  "queue_ok c \<longleftrightarrow> (\<forall>rt req. served rt \<longrightarrow> last_req rt (xc_reqCh c) = Some req \<longrightarrow> tells c rt req)"

definition in_sync :: "nat \<Rightarrow> (nat \<times> DiscoveryRequest) list \<Rightarrow> xdsClient \<Rightarrow> bool" where
  "in_sync st sent c \<longleftrightarrow>
     (\<forall>rt. served rt \<longrightarrow> map_of (xc_watchedResource c) rt \<noteq> None \<longrightarrow> last_req rt (xc_reqCh c) = None \<longrightarrow>
        (\<exists>req. last_req rt (map snd (filter (\<lambda>x. fst x = st) sent)) = Some req \<and> tells c rt req))"

lemma announces_last_req:
  assumes "announces rt c c'" and "served rt'"
  shows "rt' \<noteq> rt \<Longrightarrow> last_req rt' (xc_reqCh c') = last_req rt' (xc_reqCh c)"
    and "\<exists>req. last_req rt (xc_reqCh c') = Some req \<and> tells c' rt req"
proof -
  obtain req where q: "xc_reqCh c' = xc_reqCh c @ [req]" "tells c' rt req"
    using assms(1) by (auto simp: announces_def)
  then have url: "req_TypeUrl req = gm_str ResourceTypeToURL rt" by (simp add: tells_def)
  show "rt' \<noteq> rt \<Longrightarrow> last_req rt' (xc_reqCh c') = last_req rt' (xc_reqCh c)"
    using served_url_inj [OF assms(2), of rt] by (auto simp: q(1) last_req_append last_req_single url)
  show "\<exists>req. last_req rt (xc_reqCh c') = Some req \<and> tells c' rt req"
    using q(2) by (simp add: q(1) last_req_append last_req_single url)
qed

lemma announces_queue_ok:
  assumes "announces rt c c'" and "queue_ok c"
  shows "queue_ok c'"
  unfolding queue_ok_def
proof (intro allI impI)
  fix rt' req
  assume rt': "served rt'" "last_req rt' (xc_reqCh c') = Some req"
  show "tells c' rt' req"
  proof (cases "rt' = rt")
    case True
    with rt' announces_last_req(2) [OF assms(1) rt'(1)] show ?thesis by simp
  next
    case False
    then have "same_view c c' rt'" using assms(1) by (simp add: announces_def)
    from tells_same_view [OF this] rt' False announces_last_req(1) [OF assms(1) rt'(1)] assms(2) show ?thesis
      by (simp add: queue_ok_def)
  qed
qed

lemma announces_in_sync:
  assumes "announces rt c c'" and "in_sync st sent c"
  shows "in_sync st sent c'"
  unfolding in_sync_def
proof (intro allI impI)
  fix rt'
  assume rt': "served rt'" "map_of (xc_watchedResource c') rt' \<noteq> None" "last_req rt' (xc_reqCh c') = None"
  with announces_last_req(2) [OF assms(1) rt'(1)] have ne: "rt' \<noteq> rt" by auto
  then have v: "same_view c c' rt'" using assms(1) by (simp add: announces_def)
  then have "map_of (xc_watchedResource c) rt' \<noteq> None" using rt'(2) by (simp add: same_view_def)
  with rt' ne announces_last_req(1) [OF assms(1) rt'(1)] assms(2)
  show "\<exists>req. last_req rt' (map snd (filter (\<lambda>x. fst x = st) sent)) = Some req \<and> tells c' rt' req"
    unfolding tells_same_view [OF v] in_sync_def by metis
qed

text \<open>Operations that leave the views, the queue and the stream alone.\<close>

definition quiet :: "xdsClient \<Rightarrow> xdsClient \<Rightarrow> bool" where
  "quiet c c' \<longleftrightarrow> (\<forall>rt. same_view c c' rt) \<and> xc_reqCh c' = xc_reqCh c"

lemma quietI:
  "xc_watchedResource c' = xc_watchedResource c \<Longrightarrow> xc_versionMap c' = xc_versionMap c \<Longrightarrow>
     xc_nonceMap c' = xc_nonceMap c \<Longrightarrow> xc_reqCh c' = xc_reqCh c \<Longrightarrow> quiet c c'"
  by (simp add: quiet_def same_view_def watched_def client_version_def client_nonce_def)

lemma quietD:
  assumes "quiet c c'"
  shows "tells c' = tells c" and "xc_reqCh c' = xc_reqCh c"
    and "map_of (xc_watchedResource c') rt = None \<longleftrightarrow> map_of (xc_watchedResource c) rt = None"
  using assms tells_same_view [of c c'] by (auto simp: quiet_def same_view_def intro!: ext)

lemma quiet_queue_ok: "quiet c c' \<Longrightarrow> queue_ok c \<Longrightarrow> queue_ok c'"
  by (simp add: queue_ok_def quietD)

lemma quiet_in_sync: "quiet c c' \<Longrightarrow> in_sync st sent c \<Longrightarrow> in_sync st sent c'"
  by (simp add: in_sync_def quietD)

text \<open>
  What every goroutine but the sender does to the client: a sequence of announcements and of quiet
  changes, the stream channel left alone.
\<close>

definition evolves :: "xdsClient \<Rightarrow> xdsClient \<Rightarrow> bool" where
  "evolves = (\<lambda>c c'. quiet c c' \<and> xc_streamCh c' = xc_streamCh c \<or> (\<exists>rt. announces rt c c'))\<^sup>*\<^sup>*"

lemma evolves_refl [simp]: "evolves c c"
  by (simp add: evolves_def)

lemma evolves_trans: "evolves a b \<Longrightarrow> evolves b c \<Longrightarrow> evolves a c"
  unfolding evolves_def by (rule rtranclp_trans)

lemma evolves_announce: "announces rt c c' \<Longrightarrow> evolves c c'"
  unfolding evolves_def by blast

lemma evolves_quiet: "quiet c c' \<Longrightarrow> xc_streamCh c' = xc_streamCh c \<Longrightarrow> evolves c c'"
  unfolding evolves_def by blast

lemma announces_streamCh: "announces rt c c' \<Longrightarrow> xc_streamCh c' = xc_streamCh c"
  by (simp add: announces_def)

lemma evolves_keeps:
  assumes "evolves c c'"
  shows "queue_ok c \<Longrightarrow> queue_ok c'" and "in_sync st sent c \<Longrightarrow> in_sync st sent c'"
    and "xc_streamCh c' = xc_streamCh c"
  using assms unfolding evolves_def
  by (induction rule: rtranclp_induct)
    (auto intro: quiet_queue_ok quiet_in_sync announces_queue_ok announces_in_sync dest: announces_streamCh)

lemma evolves_watch: "Watch rt n rm c = Returns c' \<Longrightarrow> evolves c c'"
  by (rule evolves_announce) (rule Watch_announces)

lemma evolves_register:
  "get_register rt n m c = Returns (nf, m', c') \<Longrightarrow> evolves c c'"
  using get_register_Returns(4) [of rt n m c nf m' c'] by (auto intro: evolves_watch split: option.splits)

lemma evolves_clean_names: "clean_names now rt es m c = Returns (m', c') \<Longrightarrow> evolves c c'"
proof (induction now rt es m c rule: clean_names.induct)
  case (2 now rt n mt es m c)
  then show ?case
    by (cases "expired now rt n mt") (auto simp: Let_def intro: evolves_trans [OF evolves_watch])
qed simp

lemma evolves_clean: "clean_types now rts m c = Returns (m', c') \<Longrightarrow> evolves c c'"
proof (induction now rts m c rule: clean_types.induct)
  case (2 now rt ms rts m c)
  then show ?case by (auto intro: evolves_trans [OF evolves_clean_names])
qed simp

lemma decode_error: "decode L rt raws \<noteq> Inl ''''"
  using lds.error_not_empty [of L raws] UnmarshalNDS_error_not_empty [of L raws] named_decoder_error [of rt L raws]
  by (auto simp: decode_def UnmarshalLDS_def split: ResourceType.splits sum.splits option.splits prod.splits)

lemma evolves_recv_ack: "recv_ack L st resp rt c = Returns (r', c') \<Longrightarrow> evolves c c'"
  using decode_error [of L rt "resp_Resources resp"]
  by (auto simp: recv_ack_def Let_def intro!: evolves_announce ack_announces split: sum.splits)

lemma evolves_recv_filter: "recv_filter st ver d c = Returns (r', c') \<Longrightarrow> evolves c c'"
  by (auto simp: recv_filter_def intro!: evolves_quiet quietI split: decoded.splits)

lemma evolves_signal: "signal_inbound c = Returns c' \<Longrightarrow> evolves c c'"
  by (auto simp: signal_inbound_def intro!: evolves_quiet quietI split: if_splits)

lemma evolves_close: "evolves c (client_close c)"
  by (auto simp: client_close_def intro!: evolves_quiet quietI)

lemmas evolves_intros = evolves_watch evolves_register evolves_recv_ack evolves_recv_filter evolves_signal evolves_close


subsection \<open>The sender\<close>

lemma send_watched_ok:
  "send_watched send c ws = (sent, None) \<Longrightarrow> send_watched (\<lambda>_. None) c ws = (sent, None)"
  by (induction ws arbitrary: sent) (auto simp: Let_def split: option.splits prod.splits)

lemma last_req_current_requests:
  assumes "served rt"
  shows "last_req rt (map (current_request c) types) = (if rt \<in> set types then Some (current_request c rt) else None)"
  by (induction types) (auto simp: last_req_Cons served_url_inj [OF assms] split: option.splits)

lemma map_snd_filter_Pair [simp]: "map snd (filter (\<lambda>x. fst x = st) (map (Pair st) rs)) = rs"
  by (induction rs) auto

text \<open>A new stream that took all its requests knows every subscription.\<close>

lemma sender_on_stream_sync:
  assumes "client_inv c" and "xc_streamCh c \<noteq> []" and "sender_on_stream send c = (cur, c', out)"
  shows "xc_streamCh c' = []" and "cur = Some st \<Longrightarrow> in_sync st (sent @ out) c'"
    and "quiet c c'" and "client_inv c'"
proof -
  obtain x where x: "xc_streamCh c = [x]"
    using assms(1,2) by (cases "xc_streamCh c") (auto simp: client_inv_def streamCh_cap_def)
  obtain rs err where r: "reqWhenReconnect send (c\<lparr>xc_streamCh := []\<rparr>) = (rs, err)" by fastforce
  with assms(3) x have o: "cur = (if err = None then Some x else None)" "c' = c\<lparr>xc_streamCh := []\<rparr>" "out = map (Pair x) rs"
    by (simp_all add: sender_on_stream_def)
  show inv: "client_inv c'" and "quiet c c'" and "xc_streamCh c' = []"
    using assms(1) by (auto simp: o client_inv_def intro!: quietI)
  assume "cur = Some st"
  then have st: "err = None" "x = st" using o by (auto split: if_splits)
  have "rs = map (current_request c') (gm_keys (xc_watchedResource c'))"
    using reqWhenReconnect_all [OF inv] send_watched_ok r unfolding o st reqWhenReconnect_def by fastforce
  then have out: "map snd (filter (\<lambda>x. fst x = st) out) = map (current_request c') (gm_keys (xc_watchedResource c'))"
    by (simp only: o(3) st(2) map_snd_filter_Pair)
  have "last_req rt (map snd (filter (\<lambda>x. fst x = st) (sent @ out))) = Some (current_request c' rt)"
    if "served rt" "map_of (xc_watchedResource c') rt \<noteq> None" for rt
    using last_req_current_requests [OF that(1), of c' "gm_keys (xc_watchedResource c')"] that(2)
    unfolding set_keys_map_of filter_append map_append last_req_append out by (simp only: if_True option.simps not_False_eq_True)
  then show "in_sync st (sent @ out) c'"
    unfolding in_sync_def by (simp add: tells_def)
qed

text \<open>A queued request that goes out brings its type up to date; one that is dropped loses the stream.\<close>

lemma sender_on_request_sync:
  assumes "xc_reqCh c \<noteq> []" and "sender_on_request send cur c = (cur', c', out)" and "queue_ok c"
  shows "queue_ok c'" and "xc_streamCh c' = xc_streamCh c" and "client_inv c \<Longrightarrow> client_inv c'"
    and "cur' = Some st \<Longrightarrow> cur = Some st \<and> (in_sync st sent c \<longrightarrow> in_sync st (sent @ out) c')"
proof -
  obtain req rest where q: "xc_reqCh c = req # rest" using assms(1) by (cases "xc_reqCh c") auto
  have c': "c' = c\<lparr>xc_reqCh := rest\<rparr>"
    using assms(2) by (auto simp: sender_on_request_def q Let_def split: option.splits)
  have t: "tells c' = tells c" "map_of (xc_watchedResource c') = map_of (xc_watchedResource c)"
    by (auto simp: c' tells_def fun_eq_iff client_version_def client_nonce_def)
  show "queue_ok c'"
    using assms(3) unfolding queue_ok_def t by (simp add: c' q last_req_Cons)
  show "xc_streamCh c' = xc_streamCh c" and "client_inv c \<Longrightarrow> client_inv c'"
    by (simp_all add: c' client_inv_def q)
  assume "cur' = Some st"
  then have o: "cur = Some st" "out = [(st, req)]"
    using assms(2) by (auto simp: sender_on_request_def q Let_def split: option.splits)
  have "in_sync st (sent @ out) c'" if s: "in_sync st sent c"
    unfolding in_sync_def t
  proof (intro allI impI)
    fix rt
    assume rt: "served rt" "map_of (xc_watchedResource c) rt \<noteq> None" "last_req rt (xc_reqCh c') = None"
    have head: "last_req rt (xc_reqCh c) = last_req rt [req]"
      using rt(3) by (simp add: c' q last_req_Cons)
    show "\<exists>r. last_req rt (map snd (filter (\<lambda>x. fst x = st) (sent @ out))) = Some r \<and> tells c rt r"
    proof (cases "last_req rt [req]")
      case None
      with s rt(1,2) head show ?thesis unfolding in_sync_def by (simp add: o last_req_append)
    next
      case (Some r)
      with assms(3) rt(1) head have "tells c rt r" by (simp add: queue_ok_def)
      with Some show ?thesis by (simp add: o last_req_append)
    qed
  qed
  with o show "cur = Some st \<and> (in_sync st sent c \<longrightarrow> in_sync st (sent @ out) c')" by simp
qed


subsection \<open>The invariant of the running client\<close>

text \<open>A notifier that a \<open>Get\<close> may wait on.\<close>

definition waitable :: "xdsResourceManager \<Rightarrow> nat \<Rightarrow> bool" where
  "waitable m p \<longleftrightarrow> (\<exists>x. map_of (m_notifiers m) p = Some x \<and> nt_err x = None)"

fun getter_ok :: "xdsResourceManager \<Rightarrow> getter_state \<Rightarrow> bool" where
  "getter_ok m (GWaiting rt n p) = waitable m p"
| "getter_ok m (GDone rt n (GetOk (Some r))) = resource_has_type rt r"
| "getter_ok m _ = True"

fun receiver_ok :: "receiver_state \<Rightarrow> bool" where
  "receiver_ok (RAcked st ver (DNamed rt res)) = (gm_wf res \<and> (\<forall>(n, r) \<in> set res. resource_has_type rt r))"
| "receiver_ok (RFiltered st ver rt up) = (gm_wf up \<and> (\<forall>(n, r) \<in> set up. resource_has_type rt r))"
| "receiver_ok _ = True"

fun resetting :: "receiver_state \<Rightarrow> bool" where
  "resetting (RReset st st') = True"
| "resetting _ = False"

definition sender_ok :: "sys \<Rightarrow> bool" where
  "sender_ok s \<longleftrightarrow> queue_ok (sy_c s) \<and>
     (\<forall>st. sy_stream s = Some st \<longrightarrow> xc_streamCh (sy_c s) = [] \<longrightarrow> \<not> resetting (sy_recv s) \<longrightarrow>
        in_sync st (sy_sent s) (sy_c s))"

definition state_ok :: "sys \<Rightarrow> bool" where
  "state_ok s \<longleftrightarrow> manager_inv (sy_m s) \<and> client_inv (sy_c s) \<and>
     (\<forall>t g. map_of (sy_getters s) t = Some g \<longrightarrow> getter_ok (sy_m s) g) \<and> receiver_ok (sy_recv s)"

definition sys_inv :: "sys \<Rightarrow> bool" where
  "sys_inv s \<longleftrightarrow> state_ok s \<and> sender_ok s"

lemma sys_inv_init: "sys_inv (init_sys bc opts st)"
  by (simp add: sys_inv_def state_ok_def sender_ok_def init_sys_def manager_inv_new client_inv_new queue_ok_def in_sync_def)
    (simp add: newXdsClient_def)

subsubsection \<open>The manager and its waiters\<close>

lemma getter_ok_mono: "getter_ok m g \<Longrightarrow> (\<And>p. waitable m p \<Longrightarrow> waitable m' p) \<Longrightarrow> getter_ok m' g"
  by (induction m g rule: getter_ok.induct) auto

text \<open>What a step that works on the manager owes: its invariant, and no notifier lost.\<close>

definition manager_step :: "xdsResourceManager \<Rightarrow> xdsResourceManager \<Rightarrow> bool" where
  "manager_step m m' \<longleftrightarrow> manager_inv m' \<and> (\<forall>p. waitable m p \<longrightarrow> waitable m' p)"

lemma manager_stepI: "manager_inv m' \<Longrightarrow> m_notifiers m' = m_notifiers m \<Longrightarrow> manager_step m m'"
  by (simp add: manager_step_def waitable_def)

lemma getFromCache_notifiers: "getFromCache now rt n m = (r, m') \<Longrightarrow> m_notifiers m' = m_notifiers m"
  using getFromCache_frame(3) [of now rt n m] by simp

lemma manager_step_lookup:
  assumes "manager_inv m" and "get_lookup now rt n m = (r, m')"
  shows "manager_step m m'" and "r = Some res \<Longrightarrow> getter_ok m' (GDone rt n res)"
proof -
  show "manager_step m m'"
    using get_lookup_inv [OF assms(1), of now rt n] assms(2)
    by (intro manager_stepI) (auto simp: get_lookup_def dest: getFromCache_notifiers split: if_splits prod.splits option.splits)
  show "r = Some res \<Longrightarrow> getter_ok m' (GDone rt n res)"
    using assms(2) cache_typedD [OF assms(1), of rt n] getFromCache_result [of now rt n m]
    by (auto simp: get_lookup_def abs_cache_def split: if_splits prod.splits option.splits)
qed

lemma manager_step_register:
  assumes "manager_inv m" and "get_register rt n m c = Returns (nf, m', c')"
  shows "manager_step m m'" and "waitable m' nf"
proof -
  note r = get_register_Returns [OF assms(2)]
  have inv: "manager_inv m'" by (rule get_register_inv [OF assms])
  show "waitable m' nf" using notifiers_okD [OF inv r(2)] by (simp add: waitable_def)
  show "manager_step m m'"
    using r(4) inv by (auto simp: manager_step_def waitable_def split: option.splits)
qed

lemma manager_step_notified:
  assumes "manager_inv m" and "get_notified now rt n nf m = (r, m')"
  shows "manager_step m m'" and "getter_ok m' (GDone rt n r)"
proof -
  show "manager_step m m'"
    using get_notified_inv [OF assms(1), of now rt n nf] assms(2)
    by (intro manager_stepI) (auto simp: get_notified_def dest: getFromCache_notifiers split: prod.splits option.splits)
  show "getter_ok m' (GDone rt n r)"
    using assms(2) cache_typedD [OF assms(1), of rt n] getFromCache_result [of now rt n m]
    by (cases "abs_cache m rt n") (auto simp: get_notified_def abs_cache_def split: prod.splits option.splits)
qed

lemma manager_step_timeout:
  assumes "manager_inv m" and "get_timeout rt n m = (r, m')"
  shows "manager_step m m'" and "getter_ok m' (GDone rt n r)"
  using get_timeout_inv [OF assms(1), of rt n] assms(2)
  by (auto simp: get_timeout_def intro!: manager_stepI)

lemma manager_step_update:
  assumes "manager_inv m" and "gm_wf up" and "\<forall>(n, r) \<in> set up. resource_has_type rt r"
    and "UpdateResource now rt up ver m = Returns m'"
  shows "manager_step m m'"
proof (rule UpdateResource_Returns [OF assms(1-3), of now ver])
  fix m1
  assume "UpdateResource now rt up ver m = Returns m1" and "manager_inv m1"
    and "\<And>p. map_of (m_notifiers m1) p =
       (if \<exists>n. map_of up n \<noteq> None \<and> gm2_get (m_notifierMap m) rt n = Some p
        then Some \<lparr>nt_ch = True, nt_err = None\<rparr> else map_of (m_notifiers m) p)"
  then show "manager_step m m'"
    using assms(4) by (simp add: manager_step_def waitable_def)
qed

lemma manager_step_clean:
  assumes "manager_inv m" and "cleaner_tick now m c = Returns (m', c')"
  shows "manager_step m m'" and "client_inv c \<Longrightarrow> client_inv c'"
proof -
  from cleaner_tick_Returns [OF assms]
  have "m' = m\<lparr>m_meta := m_meta m', m_cache := m_cache m'\<rparr>" "manager_inv m'" and c: "client_inv c \<Longrightarrow> client_inv c'"
    using assms(1) by (simp_all add: cleaned_def)
  then show "manager_step m m'"
    by (metis manager_stepI xdsResourceManager.select_convs(4) xdsResourceManager.surjective xdsResourceManager.update_convs(1,2))
  show "client_inv c \<Longrightarrow> client_inv c'" by (rule c)
qed

lemma manager_step_handlers: "manager_inv m \<Longrightarrow> manager_step m (RegisterXDSUpdateHandler rt h m)"
  by (intro manager_stepI Register_inv) (simp_all add: RegisterXDSUpdateHandler_def Let_def split: option.split)

lemma manager_step_close: "manager_inv m \<Longrightarrow> manager_Close m c = Returns (m', c') \<Longrightarrow> manager_step m m'"
  by (auto simp: manager_Close_def Let_def chan_close_def intro!: manager_stepI split: if_splits)


subsubsection \<open>The receiver\<close>

lemma named_decoder_ok:
  assumes "rt = RouteConfigType \<or> rt = ClusterType \<or> rt = EndpointsType"
  shows "gm_wf (fst (named_decoder rt L raws))"
    and "\<forall>(n, r) \<in> set (fst (named_decoder rt L raws)). resource_has_type rt r"
proof -
  show wf: "gm_wf (fst (named_decoder rt L raws))"
    using assms rds_handler.decode_wf cds_handler.decode_wf eds_handler.decode_wf by auto
  show "\<forall>(n, r) \<in> set (fst (named_decoder rt L raws)). resource_has_type rt r"
    using assms map_of_is_SomeI [OF wf] rds_handler.decode_typed cds_handler.decode_typed eds_handler.decode_typed
    by fastforce
qed

lemma decode_ok:
  assumes "served rt" and "decode L rt raws = Inr d"
  shows "receiver_ok (RAcked st ver d)"
proof (cases d)
  case (DNamed rt' res)
  with assms have rt: "rt = RouteConfigType \<or> rt = ClusterType \<or> rt = EndpointsType"
    and "named_decoder rt L raws = (res, None)" "rt' = rt"
    by (auto simp: decode_def served_def ResourceTypeToURL_def split: ResourceType.splits sum.splits option.splits prod.splits)
  with named_decoder_ok [OF rt, of L raws] DNamed show ?thesis by simp
qed auto

lemma recv_ack_ok:
  assumes "client_inv c" and "map_of ResourceURLToType url = Some rt" and "recv_ack L st resp rt c = Returns (r', c')"
  shows "client_inv c'" and "receiver_ok r'" and "\<not> resetting r'"
proof -
  have rt: "served rt" using assms(2) by (simp add: served_def ResourceURLToType_iff)
  show "client_inv c'" and "receiver_ok r'" and "\<not> resetting r'"
    using assms(3) updateAndACK_inv [OF assms(1)] decode_ok [OF rt, of L "resp_Resources resp"]
    by (auto simp: recv_ack_def Let_def split: sum.splits)
qed

lemma only_watched_ok:
  "gm_wf res \<Longrightarrow> \<forall>(n, r) \<in> set res. resource_has_type rt r \<Longrightarrow> receiver_ok (RFiltered st ver rt (only_watched c rt res))"
  by (auto simp: only_watched_def gm_wf_filter) (auto simp: gm_filter_def)

lemma recv_filter_ok:
  assumes "client_inv c" and "receiver_ok (RAcked st ver d)" and "recv_filter st ver d c = Returns (r', c')"
  shows "client_inv c'" and "receiver_ok r'" and "\<not> resetting r'"
proof -
  have r: "nr_closed (xc_cipResolver c) = nr_initRequestCh (xc_cipResolver c)" using assms(1) by (simp add: client_inv_def)
  show "client_inv c'"
    using assms(1,3) by (cases d) (auto simp: recv_filter_def updateLookupTable_ok [OF r] client_inv_def)
  show "receiver_ok r'"
    using assms(2,3) lds_filter_wf lds_filter_typed only_watched_ok
    by (cases d) (auto simp: recv_filter_def)
  show "\<not> resetting r'" using assms(3) by (cases d) (auto simp: recv_filter_def)
qed

subsubsection \<open>Preservation\<close>

lemma state_ok_update:
  assumes "state_ok s" and "manager_step (sy_m s) (sy_m s')" and "client_inv (sy_c s')" and "receiver_ok (sy_recv s')"
    and "\<And>t g. map_of (sy_getters s') t = Some g \<Longrightarrow> map_of (sy_getters s) t = Some g \<or> getter_ok (sy_m s') g"
  shows "state_ok s'"
proof -
  have m: "manager_inv (sy_m s')" and w: "\<And>p. waitable (sy_m s) p \<Longrightarrow> waitable (sy_m s') p"
    using assms(2) by (simp_all add: manager_step_def)
  have "getter_ok (sy_m s') g" if "map_of (sy_getters s') t = Some g" for t g
    using assms(1) assms(5) [OF that] getter_ok_mono [of "sy_m s" g, OF _ w] unfolding state_ok_def by blast
  with m assms(3,4) show ?thesis by (simp add: state_ok_def)
qed

lemma state_okD:
  "state_ok s \<Longrightarrow> manager_inv (sy_m s)" "state_ok s \<Longrightarrow> client_inv (sy_c s)" "state_ok s \<Longrightarrow> receiver_ok (sy_recv s)"
  by (simp_all add: state_ok_def)

lemma manager_step_refl: "manager_inv m \<Longrightarrow> manager_step m m"
  by (simp add: manager_step_def)

lemma state_ok_step:
  assumes "step s s'" and "state_ok s" and "sender_ok s"
  shows "state_ok s'"
proof -
  note inv = state_okD [OF assms(2)]
  note keep = manager_step_refl [OF inv(1)]
  from assms(1) show ?thesis
  proof cases
    case (call_get t rt n)
    with inv keep show ?thesis by (intro state_ok_update [OF assms(2)]) (auto split: if_splits)
  next
    case (lookup_hit t rt n now r m')
    with inv manager_step_lookup [OF inv(1) lookup_hit(3)] show ?thesis
      by (intro state_ok_update [OF assms(2)]) (auto split: if_splits)
  next
    case (lookup_miss t rt n now m')
    with inv manager_step_lookup [OF inv(1) lookup_miss(3)] show ?thesis
      by (intro state_ok_update [OF assms(2)]) (auto split: if_splits)
  next
    case (register t rt n nf m' c')
    with inv manager_step_register [OF inv(1) register(3)] get_register_client_inv [OF inv(2) register(3)] show ?thesis
      by (intro state_ok_update [OF assms(2)]) (auto split: if_splits)
  next
    case (notified t rt n nf now r m')
    with inv manager_step_notified [OF inv(1) notified(4)] show ?thesis
      by (intro state_ok_update [OF assms(2)]) (auto split: if_splits)
  next
    case (timeout t rt n nf r m')
    with inv manager_step_timeout [OF inv(1) timeout(3)] show ?thesis
      by (intro state_ok_update [OF assms(2)]) (auto split: if_splits)
  next
    case (recv_response st resp rt L r' c')
    with inv keep recv_ack_ok [OF inv(2) recv_response(3,5)] show ?thesis
      by (intro state_ok_update [OF assms(2)]) (auto split: if_splits)
  next
    case (recv_filter st ver d r' c')
    with inv keep recv_filter_ok [OF inv(2) _ recv_filter(3)] show ?thesis
      by (intro state_ok_update [OF assms(2)]) (auto split: if_splits)
  next
    case (recv_update st ver rt up now m')
    with inv have "gm_wf up" "\<forall>(n, r) \<in> set up. resource_has_type rt r" by simp_all
    with inv manager_step_update [OF inv(1) _ _ recv_update(3)] recv_update show ?thesis
      by (intro state_ok_update [OF assms(2)]) (auto split: if_splits)
  next
    case (send_request send cur c' out)
    with inv keep assms(3) sender_on_request_sync(3) [OF send_request(3,4)] show ?thesis
      by (intro state_ok_update [OF assms(2)]) (auto simp: sender_ok_def)
  next
    case (send_stream send cur c' out)
    with inv keep sender_on_stream_sync(4) [OF inv(2) send_stream(3,4)] show ?thesis
      by (intro state_ok_update [OF assms(2)]) (auto split: if_splits)
  next
    case (clean now m' c')
    with inv manager_step_clean [OF inv(1) clean(3)] show ?thesis
      by (intro state_ok_update [OF assms(2)]) (auto split: if_splits)
  next
    case (close m' c')
    with inv manager_step_close [OF inv(1) close(2)] show ?thesis
      by (intro state_ok_update [OF assms(2)]) (auto simp: manager_Close_def Let_def client_close_inv)
  next
    case (recv_hand_over st st' ch)
    with inv keep show ?thesis
      by (intro state_ok_update [OF assms(2)]) (auto simp: chan_send_def client_inv_def split: if_splits)
  next
    case (recv_signal st c')
    with inv keep signal_inbound_Returns [OF inv(2)] show ?thesis
      by (intro state_ok_update [OF assms(2)]) (auto simp: client_inv_def)
  qed (use inv keep in \<open>auto dest: Watch_inv [OF inv(2)] intro!: state_ok_update [OF assms(2)] client_close_inv reset_for_reconnect_inv
        manager_step_handlers simp: ndsWarmup_watch_def listenerWarmup_watch_def\<close>)
qed


lemma sender_ok_evolves:
  assumes "sender_ok s" and "evolves (sy_c s) (sy_c s')" and "sy_stream s' = sy_stream s" and "sy_sent s' = sy_sent s"
    and "resetting (sy_recv s) \<Longrightarrow> resetting (sy_recv s')"
  shows "sender_ok s'"
  using assms evolves_keeps [OF assms(2)] unfolding sender_ok_def by metis

lemma sender_ok_step:
  assumes "step s s'" and "state_ok s" and "sender_ok s"
  shows "sender_ok s'"
proof -
  note inv = state_okD [OF assms(2)]
  note ev = sender_ok_evolves [OF assms(3)]
  have q: "queue_ok (sy_c s)" using assms(3) by (simp add: sender_ok_def)
  from assms(1) show ?thesis
  proof cases
    case (recv_reconnect st st')
    then show ?thesis by (simp add: sender_ok_def queue_ok_def reset_for_reconnect_def clearRequestCh_eq)
  next
    case (recv_hand_over st st' ch)
    then have "quiet (sy_c s) (sy_c s')" by (auto intro: quietI)
    with recv_hand_over q quiet_queue_ok show ?thesis by (auto simp: sender_ok_def chan_send_def split: if_splits)
  next
    case (send_stream send cur c' out)
    then show ?thesis
      using sender_on_stream_sync [OF inv(2) send_stream(3,4)] quiet_queue_ok [OF _ q] by (simp add: sender_ok_def)
  next
    case (send_request send cur c' out)
    then show ?thesis
      using sender_on_request_sync [OF send_request(3,4) q] assms(3) by (fastforce simp: sender_ok_def)
  next
    case (recv_response st resp rt L r' c')
    then show ?thesis by (intro ev) (auto intro: evolves_intros)
  next
    case (recv_filter st ver d r' c')
    then show ?thesis by (intro ev) (auto intro: evolves_intros)
  next
    case (clean now m' c')
    then show ?thesis by (intro ev) (auto intro: evolves_clean simp: cleaner_tick_def)
  next
    case (close m' c')
    then show ?thesis by (intro ev) (auto intro: evolves_intros simp: manager_Close_def Let_def)
  qed (auto intro!: ev intro: evolves_intros simp: ndsWarmup_watch_def listenerWarmup_watch_def)
qed

interpretation system: inductive_invariant start step sys_inv
proof
  show "sys_inv s" if "start s" for s using that sys_inv_init by (auto simp: start_def)
  show "sys_inv s'" if "sys_inv s" "step s s'" for s s'
    using that state_ok_step sender_ok_step by (simp add: sys_inv_def)
qed


subsection \<open>Properties of the running client\<close>

lemma last_req_split:
  "last_req rt (map snd (filter (\<lambda>x. fst x = st) sent)) = Some req \<Longrightarrow>
     \<exists>before after. sent = before @ (st, req) # after \<and>
       (\<forall>req'. (st, req') \<in> set after \<longrightarrow> req_TypeUrl req' \<noteq> gm_str ResourceTypeToURL rt)"
proof (induction sent rule: rev_induct)
  case (snoc x sent)
  obtain st' r where x: "x = (st', r)" by (cases x)
  show ?case
  proof (cases "st' = st \<and> req_TypeUrl r = gm_str ResourceTypeToURL rt")
    case True
    with snoc.prems x have "x = (st, req)" by (simp add: last_req_append last_req_single)
    then show ?thesis by (intro exI [of _ sent] exI [of _ "[]"]) simp
  next
    case False
    with snoc x obtain before after where "sent = before @ (st, req) # after"
      "\<forall>req'. (st, req') \<in> set after \<longrightarrow> req_TypeUrl req' \<noteq> gm_str ResourceTypeToURL rt"
      by (auto simp: last_req_append last_req_single split: if_splits)
    with False x show ?thesis by (intro exI [of _ before] exI [of _ "after @ [x]"]) auto
  qed
qed simp

lemma served_named:
  "served rt \<Longrightarrow> rt \<noteq> ListenerType \<Longrightarrow> rt \<noteq> NameTableType \<Longrightarrow>
     rt = RouteConfigType \<or> rt = ClusterType \<or> rt = EndpointsType"
  by (auto simp: served_def ResourceTypeToURL_def split: if_splits)

lemma UpdateResource_total:
  assumes "manager_inv m" and "receiver_ok (RFiltered st ver rt up)"
  shows "\<exists>m'. UpdateResource now rt up ver m = Returns m'"
proof -
  from assms(2) have "gm_wf up" "\<forall>(n, r) \<in> set up. resource_has_type rt r" by simp_all
  then show ?thesis by (rule UpdateResource_Returns [OF assms(1)]) blast
qed

lemma recv_filter_total: "client_inv c \<Longrightarrow> \<exists>x. recv_filter st ver d c = Returns x"
  by (auto simp: recv_filter_def client_inv_def updateLookupTable_ok split: decoded.split)

lemma recv_ack_total:
  "recv_ack L st resp rt c \<noteq> Panics p" "recv_ack L st resp rt c = Blocks \<Longrightarrow> reqCh_cap \<le> length (xc_reqCh c)"
  by (auto simp: recv_ack_def Let_def run_bind_Panics_iff run_bind_Blocks_iff updateAndACK_not_Panics updateAndACK_Blocks_iff)

text \<open>C1: in every state the running client can reach, whatever it received and however its goroutines
  were interleaved: both queues are within their capacities; every resource a \<open>Get\<close> returned has the Go
  type of the resource type it asked for; every waiting \<open>Get\<close> waits on a live notifier without an error;
  no critical section of a \<open>Get\<close>, the cleaner or the receiver can panic, and those of the receiver after its acknowledgement cannot block
  either, so that a response once acknowledged is taken over.\<close>

theorem reachable_safe:
  assumes "start s0" and "step\<^sup>*\<^sup>* s0 s"
  shows "length (xc_reqCh (sy_c s)) \<le> 1024 \<and> length (xc_streamCh (sy_c s)) \<le> 1 \<and>
    (\<forall>t rt n r. map_of (sy_getters s) t = Some (GDone rt n (GetOk (Some r))) \<longrightarrow> resource_has_type rt r) \<and>
    (\<forall>t rt n nf. map_of (sy_getters s) t = Some (GWaiting rt n nf) \<longrightarrow>
       (\<exists>x. map_of (m_notifiers (sy_m s)) nf = Some x \<and> nt_err x = None)) \<and>
    (\<forall>rt n p. get_register rt n (sy_m s) (sy_c s) \<noteq> Panics p) \<and>
    (\<forall>now p. cleaner_tick now (sy_m s) (sy_c s) \<noteq> Panics p) \<and>
    (\<forall>L st resp rt p. recv_ack L st resp rt (sy_c s) \<noteq> Panics p) \<and>
    (case sy_recv s of
       RAcked st ver d \<Rightarrow> \<exists>r' c'. recv_filter st ver d (sy_c s) = Returns (r', c')
     | RFiltered st ver rt up \<Rightarrow> \<forall>now. \<exists>m'. UpdateResource now rt up ver (sy_m s) = Returns m'
     | RSignal st \<Rightarrow> \<exists>c'. signal_inbound (sy_c s) = Returns c'
     | _ \<Rightarrow> True)"
proof -
  have ok: "state_ok s" using system.invar_reachable [OF assms(2,1)] by (simp add: sys_inv_def)
  note inv = state_okD [OF ok]
  have "getter_ok (sy_m s) g" if "map_of (sy_getters s) t = Some g" for t g
    using ok that by (simp add: state_ok_def)
  then have "(\<forall>t rt n r. map_of (sy_getters s) t = Some (GDone rt n (GetOk (Some r))) \<longrightarrow> resource_has_type rt r) \<and>
    (\<forall>t rt n nf. map_of (sy_getters s) t = Some (GWaiting rt n nf) \<longrightarrow> waitable (sy_m s) nf)"
    by fastforce
  moreover have "\<exists>m'. UpdateResource now rt up ver (sy_m s) = Returns m'" if "sy_recv s = RFiltered st ver rt up" for now st ver rt up
    using UpdateResource_total [OF inv(1)] inv(3) that by metis
  ultimately show ?thesis
    using inv(2) get_register_not_Panics clean_types_total(1) recv_ack_total(1) recv_filter_total [OF inv(2)]
      signal_inbound_Returns [OF inv(2)]
    by (auto simp: client_inv_def reqCh_cap_def streamCh_cap_def waitable_def cleaner_tick_def split: receiver_state.split)
qed

text \<open>C2: the control plane knows the subscriptions. In every reachable state in which the request queue
  and the stream channel are empty and no reconnection is under way, the last request that was sent on
  the sender's stream for a type carries exactly the names watched, the version last accepted and the
  nonce last seen of that type: no change of a subscription and no acknowledgement is lost, over any
  number of reconnections and failed sends.\<close>

theorem subscription_in_sync:
  assumes "start s0" and "step\<^sup>*\<^sup>* s0 s"
    and "sy_stream s = Some st" and "xc_reqCh (sy_c s) = []" and "xc_streamCh (sy_c s) = []"
    and "\<forall>a b. sy_recv s \<noteq> RReset a b"
    and "map_of ResourceTypeToURL rt = Some url" and "map_of (xc_watchedResource (sy_c s)) rt \<noteq> None"
  shows "\<exists>before req after. sy_sent s = before @ (st, req) # after \<and>
    (\<forall>req'. (st, req') \<in> set after \<longrightarrow> req_TypeUrl req' \<noteq> url) \<and> req_TypeUrl req = url \<and>
    set (req_ResourceNames req) = watched (sy_c s) rt \<and> req_VersionInfo req = client_version (sy_c s) rt \<and>
    req_ResponseNonce req = client_nonce (sy_c s) rt"
proof -
  have inv: "sender_ok s" using system.invar_reachable [OF assms(2,1)] by (simp add: sys_inv_def)
  have "\<not> resetting (sy_recv s)" using assms(6) by (cases "sy_recv s") auto
  with inv assms(3,5) have "in_sync st (sy_sent s) (sy_c s)" by (simp add: sender_ok_def)
  moreover have url: "gm_str ResourceTypeToURL rt = url" "served rt" using assms(7) by (simp_all add: gm_str_def served_def)
  ultimately obtain req where "last_req rt (map snd (filter (\<lambda>x. fst x = st) (sy_sent s))) = Some req"
    and t: "tells (sy_c s) rt req"
    using assms(4,8) by (auto simp: in_sync_def)
  then obtain before after where "sy_sent s = before @ (st, req) # after"
    "\<forall>req'. (st, req') \<in> set after \<longrightarrow> req_TypeUrl req' \<noteq> url"
    using last_req_split [of rt st "sy_sent s" req] by (auto simp: url)
  with t show ?thesis by (auto simp: tells_def url)
qed


text \<open>The start, the subscription to the name table, and its request on the stream.\<close>

lemma example_reach:
  obtains s where "step\<^sup>*\<^sup>* (init_sys example_config example_opts 7) s" and "sy_stream s = Some 7" and "xc_reqCh (sy_c s) = []"
    and "xc_streamCh (sy_c s) = []" and "sy_recv s = RRecv 7" and "watched (sy_c s) NameTableType = {''''}"
    and "map_of (xc_watchedResource (sy_c s)) NameTableType \<noteq> None"
proof -
  let ?s0 = "init_sys example_config example_opts 7"
  obtain c where c: "Watch NameTableType '''' False (newXdsClient example_config) = Returns c"
    using Watch_Returns_iff [of NameTableType "''''" False "newXdsClient example_config"]
    by (auto simp: newXdsClient_def reqCh_cap_def)
  let ?s1 = "?s0\<lparr>sy_c := c, sy_warm := WNdsWait\<rparr>"
  have q: "xc_reqCh c = [current_request c NameTableType]" "map_of (xc_watchedResource c) NameTableType \<noteq> None"
    using Watch_Returns(2,4) [OF c] by (simp_all add: newXdsClient_def)
  have st: "xc_streamCh c = []" by (subst Watch_Returns(5) [OF c]) (simp add: newXdsClient_def)
  have w: "watched c NameTableType = {''''}"
    by (simp add: Watch_watched [OF c]) (simp add: newXdsClient_def watched_def gm_sub_def)
  have "ndsRequired (newXdsClient example_config)"
    by (simp add: ndsRequired_def newXdsClient_def example_config_def)
  then have "step ?s0 ?s1"
    by (intro step.warm_nds) (simp_all add: init_sys_def c ndsWarmup_watch_def)
  moreover let ?s2 = "?s1\<lparr>sy_c := c\<lparr>xc_reqCh := []\<rparr>, sy_stream := Some 7,
      sy_sent := sy_sent ?s1 @ [(7, current_request c NameTableType)]\<rparr>"
  have "step ?s1 ?s2"
    by (rule step.send_request [where send = "\<lambda>_. None"]) (simp_all add: q sender_on_request_def init_sys_def)
  ultimately have "step\<^sup>*\<^sup>* ?s0 ?s2" by (meson rtranclp.rtrancl_into_rtrancl rtranclp.rtrancl_refl)
  then show thesis by (rule that) (simp_all add: st w q init_sys_def)
qed

theorem reachable_safe_witness:
  "\<exists>s. step\<^sup>*\<^sup>* (init_sys example_config example_opts 7) s \<and> sy_recv s = RRecv 7 \<and> length (xc_reqCh (sy_c s)) \<le> 1024"
proof -
  obtain s where s: "step\<^sup>*\<^sup>* (init_sys example_config example_opts 7) s" "sy_recv s = RRecv 7" by (rule example_reach)
  have "start (init_sys example_config example_opts 7)" by (auto simp: start_def)
  from reachable_safe [OF this s(1)] s show ?thesis by blast
qed

theorem subscription_in_sync_witness:
  "\<exists>s req. step\<^sup>*\<^sup>* (init_sys example_config example_opts 7) s \<and> (7, req) \<in> set (sy_sent s) \<and>
     req_TypeUrl req = NameTableTypeURL \<and> set (req_ResourceNames req) = {''''}"
proof -
  obtain s where s: "step\<^sup>*\<^sup>* (init_sys example_config example_opts 7) s" "sy_stream s = Some 7" "xc_reqCh (sy_c s) = []"
    "xc_streamCh (sy_c s) = []" "sy_recv s = RRecv 7" "watched (sy_c s) NameTableType = {''''}"
    "map_of (xc_watchedResource (sy_c s)) NameTableType \<noteq> None"
    by (rule example_reach)
  have "start (init_sys example_config example_opts 7)" by (auto simp: start_def)
  moreover have "map_of ResourceTypeToURL NameTableType = Some NameTableTypeURL" by (simp add: ResourceTypeToURL_def)
  moreover have "\<forall>a b. sy_recv s \<noteq> RReset a b" by (simp add: s(5))
  ultimately obtain before req after where "sy_sent s = before @ (7, req) # after"
    "req_TypeUrl req = NameTableTypeURL \<and> set (req_ResourceNames req) = watched (sy_c s) NameTableType"
    using subscription_in_sync [of "init_sys example_config example_opts 7" s 7 NameTableType NameTableTypeURL] s by auto
  with s show ?thesis by auto
qed

lemma recv_ack_rejected:
  "decode L rt (resp_Resources resp) = Inl e \<Longrightarrow>
     updateAndACK rt (resp_Nonce resp) (resp_VersionInfo resp) (Some e) c = Returns c' \<Longrightarrow>
     recv_ack L st resp rt c = Returns (RRecv st, c')"
  by (simp add: recv_ack_def)

lemma recv_ack_accepted:
  "decode L rt (resp_Resources resp) = Inr d \<Longrightarrow>
     updateAndACK rt (resp_Nonce resp) (resp_VersionInfo resp) None c = Returns c' \<Longrightarrow>
     recv_ack L st resp rt c = Returns (RAcked st (resp_VersionInfo resp) d, c')"
  by (simp add: recv_ack_def)

text \<open>The receiver's steps from an acknowledged response on, as one run.\<close>

definition finish :: "int \<Rightarrow> string \<Rightarrow> decoded \<Rightarrow> xdsClient \<Rightarrow> xdsResourceManager \<Rightarrow> (xdsClient \<times> xdsResourceManager) run" where
  "finish now ver d c m =
     (case d of
        DListeners res \<Rightarrow> run_bind (UpdateResource now ListenerType (lds_filter c res) ver m)
          (\<lambda>m. run_bind (signal_inbound c) (\<lambda>c. Returns (c, m)))
      | DNamed rt res \<Rightarrow> run_bind (UpdateResource now rt (only_watched c rt res) ver m) (\<lambda>m. Returns (c, m))
      | DNames nt \<Rightarrow> run_bind (updateLookupTable nt (xc_cipResolver c)) (\<lambda>r. Returns (c\<lparr>xc_cipResolver := r\<rparr>, m)))"

lemma handleResponse_decode:
  assumes "map_of ResourceURLToType (resp_TypeUrl resp) = Some rt" and "map_of (xc_watchedResource c) rt \<noteq> None"
    and "handleResponse now L (Response resp) c m = Returns (err, c', m')"
  shows "(\<exists>e. decode L rt (resp_Resources resp) = Inl e \<and> m' = m \<and>
       updateAndACK rt (resp_Nonce resp) (resp_VersionInfo resp) (Some e) c = Returns c') \<or>
     (\<exists>d c1. decode L rt (resp_Resources resp) = Inr d \<and>
       updateAndACK rt (resp_Nonce resp) (resp_VersionInfo resp) None c = Returns c1 \<and>
       finish now (resp_VersionInfo resp) d c1 m = Returns (c', m'))"
proof -
  have "rt \<in> {ListenerType, RouteConfigType, ClusterType, EndpointsType, NameTableType}"
    using assms(1) ResourceTypeToURL_dom [of rt] by (simp add: ResourceURLToType_iff)
  then show ?thesis
    using assms
    by (elim insertE emptyE)
      (auto simp: handleResponse_def handler_defs decode_def finish_def split: prod.splits option.splits sum.splits)
qed

lemma finish_steps:
  assumes "sy_recv s = RAcked st ver d" and "finish now ver d (sy_c s) (sy_m s) = Returns (c', m')"
    and "\<And>rt res. d = DNamed rt res \<Longrightarrow> rt \<noteq> ListenerType"
  shows "step\<^sup>*\<^sup>* s (s\<lparr>sy_m := m', sy_c := c', sy_recv := RRecv st\<rparr>)"
proof (cases d)
  case (DNames nt)
  with assms have "step s (s\<lparr>sy_c := c', sy_recv := RRecv st\<rparr>)" "m' = sy_m s"
    by (auto simp: finish_def recv_filter_def intro!: step.recv_filter)
  then show ?thesis by auto
next
  case (DNamed rt res)
  let ?s1 = "s\<lparr>sy_c := sy_c s, sy_recv := RFiltered st ver rt (only_watched (sy_c s) rt res)\<rparr>"
  have "step s ?s1" using assms(1) DNamed by (intro step.recv_filter) (auto simp: recv_filter_def)
  moreover have "step ?s1 (?s1\<lparr>sy_m := m', sy_recv := (if rt = ListenerType then RSignal st else RRecv st)\<rparr>)"
    using assms(2) DNamed by (intro step.recv_update) (auto simp: finish_def)
  moreover have "c' = sy_c s" using assms(2) DNamed by (auto simp: finish_def)
  ultimately show ?thesis using assms(3) [OF DNamed] by (simp add: converse_rtranclp_into_rtranclp)
next
  case (DListeners res)
  let ?s1 = "s\<lparr>sy_c := sy_c s, sy_recv := RFiltered st ver ListenerType (lds_filter (sy_c s) res)\<rparr>"
  let ?s2 = "?s1\<lparr>sy_m := m', sy_recv := RSignal st\<rparr>"
  have "step s ?s1" using assms(1) DListeners by (intro step.recv_filter) (auto simp: recv_filter_def)
  moreover have "step ?s1 (?s1\<lparr>sy_m := m', sy_recv := (if ListenerType = ListenerType then RSignal st else RRecv st)\<rparr>)"
    using assms(2) DListeners by (intro step.recv_update) (auto simp: finish_def)
  moreover have "step ?s2 (?s2\<lparr>sy_c := c', sy_recv := RRecv st\<rparr>)"
    using assms(2) DListeners by (intro step.recv_signal) (auto simp: finish_def)
  ultimately show ?thesis by (simp add: converse_rtranclp_into_rtranclp)
qed

lemma handler_steps:
  assumes "sy_recv s = RRecv st" and "map_of ResourceURLToType (resp_TypeUrl resp) = Some rt"
    and "map_of (xc_watchedResource (sy_c s)) rt \<noteq> None"
    and "handleResponse now L (Response resp) (sy_c s) (sy_m s) = Returns (err, c', m')"
  shows "step\<^sup>*\<^sup>* s (s\<lparr>sy_m := m', sy_c := c'\<rparr>)"
  using handleResponse_decode [OF assms(2-4)]
proof (elim disjE exE conjE)
  fix e
  assume d: "decode L rt (resp_Resources resp) = Inl e" and m: "m' = sy_m s"
    and ack: "updateAndACK rt (resp_Nonce resp) (resp_VersionInfo resp) (Some e) (sy_c s) = Returns c'"
  have "s\<lparr>sy_c := c', sy_recv := RRecv st\<rparr> = s\<lparr>sy_m := m', sy_c := c'\<rparr>"
    using assms(1) m by (cases s) simp
  with step.recv_response [OF assms(1-3) recv_ack_rejected [OF d ack]] show ?thesis
    by (simp only: r_into_rtranclp)
next
  fix d c1
  assume d: "decode L rt (resp_Resources resp) = Inr d"
    and ack: "updateAndACK rt (resp_Nonce resp) (resp_VersionInfo resp) None (sy_c s) = Returns c1"
    and fin: "finish now (resp_VersionInfo resp) d c1 (sy_m s) = Returns (c', m')"
  let ?s1 = "s\<lparr>sy_c := c1, sy_recv := RAcked st (resp_VersionInfo resp) d\<rparr>"
  have "rt' \<noteq> ListenerType" if "d = DNamed rt' res" for rt' res
    using d that by (auto simp: decode_def split: ResourceType.splits sum.splits option.splits prod.splits)
  then have "step\<^sup>*\<^sup>* ?s1 (?s1\<lparr>sy_m := m', sy_c := c', sy_recv := RRecv st\<rparr>)"
    using fin by (intro finish_steps) auto
  moreover have "step s ?s1" by (rule step.recv_response [OF assms(1-3) recv_ack_accepted [OF d ack]])
  moreover have "?s1\<lparr>sy_m := m', sy_c := c', sy_recv := RRecv st\<rparr> = s\<lparr>sy_m := m', sy_c := c'\<rparr>"
    using assms(1) by (cases s) simp
  ultimately show ?thesis by (simp only: converse_rtranclp_into_rtranclp)
qed




text \<open>C35: the cache is not looked at again when a \<open>Get\<close> registers. If the resource arrives between its
  lookup and its registration, the \<open>Get\<close> waits on a fresh, open notifier although the resource is cached,
  and asks the control plane for it once more; only another update with the name can wake it.\<close>

theorem get_waits_though_cached:
  assumes "manager_inv m" and "gm_wf up" and "\<forall>(n, r) \<in> set up. resource_has_type rt r" and "map_of up n = Some r"
    and "get_lookup now rt n m = (None, m0)" and "UpdateResource now' rt up ver m0 = Returns m1"
    and "get_register rt n m1 c = Returns (nf, m2, c2)"
  shows "abs_cache m2 rt n = Some r \<and> map_option nt_ch (map_of (m_notifiers m2) nf) = Some False \<and>
    xc_reqCh c2 = xc_reqCh c @ [current_request c2 rt]"
proof -
  have inv0: "manager_inv m0" using get_lookup_inv [OF assms(1), of now rt n] assms(5) by simp
  obtain m1' where "UpdateResource now' rt up ver m0 = Returns m1'" "manager_inv m1'"
    "abs_cache m1' = spec_update rt up (abs_cache m0)" "gm2_get (m_notifierMap m1') rt n = None"
    by (rule UpdateResource_Returns [OF inv0 assms(2,3), of now' ver]) (use assms(4) in simp)
  with assms(6) have m1: "manager_inv m1" "abs_cache m1 rt n = Some r" "gm2_get (m_notifierMap m1) rt n = None"
    using assms(4) by (simp_all add: spec_update_def)
  note r = get_register_Returns [OF assms(7)]
  have "abs_cache m2 = abs_cache m1" unfolding abs_cache_def by (subst r(1)) simp
  moreover have "Watch rt n False c = Returns c2" "map_of (m_notifiers m2) nf = Some \<lparr>nt_ch = False, nt_err = None\<rparr>"
    using r(4) m1(3) by simp_all
  ultimately show ?thesis using m1(2) Watch_Returns(2) [of rt n False c c2] by simp
qed

theorem get_waits_though_cached_witness:
  "\<exists>m0 m1 nf m2 c2. get_lookup 0 ClusterType ''c1'' (new_manager example_opts) = (None, m0) \<and>
     UpdateResource 5 ClusterType [(''c1'', ResCluster None)] ''v1'' m0 = Returns m1 \<and>
     get_register ClusterType ''c1'' m1 (newXdsClient example_config) = Returns (nf, m2, c2) \<and>
     abs_cache m2 ClusterType ''c1'' = Some (ResCluster None) \<and> map_option nt_ch (map_of (m_notifiers m2) nf) = Some False"
proof -
  let ?m = "new_manager example_opts" and ?c = "newXdsClient example_config" and ?up = "[(''c1'', ResCluster None)]"
  have up: "\<forall>(n, r) \<in> set ?up. resource_has_type ClusterType r" by simp
  have l: "get_lookup 0 ClusterType ''c1'' ?m = (None, ?m)"
    by (simp add: get_lookup_def getFromCache_def new_manager_def ResourceTypeToURL_def)
  obtain m1 where u: "UpdateResource 5 ClusterType ?up ''v1'' ?m = Returns m1"
    by (rule UpdateResource_Returns [OF manager_inv_new _ up]) auto
  have "get_register ClusterType ''c1'' m1 ?c \<noteq> Blocks"
    by (auto simp: get_register_def Let_def run_bind_Blocks_iff Watch_Blocks_iff newXdsClient_def reqCh_cap_def split: option.split)
  with get_register_not_Panics obtain nf m2 c2 where g: "get_register ClusterType ''c1'' m1 ?c = Returns (nf, m2, c2)"
    by (cases "get_register ClusterType ''c1'' m1 ?c") auto
  from get_waits_though_cached [OF manager_inv_new _ up _ l u g] l u g show ?thesis by fastforce
qed


subsection \<open>After the receiver has stopped\<close>

text \<open>
  Only the receiver closes the channels that the warm-up waits for: every other goroutine leaves the
  resolver and the inbound channel alone.
\<close>

definition same_warmup :: "xdsClient \<Rightarrow> xdsClient \<Rightarrow> bool" where
  "same_warmup c c' \<longleftrightarrow>
     xc_cipResolver c' = xc_cipResolver c \<and> xc_inboundInitRequestCh c' = xc_inboundInitRequestCh c"

lemma same_warmup_Watch: "Watch rt n rm c = Returns c' \<Longrightarrow> same_warmup c c'"
  by (drule Watch_Returns(5)) (simp add: same_warmup_def, metis xdsClient.select_convs(3,9) xdsClient.surjective xdsClient.update_convs(2,7))

lemma same_warmup_register: "get_register rt n m c = Returns (nf, m', c') \<Longrightarrow> same_warmup c c'"
  using get_register_Returns(4) [of rt n m c nf m' c'] same_warmup_Watch [of rt n False c c']
  by (auto simp: same_warmup_def split: option.splits)

lemma same_warmup_clean: "clean_types now rts m c = Returns (m', c') \<Longrightarrow> same_warmup c c'"
  by (drule clean_types_cleaned) (simp add: cleaned_def same_warmup_def, metis xdsClient.select_convs(3,9) xdsClient.surjective xdsClient.update_convs(2,7))

lemma same_warmup_sender:
  "sender_on_stream send c = (cur, c', out) \<Longrightarrow> same_warmup c c'"
  "sender_on_request send cur0 c = (cur, c', out) \<Longrightarrow> same_warmup c c'"
  by (auto simp: sender_on_stream_def sender_on_request_def same_warmup_def Let_def split: list.splits option.splits prod.splits)

inductive_cases stepE: "step s s'"

lemma stopped_step:
  assumes "step s s'" and "sy_recv s = RStopped"
  shows "sy_recv s' = RStopped \<and> same_warmup (sy_c s) (sy_c s') \<and> (sy_warm s' = sy_warm s \<or>
    sy_warm s = WNds \<or> sy_warm s = WLds \<or>
    sy_warm s = WNdsWait \<and> nr_initRequestCh (xc_cipResolver (sy_c s)) \<or>
    sy_warm s = WLdsWait \<and> xc_inboundInitRequestCh (sy_c s))"
  using assms
  by (elim stepE)
    (auto dest: same_warmup_Watch same_warmup_register same_warmup_clean same_warmup_sender
      simp: ndsWarmup_watch_def listenerWarmup_watch_def cleaner_tick_def manager_Close_def Let_def client_close_def,
     auto simp: same_warmup_def)


text \<open>C34: a refused authentication hangs the initialisation. If the stream fails with an authentication error
  while the warm-up waits for the name table (or for the first listeners), the receiver closes the client
  and stops; from then on, whatever the other goroutines do, the warm-up waits, and \<open>Init\<close>, which runs
  it, does not return.\<close>

theorem auth_error_hangs_warmup:
  assumes "sy_recv s = RRecv st" and "IsAuthError err"
    and wait: "sy_warm s = WNdsWait \<and> \<not> nr_initRequestCh (xc_cipResolver (sy_c s)) \<or>
      sy_warm s = WLdsWait \<and> \<not> xc_inboundInitRequestCh (sy_c s)"
    and t: "t = s\<lparr>sy_c := client_close (sy_c s), sy_recv := RStopped\<rparr>"
  shows "step s t \<and> (\<forall>s'. step\<^sup>*\<^sup>* t s' \<longrightarrow> sy_warm s' = sy_warm s \<and> sy_recv s' = RStopped)"
proof (intro conjI allI)
  show "step s t" unfolding t by (rule step.recv_auth_error [OF assms(1,2)])
  fix s'
  have "sy_warm s' = sy_warm s \<and> sy_recv s' = RStopped \<and> same_warmup (sy_c s) (sy_c s')" if "step\<^sup>*\<^sup>* t s'"
    using that
  proof (induction rule: rtranclp_induct)
    case base
    show ?case by (simp add: t same_warmup_def client_close_def)
  next
    case (step y z)
    with stopped_step [OF step(2)] wait show ?case by (auto simp: same_warmup_def)
  qed
  then show "step\<^sup>*\<^sup>* t s' \<longrightarrow> sy_warm s' = sy_warm s \<and> sy_recv s' = RStopped" by blast
qed


theorem auth_error_hangs_warmup_witness:
  "\<exists>s t. sy_warm s = WNdsWait \<and> step s t \<and> (\<forall>s'. step\<^sup>*\<^sup>* t s' \<longrightarrow> sy_warm s' = WNdsWait)"
proof -
  let ?s = "(init_sys example_config example_opts 7)\<lparr>sy_warm := WNdsWait\<rparr>"
  let ?err = "\<lparr>ge_Msg = ''token expired'', ge_Status = Some Unauthenticated\<rparr>"
  have "sy_recv ?s = RRecv 7" "IsAuthError ?err" "sy_warm ?s = WNdsWait \<and> \<not> nr_initRequestCh (xc_cipResolver (sy_c ?s)) \<or>
      sy_warm ?s = WLdsWait \<and> \<not> xc_inboundInitRequestCh (sy_c ?s)"
    by (simp_all add: init_sys_def newXdsClient_def newNdsResolver_def IsAuthError_def)
  note hang = auth_error_hangs_warmup [OF this refl]
  let ?t = "?s\<lparr>sy_c := client_close (sy_c ?s), sy_recv := RStopped\<rparr>"
  have "sy_warm ?s = WNdsWait" by simp
  with hang show ?thesis by (intro exI [of _ ?s] exI [of _ ?t]) simp
qed


end
