(* ===== verification/Draining.thy ===== *)
theory Draining
  imports System
begin

text \<open>
  The sender alone: its two cases as a step relation of their own, which ends. Whatever the \<open>select\<close> picks,
  each turn takes one element from the request queue or the stream channel, and when nothing is left the
  control plane has been told the client's view.
\<close>

inductive sender_step :: "(DiscoveryRequest \<Rightarrow> string option) \<Rightarrow> sys \<Rightarrow> sys \<Rightarrow> bool" for send where
  take_stream: "sy_sender s \<Longrightarrow> xc_streamCh (sy_c s) \<noteq> [] \<Longrightarrow> sender_on_stream send (sy_c s) = (cur, c', out) \<Longrightarrow>
    sender_step send s (s\<lparr>sy_c := c', sy_stream := cur, sy_sent := sy_sent s @ out\<rparr>)"
| take_request: "sy_sender s \<Longrightarrow> xc_reqCh (sy_c s) \<noteq> [] \<Longrightarrow> sender_on_request send (sy_stream s) (sy_c s) = (cur, c', out) \<Longrightarrow>
    sender_step send s (s\<lparr>sy_c := c', sy_stream := cur, sy_sent := sy_sent s @ out\<rparr>)"

definition pending :: "sys \<Rightarrow> nat" where
  "pending s = length (xc_reqCh (sy_c s)) + length (xc_streamCh (sy_c s))"

lemma sender_step_is_step: "sender_step send s s' \<Longrightarrow> step s s'"
  by (induction rule: sender_step.induct) (auto intro: step.send_stream step.send_request)

lemma sender_steps_are_steps: "(sender_step send)\<^sup>*\<^sup>* s s' \<Longrightarrow> step\<^sup>*\<^sup>* s s'"
  by (induction rule: rtranclp_induct) (auto dest: sender_step_is_step)

text \<open>One turn: the client loses one element of a queue and nothing else; the other goroutines are left alone.\<close>

lemma sender_step_effect:
  assumes "sender_step send s s'"
  shows "pending s = Suc (pending s')" and "sy_recv s' = sy_recv s" and "sy_sender s'"
    and "sy_c s' = (sy_c s)\<lparr>xc_reqCh := xc_reqCh (sy_c s'), xc_streamCh := xc_streamCh (sy_c s')\<rparr>"
  using assms
  by (induction rule: sender_step.induct)
    (auto simp: pending_def sender_on_stream_def sender_on_request_def Let_def split: list.splits prod.splits option.splits)

lemma sender_steps_effect:
  assumes "(sender_step send)\<^sup>*\<^sup>* s s'" and "sy_sender s"
  shows "sy_recv s' = sy_recv s" and "sy_sender s'"
    and "sy_c s' = (sy_c s)\<lparr>xc_reqCh := xc_reqCh (sy_c s'), xc_streamCh := xc_streamCh (sy_c s')\<rparr>"
  using assms
proof (induction rule: rtranclp_induct)
  case (step s' s'')
  note e = sender_step_effect [OF step.hyps(2)]
  { case 1 then show ?case using step.IH(1) e(2) by simp }
  { case 2 then show ?case using e(3) by simp }
  { case 3
    have "sy_c s'' = (sy_c s)\<lparr>xc_reqCh := xc_reqCh (sy_c s''), xc_streamCh := xc_streamCh (sy_c s'')\<rparr>"
      by (subst e(4), subst step.IH(3) [OF 3]) simp
    then show ?case . }
qed simp_all

lemma sender_runs_bounded: "(sender_step send ^^ n) s s' \<Longrightarrow> pending s = n + pending s'"
proof (induction n arbitrary: s')
  case (Suc n)
  then obtain t where "(sender_step send ^^ n) s t" "sender_step send t s'" by auto
  with Suc.IH sender_step_effect(1) show ?case by fastforce
qed simp

lemma sender_enabled: "sy_sender s \<Longrightarrow> 0 < pending s \<Longrightarrow> \<exists>s'. sender_step send s s'"
  by (cases "xc_streamCh (sy_c s) = []"; cases "sender_on_stream send (sy_c s)"; cases "sender_on_request send (sy_stream s) (sy_c s)")
    (auto simp: pending_def intro: sender_step.intros)

text \<open>With a stream at hand or in the channel, and sends that succeed, that stays so.\<close>

definition has_stream :: "sys \<Rightarrow> bool" where
  "has_stream s \<longleftrightarrow> sy_stream s \<noteq> None \<or> xc_streamCh (sy_c s) \<noteq> []"

lemma send_watched_success: "snd (send_watched (\<lambda>_. None) c ws) = None"
  by (induction "\<lambda>_ :: DiscoveryRequest. None :: string option" c ws rule: send_watched.induct) (simp_all add: case_prod_beta)

lemma has_stream_step:
  assumes "sender_step (\<lambda>_. None) s s'" and "has_stream s"
  shows "has_stream s'"
  using assms
proof (induction rule: sender_step.induct)
  case (take_stream s cur c' out)
  then show ?case
    using send_watched_success
    by (auto simp: has_stream_def sender_on_stream_def reqWhenReconnect_def Let_def case_prod_beta split: list.splits)
next
  case (take_request s cur c' out)
  then show ?case
    by (auto simp: has_stream_def sender_on_request_def Let_def split: list.splits option.splits)
qed

lemma has_stream_steps: "(sender_step (\<lambda>_. None))\<^sup>*\<^sup>* s s' \<Longrightarrow> has_stream s \<Longrightarrow> has_stream s'"
  by (induction rule: rtranclp_induct) (auto intro: has_stream_step)

text \<open>C12: the sender ends, and ends in agreement with the control plane. In any reachable state in which it
  runs, every sequence of its turns is at most as long as its two queues, whatever the \<open>select\<close> picks and
  whether sends succeed. If it has a stream or is about to get one, no reconnection is half done and the
  sends succeed, then a sequence of that length exists, and where no turn is left both queues are empty,
  it has a stream, and the last request on it of every type watched carries the names, the version and the
  nonce that the client had at the beginning.\<close>

theorem sender_drains:
  assumes "start s0" and "step\<^sup>*\<^sup>* s0 s" and "sy_sender s"
  shows "(\<forall>send n s'. (sender_step send ^^ n) s s' \<longrightarrow> n \<le> pending s) \<and>
    (has_stream s \<and> (\<forall>a b. sy_recv s \<noteq> RReset a b) \<longrightarrow>
       (\<exists>s'. (sender_step (\<lambda>_. None) ^^ pending s) s s') \<and>
       (\<forall>s'. (sender_step (\<lambda>_. None))\<^sup>*\<^sup>* s s' \<and> (\<nexists>t. sender_step (\<lambda>_. None) s' t) \<longrightarrow>
          xc_reqCh (sy_c s') = [] \<and> xc_streamCh (sy_c s') = [] \<and>
          (\<exists>st. sy_stream s' = Some st \<and>
             (\<forall>rt. served rt \<and> map_of (xc_watchedResource (sy_c s)) rt \<noteq> None \<longrightarrow>
                (\<exists>req. last_req rt (map snd (filter (\<lambda>x. fst x = st) (sy_sent s'))) = Some req \<and> tells (sy_c s) rt req)))))"
proof (intro conjI allI impI)
  show "n \<le> pending s" if "(sender_step send ^^ n) s s'" for send n s'
    using sender_runs_bounded [OF that] by simp
  have "\<exists>s'. (sender_step send ^^ n) s s'" if "n \<le> pending s" for send n
    using that
  proof (induction n)
    case (Suc n)
    then obtain t where t: "(sender_step send ^^ n) s t" by auto
    then have "sy_sender t" using sender_steps_effect(2) [OF relpowp_imp_rtranclp] assms(3) by blast
    moreover have "0 < pending t" using sender_runs_bounded [OF t] Suc.prems by simp
    ultimately show ?case using t sender_enabled by (metis relpowp_Suc_I)
  qed auto
  then show "\<exists>s'. (sender_step (\<lambda>_. None) ^^ pending s) s s'" by simp
  fix s'
  assume hs: "has_stream s \<and> (\<forall>a b. sy_recv s \<noteq> RReset a b)"
    and run: "(sender_step (\<lambda>_. None))\<^sup>*\<^sup>* s s' \<and> (\<nexists>t. sender_step (\<lambda>_. None) s' t)"
  note e = sender_steps_effect [OF conjunct1 [OF run] assms(3)]
  from sender_enabled [OF e(2)] run have "pending s' = 0" by blast
  then show q: "xc_reqCh (sy_c s') = []" "xc_streamCh (sy_c s') = []" by (simp_all add: pending_def)
  from has_stream_steps [OF conjunct1 [OF run]] hs q(2) obtain st where st: "sy_stream s' = Some st" by (auto simp: has_stream_def)
  have "step\<^sup>*\<^sup>* s0 s'" using assms(2) sender_steps_are_steps [OF conjunct1 [OF run]] by simp
  then have "sender_ok s'" using system.invar_reachable assms(1) by (simp add: sys_inv_def)
  moreover have "\<not> resetting (sy_recv s')" using hs e(1) by (cases "sy_recv s") auto
  ultimately have "in_sync st (sy_sent s') (sy_c s')" using st q(2) by (simp add: sender_ok_def)
  moreover have "tells (sy_c s') = tells (sy_c s)" "xc_watchedResource (sy_c s') = xc_watchedResource (sy_c s)"
    by (subst e(3), simp add: tells_def fun_eq_iff watched_def client_version_def client_nonce_def)+
  ultimately have "\<exists>req. last_req rt (map snd (filter (\<lambda>x. fst x = st) (sy_sent s'))) = Some req \<and> tells (sy_c s) rt req"
    if "served rt" "map_of (xc_watchedResource (sy_c s)) rt \<noteq> None" for rt
    using that q(1) by (simp add: in_sync_def)
  with st show "\<exists>st. sy_stream s' = Some st \<and> (\<forall>rt. served rt \<and> map_of (xc_watchedResource (sy_c s)) rt \<noteq> None \<longrightarrow>
      (\<exists>req. last_req rt (map snd (filter (\<lambda>x. fst x = st) (sy_sent s'))) = Some req \<and> tells (sy_c s) rt req))"
    by blast
qed

theorem sender_drains_witness:
  "\<exists>s s'. step\<^sup>*\<^sup>* (init_sys example_config example_opts 7) s \<and> pending s = 1 \<and> (sender_step (\<lambda>_. None) ^^ 1) s s'"
proof -
  let ?s0 = "init_sys example_config example_opts 7"
  obtain c where c: "Watch NameTableType '''' False (newXdsClient example_config) = Returns c"
    using Watch_Returns_iff [of NameTableType "''''" False "newXdsClient example_config"]
    by (auto simp: newXdsClient_def reqCh_cap_def)
  let ?s1 = "?s0\<lparr>sy_c := c, sy_warm := WNdsWait\<rparr>"
  have "ndsRequired (newXdsClient example_config)"
    by (simp add: ndsRequired_def newXdsClient_def example_config_def)
  then have "step ?s0 ?s1" by (intro step.warm_nds) (simp_all add: init_sys_def c ndsWarmup_watch_def)
  then have run: "step\<^sup>*\<^sup>* ?s0 ?s1" by (rule r_into_rtranclp)
  have "xc_streamCh c = []" by (subst Watch_Returns(5) [OF c]) (simp add: newXdsClient_def)
  then have p: "pending ?s1 = 1" using Watch_Returns(2) [OF c] by (simp add: pending_def newXdsClient_def)
  have "start ?s0" by (auto simp: start_def)
  moreover have "sy_sender ?s1" "has_stream ?s1" "\<forall>a b. sy_recv ?s1 \<noteq> RReset a b" by (simp_all add: init_sys_def has_stream_def)
  ultimately obtain s' where "(sender_step (\<lambda>_. None) ^^ pending ?s1) ?s1 s'" using sender_drains [OF _ run] by blast
  with run p show ?thesis by metis
qed

end
