(* ===== verification/Locks.thy ===== *)
theory Locks
  imports System
begin

text \<open>
  The goroutines with their locks. \<open>System\<close> takes a critical section as one step and does not enable one that
  would block; here \<open>m.mu\<close> and \<open>c.mu\<close> are part of the state. A goroutine that waits for a lock, or for room in
  the request queue while it holds locks, is in a state of its own: \<open>Get\<close> holds \<open>m.mu\<close> while \<open>Watch\<close> takes \<open>c.mu\<close>
  and puts a request on the queue; the receiver holds \<open>c.mu\<close> while it acknowledges; the sender that took a new
  stream waits for \<open>c.mu\<close> in \<open>reqWhenReconnect\<close>. The warm-up is over.
\<close>

subsection \<open>The parts of the critical sections\<close>

text \<open>\<open>Watch\<close> and \<open>updateAndACK\<close> up to \<open>sendRequest\<close>.\<close>

definition watch_prepare :: "ResourceType \<Rightarrow> string \<Rightarrow> bool \<Rightarrow> xdsClient \<Rightarrow> DiscoveryRequest \<times> xdsClient" where
  "watch_prepare rType rName remove c =
     (let w = (case map_of (xc_watchedResource c) rType of
                 None \<Rightarrow> gm_put rType [] (xc_watchedResource c)
               | Some r \<Rightarrow> xc_watchedResource c);
          w = (if remove then gm2_del rType rName w else gm2_put rType rName True w);
          c = c\<lparr>xc_watchedResource := w\<rparr>
      in (prepareRequest c rType (gm_str (xc_versionMap c) rType) (gm_str (xc_nonceMap c) rType)
            (gm_sub (xc_watchedResource c) rType), c))"

definition ack_prepare :: "ResourceType \<Rightarrow> string \<Rightarrow> string \<Rightarrow> string option \<Rightarrow> xdsClient \<Rightarrow> DiscoveryRequest \<times> xdsClient" where
  "ack_prepare rType nonce version err c =
     (let c = (case err of
                 None \<Rightarrow> c\<lparr>xc_versionMap := gm_put rType version (xc_versionMap c)\<rparr>
               | Some e \<Rightarrow> c);
          errMsg = (case err of None \<Rightarrow> '''' | Some e \<Rightarrow> e);
          c = c\<lparr>xc_nonceMap := gm_put rType nonce (xc_nonceMap c)\<rparr>;
          req = prepareRequest c rType (gm_str (xc_versionMap c) rType) (gm_str (xc_nonceMap c) rType)
                  (gm_sub (xc_watchedResource c) rType)
      in (if errMsg \<noteq> '''' then req\<lparr>req_ErrorDetail := Some (InvalidArgument, errMsg)\<rparr> else req, c))"

lemma Watch_split: "Watch rt n rm c = case_prod sendRequest (watch_prepare rt n rm c)"
  by (simp add: Watch_def watch_prepare_def Let_def)

lemma updateAndACK_split: "updateAndACK rt nonce ver err c = case_prod sendRequest (ack_prepare rt nonce ver err c)"
  by (simp add: updateAndACK_def ack_prepare_def Let_def split: option.split)

text \<open>The critical section of \<open>Get\<close> up to the call of \<open>Watch\<close>: the notifier, and whether it is new.\<close>

definition register_notifier :: "ResourceType \<Rightarrow> string \<Rightarrow> xdsResourceManager \<Rightarrow> nat \<times> bool \<times> xdsResourceManager" where
  "register_notifier rType rName m =
     (let nm = (case map_of (m_notifierMap m) rType of
                  None \<Rightarrow> gm_put rType [] (m_notifierMap m)
                | Some _ \<Rightarrow> m_notifierMap m);
          m = m\<lparr>m_notifierMap := nm\<rparr>
      in case gm2_get nm rType rName of
           Some nf \<Rightarrow> (nf, False, m)
         | None \<Rightarrow>
             (let nf = m_nextNotifier m
              in (nf, True, m\<lparr>m_notifiers := gm_put nf \<lparr>nt_ch = False, nt_err = None\<rparr> (m_notifiers m),
                              m_nextNotifier := Suc nf,
                              m_notifierMap := gm2_put rType rName nf nm\<rparr>)))"

lemma get_register_split:
  "get_register rt n m c =
     (case register_notifier rt n m of
        (nf, False, m) \<Rightarrow> Returns (nf, m, c)
      | (nf, True, m) \<Rightarrow> run_bind (Watch rt n False c) (\<lambda>c. Returns (nf, m, c)))"
  by (simp add: get_register_def register_notifier_def Let_def split: option.split)

subsection \<open>States and steps\<close>

datatype lock_getter =
    LG getter_state
  | LWatch ResourceType string nat \<comment> \<open>holds \<open>m.mu\<close>, waits for \<open>c.mu\<close>\<close>
  | LSend ResourceType string nat DiscoveryRequest \<comment> \<open>holds both, waits for room in the queue\<close>

datatype lock_receiver =
    LR receiver_state
  | LAck nat DiscoveryResponse ResourceType \<comment> \<open>waits for \<open>c.mu\<close>\<close>
  | LAckSend nat DiscoveryResponse ResourceType DiscoveryRequest \<comment> \<open>holds \<open>c.mu\<close>, waits for room\<close>
  | LReset nat nat \<comment> \<open>reconnected, waits for \<open>c.mu\<close>\<close>

datatype holder = HGet nat | HRecv

record lsys =
  ls_m :: xdsResourceManager
  ls_c :: xdsClient
  ls_getters :: "(nat, lock_getter) gomap"
  ls_recv :: lock_receiver
  ls_new :: "nat option" \<comment> \<open>the stream the sender took, while it waits for \<open>c.mu\<close>\<close>
  ls_stream :: "nat option"
  ls_sent :: "(nat \<times> DiscoveryRequest) list"
  ls_sender :: bool
  ls_mmu :: "nat option" \<comment> \<open>the \<open>Get\<close> that holds \<open>m.mu\<close>\<close>
  ls_cmu :: "holder option"

text \<open>What the receiver goes on with after its acknowledgement is queued.\<close>

definition after_ack :: "lib \<Rightarrow> nat \<Rightarrow> DiscoveryResponse \<Rightarrow> ResourceType \<Rightarrow> receiver_state" where
  "after_ack L st resp rt = (case decode L rt (resp_Resources resp) of Inl e \<Rightarrow> RRecv st | Inr d \<Rightarrow> RAcked st (resp_VersionInfo resp) d)"

definition ack_error :: "lib \<Rightarrow> ResourceType \<Rightarrow> DiscoveryResponse \<Rightarrow> string option" where
  "ack_error L rt resp = (case decode L rt (resp_Resources resp) of Inl e \<Rightarrow> Some e | Inr _ \<Rightarrow> None)"

fun is_names :: "decoded \<Rightarrow> bool" where
  "is_names (DNames nt) = True"
| "is_names _ = False"

inductive lstep :: "lib \<Rightarrow> lsys \<Rightarrow> lsys \<Rightarrow> bool" for L where
  call_get: "map_of (ls_getters s) t = None \<Longrightarrow> lstep L s (s\<lparr>ls_getters := gm_put t (LG (GStart rt n)) (ls_getters s)\<rparr>)"
| lookup_hit: "map_of (ls_getters s) t = Some (LG (GStart rt n)) \<Longrightarrow> ls_mmu s = None \<or> map_of ResourceTypeToURL rt = None \<Longrightarrow> get_lookup now rt n (ls_m s) = (Some r, m') \<Longrightarrow>
    lstep L s (s\<lparr>ls_m := m', ls_getters := gm_put t (LG (GDone rt n r)) (ls_getters s)\<rparr>)"
| lookup_miss: "map_of (ls_getters s) t = Some (LG (GStart rt n)) \<Longrightarrow> ls_mmu s = None \<Longrightarrow> get_lookup now rt n (ls_m s) = (None, m') \<Longrightarrow>
    lstep L s (s\<lparr>ls_m := m', ls_getters := gm_put t (LG (GMiss rt n)) (ls_getters s)\<rparr>)"
| register_shared: "map_of (ls_getters s) t = Some (LG (GMiss rt n)) \<Longrightarrow> ls_mmu s = None \<Longrightarrow>
    register_notifier rt n (ls_m s) = (nf, False, m') \<Longrightarrow>
    lstep L s (s\<lparr>ls_m := m', ls_getters := gm_put t (LG (GWaiting rt n nf)) (ls_getters s)\<rparr>)"
| register_new: "map_of (ls_getters s) t = Some (LG (GMiss rt n)) \<Longrightarrow> ls_mmu s = None \<Longrightarrow>
    register_notifier rt n (ls_m s) = (nf, True, m') \<Longrightarrow>
    lstep L s (s\<lparr>ls_m := m', ls_mmu := Some t, ls_getters := gm_put t (LWatch rt n nf) (ls_getters s)\<rparr>)"
| watch: "map_of (ls_getters s) t = Some (LWatch rt n nf) \<Longrightarrow> ls_mmu s = Some t \<Longrightarrow> ls_cmu s = None \<Longrightarrow>
    watch_prepare rt n False (ls_c s) = (req, c') \<Longrightarrow>
    lstep L s (s\<lparr>ls_c := c', ls_cmu := Some (HGet t), ls_getters := gm_put t (LSend rt n nf req) (ls_getters s)\<rparr>)"
| watch_sent: "map_of (ls_getters s) t = Some (LSend rt n nf req) \<Longrightarrow> ls_mmu s = Some t \<Longrightarrow> ls_cmu s = Some (HGet t) \<Longrightarrow>
    sendRequest req (ls_c s) = Returns c' \<Longrightarrow>
    lstep L s (s\<lparr>ls_c := c', ls_mmu := None, ls_cmu := None, ls_getters := gm_put t (LG (GWaiting rt n nf)) (ls_getters s)\<rparr>)"
| notified: "map_of (ls_getters s) t = Some (LG (GWaiting rt n nf)) \<Longrightarrow> ls_mmu s = None \<Longrightarrow>
    map_option nt_ch (map_of (m_notifiers (ls_m s)) nf) = Some True \<Longrightarrow> get_notified now rt n nf (ls_m s) = (r, m') \<Longrightarrow>
    lstep L s (s\<lparr>ls_m := m', ls_getters := gm_put t (LG (GDone rt n r)) (ls_getters s)\<rparr>)"
| timeout: "map_of (ls_getters s) t = Some (LG (GWaiting rt n nf)) \<Longrightarrow> ls_mmu s = None \<Longrightarrow> get_timeout rt n (ls_m s) = (r, m') \<Longrightarrow>
    lstep L s (s\<lparr>ls_m := m', ls_getters := gm_put t (LG (GDone rt n r)) (ls_getters s)\<rparr>)"
| recv_response: "ls_recv s = LR (RRecv st) \<Longrightarrow> ls_cmu s = None \<Longrightarrow> map_of ResourceURLToType (resp_TypeUrl resp) = Some rt \<Longrightarrow>
    map_of (xc_watchedResource (ls_c s)) rt \<noteq> None \<Longrightarrow> lstep L s (s\<lparr>ls_recv := LAck st resp rt\<rparr>)"
| recv_ack: "ls_recv s = LAck st resp rt \<Longrightarrow> ls_cmu s = None \<Longrightarrow>
    ack_prepare rt (resp_Nonce resp) (resp_VersionInfo resp) (ack_error L rt resp) (ls_c s) = (req, c') \<Longrightarrow>
    lstep L s (s\<lparr>ls_c := c', ls_cmu := Some HRecv, ls_recv := LAckSend st resp rt req\<rparr>)"
| recv_acked: "ls_recv s = LAckSend st resp rt req \<Longrightarrow> ls_cmu s = Some HRecv \<Longrightarrow> sendRequest req (ls_c s) = Returns c' \<Longrightarrow>
    lstep L s (s\<lparr>ls_c := c', ls_cmu := None, ls_recv := LR (after_ack L st resp rt)\<rparr>)"
| recv_filter: "ls_recv s = LR (RAcked st ver d) \<Longrightarrow> ls_cmu s = None \<or> is_names d \<Longrightarrow> recv_filter st ver d (ls_c s) = Returns (r', c') \<Longrightarrow>
    lstep L s (s\<lparr>ls_c := c', ls_recv := LR r'\<rparr>)"
| recv_update: "ls_recv s = LR (RFiltered st ver rt up) \<Longrightarrow> ls_mmu s = None \<Longrightarrow> UpdateResource now rt up ver (ls_m s) = Returns m' \<Longrightarrow>
    lstep L s (s\<lparr>ls_m := m', ls_recv := LR (if rt = ListenerType then RSignal st else RRecv st)\<rparr>)"
| recv_signal: "ls_recv s = LR (RSignal st) \<Longrightarrow> signal_inbound (ls_c s) = Returns c' \<Longrightarrow>
    lstep L s (s\<lparr>ls_c := c', ls_recv := LR (RRecv st)\<rparr>)"
| recv_auth_error: "ls_recv s = LR (RRecv st) \<Longrightarrow> IsAuthError err \<Longrightarrow>
    lstep L s (s\<lparr>ls_c := client_close (ls_c s), ls_recv := LR RStopped\<rparr>)"
| recv_error: "ls_recv s = LR (RRecv st) \<Longrightarrow> lstep L s (s\<lparr>ls_recv := LReset st st'\<rparr>)"
| recv_reset: "ls_recv s = LReset st st' \<Longrightarrow> ls_cmu s = None \<Longrightarrow>
    lstep L s (s\<lparr>ls_c := reset_for_reconnect (ls_c s), ls_recv := LR (RReset st st')\<rparr>)"
| recv_hand_over: "ls_recv s = LR (RReset st st') \<Longrightarrow> chan_send streamCh_cap st' (xc_streamCh (ls_c s)) = Returns ch \<Longrightarrow>
    lstep L s (s\<lparr>ls_c := (ls_c s)\<lparr>xc_streamCh := ch\<rparr>, ls_recv := LR (RRecv st')\<rparr>)"
| recv_closed: "ls_recv s = LR (RRecv st) \<Longrightarrow> xc_closeCh (ls_c s) \<Longrightarrow> lstep L s (s\<lparr>ls_recv := LR RStopped\<rparr>)"
| take_stream: "ls_sender s \<Longrightarrow> ls_new s = None \<Longrightarrow> xc_streamCh (ls_c s) = st # ch \<Longrightarrow>
    lstep L s (s\<lparr>ls_c := (ls_c s)\<lparr>xc_streamCh := ch\<rparr>, ls_new := Some st\<rparr>)"
| resubscribe: "ls_new s = Some st \<Longrightarrow> ls_cmu s = None \<Longrightarrow> reqWhenReconnect send (ls_c s) = (rs, err) \<Longrightarrow>
    lstep L s (s\<lparr>ls_new := None, ls_stream := (if err = None then Some st else None), ls_sent := ls_sent s @ map (Pair st) rs\<rparr>)"
| send_request: "ls_sender s \<Longrightarrow> ls_new s = None \<Longrightarrow> xc_reqCh (ls_c s) \<noteq> [] \<Longrightarrow>
    sender_on_request send (ls_stream s) (ls_c s) = (cur, c', out) \<Longrightarrow>
    lstep L s (s\<lparr>ls_c := c', ls_stream := cur, ls_sent := ls_sent s @ out\<rparr>)"
| send_closed: "ls_new s = None \<Longrightarrow> xc_closeCh (ls_c s) \<Longrightarrow> lstep L s (s\<lparr>ls_sender := False\<rparr>)"
| clean: "ls_mmu s = None \<Longrightarrow> ls_cmu s = None \<Longrightarrow> cleaner_tick now (ls_m s) (ls_c s) = Returns (m', c') \<Longrightarrow>
    lstep L s (s\<lparr>ls_m := m', ls_c := c'\<rparr>)"
| register_handler: "ls_mmu s = None \<Longrightarrow> lstep L s (s\<lparr>ls_m := RegisterXDSUpdateHandler rt h (ls_m s)\<rparr>)"
| close: "manager_Close (ls_m s) (ls_c s) = Returns (m', c') \<Longrightarrow> lstep L s (s\<lparr>ls_m := m', ls_c := c'\<rparr>)"

definition init_lsys :: "BootstrapConfig \<Rightarrow> Options \<Rightarrow> nat \<Rightarrow> lsys" where
  "init_lsys bc opts st =
     \<lparr>ls_m = new_manager opts, ls_c = newXdsClient bc, ls_getters = [], ls_recv = LR (RRecv st), ls_new = None,
      ls_stream = Some st, ls_sent = [], ls_sender = True, ls_mmu = None, ls_cmu = None\<rparr>"

subsection \<open>The steps of \<open>System\<close> as runs without contention\<close>

lemma register_is_run:
  assumes "map_of (ls_getters s) t = Some (LG (GMiss rt n))" and "ls_mmu s = None" and "ls_cmu s = None"
    and reg: "get_register rt n (ls_m s) (ls_c s) = Returns (nf, m', c')"
  shows "(lstep L)\<^sup>*\<^sup>* s (s\<lparr>ls_m := m', ls_c := c', ls_getters := gm_put t (LG (GWaiting rt n nf)) (ls_getters s)\<rparr>)"
proof -
  obtain nf' new m1 where r: "register_notifier rt n (ls_m s) = (nf', new, m1)" by (rule prod_cases3)
  show ?thesis
  proof (cases new)
    case False
    with reg r have "nf' = nf" "m1 = m'" "c' = ls_c s" by (simp_all add: get_register_split)
    with lstep.register_shared [OF assms(1,2), of nf m' L] r False show ?thesis by (simp add: r_into_rtranclp)
  next
    case True
    obtain req c1 where w: "watch_prepare rt n False (ls_c s) = (req, c1)" by fastforce
    from reg r True w have eq: "nf' = nf" "m1 = m'" "sendRequest req c1 = Returns c'"
      by (simp_all add: get_register_split Watch_split)
    let ?s1 = "s\<lparr>ls_m := m', ls_mmu := Some t, ls_getters := gm_put t (LWatch rt n nf) (ls_getters s)\<rparr>"
    let ?s2 = "?s1\<lparr>ls_c := c1, ls_cmu := Some (HGet t), ls_getters := gm_put t (LSend rt n nf req) (ls_getters ?s1)\<rparr>"
    let ?s3 = "?s2\<lparr>ls_c := c', ls_mmu := None, ls_cmu := None, ls_getters := gm_put t (LG (GWaiting rt n nf)) (ls_getters ?s2)\<rparr>"
    have "lstep L s ?s1" by (rule lstep.register_new) (use assms r True eq in simp_all)
    moreover have "lstep L ?s1 ?s2" by (rule lstep.watch) (use assms w in simp_all)
    moreover have "lstep L ?s2 ?s3" by (rule lstep.watch_sent) (use eq in simp_all)
    ultimately have "(lstep L)\<^sup>*\<^sup>* s ?s3" by simp
    moreover have "?s3 = s\<lparr>ls_m := m', ls_c := c', ls_getters := gm_put t (LG (GWaiting rt n nf)) (ls_getters s)\<rparr>"
      using assms(2,3) by simp
    ultimately show ?thesis by (simp only:)
  qed
qed

lemma ack_is_run:
  assumes "ls_recv s = LR (RRecv st)" and "ls_cmu s = None" and "map_of ResourceURLToType (resp_TypeUrl resp) = Some rt"
    and "map_of (xc_watchedResource (ls_c s)) rt \<noteq> None" and ack: "recv_ack L st resp rt (ls_c s) = Returns (r', c')"
  shows "(lstep L)\<^sup>*\<^sup>* s (s\<lparr>ls_c := c', ls_recv := LR r'\<rparr>)"
proof -
  obtain req c1 where w: "ack_prepare rt (resp_Nonce resp) (resp_VersionInfo resp) (ack_error L rt resp) (ls_c s) = (req, c1)"
    by fastforce
  from ack w have eq: "r' = after_ack L st resp rt" "sendRequest req c1 = Returns c'"
    by (auto simp: recv_ack_def Let_def updateAndACK_split ack_error_def [symmetric] after_ack_def simp del: sendRequest_Returns)
  let ?s1 = "s\<lparr>ls_recv := LAck st resp rt\<rparr>"
  let ?s2 = "?s1\<lparr>ls_c := c1, ls_cmu := Some HRecv, ls_recv := LAckSend st resp rt req\<rparr>"
  let ?s3 = "?s2\<lparr>ls_c := c', ls_cmu := None, ls_recv := LR (after_ack L st resp rt)\<rparr>"
  have "lstep L s ?s1" by (rule lstep.recv_response) (use assms in simp_all)
  moreover have "lstep L ?s1 ?s2" by (rule lstep.recv_ack) (use assms w in simp_all)
  moreover have "lstep L ?s2 ?s3" by (rule lstep.recv_acked) (use eq in simp_all)
  ultimately have "(lstep L)\<^sup>*\<^sup>* s ?s3" by simp
  moreover have "?s3 = s\<lparr>ls_c := c', ls_recv := LR r'\<rparr>" using assms(2) eq(1) by simp
  ultimately show ?thesis by (simp only:)
qed

subsection \<open>Who holds what\<close>

fun holds_m :: "lock_getter \<Rightarrow> bool" where
  "holds_m (LG g) = False"
| "holds_m _ = True"

fun holds_c :: "lock_getter \<Rightarrow> bool" where
  "holds_c (LSend rt n nf req) = True"
| "holds_c _ = False"

fun acking :: "lock_receiver \<Rightarrow> bool" where
  "acking (LAckSend st resp rt req) = True"
| "acking _ = False"

text \<open>A lock is held exactly by the goroutine whose state says so.\<close>

definition lock_inv :: "lsys \<Rightarrow> bool" where
  "lock_inv s \<longleftrightarrow>
     (\<forall>t. ls_mmu s = Some t \<longleftrightarrow> (\<exists>g. map_of (ls_getters s) t = Some g \<and> holds_m g)) \<and>
     (\<forall>t. ls_cmu s = Some (HGet t) \<longleftrightarrow> (\<exists>g. map_of (ls_getters s) t = Some g \<and> holds_c g)) \<and>
     (ls_cmu s = Some HRecv \<longleftrightarrow> acking (ls_recv s))"

lemma lock_inv_step: "lstep L s s' \<Longrightarrow> lock_inv s \<Longrightarrow> lock_inv s'"
proof (induction rule: lstep.induct)
  case (watch_sent s t rt n nf req c')
  have m: "ls_mmu s = Some t'" if "map_of (ls_getters s) t' = Some g" "holds_m g" for t' g
    using watch_sent.prems that by (auto simp: lock_inv_def)
  have c: "ls_cmu s = Some (HGet t')" if "map_of (ls_getters s) t' = Some g" "holds_c g" for t' g
    using watch_sent.prems that by (auto simp: lock_inv_def)
  have "\<not> holds_m g \<and> \<not> holds_c g" if "map_of (ls_getters s) t' = Some g" "t' \<noteq> t" for t' g
    using m [OF that(1)] c [OF that(1)] watch_sent.hyps(2,3) that(2) by auto
  moreover have "\<not> acking (ls_recv s)" using watch_sent by (auto simp: lock_inv_def)
  ultimately show ?case by (auto simp: lock_inv_def)
qed (auto simp: lock_inv_def)

definition lock_start :: "lsys \<Rightarrow> bool" where
  "lock_start s \<longleftrightarrow> (\<exists>bc opts st. s = init_lsys bc opts st)"

interpretation locks: inductive_invariant lock_start "lstep L" lock_inv for L
proof
  show "lock_inv s" if "lock_start s" for s using that by (auto simp: lock_start_def init_lsys_def lock_inv_def)
qed (rule lock_inv_step)

subsection \<open>A full queue, a new stream\<close>

text \<open>
  A \<open>Get\<close> holds both locks and waits for room in the queue; the sender, the only one that makes room, has taken
  a new stream and waits for \<open>c.mu\<close>.
\<close>

definition stuck :: "nat \<Rightarrow> lsys \<Rightarrow> bool" where
  "stuck t s \<longleftrightarrow> ls_new s \<noteq> None \<and> (\<exists>rt n nf req. map_of (ls_getters s) t = Some (LSend rt n nf req)) \<and>
     ls_mmu s = Some t \<and> ls_cmu s = Some (HGet t) \<and> reqCh_cap \<le> length (xc_reqCh (ls_c s))"

definition frozen :: "lsys \<Rightarrow> lsys \<Rightarrow> bool" where
  "frozen s s' \<longleftrightarrow> xc_reqCh (ls_c s') = xc_reqCh (ls_c s) \<and> ls_sent s' = ls_sent s \<and> m_cache (ls_m s') = m_cache (ls_m s) \<and>
     (\<forall>t rt n nf. map_of (ls_getters s) t = Some (LG (GWaiting rt n nf)) \<longrightarrow> map_of (ls_getters s') t = Some (LG (GWaiting rt n nf)))"

lemma signal_inbound_queue: "signal_inbound c = Returns c' \<Longrightarrow> xc_reqCh c' = xc_reqCh c"
  by (auto simp: signal_inbound_def split: if_splits)

lemma recv_filter_queue: "recv_filter st ver d c = Returns (r, c') \<Longrightarrow> xc_reqCh c' = xc_reqCh c"
  by (auto simp: recv_filter_def split: decoded.splits)

lemma manager_Close_frame:
  "manager_Close m c = Returns (m', c') \<Longrightarrow> xc_reqCh c' = xc_reqCh c \<and> m_cache m' = m_cache m"
  by (auto simp: manager_Close_def client_close_def)

lemma stuck_step:
  assumes "lstep L s s'" and "stuck t s"
  shows "stuck t s' \<and> frozen s s'"
  using assms
proof (induction rule: lstep.induct)
  case (lookup_hit s t' rt n now r m')
  then have "m' = ls_m s" by (auto simp: stuck_def get_lookup_def split: if_splits)
  with lookup_hit show ?case by (auto simp: stuck_def frozen_def)
next
  case (recv_filter s st ver d r' c')
  then show ?case by (auto simp: stuck_def frozen_def dest: recv_filter_queue)
next
  case (recv_signal s st c')
  then show ?case by (auto simp: stuck_def frozen_def dest: signal_inbound_queue)
next
  case (close s m' c')
  then show ?case by (auto simp: stuck_def frozen_def dest!: manager_Close_frame)
qed (auto simp: stuck_def frozen_def client_close_def)

lemma frozen_trans: "frozen s s' \<Longrightarrow> frozen s' s'' \<Longrightarrow> frozen s s''"
  by (auto simp: frozen_def)

lemma stuck_forever: "(lstep L)\<^sup>*\<^sup>* s s' \<Longrightarrow> stuck t s \<Longrightarrow> stuck t s' \<and> frozen s s'"
proof (induction rule: rtranclp_induct)
  case (step s' s'')
  then show ?case using stuck_step [OF step.hyps(2)] frozen_trans by blast
qed (simp add: frozen_def)

subsection \<open>How it comes about\<close>

text \<open>The names of the clusters asked for, one per \<open>Get\<close>.\<close>

definition nth_name :: "nat \<Rightarrow> string" where
  "nth_name k = replicate k (CHR ''a'')"

lemma nth_name_inj [simp]: "nth_name j = nth_name k \<longleftrightarrow> j = k"
  by (simp add: nth_name_def)

text \<open>
  The receiver has reconnected and the sender has not yet run: the new stream is in its channel, and \<open>k\<close>
  requests of as many waiting \<open>Get\<close> calls are queued.
\<close>

definition filled :: "nat \<Rightarrow> lsys \<Rightarrow> bool" where
  "filled k s \<longleftrightarrow> length (xc_reqCh (ls_c s)) = k \<and> xc_streamCh (ls_c s) \<noteq> [] \<and> ls_sender s \<and> ls_new s = None \<and>
     ls_mmu s = None \<and> ls_cmu s = None \<and>
     (\<forall>j < k. \<exists>nf. map_of (ls_getters s) j = Some (LG (GWaiting ClusterType (nth_name j) nf))) \<and>
     (\<forall>j \<ge> k. map_of (ls_getters s) j = None \<and> gm2_get (m_notifierMap (ls_m s)) ClusterType (nth_name j) = None) \<and>
     (\<forall>n. gm2_get (m_cache (ls_m s)) ClusterType n = None)"

lemma register_notifier_new:
  assumes "gm2_get (m_notifierMap m) rt n = None"
  obtains nf m' where "register_notifier rt n m = (nf, True, m')" and "m_cache m' = m_cache m"
    and "\<And>rt' n'. gm2_get (m_notifierMap m') rt' n' = (if rt' = rt \<and> n' = n then Some nf else gm2_get (m_notifierMap m) rt' n')"
proof -
  define nm where "nm = (case map_of (m_notifierMap m) rt of None \<Rightarrow> gm_put rt [] (m_notifierMap m) | Some _ \<Rightarrow> m_notifierMap m)"
  have nm: "gm2_get nm rt' n' = gm2_get (m_notifierMap m) rt' n'" for rt' n'
    by (auto simp: nm_def gm2_get_def gm_sub_def split: option.split)
  let ?m' = "m\<lparr>m_notifiers := gm_put (m_nextNotifier m) \<lparr>nt_ch = False, nt_err = None\<rparr> (m_notifiers m),
    m_nextNotifier := Suc (m_nextNotifier m), m_notifierMap := gm2_put rt n (m_nextNotifier m) nm\<rparr>"
  have "register_notifier rt n m = (m_nextNotifier m, True, ?m')"
    using assms nm by (simp add: register_notifier_def nm_def [symmetric] Let_def)
  then show thesis by (rule that) (simp_all add: nm)
qed

lemma watch_prepare_queues:
  "watch_prepare rt n rm c = (req, c') \<Longrightarrow> xc_reqCh c' = xc_reqCh c \<and> xc_streamCh c' = xc_streamCh c"
  by (auto simp: watch_prepare_def Let_def)

text \<open>A \<open>Get\<close> of the next name gets as far as its request, with both locks.\<close>

lemma next_get:
  assumes "filled k s"
  obtains s' nf req where "(lstep L)\<^sup>*\<^sup>* s s'" and "ls_mmu s' = Some k" and "ls_cmu s' = Some (HGet k)"
    and "ls_getters s' = gm_put k (LSend ClusterType (nth_name k) nf req) (ls_getters s)"
    and "xc_reqCh (ls_c s') = xc_reqCh (ls_c s)" and "xc_streamCh (ls_c s') = xc_streamCh (ls_c s)"
    and "ls_sender s'" and "ls_new s' = None" and "m_cache (ls_m s') = m_cache (ls_m s)"
    and "\<And>j. j \<noteq> k \<Longrightarrow> gm2_get (m_notifierMap (ls_m s')) ClusterType (nth_name j) = gm2_get (m_notifierMap (ls_m s)) ClusterType (nth_name j)"
proof -
  note f = assms [unfolded filled_def]
  let ?n = "nth_name k"
  let ?s1 = "s\<lparr>ls_getters := gm_put k (LG (GStart ClusterType ?n)) (ls_getters s)\<rparr>"
  have 1: "lstep L s ?s1" using f by (intro lstep.call_get) simp
  obtain x m1 where g: "getFromCache 0 ClusterType ?n (ls_m s) = (x, m1)" by fastforce
  have m1: "m_cache m1 = m_cache (ls_m s)" "m_notifierMap m1 = m_notifierMap (ls_m s)"
    using getFromCache_frame(1,2) [of 0 ClusterType ?n "ls_m s"] by (simp_all add: g)
  have "x = None" using getFromCache_abs [OF g] f by (simp add: abs_cache_def)
  then have "get_lookup 0 ClusterType ?n (ls_m s) = (None, m1)"
    by (simp add: get_lookup_def g ResourceTypeToURL_def)
  then have 2: "lstep L ?s1 (?s1\<lparr>ls_m := m1, ls_getters := gm_put k (LG (GMiss ClusterType ?n)) (ls_getters ?s1)\<rparr>)"
    using f by (intro lstep.lookup_miss) simp_all
  let ?s2 = "s\<lparr>ls_m := m1, ls_getters := gm_put k (LG (GMiss ClusterType ?n)) (ls_getters s)\<rparr>"
  obtain nf m2 where m2: "register_notifier ClusterType ?n m1 = (nf, True, m2)" "m_cache m2 = m_cache m1"
    "\<And>rt' n'. gm2_get (m_notifierMap m2) rt' n' = (if rt' = ClusterType \<and> n' = ?n then Some nf else gm2_get (m_notifierMap m1) rt' n')"
    using register_notifier_new [of m1 ClusterType ?n] f m1(2) by auto
  have 3: "lstep L ?s2 (?s2\<lparr>ls_m := m2, ls_mmu := Some k, ls_getters := gm_put k (LWatch ClusterType ?n nf) (ls_getters ?s2)\<rparr>)"
    using f m2(1) by (intro lstep.register_new) simp_all
  let ?s3 = "s\<lparr>ls_m := m2, ls_mmu := Some k, ls_getters := gm_put k (LWatch ClusterType ?n nf) (ls_getters s)\<rparr>"
  obtain req c' where w: "watch_prepare ClusterType ?n False (ls_c s) = (req, c')" by fastforce
  have 4: "lstep L ?s3 (?s3\<lparr>ls_c := c', ls_cmu := Some (HGet k), ls_getters := gm_put k (LSend ClusterType ?n nf req) (ls_getters ?s3)\<rparr>)"
    using f w by (intro lstep.watch) simp_all
  let ?s4 = "s\<lparr>ls_m := m2, ls_mmu := Some k, ls_c := c', ls_cmu := Some (HGet k),
    ls_getters := gm_put k (LSend ClusterType ?n nf req) (ls_getters s)\<rparr>"
  have "(lstep L)\<^sup>*\<^sup>* s ?s4" using 1 2 3 4 by simp
  then show thesis
    by (rule that) (use f watch_prepare_queues [OF w] m1 m2 in simp_all)
qed

lemma fill_queue:
  assumes "filled 0 s" and "k \<le> reqCh_cap"
  shows "\<exists>s'. (lstep L)\<^sup>*\<^sup>* s s' \<and> filled k s'"
  using assms(2)
proof (induction k)
  case 0
  then show ?case using assms(1) by blast
next
  case (Suc k)
  then obtain s1 where s1: "(lstep L)\<^sup>*\<^sup>* s s1" "filled k s1" by auto
  note f = s1(2) [unfolded filled_def]
  obtain s2 nf req where s2: "(lstep L)\<^sup>*\<^sup>* s1 s2" "ls_mmu s2 = Some k" "ls_cmu s2 = Some (HGet k)"
    "ls_getters s2 = gm_put k (LSend ClusterType (nth_name k) nf req) (ls_getters s1)"
    "xc_reqCh (ls_c s2) = xc_reqCh (ls_c s1)" "xc_streamCh (ls_c s2) = xc_streamCh (ls_c s1)"
    "ls_sender s2" "ls_new s2 = None" "m_cache (ls_m s2) = m_cache (ls_m s1)"
    "\<And>j. j \<noteq> k \<Longrightarrow> gm2_get (m_notifierMap (ls_m s2)) ClusterType (nth_name j) = gm2_get (m_notifierMap (ls_m s1)) ClusterType (nth_name j)"
    by (rule next_get [OF s1(2), of L]) blast
  let ?c = "(ls_c s2)\<lparr>xc_reqCh := xc_reqCh (ls_c s2) @ [req]\<rparr>"
  let ?s3 = "s2\<lparr>ls_c := ?c, ls_mmu := None, ls_cmu := None, ls_getters := gm_put k (LG (GWaiting ClusterType (nth_name k) nf)) (ls_getters s2)\<rparr>"
  have "sendRequest req (ls_c s2) = Returns ?c" using s2(5) f Suc.prems by simp
  then have "lstep L s2 ?s3" using s2(2-4) by (intro lstep.watch_sent) simp_all
  then have "(lstep L)\<^sup>*\<^sup>* s ?s3" using s1(1) s2(1) by simp
  moreover have "filled (Suc k) ?s3"
    unfolding filled_def using f s2 by (auto simp: less_Suc_eq)
  ultimately show ?case by blast
qed

text \<open>A reconnection before the sender has run.\<close>

lemma reconnected_start:
  obtains s where "(lstep L)\<^sup>*\<^sup>* (init_lsys bc opts st) s" and "filled 0 s"
proof -
  let ?s0 = "init_lsys bc opts st"
  let ?s1 = "?s0\<lparr>ls_recv := LReset st st\<rparr>"
  let ?s2 = "?s1\<lparr>ls_c := reset_for_reconnect (newXdsClient bc), ls_recv := LR (RReset st st)\<rparr>"
  let ?s3 = "?s2\<lparr>ls_c := (ls_c ?s2)\<lparr>xc_streamCh := [st]\<rparr>, ls_recv := LR (RRecv st)\<rparr>"
  have c: "ls_c ?s1 = newXdsClient bc" by (simp add: init_lsys_def)
  have "lstep L ?s0 ?s1" by (rule lstep.recv_error) (simp add: init_lsys_def)
  moreover have "lstep L ?s1 ?s2"
    using lstep.recv_reset [of ?s1 st st L] by (simp add: init_lsys_def)
  moreover have "lstep L ?s2 ?s3"
    by (rule lstep.recv_hand_over) (simp_all add: chan_send_def streamCh_cap_def reset_for_reconnect_def newXdsClient_def)
  ultimately have run3: "(lstep L)\<^sup>*\<^sup>* ?s0 ?s3" by simp
  have "filled 0 ?s3"
    by (simp add: filled_def init_lsys_def reset_for_reconnect_def newXdsClient_def new_manager_def gm2_get_def gm_sub_def)
  with run3 that show thesis by blast
qed

text \<open>C14: the goroutines can lock each other out for good. From the start, the warm-up being over, the program
  can reach a state in which 1024 \<open>Get\<close> calls wait and from which, whatever happens, no request is sent, the
  queue stays full, the cache never changes, and none of these calls ever returns, not even by its
  timeout: a further \<open>Get\<close> holds \<open>m.mu\<close> and \<open>c.mu\<close> in \<open>sendRequest\<close>, and the sender that would make room has
  taken the stream of a reconnection and waits for \<open>c.mu\<close>. Closing the manager does not help.\<close>

theorem lock_deadlock:
  "\<exists>s. (lstep L)\<^sup>*\<^sup>* (init_lsys bc opts st) s \<and>
     (\<forall>k < 1024. \<exists>nf. map_of (ls_getters s) k = Some (LG (GWaiting ClusterType (nth_name k) nf))) \<and>
     (\<forall>s'. (lstep L)\<^sup>*\<^sup>* s s' \<longrightarrow>
        length (xc_reqCh (ls_c s')) = 1024 \<and> ls_sent s' = ls_sent s \<and> m_cache (ls_m s') = m_cache (ls_m s) \<and>
        (\<forall>k < 1024. map_of (ls_getters s') k = map_of (ls_getters s) k))"
proof -
  let ?s0 = "init_lsys bc opts st"
  obtain s3 where run3: "(lstep L)\<^sup>*\<^sup>* ?s0 s3" and "filled 0 s3" by (rule reconnected_start)
  from fill_queue [OF this(2), of reqCh_cap L] obtain s4 where s4: "(lstep L)\<^sup>*\<^sup>* s3 s4" "filled reqCh_cap s4" by auto
  note f = s4(2) [unfolded filled_def]
  obtain s5 nf req where s5: "(lstep L)\<^sup>*\<^sup>* s4 s5" "ls_mmu s5 = Some reqCh_cap" "ls_cmu s5 = Some (HGet reqCh_cap)"
    "ls_getters s5 = gm_put reqCh_cap (LSend ClusterType (nth_name reqCh_cap) nf req) (ls_getters s4)"
    "xc_reqCh (ls_c s5) = xc_reqCh (ls_c s4)" "xc_streamCh (ls_c s5) = xc_streamCh (ls_c s4)"
    "ls_sender s5" "ls_new s5 = None"
    by (rule next_get [OF s4(2), of L]) blast
  obtain x ch where x: "xc_streamCh (ls_c s5) = x # ch" using f s5(6) by (cases "xc_streamCh (ls_c s4)") auto
  let ?s6 = "s5\<lparr>ls_c := (ls_c s5)\<lparr>xc_streamCh := ch\<rparr>, ls_new := Some x\<rparr>"
  have "lstep L s5 ?s6" by (rule lstep.take_stream) (use s5 x in simp_all)
  then have reach: "(lstep L)\<^sup>*\<^sup>* ?s0 ?s6" using run3 s4(1) s5(1) by simp
  have stuck: "stuck reqCh_cap ?s6" using s5 f by (simp add: stuck_def)
  have waiting: "\<exists>nf. map_of (ls_getters ?s6) k = Some (LG (GWaiting ClusterType (nth_name k) nf))" if "k < 1024" for k
    using that f s5(4) by (simp add: reqCh_cap_def)
  have "length (xc_reqCh (ls_c s')) = 1024 \<and> ls_sent s' = ls_sent ?s6 \<and> m_cache (ls_m s') = m_cache (ls_m ?s6) \<and>
      (\<forall>k < 1024. map_of (ls_getters s') k = map_of (ls_getters ?s6) k)" if "(lstep L)\<^sup>*\<^sup>* ?s6 s'" for s'
    using stuck_forever [OF that stuck] waiting f s5(5) by (fastforce simp: frozen_def reqCh_cap_def)
  with reach waiting show ?thesis by blast
qed

theorem lock_deadlock_witness:
  "\<exists>s. (lstep example_lib)\<^sup>*\<^sup>* (init_lsys example_config example_opts 7) s \<and>
     (\<exists>nf. map_of (ls_getters s) 3 = Some (LG (GWaiting ClusterType ''aaa'' nf)))"
proof -
  have "nth_name 3 = ''aaa''" by (simp add: nth_name_def numeral_3_eq_3)
  moreover have "(3 :: nat) < 1024" by simp
  ultimately show ?thesis using lock_deadlock [of example_lib example_config example_opts 7] by metis
qed



end
