(* ===== verification/AdsService.thy ===== *)
theory AdsService
  imports Auth Proto
begin

text \<open>
  \<open>core/api/kitex_gen/envoy/service/discovery/v3\<close>: the generated client and server of the aggregated
  discovery service. The framework's client and server constructors, its streams and the protobuf codec
  are arguments. A message pointer that may be nil is an option; the delta messages, which the program never
  reads, are type variables.

  The argument and result types of the two methods are four structs with one message pointer each and
  the same methods; \<open>carrier\<close> is that struct, and the locale \<open>message_carrier\<close> the contract of the four.
\<close>

subsection \<open>Argument and result structs\<close>

record 'm carrier =
  ca_msg :: "'m option" \<comment> \<open>\<open>Req\<close> or \<open>Success\<close>\<close>

type_synonym StreamAggregatedResourcesArgs = "DiscoveryRequest carrier"
type_synonym StreamAggregatedResourcesResult = "DiscoveryResponse carrier"
type_synonym 'dreq DeltaAggregatedResourcesArgs = "'dreq carrier"
type_synonym 'dresp DeltaAggregatedResourcesResult = "'dresp carrier"

text \<open>\<open>proto.Marshal\<close> gives bytes and an error, \<open>proto.Unmarshal\<close> fills a new message or fails.\<close>

type_synonym 'm marshaller = "'m \<Rightarrow> bytes \<times> string option"
type_synonym 'm unmarshaller = "bytes \<Rightarrow> string + 'm"

definition StreamAggregatedResourcesArgs_IsSetReq :: "StreamAggregatedResourcesArgs \<Rightarrow> bool" where
  "StreamAggregatedResourcesArgs_IsSetReq p \<longleftrightarrow> ca_msg p \<noteq> None"

definition StreamAggregatedResourcesArgs_Marshal :: "DiscoveryRequest marshaller \<Rightarrow> StreamAggregatedResourcesArgs \<Rightarrow> bytes \<Rightarrow> bytes \<times> string option" where
  "StreamAggregatedResourcesArgs_Marshal marshal p out =
     (if \<not> StreamAggregatedResourcesArgs_IsSetReq p then (out, Some ''no req in StreamAggregatedResourcesArgs'')
      else marshal (the (ca_msg p)))"

definition StreamAggregatedResourcesArgs_Unmarshal :: "DiscoveryRequest unmarshaller \<Rightarrow> bytes \<Rightarrow> StreamAggregatedResourcesArgs \<Rightarrow> StreamAggregatedResourcesArgs \<times> string option" where
  "StreamAggregatedResourcesArgs_Unmarshal unmarshal in_bytes p =
     (case unmarshal in_bytes of Inl err \<Rightarrow> (p, Some err) | Inr msg \<Rightarrow> (p\<lparr>ca_msg := Some msg\<rparr>, None))"

definition StreamAggregatedResourcesArgs_GetReq :: "StreamAggregatedResourcesArgs \<Rightarrow> DiscoveryRequest option" where
  "StreamAggregatedResourcesArgs_GetReq p =
     (if \<not> StreamAggregatedResourcesArgs_IsSetReq p then None else ca_msg p)"

definition newStreamAggregatedResourcesArgs :: "StreamAggregatedResourcesArgs" where
  "newStreamAggregatedResourcesArgs = \<lparr>ca_msg = None\<rparr>"

definition StreamAggregatedResourcesResult_IsSetSuccess :: "StreamAggregatedResourcesResult \<Rightarrow> bool" where
  "StreamAggregatedResourcesResult_IsSetSuccess p \<longleftrightarrow> ca_msg p \<noteq> None"

definition StreamAggregatedResourcesResult_Marshal :: "DiscoveryResponse marshaller \<Rightarrow> StreamAggregatedResourcesResult \<Rightarrow> bytes \<Rightarrow> bytes \<times> string option" where
  "StreamAggregatedResourcesResult_Marshal marshal p out =
     (if \<not> StreamAggregatedResourcesResult_IsSetSuccess p then (out, Some ''no req in StreamAggregatedResourcesResult'')
      else marshal (the (ca_msg p)))"

definition StreamAggregatedResourcesResult_Unmarshal :: "DiscoveryResponse unmarshaller \<Rightarrow> bytes \<Rightarrow> StreamAggregatedResourcesResult \<Rightarrow> StreamAggregatedResourcesResult \<times> string option" where
  "StreamAggregatedResourcesResult_Unmarshal unmarshal in_bytes p =
     (case unmarshal in_bytes of Inl err \<Rightarrow> (p, Some err) | Inr msg \<Rightarrow> (p\<lparr>ca_msg := Some msg\<rparr>, None))"

definition StreamAggregatedResourcesResult_GetSuccess :: "StreamAggregatedResourcesResult \<Rightarrow> DiscoveryResponse option" where
  "StreamAggregatedResourcesResult_GetSuccess p =
     (if \<not> StreamAggregatedResourcesResult_IsSetSuccess p then None else ca_msg p)"

definition newStreamAggregatedResourcesResult :: "StreamAggregatedResourcesResult" where
  "newStreamAggregatedResourcesResult = \<lparr>ca_msg = None\<rparr>"

text \<open>An \<open>interface{}\<close> that holds a pointer of the expected type, possibly nil, or something else.\<close>

datatype 'm iface = Iface "'m option" | OtherIface

definition StreamAggregatedResourcesResult_SetSuccess :: "DiscoveryResponse iface \<Rightarrow> StreamAggregatedResourcesResult \<Rightarrow> StreamAggregatedResourcesResult run" where
  "StreamAggregatedResourcesResult_SetSuccess x p =
     (case x of Iface v \<Rightarrow> Returns (p\<lparr>ca_msg := v\<rparr>) | OtherIface \<Rightarrow> Panics ''interface conversion'')"

definition DeltaAggregatedResourcesArgs_IsSetReq :: "'dreq DeltaAggregatedResourcesArgs \<Rightarrow> bool" where
  "DeltaAggregatedResourcesArgs_IsSetReq p \<longleftrightarrow> ca_msg p \<noteq> None"

definition DeltaAggregatedResourcesArgs_Marshal :: "'dreq marshaller \<Rightarrow> 'dreq DeltaAggregatedResourcesArgs \<Rightarrow> bytes \<Rightarrow> bytes \<times> string option" where
  "DeltaAggregatedResourcesArgs_Marshal marshal p out =
     (if \<not> DeltaAggregatedResourcesArgs_IsSetReq p then (out, Some ''no req in DeltaAggregatedResourcesArgs'')
      else marshal (the (ca_msg p)))"

definition DeltaAggregatedResourcesArgs_Unmarshal :: "'dreq unmarshaller \<Rightarrow> bytes \<Rightarrow> 'dreq DeltaAggregatedResourcesArgs \<Rightarrow> 'dreq DeltaAggregatedResourcesArgs \<times> string option" where
  "DeltaAggregatedResourcesArgs_Unmarshal unmarshal in_bytes p =
     (case unmarshal in_bytes of Inl err \<Rightarrow> (p, Some err) | Inr msg \<Rightarrow> (p\<lparr>ca_msg := Some msg\<rparr>, None))"

definition DeltaAggregatedResourcesArgs_GetReq :: "'dreq DeltaAggregatedResourcesArgs \<Rightarrow> 'dreq option" where
  "DeltaAggregatedResourcesArgs_GetReq p =
     (if \<not> DeltaAggregatedResourcesArgs_IsSetReq p then None else ca_msg p)"

definition newDeltaAggregatedResourcesArgs :: "'dreq DeltaAggregatedResourcesArgs" where
  "newDeltaAggregatedResourcesArgs = \<lparr>ca_msg = None\<rparr>"

definition DeltaAggregatedResourcesResult_IsSetSuccess :: "'dresp DeltaAggregatedResourcesResult \<Rightarrow> bool" where
  "DeltaAggregatedResourcesResult_IsSetSuccess p \<longleftrightarrow> ca_msg p \<noteq> None"

definition DeltaAggregatedResourcesResult_Marshal :: "'dresp marshaller \<Rightarrow> 'dresp DeltaAggregatedResourcesResult \<Rightarrow> bytes \<Rightarrow> bytes \<times> string option" where
  "DeltaAggregatedResourcesResult_Marshal marshal p out =
     (if \<not> DeltaAggregatedResourcesResult_IsSetSuccess p then (out, Some ''no req in DeltaAggregatedResourcesResult'')
      else marshal (the (ca_msg p)))"

definition DeltaAggregatedResourcesResult_Unmarshal :: "'dresp unmarshaller \<Rightarrow> bytes \<Rightarrow> 'dresp DeltaAggregatedResourcesResult \<Rightarrow> 'dresp DeltaAggregatedResourcesResult \<times> string option" where
  "DeltaAggregatedResourcesResult_Unmarshal unmarshal in_bytes p =
     (case unmarshal in_bytes of Inl err \<Rightarrow> (p, Some err) | Inr msg \<Rightarrow> (p\<lparr>ca_msg := Some msg\<rparr>, None))"

definition DeltaAggregatedResourcesResult_GetSuccess :: "'dresp DeltaAggregatedResourcesResult \<Rightarrow> 'dresp option" where
  "DeltaAggregatedResourcesResult_GetSuccess p =
     (if \<not> DeltaAggregatedResourcesResult_IsSetSuccess p then None else ca_msg p)"

definition newDeltaAggregatedResourcesResult :: "'dresp DeltaAggregatedResourcesResult" where
  "newDeltaAggregatedResourcesResult = \<lparr>ca_msg = None\<rparr>"

definition DeltaAggregatedResourcesResult_SetSuccess :: "'dresp iface \<Rightarrow> 'dresp DeltaAggregatedResourcesResult \<Rightarrow> 'dresp DeltaAggregatedResourcesResult run" where
  "DeltaAggregatedResourcesResult_SetSuccess x p =
     (case x of Iface v \<Rightarrow> Returns (p\<lparr>ca_msg := v\<rparr>) | OtherIface \<Rightarrow> Panics ''interface conversion'')"

subsection \<open>The contract of the four structs\<close>

lemmas stream_args_defs = StreamAggregatedResourcesArgs_IsSetReq_def StreamAggregatedResourcesArgs_Marshal_def
  StreamAggregatedResourcesArgs_Unmarshal_def StreamAggregatedResourcesArgs_GetReq_def

lemmas stream_result_defs = StreamAggregatedResourcesResult_IsSetSuccess_def StreamAggregatedResourcesResult_Marshal_def
  StreamAggregatedResourcesResult_Unmarshal_def StreamAggregatedResourcesResult_GetSuccess_def

lemmas delta_args_defs = DeltaAggregatedResourcesArgs_IsSetReq_def DeltaAggregatedResourcesArgs_Marshal_def
  DeltaAggregatedResourcesArgs_Unmarshal_def DeltaAggregatedResourcesArgs_GetReq_def

lemmas delta_result_defs = DeltaAggregatedResourcesResult_IsSetSuccess_def DeltaAggregatedResourcesResult_Marshal_def
  DeltaAggregatedResourcesResult_Unmarshal_def DeltaAggregatedResourcesResult_GetSuccess_def

text \<open>A codec is right on a message if the message encodes without error, to bytes that decode to it.\<close>

definition codec_ok :: "'m marshaller \<Rightarrow> 'm unmarshaller \<Rightarrow> 'm \<Rightarrow> bool" where
  "codec_ok marshal unmarshal m \<longleftrightarrow> snd (marshal m) = None \<and> unmarshal (fst (marshal m)) = Inr m"

locale message_carrier =
  fixes Marshal :: "'m marshaller \<Rightarrow> 'm carrier \<Rightarrow> bytes \<Rightarrow> bytes \<times> string option"
    and Unmarshal :: "'m unmarshaller \<Rightarrow> bytes \<Rightarrow> 'm carrier \<Rightarrow> 'm carrier \<times> string option"
    and Get :: "'m carrier \<Rightarrow> 'm option"
  assumes marshal_set: "Get p = Some m \<Longrightarrow> Marshal marshal p out = marshal m"
    and marshal_unset: "Get p = None \<Longrightarrow> fst (Marshal marshal p out) = out \<and> snd (Marshal marshal p out) \<noteq> None"
    and unmarshal_ok: "unmarshal b = Inr m \<Longrightarrow> snd (Unmarshal unmarshal b p) = None \<and> Get (fst (Unmarshal unmarshal b p)) = Some m"
    and unmarshal_err: "unmarshal b = Inl e \<Longrightarrow> Unmarshal unmarshal b p = (p, Some e)"
begin

text \<open>What one side sets, the other side gets, whatever the receiving struct held before.\<close>

lemma roundtrip:
  assumes "Get p = Some m" and "codec_ok marshal unmarshal m"
  shows "snd (Marshal marshal p out) = None"
    and "snd (Unmarshal unmarshal (fst (Marshal marshal p out)) q) = None"
    and "Get (fst (Unmarshal unmarshal (fst (Marshal marshal p out)) q)) = Some m"
  using assms unmarshal_ok by (simp_all add: marshal_set codec_ok_def)

lemma no_error_iff:
  "snd (Marshal marshal p out) = None \<longleftrightarrow> (\<exists>m. Get p = Some m \<and> snd (marshal m) = None)"
  using marshal_unset [of p marshal out] by (cases "Get p") (simp_all add: marshal_set)

end

interpretation stream_args: message_carrier
  StreamAggregatedResourcesArgs_Marshal StreamAggregatedResourcesArgs_Unmarshal StreamAggregatedResourcesArgs_GetReq
  by unfold_locales (auto simp: stream_args_defs split: if_splits)

interpretation stream_result: message_carrier
  StreamAggregatedResourcesResult_Marshal StreamAggregatedResourcesResult_Unmarshal StreamAggregatedResourcesResult_GetSuccess
  by unfold_locales (auto simp: stream_result_defs split: if_splits)

interpretation delta_args: message_carrier
  DeltaAggregatedResourcesArgs_Marshal DeltaAggregatedResourcesArgs_Unmarshal DeltaAggregatedResourcesArgs_GetReq
  by unfold_locales (auto simp: delta_args_defs split: if_splits)

interpretation delta_result: message_carrier
  DeltaAggregatedResourcesResult_Marshal DeltaAggregatedResourcesResult_Unmarshal DeltaAggregatedResourcesResult_GetSuccess
  by unfold_locales (auto simp: delta_result_defs split: if_splits)

text \<open>\<open>SetSuccess\<close> with \<open>GetSuccess\<close>.\<close>

lemma SetSuccess_GetSuccess:
  assumes "StreamAggregatedResourcesResult_SetSuccess (Iface v) p = Returns p'"
  shows "StreamAggregatedResourcesResult_GetSuccess p' = v"
  using assms by (auto simp: StreamAggregatedResourcesResult_SetSuccess_def stream_result_defs)

subsection \<open>Streams\<close>

text \<open>
  A stream of the framework: \<open>SendMsg\<close> answers an error or nil; \<open>RecvMsg\<close> fills the message it is given,
  and answers an error or nil. Its state is the type variable.
\<close>

record ('s, 'out, 'in) streaming_Stream =
  SendMsg :: "'out \<Rightarrow> 's \<Rightarrow> string option \<times> 's"
  RecvMsg :: "'in \<Rightarrow> 's \<Rightarrow> ('in \<times> string option) \<times> 's"

text \<open>The four structs around a stream: the client's and the server's side of the two methods.\<close>

type_synonym 's aggregatedDiscoveryServiceStreamAggregatedResourcesClient = "('s, DiscoveryRequest, DiscoveryResponse) streaming_Stream"
type_synonym 's aggregatedDiscoveryServiceStreamAggregatedResourcesServer = "('s, DiscoveryResponse, DiscoveryRequest) streaming_Stream"
type_synonym ('s, 'dreq, 'dresp) aggregatedDiscoveryServiceDeltaAggregatedResourcesClient = "('s, 'dreq, 'dresp) streaming_Stream"
type_synonym ('s, 'dreq, 'dresp) aggregatedDiscoveryServiceDeltaAggregatedResourcesServer = "('s, 'dresp, 'dreq) streaming_Stream"

text \<open>The zero messages that \<open>new\<close> allocates.\<close>

definition new_DiscoveryRequest :: DiscoveryRequest where
  "new_DiscoveryRequest = \<lparr>req_VersionInfo = '''', req_Node = \<lparr>node_Id = '''', node_Metadata = []\<rparr>, req_TypeUrl = '''',
     req_ResourceNames = [], req_ResponseNonce = '''', req_ErrorDetail = None\<rparr>"

definition new_DiscoveryResponse :: DiscoveryResponse where
  "new_DiscoveryResponse = \<lparr>resp_VersionInfo = '''', resp_Resources = [], resp_TypeUrl = '''', resp_Nonce = ''''\<rparr>"

definition StreamClient_Send ::
  "'s aggregatedDiscoveryServiceStreamAggregatedResourcesClient \<Rightarrow> DiscoveryRequest \<Rightarrow> 's \<Rightarrow> string option \<times> 's" where
  "StreamClient_Send x m = SendMsg x m"

definition StreamClient_Recv ::
  "'s aggregatedDiscoveryServiceStreamAggregatedResourcesClient \<Rightarrow> 's \<Rightarrow> (DiscoveryResponse \<times> string option) \<times> 's" where
  "StreamClient_Recv x = RecvMsg x new_DiscoveryResponse"

definition StreamServer_Send ::
  "'s aggregatedDiscoveryServiceStreamAggregatedResourcesServer \<Rightarrow> DiscoveryResponse \<Rightarrow> 's \<Rightarrow> string option \<times> 's" where
  "StreamServer_Send x m = SendMsg x m"

definition StreamServer_Recv ::
  "'s aggregatedDiscoveryServiceStreamAggregatedResourcesServer \<Rightarrow> 's \<Rightarrow> (DiscoveryRequest \<times> string option) \<times> 's" where
  "StreamServer_Recv x = RecvMsg x new_DiscoveryRequest"

text \<open>The delta streams; \<open>zero\<close> is the zero message.\<close>

definition DeltaClient_Send :: "('s, 'dreq, 'dresp) aggregatedDiscoveryServiceDeltaAggregatedResourcesClient \<Rightarrow> 'dreq \<Rightarrow> 's \<Rightarrow> string option \<times> 's" where
  "DeltaClient_Send x m = SendMsg x m"

definition DeltaClient_Recv :: "'dresp \<Rightarrow> ('s, 'dreq, 'dresp) aggregatedDiscoveryServiceDeltaAggregatedResourcesClient \<Rightarrow> 's \<Rightarrow> ('dresp \<times> string option) \<times> 's" where
  "DeltaClient_Recv zero x = RecvMsg x zero"

definition DeltaServer_Send :: "('s, 'dreq, 'dresp) aggregatedDiscoveryServiceDeltaAggregatedResourcesServer \<Rightarrow> 'dresp \<Rightarrow> 's \<Rightarrow> string option \<times> 's" where
  "DeltaServer_Send x m = SendMsg x m"

definition DeltaServer_Recv :: "'dreq \<Rightarrow> ('s, 'dreq, 'dresp) aggregatedDiscoveryServiceDeltaAggregatedResourcesServer \<Rightarrow> 's \<Rightarrow> ('dreq \<times> string option) \<times> 's" where
  "DeltaServer_Recv zero x = RecvMsg x zero"

subsection \<open>Service description and dispatch\<close>

text \<open>The Go interface \<open>AggregatedDiscoveryService\<close>: what the two methods do on a stream.\<close>

record ('st, 'r) AggregatedDiscoveryService =
  StreamAggregatedResources :: "'st \<Rightarrow> 'r"
  DeltaAggregatedResources :: "'st \<Rightarrow> 'r"

text \<open>A handler gets \<open>interface{}\<close> values; \<open>None\<close> is a value of another type, on which the assertion panics.\<close>

definition streamAggregatedResourcesHandler :: "('st, 'r) AggregatedDiscoveryService option \<Rightarrow> 'st option \<Rightarrow> 'r run" where
  "streamAggregatedResourcesHandler handler arg =
     (case arg of None \<Rightarrow> Panics ''interface conversion''
      | Some st \<Rightarrow> (case handler of None \<Rightarrow> Panics ''interface conversion''
          | Some h \<Rightarrow> Returns (StreamAggregatedResources h st)))"

definition deltaAggregatedResourcesHandler :: "('st, 'r) AggregatedDiscoveryService option \<Rightarrow> 'st option \<Rightarrow> 'r run" where
  "deltaAggregatedResourcesHandler handler arg =
     (case arg of None \<Rightarrow> Panics ''interface conversion''
      | Some st \<Rightarrow> (case handler of None \<Rightarrow> Panics ''interface conversion''
          | Some h \<Rightarrow> Returns (DeltaAggregatedResources h st)))"

datatype ('dreq, 'dresp) payload =
    StreamArgs StreamAggregatedResourcesArgs
  | StreamResult StreamAggregatedResourcesResult
  | DeltaArgs "'dreq DeltaAggregatedResourcesArgs"
  | DeltaResult "'dresp DeltaAggregatedResourcesResult"

record ('st, 'r, 'dreq, 'dresp) MethodInfo =
  mi_handler :: "('st, 'r) AggregatedDiscoveryService option \<Rightarrow> 'st option \<Rightarrow> 'r run"
  mi_newArgs :: "('dreq, 'dresp) payload"
  mi_newResult :: "('dreq, 'dresp) payload"
  mi_oneWay :: bool

text \<open>\<open>HandlerType\<close> of the description is a nil pointer that only carries a type, and is left out.\<close>

datatype codec = Thrift | Protobuf
datatype extra_value = ExtraString string | ExtraBool bool

record ('st, 'r, 'dreq, 'dresp) ServiceInfo =
  si_ServiceName :: string
  si_Methods :: "(string, ('st, 'r, 'dreq, 'dresp) MethodInfo) gomap"
  si_PayloadCodec :: codec
  si_KiteXGenVersion :: string
  si_Extra :: "(string, extra_value) gomap"

definition NewServiceInfo :: "('st, 'r, 'dreq, 'dresp) ServiceInfo" where
  "NewServiceInfo =
     (let methods =
        [(''StreamAggregatedResources'',
          \<lparr>mi_handler = streamAggregatedResourcesHandler, mi_newArgs = StreamArgs newStreamAggregatedResourcesArgs,
           mi_newResult = StreamResult newStreamAggregatedResourcesResult, mi_oneWay = False\<rparr>),
         (''DeltaAggregatedResources'',
          \<lparr>mi_handler = deltaAggregatedResourcesHandler, mi_newArgs = DeltaArgs newDeltaAggregatedResourcesArgs,
           mi_newResult = DeltaResult newDeltaAggregatedResourcesResult, mi_oneWay = False\<rparr>)];
          extra = gm_put ''streaming'' (ExtraBool True) [(''PackageName'', ExtraString ''envoy.service.discovery.v3'')]
      in \<lparr>si_ServiceName = ''AggregatedDiscoveryService'', si_Methods = methods, si_PayloadCodec = Protobuf,
          si_KiteXGenVersion = ''v0.3.4'', si_Extra = extra\<rparr>)"

subsection \<open>Client and server\<close>

text \<open>
  The framework's client: \<open>None\<close> if it does not implement \<open>client.Streaming\<close>, otherwise its \<open>Stream\<close> by
  method name.
\<close>

type_synonym 'st kitex_client = "(string \<Rightarrow> string + 'st) option"

text \<open>\<open>kClient\<close> is a struct around that client, embedded in \<open>kAggregatedDiscoveryServiceClient\<close>.\<close>

record 'st kClient =
  kc_c :: "'st kitex_client"

record 'st kAggregatedDiscoveryServiceClient =
  ka_kClient :: "'st kClient"

definition newServiceClient :: "'st kitex_client \<Rightarrow> 'st kClient" where
  "newServiceClient c = \<lparr>kc_c = c\<rparr>"

definition kClient_StreamAggregatedResources :: "'st kClient \<Rightarrow> string + 'st" where
  "kClient_StreamAggregatedResources p =
     (case kc_c p of None \<Rightarrow> Inl ''client not support streaming'' | Some Stream \<Rightarrow> Stream ''StreamAggregatedResources'')"

definition kClient_DeltaAggregatedResources :: "'st kClient \<Rightarrow> string + 'st" where
  "kClient_DeltaAggregatedResources p =
     (case kc_c p of None \<Rightarrow> Inl ''client not support streaming'' | Some Stream \<Rightarrow> Stream ''DeltaAggregatedResources'')"

datatype transport_protocol = GRPC

datatype client_option =
    WithDestService string
  | WithTransportProtocol transport_protocol
  | WithHostPorts string
  | WithGRPCTLSConfig tls_config
  | WithMetaHandler \<comment> \<open>\<open>auth.ClientHTTP2JwtHandler\<close>\<close>

definition NewClient :: "('info \<Rightarrow> client_option list \<Rightarrow> string + 'st kitex_client) \<Rightarrow> 'info \<Rightarrow> string \<Rightarrow> client_option list \<Rightarrow> string + 'st kAggregatedDiscoveryServiceClient" where
  "NewClient kitexNewClient serviceInfo destService opts =
     (let options = [WithDestService destService];
          options = options @ [WithTransportProtocol GRPC];
          options = options @ opts
      in case kitexNewClient serviceInfo options of Inl err \<Rightarrow> Inl err | Inr kc \<Rightarrow> Inr \<lparr>ka_kClient = newServiceClient kc\<rparr>)"

definition MustNewClient :: "('info \<Rightarrow> client_option list \<Rightarrow> string + 'st kitex_client) \<Rightarrow> 'info \<Rightarrow> string \<Rightarrow> client_option list \<Rightarrow> 'st kAggregatedDiscoveryServiceClient run" where
  "MustNewClient kitexNewClient serviceInfo destService opts =
     (case NewClient kitexNewClient serviceInfo destService opts of Inl err \<Rightarrow> Panics err | Inr kc \<Rightarrow> Returns kc)"

text \<open>
  The methods of \<open>kAggregatedDiscoveryServiceClient\<close> put call options into the context, which the client
  is given; contexts do not appear in the model.
\<close>

definition ads_StreamAggregatedResources :: "'st kAggregatedDiscoveryServiceClient \<Rightarrow> string + 'st" where
  "ads_StreamAggregatedResources p = kClient_StreamAggregatedResources (ka_kClient p)"

definition ads_DeltaAggregatedResources :: "'st kAggregatedDiscoveryServiceClient \<Rightarrow> string + 'st" where
  "ads_DeltaAggregatedResources p = kClient_DeltaAggregatedResources (ka_kClient p)"

text \<open>\<open>register\<close> is \<open>RegisterService\<close>, \<open>init\<close> is \<open>Init\<close> of the framework; each answers an error or nil.\<close>

definition NewServer ::
  "('opt list \<Rightarrow> 'svr) \<Rightarrow> ('info \<Rightarrow> 'h \<Rightarrow> 'svr \<Rightarrow> string option \<times> 'svr) \<Rightarrow> 'info \<Rightarrow> 'h \<Rightarrow> 'opt list \<Rightarrow> 'svr run" where
  "NewServer kitexNewServer register serviceInfo handler opts =
     (let svr = kitexNewServer opts in
      case register serviceInfo handler svr of (Some err, svr) \<Rightarrow> Panics err | (None, svr) \<Rightarrow> Returns svr)"

definition NewInvoker ::
  "('opt list \<Rightarrow> 'svr) \<Rightarrow> ('info \<Rightarrow> 'h \<Rightarrow> 'svr \<Rightarrow> string option \<times> 'svr) \<Rightarrow> ('svr \<Rightarrow> string option \<times> 'svr) \<Rightarrow>
     'info \<Rightarrow> 'h \<Rightarrow> 'opt list \<Rightarrow> 'svr run" where
  "NewInvoker kitexNewInvoker register init serviceInfo handler opts =
     (let s = kitexNewInvoker opts in
      case register serviceInfo handler s of
        (Some err, s) \<Rightarrow> Panics err
      | (None, s) \<Rightarrow> (case init s of (Some err, s) \<Rightarrow> Panics err | (None, s) \<Rightarrow> Returns s))"

subsection \<open>A call reaches the method of its name\<close>

text \<open>The method names that the client calls are the ones the service description has, with their handlers.\<close>

lemma stream_method:
  "\<exists>mi. map_of (si_Methods NewServiceInfo) ''StreamAggregatedResources'' = Some mi \<and>
     mi_handler mi (Some h) (Some st) = Returns (StreamAggregatedResources h st)"
  by (simp add: NewServiceInfo_def streamAggregatedResourcesHandler_def)

lemma delta_method:
  "\<exists>mi. map_of (si_Methods NewServiceInfo) ''DeltaAggregatedResources'' = Some mi \<and>
     mi_handler mi (Some h) (Some st) = Returns (DeltaAggregatedResources h st)"
  by (simp add: NewServiceInfo_def deltaAggregatedResourcesHandler_def)

end
