(* ===== verification/Fixtures.thy ===== *)
theory Fixtures
  imports AdsService Lds Cds Nds
begin

text \<open>
  \<open>core/xdsresource/testutil.go\<close>: the messages with which the program is exercised, packed by
  \<open>MarshalAny\<close>. A message type of the protobuf library is its type URL and its encoder (\<open>pb_type\<close>); the
  types are the fields of a record \<open>enc\<close>, an argument of the messages that contain packed ones. What each
  message decodes to is stated for every library whose decoders invert the encoders on these messages.
\<close>

record 'm pb_type =
  pt_Url :: string
  pt_Marshal :: "'m marshaller"

record enc =
  T_Listener :: "PbListener pb_type"
  T_RouteConfiguration :: "PbRouteConfiguration pb_type"
  T_Cluster :: "PbCluster pb_type"
  T_ClusterLoadAssignment :: "PbClusterLoadAssignment pb_type"
  T_NameTable :: "PbNameTable pb_type"
  T_ThriftProxy :: "PbThriftProxy pb_type"
  T_HttpConnectionManager :: "PbHttpConnectionManager pb_type"
  T_LocalRateLimit :: "PbLocalRateLimit pb_type"

text \<open>
  \<open>anypb.New\<close> gives nil beside an error, which \<open>MarshalAny\<close> drops. A nil \<open>Any\<close> reads, and is sent, as the
  empty one.
\<close>

definition MarshalAny :: "'m pb_type \<Rightarrow> 'm \<Rightarrow> PbAny" where
  "MarshalAny t message =
     (case pt_Marshal t message of
        (b, None) \<Rightarrow> \<lparr>any_TypeUrl = pt_Url t, any_Value = b\<rparr>
      | (b, Some err) \<Rightarrow> \<lparr>any_TypeUrl = '''', any_Value = []\<rparr>)"

subsection \<open>Names\<close>

definition HostName1 :: string where "HostName1 = ''host1''"
definition Port1 :: string where "Port1 = ''80''"
definition ClusterIP1 :: string where "ClusterIP1 = ''0.0.0.0''"
definition ListenerName1 :: string where "ListenerName1 = HostName1 @ '':'' @ Port1"
definition ReturnedLisName1 :: string where "ReturnedLisName1 = ClusterIP1 @ ''_'' @ Port1"
definition ReturnedInbound :: string where "ReturnedInbound = ''virtualInbound''"
definition HostName2 :: string where "HostName2 = ''host2''"
definition Port2 :: string where "Port2 = ''8080''"
definition ClusterIP2 :: string where "ClusterIP2 = ''10.0.0.1''"
definition ListenerName2 :: string where "ListenerName2 = HostName2 @ '':'' @ Port2"
definition ReturnedLisName2 :: string where "ReturnedLisName2 = ClusterIP2 @ ''_'' @ Port2"
definition ReturnedLisName3 :: string where "ReturnedLisName3 = ''lis3''"
definition RouteConfigName1 :: string where "RouteConfigName1 = ''routeConfig1''"
definition RouteConfigName2 :: string where "RouteConfigName2 = ''routeConfig2''"
definition ClusterName1 :: string where "ClusterName1 = ''cluster1''"
definition ClusterName2 :: string where "ClusterName2 = ''cluster2''"
definition EndpointName1 :: string where "EndpointName1 = ''endpoint1''"
definition EndpointName2 :: string where "EndpointName2 = ''endpoint2''"
definition edsAddr :: string where "edsAddr = ''127.0.0.1''"
definition edsPort1 :: "32 word" where "edsPort1 = 8080"
definition edsPort2 :: "32 word" where "edsPort2 = 8081"
definition edsWeight1 :: "32 word" where "edsWeight1 = 50"
definition edsWeight2 :: "32 word" where "edsWeight2 = 50"

lemmas name_defs = HostName1_def Port1_def ClusterIP1_def ListenerName1_def ReturnedLisName1_def ReturnedInbound_def
  HostName2_def Port2_def ClusterIP2_def ListenerName2_def ReturnedLisName2_def ReturnedLisName3_def
  RouteConfigName1_def RouteConfigName2_def ClusterName1_def ClusterName2_def EndpointName1_def EndpointName2_def
  edsAddr_def edsPort1_def edsPort2_def edsWeight1_def edsWeight2_def

subsection \<open>Filters\<close>

definition thriftProxy :: PbThriftProxy where
  "thriftProxy =
     \<lparr>tp_RouteConfig = Some \<lparr>tprc_Name = '''', tprc_Routes =
        [\<lparr>tpr_Match = Some
            \<lparr>tprm_MatchSpecifier = RouteMatch_MethodName ''method'',
             tprm_Headers =
               [\<lparr>hm_Name = ''k1'', hm_Specifier = HM_StringMatch (SM_Exact ''v1'')\<rparr>,
                \<lparr>hm_Name = ''k2'', hm_Specifier = HM_StringMatch (SM_Exact ''v2'')\<rparr>,
                \<lparr>hm_Name = ''k3'', hm_Specifier = HM_StringMatch (SM_Prefix ''pre'')\<rparr>,
                \<lparr>hm_Name = ''k4'', hm_Specifier = HM_StringMatch (SM_SafeRegex (Some ''[a-z][1-9]''))\<rparr>]\<rparr>,
          tpr_Route = Some (CS_Cluster ''cluster'')\<rparr>]\<rparr>\<rparr>"

definition rateLimit :: PbLocalRateLimit where
  "rateLimit = \<lparr>lrl_TokenBucket = Some \<lparr>tb_MaxTokens = 10, tb_TokensPerFill = Some 101\<rparr>\<rparr>"

definition RouteConfig1 :: PbRouteConfiguration where
  "RouteConfig1 =
     \<lparr>pbrc_Name = RouteConfigName1, pbrc_VirtualHosts =
        [\<lparr>pbvh_Name = ''vhName'', pbvh_Routes =
           [\<lparr>pbr_Name = '''',
             pbr_Match = Some \<lparr>pbrm_PathSpecifier = PS_Path ''path'', pbrm_Headers = []\<rparr>,
             pbr_Action = Some (Route_Route
               \<lparr>pbra_ClusterSpecifier = CS_WeightedClusters [\<lparr>pbcw_Name = ClusterName1, pbcw_Weight = Some 50\<rparr>],
                pbra_Timeout = None, pbra_RetryPolicy = None\<rparr>)\<rparr>]\<rparr>]\<rparr>"

definition RouteConfig2 :: PbRouteConfiguration where
  "RouteConfig2 =
     \<lparr>pbrc_Name = RouteConfigName2, pbrc_VirtualHosts =
        [\<lparr>pbvh_Name = ''vhName'', pbvh_Routes =
           [\<lparr>pbr_Name = '''',
             pbr_Match = Some \<lparr>pbrm_PathSpecifier = PS_Path ''path'', pbrm_Headers = []\<rparr>,
             pbr_Action = Some (Route_Route
               \<lparr>pbra_ClusterSpecifier = CS_WeightedClusters [\<lparr>pbcw_Name = ClusterName1, pbcw_Weight = Some 50\<rparr>],
                pbra_Timeout = None, pbra_RetryPolicy = None\<rparr>)\<rparr>]\<rparr>]\<rparr>"

definition httpConnectionManager1 :: "enc \<Rightarrow> PbHttpConnectionManager" where
  "httpConnectionManager1 E =
     \<lparr>hcm_RouteSpecifier = HCM_Rds (Some RouteConfigName1),
      hcm_HttpFilters = [HttpFilter_TypedConfig (Some (MarshalAny (T_LocalRateLimit E) rateLimit))]\<rparr>"

definition httpConnectionManager2 :: PbHttpConnectionManager where
  "httpConnectionManager2 = \<lparr>hcm_RouteSpecifier = HCM_RouteConfig (Some RouteConfig1), hcm_HttpFilters = []\<rparr>"

subsection \<open>Listeners\<close>

definition InboundListener1 :: "enc \<Rightarrow> PbListener" where
  "InboundListener1 E =
     \<lparr>pbl_Name = ReturnedInbound,
      pbl_FilterChains =
        [\<lparr>fc_DestinationPort = Some 80,
          fc_Filters = [Filter_TypedConfig (MarshalAny (T_HttpConnectionManager E) (httpConnectionManager1 E))]\<rparr>],
      pbl_DefaultFilterChain = None\<rparr>"

definition Listener1 :: "enc \<Rightarrow> PbListener" where
  "Listener1 E =
     \<lparr>pbl_Name = ReturnedLisName1,
      pbl_FilterChains =
        [\<lparr>fc_DestinationPort = Some 80,
          fc_Filters =
            [Filter_TypedConfig (MarshalAny (T_HttpConnectionManager E) (httpConnectionManager1 E)),
             Filter_TypedConfig (MarshalAny (T_ThriftProxy E) thriftProxy)]\<rparr>],
      pbl_DefaultFilterChain = None\<rparr>"

definition Listener2 :: "enc \<Rightarrow> PbListener" where
  "Listener2 E =
     \<lparr>pbl_Name = ReturnedLisName2,
      pbl_FilterChains =
        [\<lparr>fc_DestinationPort = None,
          fc_Filters =
            [Filter_TypedConfig (MarshalAny (T_HttpConnectionManager E) httpConnectionManager2),
             Filter_TypedConfig (MarshalAny (T_ThriftProxy E) thriftProxy)]\<rparr>],
      pbl_DefaultFilterChain = Some
        \<lparr>fc_DestinationPort = None,
         fc_Filters = [Filter_TypedConfig (MarshalAny (T_ThriftProxy E) thriftProxy)]\<rparr>\<rparr>"

definition Listener3 :: "enc \<Rightarrow> PbListener" where
  "Listener3 E =
     \<lparr>pbl_Name = ReturnedLisName3,
      pbl_FilterChains =
        [\<lparr>fc_DestinationPort = None,
          fc_Filters = [Filter_TypedConfig (MarshalAny (T_ThriftProxy E) thriftProxy)]\<rparr>],
      pbl_DefaultFilterChain = Some
        \<lparr>fc_DestinationPort = None,
         fc_Filters = [Filter_TypedConfig (MarshalAny (T_ThriftProxy E) thriftProxy)]\<rparr>\<rparr>"

subsection \<open>Clusters, endpoints, name table\<close>

definition Cluster1 :: PbCluster where
  "Cluster1 =
     \<lparr>pbc_Name = ClusterName1, pbc_Type = Cluster_EDS, pbc_LbPolicy = Cluster_ROUND_ROBIN,
      pbc_OutlierDetection = Some
        \<lparr>pbod_FailurePercentageThreshold = Some 10, pbod_FailurePercentageRequestVolume = Some 100\<rparr>,
      pbc_EdsServiceName = Some EndpointName1, pbc_LoadAssignment = None\<rparr>"

definition Cluster2 :: PbCluster where
  "Cluster2 =
     \<lparr>pbc_Name = ClusterName2, pbc_Type = Cluster_EDS, pbc_LbPolicy = Cluster_ROUND_ROBIN,
      pbc_OutlierDetection = Some
        \<lparr>pbod_FailurePercentageThreshold = Some 10, pbod_FailurePercentageRequestVolume = Some 0\<rparr>,
      pbc_EdsServiceName = Some EndpointName1, pbc_LoadAssignment = None\<rparr>"

definition Endpoints1 :: PbClusterLoadAssignment where
  "Endpoints1 =
     \<lparr>cla_ClusterName = EndpointName1, cla_Endpoints =
        [[\<lparr>lbe_SocketAddress = Some \<lparr>sa_Address = edsAddr, sa_PortValue = edsPort1\<rparr>,
           lbe_LoadBalancingWeight = Some edsWeight1\<rparr>,
          \<lparr>lbe_SocketAddress = Some \<lparr>sa_Address = edsAddr, sa_PortValue = edsPort2\<rparr>,
           lbe_LoadBalancingWeight = Some edsWeight2\<rparr>]]\<rparr>"

definition Endpoints2 :: PbClusterLoadAssignment where
  "Endpoints2 = \<lparr>cla_ClusterName = EndpointName2, cla_Endpoints = []\<rparr>"

definition NameTable1 :: PbNameTable where
  "NameTable1 = \<lparr>nt_Table = [(HostName1, [ClusterIP1]), (HostName2, [ClusterIP2])]\<rparr>"

subsection \<open>What the messages decode to\<close>

text \<open>The library packs a message under the URL the program expects, and its decoder inverts the encoder on it.\<close>

definition packs :: "'m pb_type \<Rightarrow> string \<Rightarrow> 'm unmarshaller \<Rightarrow> 'm \<Rightarrow> bool" where
  "packs t url unmarshal m \<longleftrightarrow> pt_Url t = url \<and> codec_ok (pt_Marshal t) unmarshal m"

lemma packs_MarshalAny:
  assumes "packs t url unmarshal m"
  shows "any_TypeUrl (MarshalAny t m) = url" and "unmarshal (any_Value (MarshalAny t m)) = Inr m"
  using assms by (auto simp: packs_def codec_ok_def MarshalAny_def split: prod.splits option.splits)

definition filters_codec :: "enc \<Rightarrow> lib \<Rightarrow> bool" where
  "filters_codec E L \<longleftrightarrow>
     packs (T_LocalRateLimit E) RateLimitTypeURL (Unmarshal_LocalRateLimit L) rateLimit \<and>
     packs (T_ThriftProxy E) ThriftProxyTypeURL (Unmarshal_ThriftProxy L) thriftProxy \<and>
     packs (T_HttpConnectionManager E) HTTPConnManagerTypeURL (Unmarshal_HttpConnectionManager L) (httpConnectionManager1 E) \<and>
     packs (T_HttpConnectionManager E) HTTPConnManagerTypeURL (Unmarshal_HttpConnectionManager L) httpConnectionManager2 \<and>
     RegexpCompile L ''[a-z][1-9]'' = None"

definition fixtures_codec :: "enc \<Rightarrow> lib \<Rightarrow> bool" where
  "fixtures_codec E L \<longleftrightarrow>
     filters_codec E L \<and>
     list_all (packs (T_Listener E) ListenerTypeURL (Unmarshal_Listener L)) [InboundListener1 E, Listener1 E, Listener2 E, Listener3 E] \<and>
     list_all (packs (T_RouteConfiguration E) RouteTypeURL (Unmarshal_RouteConfiguration L)) [RouteConfig1, RouteConfig2] \<and>
     list_all (packs (T_Cluster E) ClusterTypeURL (Unmarshal_Cluster L)) [Cluster1, Cluster2] \<and>
     list_all (packs (T_ClusterLoadAssignment E) EndpointTypeURL (Unmarshal_ClusterLoadAssignment L)) [Endpoints1, Endpoints2] \<and>
     packs (T_NameTable E) NameTableTypeURL (Unmarshal_NameTable L) NameTable1"

lemma fixtures_codec_filters: "fixtures_codec E L \<Longrightarrow> filters_codec E L"
  by (simp add: fixtures_codec_def)

text \<open>The thrift filter, which every outbound listener has.\<close>

definition thrift_route :: Route where
  "thrift_route = zero_Route\<lparr>
     rt_Match := Some (ThriftMatch
       \<lparr>trm_Method = ''method'', trm_ServiceName = '''',
        trm_Tags = [(''k1'', ExactMatcher ''v1''), (''k2'', ExactMatcher ''v2''),
                    (''k3'', PrefixMatcher ''pre''), (''k4'', RegexMatcher ''[a-z][1-9]'')]\<rparr>),
     rt_WeightedClusters := [\<lparr>wc_Name = ''cluster'', wc_Weight = 1\<rparr>]\<rparr>"

definition thrift_filter :: NetworkFilter where
  "thrift_filter = \<lparr>nf_FilterType = NetworkFilterTypeThrift, nf_RouteConfigName = '''', nf_RoutePort = 0,
     nf_InlineRouteConfig = Some \<lparr>rc_HTTPRouteConfig = None, rc_ThriftRouteConfig = Some [thrift_route],
                                  rc_MaxTokens = 0, rc_TokensPerFill = 0\<rparr>\<rparr>"

text \<open>The filter that names a route configuration and carries the rate limit.\<close>

definition rds_filter :: NetworkFilter where
  "rds_filter = \<lparr>nf_FilterType = NetworkFilterTypeHTTP, nf_RouteConfigName = RouteConfigName1, nf_RoutePort = 80,
     nf_InlineRouteConfig = Some \<lparr>rc_HTTPRouteConfig = None, rc_ThriftRouteConfig = None,
                                  rc_MaxTokens = 10, rc_TokensPerFill = 101\<rparr>\<rparr>"

text \<open>Both route configurations; the timeout is what the library makes of a missing duration.\<close>

definition http_routes :: "lib \<Rightarrow> RouteConfigResource" where
  "http_routes L = \<lparr>rc_HTTPRouteConfig = Some
       [\<lparr>vh_Name = ''vhName'', vh_Routes =
          [zero_Route\<lparr>rt_Match := Some (HTTPMatch \<lparr>hrm_Path = ''path'', hrm_Prefix = '''', hrm_Headers = []\<rparr>),
                      rt_WeightedClusters := [\<lparr>wc_Name = ClusterName1, wc_Weight = 50\<rparr>],
                      rt_Timeout := AsDuration L None\<rparr>]\<rparr>],
     rc_ThriftRouteConfig = None, rc_MaxTokens = 0, rc_TokensPerFill = 0\<rparr>"

definition inline_filter :: "lib \<Rightarrow> NetworkFilter" where
  "inline_filter L = \<lparr>nf_FilterType = NetworkFilterTypeHTTP, nf_RouteConfigName = RouteConfigName1, nf_RoutePort = 0,
     nf_InlineRouteConfig = Some (http_routes L)\<rparr>"

lemma filter_one_TypedConfig:
  "filter_one L port (Filter_TypedConfig cfg) = filters_loop L port [Filter_TypedConfig cfg] [] []"
  by (simp add: filter_one_def)

lemma thrift_decodes:
  assumes "filters_codec E L"
  shows "filter_one L port (Filter_TypedConfig (MarshalAny (T_ThriftProxy E) thriftProxy)) = ([thrift_filter], [])"
proof -
  have p: "packs (T_ThriftProxy E) ThriftProxyTypeURL (Unmarshal_ThriftProxy L) thriftProxy"
    and r: "RegexpCompile L ''[a-z][1-9]'' = None" using assms by (simp_all add: filters_codec_def)
  note u = packs_MarshalAny [OF p]
  have "unmarshalThriftProxy L (MarshalAny (T_ThriftProxy E) thriftProxy) = Inr
      \<lparr>rc_HTTPRouteConfig = None, rc_ThriftRouteConfig = Some [thrift_route], rc_MaxTokens = 0, rc_TokensPerFill = 0\<rparr>"
    unfolding unmarshalThriftProxy_def u(2)
    by (simp add: r thriftProxy_def parse_thrift_match_def BuildMatchers_def build_matcher_def
        parse_weighted_clusters_def thrift_route_def)
  with u show ?thesis by (simp add: filter_one_TypedConfig thrift_filter_def)
qed

lemma HTTPConnManager_neq_ThriftProxy [simp]: "HTTPConnManagerTypeURL \<noteq> ThriftProxyTypeURL"
  by (simp add: url_defs)

lemma rds_filter_decodes:
  assumes "filters_codec E L"
  shows "filter_one L 80 (Filter_TypedConfig (MarshalAny (T_HttpConnectionManager E) (httpConnectionManager1 E))) = ([rds_filter], [])"
proof -
  have p: "packs (T_HttpConnectionManager E) HTTPConnManagerTypeURL (Unmarshal_HttpConnectionManager L) (httpConnectionManager1 E)"
    and q: "packs (T_LocalRateLimit E) RateLimitTypeURL (Unmarshal_LocalRateLimit L) rateLimit"
    using assms by (simp_all add: filters_codec_def)
  note u = packs_MarshalAny [OF p] and v = packs_MarshalAny [OF q]
  have "unmarshallHTTPConnectionManager L (MarshalAny (T_HttpConnectionManager E) (httpConnectionManager1 E)) =
      Inr (RouteConfigName1, Some \<lparr>rc_HTTPRouteConfig = None, rc_ThriftRouteConfig = None, rc_MaxTokens = 10, rc_TokensPerFill = 101\<rparr>)"
    unfolding unmarshallHTTPConnectionManager_def u(2)
    by (simp add: httpConnectionManager1_def v) (simp add: rateLimit_def u32_value_def RouteConfigName1_def)
  with u show ?thesis by (simp add: filter_one_TypedConfig rds_filter_def)
qed

lemma RouteConfig_decodes:
  "unmarshalRouteConfig L RouteConfig1 = Inr (http_routes L)"
  "unmarshalRouteConfig L RouteConfig2 = Inr (http_routes L)"
  by (simp_all add: unmarshalRouteConfig_def RouteConfig1_def RouteConfig2_def unmarshalRoute_def parse_http_match_def
      BuildMatchers_def parse_route_action_def parse_weighted_clusters_def u32_value_def http_routes_def)

lemma inline_filter_decodes:
  assumes "filters_codec E L"
  shows "filter_one L 0 (Filter_TypedConfig (MarshalAny (T_HttpConnectionManager E) httpConnectionManager2)) = ([inline_filter L], [])"
proof -
  have p: "packs (T_HttpConnectionManager E) HTTPConnManagerTypeURL (Unmarshal_HttpConnectionManager L) httpConnectionManager2"
    using assms by (simp add: filters_codec_def)
  note u = packs_MarshalAny [OF p]
  have "unmarshallHTTPConnectionManager L (MarshalAny (T_HttpConnectionManager E) httpConnectionManager2) =
      Inr (RouteConfigName1, Some (http_routes L))"
    unfolding unmarshallHTTPConnectionManager_def u(2)
    by (simp add: httpConnectionManager2_def RouteConfig_decodes) (simp add: http_routes_def RouteConfig1_def)
  with u show ?thesis by (simp add: filter_one_TypedConfig inline_filter_def)
qed

text \<open>The decoded resources.\<close>

definition inbound_resource :: ListenerResource where
  "inbound_resource = \<lparr>lr_NetworkFilters = [rds_filter]\<rparr>"

definition listener1_resource :: ListenerResource where
  "listener1_resource = \<lparr>lr_NetworkFilters = [rds_filter, thrift_filter]\<rparr>"

definition listener2_resource :: "lib \<Rightarrow> ListenerResource" where
  "listener2_resource L = \<lparr>lr_NetworkFilters = [inline_filter L, thrift_filter, thrift_filter]\<rparr>"

definition listener3_resource :: ListenerResource where
  "listener3_resource = \<lparr>lr_NetworkFilters = [thrift_filter, thrift_filter]\<rparr>"

definition cluster_resource :: "32 word \<Rightarrow> ClusterResource" where
  "cluster_resource volume =
     \<lparr>cr_DiscoveryType = ClusterDiscoveryTypeEDS, cr_LbPolicy = ClusterLbRoundRobin, cr_EndpointName = EndpointName1,
      cr_InlineEndpoints = None,
      cr_OutlierDetection = Some \<lparr>od_FailurePercentageThreshold = 10, od_FailurePercentageRequestVolume = volume\<rparr>\<rparr>"

definition endpoints1_resource :: EndpointsResource where
  "endpoints1_resource = \<lparr>er_Localities =
     [[\<lparr>ep_addr = NewNetAddr ''tcp'' ''127.0.0.1:8080'', ep_weight = 50, ep_meta = []\<rparr>,
       \<lparr>ep_addr = NewNetAddr ''tcp'' ''127.0.0.1:8081'', ep_weight = 50, ep_meta = []\<rparr>]]\<rparr>"

lemma unmarshalFilterChain_eq:
  "unmarshalFilterChain L fc =
     (let rs = map (filter_one L (u32_value (fc_DestinationPort fc))) (fc_Filters fc)
      in (concat (map fst rs), combineErrors (concat (map snd rs))))"
  by (simp add: unmarshalFilterChain_def filters_loop_eq comp_def)

lemma listener_decodes:
  assumes "packs (T_Listener E) ListenerTypeURL (Unmarshal_Listener L) lis"
    and "chains_loop L (pbl_FilterChains lis) [] [] = (nfs, [])"
    and "default_chain L (pbl_DefaultFilterChain lis) (nfs, []) = (nfs', [])"
  shows "lds_one L (MarshalAny (T_Listener E) lis) = Parsed (pbl_Name lis) \<lparr>lr_NetworkFilters = nfs'\<rparr>"
  using assms(2,3) by (simp add: lds_one_def packs_MarshalAny [OF assms(1)] combineErrors_def)

lemmas filters_decode = thrift_decodes rds_filter_decodes inline_filter_decodes

lemmas chain_simps = unmarshalFilterChain_eq default_chain_def u32_value_def combineErrors_def

lemma listeners_decode:
  assumes "fixtures_codec E L"
  shows "lds_one L (MarshalAny (T_Listener E) (InboundListener1 E)) = Parsed ReturnedInbound inbound_resource"
    and "lds_one L (MarshalAny (T_Listener E) (Listener1 E)) = Parsed ReturnedLisName1 listener1_resource"
    and "lds_one L (MarshalAny (T_Listener E) (Listener2 E)) = Parsed ReturnedLisName2 (listener2_resource L)"
    and "lds_one L (MarshalAny (T_Listener E) (Listener3 E)) = Parsed ReturnedLisName3 listener3_resource"
proof -
  note f = fixtures_codec_filters [OF assms]
  from assms have p: "packs (T_Listener E) ListenerTypeURL (Unmarshal_Listener L) lis"
    if "lis \<in> {InboundListener1 E, Listener1 E, Listener2 E, Listener3 E}" for lis
    using that by (auto simp: fixtures_codec_def)
  note d = listener_decodes [OF p]
  show "lds_one L (MarshalAny (T_Listener E) (InboundListener1 E)) = Parsed ReturnedInbound inbound_resource"
    by (subst d [where nfs = "[rds_filter]" and nfs' = "[rds_filter]"])
      (simp_all add: InboundListener1_def inbound_resource_def filters_decode [OF f] chain_simps)
  show "lds_one L (MarshalAny (T_Listener E) (Listener1 E)) = Parsed ReturnedLisName1 listener1_resource"
    by (subst d [where nfs = "[rds_filter, thrift_filter]" and nfs' = "[rds_filter, thrift_filter]"])
      (simp_all add: Listener1_def listener1_resource_def filters_decode [OF f] chain_simps)
  show "lds_one L (MarshalAny (T_Listener E) (Listener2 E)) = Parsed ReturnedLisName2 (listener2_resource L)"
    by (subst d [where nfs = "[inline_filter L, thrift_filter]" and nfs' = "[inline_filter L, thrift_filter, thrift_filter]"])
      (simp_all add: Listener2_def listener2_resource_def filters_decode [OF f] chain_simps)
  show "lds_one L (MarshalAny (T_Listener E) (Listener3 E)) = Parsed ReturnedLisName3 listener3_resource"
    by (subst d [where nfs = "[thrift_filter]" and nfs' = "[thrift_filter, thrift_filter]"])
      (simp_all add: Listener3_def listener3_resource_def filters_decode [OF f] chain_simps)
qed

lemma named_decode:
  assumes "fixtures_codec E L"
  shows "rds_one L (MarshalAny (T_RouteConfiguration E) RouteConfig1) = Parsed RouteConfigName1 (ResRouteConfig (Some (http_routes L)))"
    and "rds_one L (MarshalAny (T_RouteConfiguration E) RouteConfig2) = Parsed RouteConfigName2 (ResRouteConfig (Some (http_routes L)))"
    and "cds_one L (MarshalAny (T_Cluster E) Cluster1) = Parsed ClusterName1 (ResCluster (Some (cluster_resource 100)))"
    and "cds_one L (MarshalAny (T_Cluster E) Cluster2) = Parsed ClusterName2 (ResCluster (Some (cluster_resource 0)))"
    and "eds_one L (MarshalAny (T_ClusterLoadAssignment E) Endpoints1) = Parsed EndpointName1 (ResEndpoints (Some endpoints1_resource))"
    and "eds_one L (MarshalAny (T_ClusterLoadAssignment E) Endpoints2) = Parsed EndpointName2 (ResEndpoints None)"
proof -
  have r: "packs (T_RouteConfiguration E) RouteTypeURL (Unmarshal_RouteConfiguration L) RouteConfig1"
      "packs (T_RouteConfiguration E) RouteTypeURL (Unmarshal_RouteConfiguration L) RouteConfig2"
    and c: "packs (T_Cluster E) ClusterTypeURL (Unmarshal_Cluster L) Cluster1"
      "packs (T_Cluster E) ClusterTypeURL (Unmarshal_Cluster L) Cluster2"
    and e: "packs (T_ClusterLoadAssignment E) EndpointTypeURL (Unmarshal_ClusterLoadAssignment L) Endpoints1"
      "packs (T_ClusterLoadAssignment E) EndpointTypeURL (Unmarshal_ClusterLoadAssignment L) Endpoints2"
    using assms by (simp_all add: fixtures_codec_def)
  have n: "pbrc_Name RouteConfig1 = RouteConfigName1" "pbrc_Name RouteConfig2 = RouteConfigName2"
    by (simp_all add: RouteConfig1_def RouteConfig2_def)
  show "rds_one L (MarshalAny (T_RouteConfiguration E) RouteConfig1) = Parsed RouteConfigName1 (ResRouteConfig (Some (http_routes L)))"
    and "rds_one L (MarshalAny (T_RouteConfiguration E) RouteConfig2) = Parsed RouteConfigName2 (ResRouteConfig (Some (http_routes L)))"
    by (simp_all add: rds_one_def packs_MarshalAny [OF r(1)] packs_MarshalAny [OF r(2)] RouteConfig_decodes n)
  show "cds_one L (MarshalAny (T_Cluster E) Cluster1) = Parsed ClusterName1 (ResCluster (Some (cluster_resource 100)))"
    unfolding cds_one_def unmarshalCluster_def packs_MarshalAny [OF c(1)]
    by (simp add: Cluster1_def cluster_resource_def parseClusterLoadAssignment_def u32_value_def convertDiscoveryType_def
        convertLbPolicy_def EndpointName1_def)
  show "cds_one L (MarshalAny (T_Cluster E) Cluster2) = Parsed ClusterName2 (ResCluster (Some (cluster_resource 0)))"
    unfolding cds_one_def unmarshalCluster_def packs_MarshalAny [OF c(2)]
    by (simp add: Cluster2_def cluster_resource_def parseClusterLoadAssignment_def u32_value_def convertDiscoveryType_def
        convertLbPolicy_def EndpointName1_def)
  show "eds_one L (MarshalAny (T_ClusterLoadAssignment E) Endpoints1) = Parsed EndpointName1 (ResEndpoints (Some endpoints1_resource))"
    unfolding eds_one_def packs_MarshalAny [OF e(1)]
    by (simp add: Endpoints1_def endpoints1_resource_def parseClusterLoadAssignment_def parse_lb_endpoint_def u32_value_def
        join_host_port_def edsAddr_def edsPort1_def edsPort2_def edsWeight1_def edsWeight2_def itoa.simps)
      (simp add: char_of_def bit_Suc_0_iff)
  show "eds_one L (MarshalAny (T_ClusterLoadAssignment E) Endpoints2) = Parsed EndpointName2 (ResEndpoints None)"
    unfolding eds_one_def packs_MarshalAny [OF e(2)]
    by (simp add: Endpoints2_def parseClusterLoadAssignment_def)
qed

lemma table_decodes:
  assumes "fixtures_codec E L"
  shows "UnmarshalNDS L [MarshalAny (T_NameTable E) NameTable1] = Inr [(HostName2, [ClusterIP2]), (HostName1, [ClusterIP1])]"
proof -
  have "packs (T_NameTable E) NameTableTypeURL (Unmarshal_NameTable L) NameTable1"
    using assms by (simp add: fixtures_codec_def)
  from packs_MarshalAny [OF this] show ?thesis
    by (simp add: UnmarshalNDS_def) (simp add: NameTable1_def name_defs)
qed

lemma unmarshal_all_Parsed:
  assumes "map one raws = map (\<lambda>(n, r). Parsed n r) kvs" and "gm_wf kvs"
  shows "unmarshal_all one raws = (kvs, None)"
proof -
  have "unmarshal_loop one raws a = a\<lparr>ua_ret := ua_ret a @ kvs\<rparr>" if "gm_wf (ua_ret a @ kvs)" for a
    using assms(1) that
  proof (induction raws arbitrary: kvs a)
    case (Cons r raws)
    then obtain n x kvs' where k: "kvs = (n, x) # kvs'" "one r = Parsed n x" "map one raws = map (\<lambda>(n, r). Parsed n r) kvs'"
      by (cases kvs) auto
    have "gm_put n x (ua_ret a) = ua_ret a @ [(n, x)]"
      using Cons.prems(2) by (intro gm_put_new) (auto simp: k(1))
    with Cons.IH [OF k(3), of "a\<lparr>ua_ret := ua_ret a @ [(n, x)]\<rparr>"] Cons.prems(2) k(1,2) show ?case by auto
  qed simp
  from this [of empty_acc] assms(2) show ?thesis
    by (simp add: unmarshal_all_def unmarshal_result_def empty_acc_def)
qed

text \<open>
  The responses of \<open>UnmarshalLDS\<close> to \<open>UnmarshalNDS\<close> on the packed messages, as lemmas for the control plane
  that serves them.
\<close>

lemma fixture_responses:
  assumes "fixtures_codec E L"
  shows "UnmarshalLDS L (map (MarshalAny (T_Listener E)) [InboundListener1 E]) = ([(ReturnedInbound, inbound_resource)], None)"
    and "UnmarshalLDS L (map (MarshalAny (T_Listener E)) [Listener1 E, Listener2 E]) =
      ([(ReturnedLisName1, listener1_resource), (ReturnedLisName2, listener2_resource L)], None)"
    and "UnmarshalLDS L (map (MarshalAny (T_Listener E)) [Listener3 E]) = ([(ReturnedLisName3, listener3_resource)], None)"
    and "UnmarshalRDS L (map (MarshalAny (T_RouteConfiguration E)) [RouteConfig1, RouteConfig2]) =
      ([(RouteConfigName1, ResRouteConfig (Some (http_routes L))), (RouteConfigName2, ResRouteConfig (Some (http_routes L)))], None)"
    and "UnmarshalCDS L (map (MarshalAny (T_Cluster E)) [Cluster1, Cluster2]) =
      ([(ClusterName1, ResCluster (Some (cluster_resource 100))), (ClusterName2, ResCluster (Some (cluster_resource 0)))], None)"
    and "UnmarshalEDS L (map (MarshalAny (T_ClusterLoadAssignment E)) [Endpoints1, Endpoints2]) =
      ([(EndpointName1, ResEndpoints (Some endpoints1_resource)), (EndpointName2, ResEndpoints None)], None)"
  unfolding UnmarshalLDS_def UnmarshalRDS_def UnmarshalCDS_def UnmarshalEDS_def
  by (rule unmarshal_all_Parsed; simp add: listeners_decode [OF assms] named_decode [OF assms]; simp add: name_defs)+

text \<open>C19: a response that packs the messages of the test utilities decodes to exactly the resources they
  describe, without error and under their names: the listeners with their filters in order (the rate
  limit on the port of its chain, the thrift routes with their four matchers, the inline routes), the
  route configurations, the clusters with the endpoint name of their EDS configuration and their
  thresholds, the endpoints with addresses and weights (a load assignment without localities gives nil),
  and the name table.\<close>

theorem fixtures_roundtrip:
  assumes "fixtures_codec E L"
  shows "UnmarshalLDS L (map (MarshalAny (T_Listener E)) [InboundListener1 E, Listener1 E, Listener2 E, Listener3 E]) =
      ([(ReturnedInbound, inbound_resource), (ReturnedLisName1, listener1_resource),
        (ReturnedLisName2, listener2_resource L), (ReturnedLisName3, listener3_resource)], None) \<and>
    UnmarshalRDS L (map (MarshalAny (T_RouteConfiguration E)) [RouteConfig1, RouteConfig2]) =
      ([(RouteConfigName1, ResRouteConfig (Some (http_routes L))), (RouteConfigName2, ResRouteConfig (Some (http_routes L)))], None) \<and>
    UnmarshalCDS L (map (MarshalAny (T_Cluster E)) [Cluster1, Cluster2]) =
      ([(ClusterName1, ResCluster (Some (cluster_resource 100))), (ClusterName2, ResCluster (Some (cluster_resource 0)))], None) \<and>
    UnmarshalEDS L (map (MarshalAny (T_ClusterLoadAssignment E)) [Endpoints1, Endpoints2]) =
      ([(EndpointName1, ResEndpoints (Some endpoints1_resource)), (EndpointName2, ResEndpoints None)], None) \<and>
    (\<exists>nt. UnmarshalNDS L [MarshalAny (T_NameTable E) NameTable1] = Inr nt \<and>
      map_of nt = [HostName1 \<mapsto> [ClusterIP1], HostName2 \<mapsto> [ClusterIP2]])"
proof (intro conjI)
  show "UnmarshalLDS L (map (MarshalAny (T_Listener E)) [InboundListener1 E, Listener1 E, Listener2 E, Listener3 E]) =
      ([(ReturnedInbound, inbound_resource), (ReturnedLisName1, listener1_resource),
        (ReturnedLisName2, listener2_resource L), (ReturnedLisName3, listener3_resource)], None)"
    unfolding UnmarshalLDS_def
    by (rule unmarshal_all_Parsed; simp add: listeners_decode [OF assms]; simp add: name_defs)
  show "\<exists>nt. UnmarshalNDS L [MarshalAny (T_NameTable E) NameTable1] = Inr nt \<and>
      map_of nt = [HostName1 \<mapsto> [ClusterIP1], HostName2 \<mapsto> [ClusterIP2]]"
    by (auto simp: table_decodes [OF assms] fun_eq_iff name_defs)
qed (rule fixture_responses [OF assms])+

text \<open>A library for examples: a message is encoded as a number, and the numbers decode to the messages.\<close>

definition numbered :: "string \<Rightarrow> ('m \<Rightarrow> 8 word) \<Rightarrow> 'm pb_type" where
  "numbered url f = \<lparr>pt_Url = url, pt_Marshal = (\<lambda>m. ([f m], None))\<rparr>"

definition example_enc :: enc where
  "example_enc =
     \<lparr>T_Listener = numbered ListenerTypeURL
        (\<lambda>l. if pbl_Name l = ReturnedInbound then 0 else if pbl_Name l = ReturnedLisName1 then 1
             else if pbl_Name l = ReturnedLisName2 then 2 else 3),
      T_RouteConfiguration = numbered RouteTypeURL (\<lambda>r. if pbrc_Name r = RouteConfigName1 then 0 else 1),
      T_Cluster = numbered ClusterTypeURL (\<lambda>c. if pbc_Name c = ClusterName1 then 0 else 1),
      T_ClusterLoadAssignment = numbered EndpointTypeURL (\<lambda>e. if cla_ClusterName e = EndpointName1 then 0 else 1),
      T_NameTable = numbered NameTableTypeURL (\<lambda>_. 0),
      T_ThriftProxy = numbered ThriftProxyTypeURL (\<lambda>_. 0),
      T_HttpConnectionManager = numbered HTTPConnManagerTypeURL (\<lambda>h. if hcm_HttpFilters h = [] then 0 else 1),
      T_LocalRateLimit = numbered RateLimitTypeURL (\<lambda>_. 0)\<rparr>"

definition example_dec :: lib where
  "example_dec = example_lib
     \<lparr>Unmarshal_Listener := (\<lambda>b. Inr (if b = [0] then InboundListener1 example_enc else if b = [1] then Listener1 example_enc
                                     else if b = [2] then Listener2 example_enc else Listener3 example_enc)),
      Unmarshal_RouteConfiguration := (\<lambda>b. Inr (if b = [0] then RouteConfig1 else RouteConfig2)),
      Unmarshal_Cluster := (\<lambda>b. Inr (if b = [0] then Cluster1 else Cluster2)),
      Unmarshal_ClusterLoadAssignment := (\<lambda>b. Inr (if b = [0] then Endpoints1 else Endpoints2)),
      Unmarshal_NameTable := (\<lambda>_. Inr NameTable1),
      Unmarshal_ThriftProxy := (\<lambda>_. Inr thriftProxy),
      Unmarshal_HttpConnectionManager := (\<lambda>b. Inr (if b = [0] then httpConnectionManager2 else httpConnectionManager1 example_enc)),
      Unmarshal_LocalRateLimit := (\<lambda>_. Inr rateLimit)\<rparr>"

lemma packs_numbered:
  "packs (numbered url f) url' unmarshal m \<longleftrightarrow> url = url' \<and> unmarshal [f m] = Inr m"
  by (simp add: packs_def codec_ok_def numbered_def)

lemma example_codec: "fixtures_codec example_enc example_dec"
proof -
  have "hcm_HttpFilters (httpConnectionManager1 example_enc) \<noteq> []" "hcm_HttpFilters httpConnectionManager2 = []"
    by (simp_all add: httpConnectionManager1_def httpConnectionManager2_def)
  then have "filters_codec example_enc example_dec"
    by (simp add: filters_codec_def example_enc_def example_dec_def packs_numbered) (simp add: example_lib_def)
  then show ?thesis
    by (simp add: fixtures_codec_def example_enc_def example_dec_def packs_numbered name_defs
        InboundListener1_def Listener1_def Listener2_def Listener3_def RouteConfig1_def RouteConfig2_def
        Cluster1_def Cluster2_def Endpoints1_def Endpoints2_def)
qed

theorem fixtures_roundtrip_witness:
  "fixtures_codec example_enc example_dec \<and>
   UnmarshalEDS example_dec (map (MarshalAny (T_ClusterLoadAssignment example_enc)) [Endpoints1, Endpoints2]) =
     ([(EndpointName1, ResEndpoints (Some endpoints1_resource)), (EndpointName2, ResEndpoints None)], None)"
  using example_codec fixtures_roundtrip [OF example_codec] by blast

end
