(* ===== verification/MockServer.thy ===== *)
theory MockServer
  imports Fixtures Handlers
begin

text \<open>
  \<open>core/manager/mock\<close>: the control plane the program is tested against (\<open>response.go\<close>, \<open>server.go\<close>), and
  the client's warm-up run against it. The channel between the two goroutines of a stream is unbuffered: what
  \<open>handleRequest\<close> puts on it is the next response of the stream, so the model of \<open>handleRequest\<close> gives that
  response, or none.
\<close>

subsection \<open>Responses\<close>

definition LDSVersion1 :: string where "LDSVersion1 = ''v1''"
definition LDSVersion2 :: string where "LDSVersion2 = ''v2''"
definition LDSVersion3 :: string where "LDSVersion3 = ''v3''"
definition LDSNonceInit :: string where "LDSNonceInit = ''init''"
definition LDSNonce1 :: string where "LDSNonce1 = ''nonce1''"
definition LDSNonce2 :: string where "LDSNonce2 = ''nonce2''"
definition LDSNonce3 :: string where "LDSNonce3 = ''nonce3''"
definition RDSVersion1 :: string where "RDSVersion1 = ''v1''"
definition RDSVersion2 :: string where "RDSVersion2 = ''v2''"
definition RDSNonce1 :: string where "RDSNonce1 = ''nonce1''"
definition RDSNonce2 :: string where "RDSNonce2 = ''nonce2''"
definition CDSVersion1 :: string where "CDSVersion1 = ''v1''"
definition CDSVersion2 :: string where "CDSVersion2 = ''v2''"
definition CDSNonce1 :: string where "CDSNonce1 = ''nonce1''"
definition CDSNonce2 :: string where "CDSNonce2 = ''nonce2''"
definition EDSVersion1 :: string where "EDSVersion1 = ''v1''"
definition EDSVersion2 :: string where "EDSVersion2 = ''v2''"
definition EDSNonce1 :: string where "EDSNonce1 = ''nonce1''"
definition EDSNonce2 :: string where "EDSNonce2 = ''nonce2''"
definition NDSVersion1 :: string where "NDSVersion1 = ''v1''"
definition NDSNonce1 :: string where "NDSNonce1 = ''nonce1''"

definition LdsInbound :: "enc \<Rightarrow> DiscoveryResponse" where
  "LdsInbound E = \<lparr>resp_VersionInfo = LDSVersion1, resp_Resources = map (MarshalAny (T_Listener E)) [InboundListener1 E],
     resp_TypeUrl = ListenerTypeURL, resp_Nonce = LDSNonceInit\<rparr>"

definition LdsResp1 :: "enc \<Rightarrow> DiscoveryResponse" where
  "LdsResp1 E = \<lparr>resp_VersionInfo = LDSVersion1, resp_Resources = map (MarshalAny (T_Listener E)) [Listener1 E, Listener2 E],
     resp_TypeUrl = ListenerTypeURL, resp_Nonce = LDSNonce1\<rparr>"

definition LdsResp2 :: "enc \<Rightarrow> DiscoveryResponse" where
  "LdsResp2 E = \<lparr>resp_VersionInfo = LDSVersion2, resp_Resources = map (MarshalAny (T_Listener E)) [Listener2 E],
     resp_TypeUrl = ListenerTypeURL, resp_Nonce = LDSNonce2\<rparr>"

definition LdsResp3 :: "DiscoveryResponse" where
  "LdsResp3 = \<lparr>resp_VersionInfo = LDSVersion3, resp_Resources = [], resp_TypeUrl = ListenerTypeURL, resp_Nonce = LDSNonce3\<rparr>"

definition RdsResp1 :: "enc \<Rightarrow> DiscoveryResponse" where
  "RdsResp1 E = \<lparr>resp_VersionInfo = RDSVersion1, resp_Resources = map (MarshalAny (T_RouteConfiguration E)) [RouteConfig1, RouteConfig2],
     resp_TypeUrl = RouteTypeURL, resp_Nonce = RDSNonce1\<rparr>"

definition RdsResp2 :: "enc \<Rightarrow> DiscoveryResponse" where
  "RdsResp2 E = \<lparr>resp_VersionInfo = RDSVersion2, resp_Resources = map (MarshalAny (T_RouteConfiguration E)) [RouteConfig2],
     resp_TypeUrl = RouteTypeURL, resp_Nonce = RDSNonce2\<rparr>"

definition CdsResp1 :: "enc \<Rightarrow> DiscoveryResponse" where
  "CdsResp1 E = \<lparr>resp_VersionInfo = CDSVersion1, resp_Resources = map (MarshalAny (T_Cluster E)) [Cluster1, Cluster2],
     resp_TypeUrl = ClusterTypeURL, resp_Nonce = CDSNonce1\<rparr>"

definition CdsResp2 :: "enc \<Rightarrow> DiscoveryResponse" where
  "CdsResp2 E = \<lparr>resp_VersionInfo = CDSVersion2, resp_Resources = map (MarshalAny (T_Cluster E)) [Cluster2],
     resp_TypeUrl = ClusterTypeURL, resp_Nonce = CDSNonce2\<rparr>"

definition EdsResp1 :: "enc \<Rightarrow> DiscoveryResponse" where
  "EdsResp1 E = \<lparr>resp_VersionInfo = EDSVersion1,
     resp_Resources = map (MarshalAny (T_ClusterLoadAssignment E)) [Endpoints1, Endpoints2],
     resp_TypeUrl = EndpointTypeURL, resp_Nonce = EDSNonce1\<rparr>"

definition EdsResp2 :: "enc \<Rightarrow> DiscoveryResponse" where
  "EdsResp2 E = \<lparr>resp_VersionInfo = EDSVersion2,
     resp_Resources = map (MarshalAny (T_ClusterLoadAssignment E)) [Endpoints2],
     resp_TypeUrl = EndpointTypeURL, resp_Nonce = EDSNonce2\<rparr>"

definition NdsResp1 :: "enc \<Rightarrow> DiscoveryResponse" where
  "NdsResp1 E = \<lparr>resp_VersionInfo = NDSVersion1, resp_Resources = [MarshalAny (T_NameTable E) NameTable1],
     resp_TypeUrl = NameTableTypeURL, resp_Nonce = NDSNonce1\<rparr>"

subsection \<open>The server\<close>

record testAdsService =
  resourceCache :: "(ResourceType, (string, DiscoveryResponse) gomap) gomap"

definition StartXDSServer :: "enc \<Rightarrow> testAdsService" where
  "StartXDSServer E = \<lparr>resourceCache =
     [(ListenerType, [('''', LdsInbound E), (resp_VersionInfo (LdsResp1 E), LdsResp1 E),
                      (resp_VersionInfo (LdsResp2 E), LdsResp2 E), (resp_VersionInfo LdsResp3, LdsResp3)]),
      (RouteConfigType, [('''', RdsResp1 E), (resp_VersionInfo (RdsResp1 E), RdsResp1 E)]),
      (ClusterType, [('''', CdsResp1 E), (resp_VersionInfo (CdsResp1 E), CdsResp1 E)]),
      (EndpointsType, [('''', EdsResp1 E), (resp_VersionInfo (EdsResp1 E), EdsResp1 E)]),
      (NameTableType, [('''', NdsResp1 E)])]\<rparr>"

text \<open>The \<open>interface{}\<close> that is received: \<open>None\<close> is not a \<open>DiscoveryRequest\<close>.\<close>

definition handleRequest :: "testAdsService \<Rightarrow> DiscoveryRequest option \<Rightarrow> DiscoveryResponse option" where
  "handleRequest svr msg =
     (case msg of
        None \<Rightarrow> None
      | Some req \<Rightarrow>
          (case map_of ResourceURLToType (req_TypeUrl req) of
             None \<Rightarrow> None
           | Some rType \<Rightarrow>
               if map_of (resourceCache svr) rType = None then None
               else (case gm2_get (resourceCache svr) rType (req_VersionInfo req) of
                       None \<Rightarrow> None
                     | Some cache \<Rightarrow> if req_ResponseNonce req = resp_Nonce cache then None else Some cache)))"

definition mock_DeltaAggregatedResources :: "string option" where
  "mock_DeltaAggregatedResources = Some ''DeltaAggregatedResources has not been implemented''"

text \<open>
  The other goroutines while the client waits: the sender takes the next request, the server answers it or
  not, the receiver handles the answer. It ends with an empty queue; \<open>n\<close> bounds the requests.
\<close>

fun mock_serve ::
  "nat \<Rightarrow> int \<Rightarrow> lib \<Rightarrow> testAdsService \<Rightarrow> xdsClient \<times> xdsResourceManager \<Rightarrow> xdsClient \<times> xdsResourceManager" where
  "mock_serve 0 now L svr s = s"
| "mock_serve (Suc n) now L svr (c, m) =
     (case sender_on_request (\<lambda>_. None) (Some 0) c of
        (cur, c, []) \<Rightarrow> (c, m)
      | (cur, c, (st, req) # _) \<Rightarrow>
          (case handleRequest svr (Some req) of
             None \<Rightarrow> mock_serve n now L svr (c, m)
           | Some resp \<Rightarrow>
               (case handleResponse now L (Response resp) c m of
                  Returns (err, c, m) \<Rightarrow> mock_serve n now L svr (c, m)
                | _ \<Rightarrow> (c, m))))"

lemmas mock_resp_defs = LdsInbound_def LdsResp1_def LdsResp2_def LdsResp3_def RdsResp1_def CdsResp1_def EdsResp1_def NdsResp1_def

lemmas mock_version_defs = LDSVersion1_def LDSVersion2_def LDSVersion3_def RDSVersion1_def CDSVersion1_def EDSVersion1_def NDSVersion1_def
  LDSNonceInit_def LDSNonce1_def LDSNonce2_def LDSNonce3_def RDSNonce1_def CDSNonce1_def EDSNonce1_def NDSNonce1_def

subsection \<open>The server's answers\<close>

text \<open>The request that announces the client's view of a type is answered by version, unless its nonce is that of the answer.\<close>

lemma handleRequest_current:
  assumes "map_of ResourceTypeToURL rt \<noteq> None" and "map_of (resourceCache svr) rt \<noteq> None"
  shows "handleRequest svr (Some (current_request c rt)) =
    (case gm2_get (resourceCache svr) rt (client_version c rt) of
       None \<Rightarrow> None
     | Some r \<Rightarrow> if client_nonce c rt = resp_Nonce r then None else Some r)"
proof -
  obtain url where u: "map_of ResourceTypeToURL rt = Some url" using assms(1) by blast
  then have "map_of ResourceURLToType (req_TypeUrl (current_request c rt)) = Some rt"
    by (simp add: gm_str_def ResourceURLToType_iff)
  with assms(2) show ?thesis by (auto simp: handleRequest_def split: option.split)
qed

lemma mock_answers:
  "client_version c NameTableType = '''' \<Longrightarrow> client_nonce c NameTableType = '''' \<Longrightarrow>
     handleRequest (StartXDSServer E) (Some (current_request c NameTableType)) = Some (NdsResp1 E)"
  "client_version c NameTableType = NDSVersion1 \<Longrightarrow>
     handleRequest (StartXDSServer E) (Some (current_request c NameTableType)) = None"
  "client_version c ListenerType = '''' \<Longrightarrow> client_nonce c ListenerType = '''' \<Longrightarrow>
     handleRequest (StartXDSServer E) (Some (current_request c ListenerType)) = Some (LdsInbound E)"
  "client_version c ListenerType = LDSVersion1 \<Longrightarrow>
     handleRequest (StartXDSServer E) (Some (current_request c ListenerType)) =
       (if client_nonce c ListenerType = LDSNonce1 then None else Some (LdsResp1 E))"
  by (simp_all add: handleRequest_current ResourceTypeToURL_def StartXDSServer_def gm2_get_def gm_sub_def
      mock_resp_defs mock_version_defs)

subsection \<open>The exchange\<close>

lemma mock_serve_idle: "xc_reqCh c = [] \<Longrightarrow> mock_serve n now L svr (c, m) = (c, m)"
  by (cases n) (simp_all add: sender_on_request_def)

lemma mock_serve_ignored:
  assumes "xc_reqCh c = [req]" and "handleRequest svr (Some req) = None"
  shows "mock_serve (Suc n) now L svr (c, m) = (c\<lparr>xc_reqCh := []\<rparr>, m)"
  using assms by (simp add: sender_on_request_def mock_serve_idle)

lemma mock_serve_answered:
  assumes "xc_reqCh c = [req]" and "handleRequest svr (Some req) = Some resp"
    and "handleResponse now L (Response resp) (c\<lparr>xc_reqCh := []\<rparr>) m = Returns (err, c', m')"
  shows "mock_serve (Suc n) now L svr (c, m) = mock_serve n now L svr (c', m')"
  using assms by (simp add: sender_on_request_def)

lemma ack_on_empty_queue:
  assumes "xc_reqCh c = []"
  obtains c' where "updateAndACK rt nonce ver None c = Returns c'" and "xc_reqCh c' = [current_request c' rt]"
    and "client_version c' = (client_version c)(rt := ver)" and "client_nonce c' = (client_nonce c)(rt := nonce)"
    and "xc_watchedResource c' = xc_watchedResource c" and "xc_config c' = xc_config c"
    and "xc_cipResolver c' = xc_cipResolver c" and "client_inv c \<Longrightarrow> client_inv c'"
proof -
  obtain c' where r: "updateAndACK rt nonce ver None c = Returns c'"
    using run_bind_ack_cases [of rt nonce ver None c] assms by (auto simp: reqCh_cap_def)
  have "xc_reqCh c' = [current_request c' rt]" using updateAndACK_Returns(2) [OF r] assms by simp
  moreover have "xc_watchedResource c' = xc_watchedResource c" "xc_config c' = xc_config c" "xc_cipResolver c' = xc_cipResolver c"
    by (subst updateAndACK_Returns(5) [OF r], simp)+
  ultimately show thesis
    using that [OF r] updateAndACK_answer(1,2) [OF r] updateAndACK_inv [OF _ r] by simp
qed

text \<open>The two handlers of the warm-up, on an empty queue.\<close>

lemma handle_names_on_empty_queue:
  assumes "client_inv c" and "xc_reqCh c = []" and "resp_TypeUrl resp = NameTableTypeURL"
    and "map_of (xc_watchedResource c) NameTableType \<noteq> None" and "UnmarshalNDS L (resp_Resources resp) = Inr nt"
  obtains c' where "handleResponse now L (Response resp) c m = Returns (None, c', m)"
    and "client_inv c'" and "xc_reqCh c' = [current_request c' NameTableType]"
    and "client_version c' = (client_version c)(NameTableType := resp_VersionInfo resp)"
    and "client_nonce c' = (client_nonce c)(NameTableType := resp_Nonce resp)"
    and "xc_watchedResource c' = xc_watchedResource c" and "xc_config c' = xc_config c"
    and "xc_cipResolver c' = \<lparr>nr_lookupTable = nt, nr_initRequestCh = True, nr_closed = True\<rparr>"
proof -
  obtain c1 where c1: "updateAndACK NameTableType (resp_Nonce resp) (resp_VersionInfo resp) None c = Returns c1"
      "xc_reqCh c1 = [current_request c1 NameTableType]"
      "client_version c1 = (client_version c)(NameTableType := resp_VersionInfo resp)"
      "client_nonce c1 = (client_nonce c)(NameTableType := resp_Nonce resp)"
      "xc_watchedResource c1 = xc_watchedResource c" "xc_config c1 = xc_config c" "client_inv c1"
    using ack_on_empty_queue [OF assms(2)] assms(1) by metis
  have "handleResponse now L (Response resp) c m = handleNDS L resp c m"
    using assms(3,4) by (auto simp: handleResponse_def ResourceURLToType_def url_defs)
  also have "\<dots> = Returns (None, c1\<lparr>xc_cipResolver := \<lparr>nr_lookupTable = nt, nr_initRequestCh = True, nr_closed = True\<rparr>\<rparr>, m)"
    using handleNDS_cases [OF assms(1), of resp L c1 m] c1(1) assms(5) by simp
  finally show thesis
    by (rule that) (use c1 in \<open>simp_all add: client_inv_def client_version_def client_nonce_def fun_eq_iff
        current_request_def prepareRequest_def\<close>)
qed

text \<open>What a listener response updates.\<close>

definition lds_update :: "xdsClient \<Rightarrow> (string, ListenerResource) gomap \<Rightarrow> (string, Resource) gomap \<Rightarrow> bool" where
  "lds_update c res up \<longleftrightarrow> gm_wf up \<and> (\<forall>(n, r) \<in> set up. resource_has_type ListenerType r) \<and>
     (\<forall>n. map_of up n = (if n \<in> watched c ListenerType then lds_entry c res n else None))"

lemma lds_update_cong:
  assumes "xc_watchedResource c1 = xc_watchedResource c" and "xc_config c1 = xc_config c" and "xc_cipResolver c1 = xc_cipResolver c"
  shows "lds_update c1 = lds_update c"
proof -
  have "getListenerName c1 = getListenerName c" "ndsRequired c1 = ndsRequired c"
    using assms by (simp_all only: getListenerName_def [abs_def] resolveAddr_def [abs_def] ndsRequired_def)
  then have "lds_entry c1 = lds_entry c" "watched c1 = watched c"
    using assms(1) by (simp_all only: lds_entry_def [abs_def] watched_def [abs_def])
  then show ?thesis by (simp only: lds_update_def [abs_def])
qed

lemma lds_filter_update: "lds_update c res (lds_filter c res)"
  using lds_filter_wf lds_filter_typed by (auto simp: lds_update_def lds_filter_lookup)

lemma handle_listeners_on_empty_queue:
  assumes "client_inv c" and "manager_inv m" and "xc_reqCh c = []" and "resp_TypeUrl resp = ListenerTypeURL"
    and "map_of (xc_watchedResource c) ListenerType \<noteq> None" and "UnmarshalLDS L (resp_Resources resp) = (res, None)"
  obtains c' m' up where "handleResponse now L (Response resp) c m = Returns (None, c', m')"
    and "client_inv c'" and "manager_inv m'" and "xc_reqCh c' = [current_request c' ListenerType]"
    and "client_version c' = (client_version c)(ListenerType := resp_VersionInfo resp)"
    and "client_nonce c' = (client_nonce c)(ListenerType := resp_Nonce resp)"
    and "xc_watchedResource c' = xc_watchedResource c" and "xc_config c' = xc_config c"
    and "xc_cipResolver c' = xc_cipResolver c" and "xc_inboundInitRequestCh c'"
    and "lds_update c res up" and "UpdateResource now ListenerType up (resp_VersionInfo resp) m = Returns m'"
proof -
  obtain c1 where c1: "updateAndACK ListenerType (resp_Nonce resp) (resp_VersionInfo resp) None c = Returns c1"
      "xc_reqCh c1 = [current_request c1 ListenerType]"
      "client_version c1 = (client_version c)(ListenerType := resp_VersionInfo resp)"
      "client_nonce c1 = (client_nonce c)(ListenerType := resp_Nonce resp)"
      "xc_watchedResource c1 = xc_watchedResource c" "xc_config c1 = xc_config c"
      "xc_cipResolver c1 = xc_cipResolver c" "client_inv c1"
    using ack_on_empty_queue [OF assms(3)] assms(1) by metis
  let ?c' = "c1\<lparr>xc_closedInboundInitCh := True, xc_inboundInitRequestCh := True\<rparr>"
  have h: "handleResponse now L (Response resp) c m = handleLDS now L resp c m"
    using assms(4,5) by (auto simp: handleResponse_def ResourceURLToType_def url_defs)
  obtain m' where m': "handleLDS now L resp c m = Returns (None, ?c', m')" "manager_inv m'"
      "UpdateResource now ListenerType (lds_filter c1 res) (resp_VersionInfo resp) m = Returns m'"
    using handleLDS_cases [OF assms(1,2), of resp L c1 now] c1(1) assms(6) by auto
  have up: "lds_update c res (lds_filter c1 res)" using lds_filter_update [of c1] lds_update_cong [OF c1(5-7)] by simp
  from h m'(1) have "handleResponse now L (Response resp) c m = Returns (None, ?c', m')" by simp
  then show thesis
    by (rule that) (use c1 m'(2,3) up in \<open>simp_all add: client_inv_def client_version_def client_nonce_def fun_eq_iff
        current_request_def prepareRequest_def\<close>)
qed

lemma watch_on_empty_queue:
  assumes "client_inv c" and "xc_reqCh c = []"
  obtains c' where "Watch rt n False c = Returns c'" and "client_inv c'" and "xc_reqCh c' = [current_request c' rt]"
    and "client_version c' = client_version c" and "client_nonce c' = client_nonce c"
    and "n \<in> watched c' rt" and "map_of (xc_watchedResource c') rt \<noteq> None"
    and "xc_config c' = xc_config c" and "xc_cipResolver c' = xc_cipResolver c"
proof -
  obtain c' where w: "Watch rt n False c = Returns c'"
    using Watch_Returns_iff [of rt n False c] assms(2) by (auto simp: reqCh_cap_def)
  have "xc_versionMap c' = xc_versionMap c" "xc_nonceMap c' = xc_nonceMap c" "xc_config c' = xc_config c"
    "xc_cipResolver c' = xc_cipResolver c" by (subst Watch_Returns(5) [OF w], simp)+
  moreover have "n \<in> watched c' rt" using Watch_watched [OF w, of rt] by simp
  ultimately show thesis
    using that [OF w Watch_inv [OF assms(1) w]] Watch_Returns(2,4) [OF w] assms(2)
    by (simp add: client_version_def client_nonce_def fun_eq_iff)
qed

text \<open>Phase one: the name table is asked for, answered and acknowledged, and the acknowledgement is ignored.\<close>

lemma mock_nds_phase:
  assumes codec: "fixtures_codec E L" and c: "client_inv c" "xc_reqCh c = []"
    and fresh: "client_version c NameTableType = ''''" "client_nonce c NameTableType = ''''"
  obtains c' c'' where "ndsWarmup_watch c = Returns c'"
    and "mock_serve (Suc (Suc n)) now L (StartXDSServer E) (c', m) = (c'', m)"
    and "client_inv c''" and "xc_reqCh c'' = []" and "xc_config c'' = xc_config c"
    and "client_version c'' = (client_version c)(NameTableType := NDSVersion1)"
    and "client_nonce c'' = (client_nonce c)(NameTableType := NDSNonce1)"
    and "xc_cipResolver c'' = \<lparr>nr_lookupTable = [(HostName2, [ClusterIP2]), (HostName1, [ClusterIP1])],
           nr_initRequestCh = True, nr_closed = True\<rparr>"
proof -
  obtain c1 where c1: "Watch NameTableType '''' False c = Returns c1" "client_inv c1"
      "xc_reqCh c1 = [current_request c1 NameTableType]" "client_version c1 = client_version c"
      "client_nonce c1 = client_nonce c" "map_of (xc_watchedResource c1) NameTableType \<noteq> None"
      "xc_config c1 = xc_config c"
    using watch_on_empty_queue [OF c] by metis
  let ?c1 = "c1\<lparr>xc_reqCh := []\<rparr>"
  have "client_inv ?c1" using c1(2) by (simp add: client_inv_def)
  then obtain c2 where c2: "handleResponse now L (Response (NdsResp1 E)) ?c1 m = Returns (None, c2, m)" "client_inv c2"
      "xc_reqCh c2 = [current_request c2 NameTableType]"
      "client_version c2 = (client_version ?c1)(NameTableType := resp_VersionInfo (NdsResp1 E))"
      "client_nonce c2 = (client_nonce ?c1)(NameTableType := resp_Nonce (NdsResp1 E))" "xc_config c2 = xc_config ?c1"
      "xc_cipResolver c2 = \<lparr>nr_lookupTable = [(HostName2, [ClusterIP2]), (HostName1, [ClusterIP1])],
           nr_initRequestCh = True, nr_closed = True\<rparr>"
    by (rule handle_names_on_empty_queue [of ?c1 "NdsResp1 E" L _ now m])
      (use c1(6) table_decodes [OF codec] in \<open>auto simp: NdsResp1_def\<close>)
  have v1: "client_version ?c1 = client_version c" "client_nonce ?c1 = client_nonce c"
    using c1(4,5) by (simp_all add: client_version_def client_nonce_def fun_eq_iff)
  have "handleRequest (StartXDSServer E) (Some (current_request c1 NameTableType)) = Some (NdsResp1 E)"
    using fresh c1(4,5) by (simp add: mock_answers)
  moreover have "handleRequest (StartXDSServer E) (Some (current_request c2 NameTableType)) = None"
    using c2(4) by (simp add: mock_answers NdsResp1_def)
  ultimately have "mock_serve (Suc (Suc n)) now L (StartXDSServer E) (c1, m) = (c2\<lparr>xc_reqCh := []\<rparr>, m)"
    using mock_serve_answered [OF c1(3) _ c2(1)] mock_serve_ignored [OF c2(3)] by simp
  from that [OF c1(1) [folded ndsWarmup_watch_def] this] c2 v1 c1(7) show thesis
    by (auto simp: client_inv_def client_version_def client_nonce_def fun_eq_iff NdsResp1_def)
qed

lemma clear_queue [simp]:
  "client_version (c\<lparr>xc_reqCh := q\<rparr>) = client_version c" "client_nonce (c\<lparr>xc_reqCh := q\<rparr>) = client_nonce c"
  by (simp_all add: client_version_def client_nonce_def fun_eq_iff)

text \<open>
  Phase two: the server answers the first subscription of a listener with the inbound listener, and the
  acknowledgement of that answer, which names version \<open>v1\<close> with another nonce, with the outbound listeners.
\<close>

lemma mock_lds_exchange:
  assumes codec: "fixtures_codec E L" and c: "client_inv c" "xc_reqCh c = [current_request c ListenerType]" and m: "manager_inv m"
    and fresh: "client_version c ListenerType = ''''" "client_nonce c ListenerType = ''''"
    and w: "map_of (xc_watchedResource c) ListenerType \<noteq> None"
  obtains c' m1 m' up1 up2 where "mock_serve (Suc (Suc (Suc n))) now L (StartXDSServer E) (c, m) = (c', m')"
    and "client_inv c'" and "manager_inv m1" and "manager_inv m'" and "xc_reqCh c' = []" and "xc_config c' = xc_config c"
    and "client_version c' = (client_version c)(ListenerType := LDSVersion1)"
    and "client_nonce c' = (client_nonce c)(ListenerType := LDSNonce1)"
    and "xc_cipResolver c' = xc_cipResolver c" and "xc_inboundInitRequestCh c'"
    and "lds_update c [(ReturnedInbound, inbound_resource)] up1" and "UpdateResource now ListenerType up1 LDSVersion1 m = Returns m1"
    and "lds_update c [(ReturnedLisName1, listener1_resource), (ReturnedLisName2, listener2_resource L)] up2"
    and "UpdateResource now ListenerType up2 LDSVersion1 m1 = Returns m'"
proof -
  let ?svr = "StartXDSServer E"
  have "client_inv (c\<lparr>xc_reqCh := []\<rparr>)" using c(1) by (simp add: client_inv_def)
  then obtain c2 m2 up1 where c2: "handleResponse now L (Response (LdsInbound E)) (c\<lparr>xc_reqCh := []\<rparr>) m = Returns (None, c2, m2)"
      "client_inv c2" "manager_inv m2" "xc_reqCh c2 = [current_request c2 ListenerType]"
      "client_version c2 = (client_version c)(ListenerType := LDSVersion1)"
      "client_nonce c2 = (client_nonce c)(ListenerType := LDSNonceInit)"
      "xc_watchedResource c2 = xc_watchedResource c" "xc_config c2 = xc_config c" "xc_cipResolver c2 = xc_cipResolver c"
      "lds_update (c\<lparr>xc_reqCh := []\<rparr>) [(ReturnedInbound, inbound_resource)] up1"
      "UpdateResource now ListenerType up1 LDSVersion1 m = Returns m2"
    by (rule handle_listeners_on_empty_queue [OF _ m, of _ "LdsInbound E" L _ now])
      (use w fixture_responses(1) [OF codec] in \<open>auto simp: LdsInbound_def\<close>)
  have "client_inv (c2\<lparr>xc_reqCh := []\<rparr>)" using c2(2) by (simp add: client_inv_def)
  then obtain c3 m3 up2 where c3: "handleResponse now L (Response (LdsResp1 E)) (c2\<lparr>xc_reqCh := []\<rparr>) m2 = Returns (None, c3, m3)"
      "client_inv c3" "manager_inv m3" "xc_reqCh c3 = [current_request c3 ListenerType]"
      "client_version c3 = (client_version c)(ListenerType := LDSVersion1)"
      "client_nonce c3 = (client_nonce c)(ListenerType := LDSNonce1)"
      "xc_config c3 = xc_config c" "xc_cipResolver c3 = xc_cipResolver c" "xc_inboundInitRequestCh c3"
      "lds_update (c2\<lparr>xc_reqCh := []\<rparr>) [(ReturnedLisName1, listener1_resource), (ReturnedLisName2, listener2_resource L)] up2"
      "UpdateResource now ListenerType up2 LDSVersion1 m2 = Returns m3"
    by (rule handle_listeners_on_empty_queue [OF _ c2(3), of _ "LdsResp1 E" L _ now])
      (use w c2(5-9) fixture_responses(2) [OF codec] in \<open>auto simp: LdsResp1_def\<close>)
  have "handleRequest ?svr (Some (current_request c ListenerType)) = Some (LdsInbound E)"
    using fresh by (simp add: mock_answers)
  moreover have "handleRequest ?svr (Some (current_request c2 ListenerType)) = Some (LdsResp1 E)"
    using c2(5,6) by (simp add: mock_answers mock_version_defs)
  moreover have "handleRequest ?svr (Some (current_request c3 ListenerType)) = None"
    using c3(5,6) by (simp add: mock_answers)
  ultimately have run: "mock_serve (Suc (Suc (Suc n))) now L ?svr (c, m) = (c3\<lparr>xc_reqCh := []\<rparr>, m3)"
    using mock_serve_answered [OF c(2) _ c2(1)] mock_serve_answered [OF c2(4) _ c3(1)] mock_serve_ignored [OF c3(4)] by simp
  have "lds_update (c\<lparr>xc_reqCh := []\<rparr>) = lds_update c" "lds_update (c2\<lparr>xc_reqCh := []\<rparr>) = lds_update c"
    using c2(7-9) by (auto intro!: lds_update_cong)
  with that [OF run _ c2(3) c3(3)] c2(10,11) c3 show thesis by (simp add: client_inv_def)
qed

lemma lds_update_cached:
  assumes "manager_inv m" and "lds_update c res up" and "UpdateResource now ListenerType up ver m = Returns m'"
    and "n \<in> watched c ListenerType"
  shows "abs_cache m' ListenerType n = lds_entry c res n"
proof -
  obtain m1 where "UpdateResource now ListenerType up ver m = Returns m1" "abs_cache m1 = spec_update ListenerType up (abs_cache m)"
    by (rule UpdateResource_Returns [OF assms(1), of up ListenerType now ver]) (use assms(2) in \<open>auto simp: lds_update_def\<close>)
  with assms(2-4) show ?thesis by (simp add: spec_update_def RequireFullADSResponse_def lds_update_def)
qed

lemma mock_lds_phase:
  assumes codec: "fixtures_codec E L" and c: "client_inv c" "xc_reqCh c = []" and m: "manager_inv m"
    and fresh: "client_version c ListenerType = ''''" "client_nonce c ListenerType = ''''"
  obtains c' c'' m'' where "listenerWarmup_watch c = Returns c'"
    and "mock_serve (Suc (Suc (Suc n))) now L (StartXDSServer E) (c', m) = (c'', m'')"
    and "client_inv c''" and "manager_inv m''" and "xc_reqCh c'' = []" and "xc_config c'' = xc_config c"
    and "client_version c'' = (client_version c)(ListenerType := LDSVersion1)"
    and "client_nonce c'' = (client_nonce c)(ListenerType := LDSNonce1)"
    and "xc_cipResolver c'' = xc_cipResolver c" and "xc_inboundInitRequestCh c''"
    and "abs_cache m'' ListenerType ReservedLdsResourceName = Some (ResListener None)"
proof -
  obtain c1 where c1: "Watch ListenerType ReservedLdsResourceName False c = Returns c1" "client_inv c1"
      "xc_reqCh c1 = [current_request c1 ListenerType]" "client_version c1 = client_version c"
      "client_nonce c1 = client_nonce c" "ReservedLdsResourceName \<in> watched c1 ListenerType"
      "map_of (xc_watchedResource c1) ListenerType \<noteq> None" "xc_config c1 = xc_config c" "xc_cipResolver c1 = xc_cipResolver c"
    using watch_on_empty_queue [OF c] by metis
  have fresh1: "client_version c1 ListenerType = ''''" "client_nonce c1 ListenerType = ''''" using fresh c1(4,5) by simp_all
  show thesis
  proof (rule mock_lds_exchange [OF codec c1(2,3) m fresh1 c1(7), of n now])
    fix c' m1 m' up1 up2
    assume ex: "mock_serve (Suc (Suc (Suc n))) now L (StartXDSServer E) (c1, m) = (c', m')" "client_inv c'" "manager_inv m1"
      "manager_inv m'" "xc_reqCh c' = []" "xc_config c' = xc_config c1"
      "client_version c' = (client_version c1)(ListenerType := LDSVersion1)" "client_nonce c' = (client_nonce c1)(ListenerType := LDSNonce1)"
      "xc_cipResolver c' = xc_cipResolver c1" "xc_inboundInitRequestCh c'"
      "lds_update c1 [(ReturnedLisName1, listener1_resource), (ReturnedLisName2, listener2_resource L)] up2"
      "UpdateResource now ListenerType up2 LDSVersion1 m1 = Returns m'"
    have "abs_cache m' ListenerType ReservedLdsResourceName = Some (ResListener None)"
      using lds_update_cached [OF ex(3,11,12) c1(6)] by (simp add: lds_entry_def ReservedLdsResourceName_def name_defs)
    with that [OF c1(1) [folded listenerWarmup_watch_def] ex(1)] ex c1 show thesis by simp
  qed
qed

text \<open>The hosts of the name table resolve, whatever the configuration expands short names to.\<close>

lemma mock_resolves:
  assumes "nr_lookupTable (xc_cipResolver c) = [(HostName2, [ClusterIP2]), (HostName1, [ClusterIP1])]"
  shows "getListenerName c ListenerName1 = Inr ReturnedLisName1" and "getListenerName c ListenerName2 = Inr ReturnedLisName2"
  using assms
  by (simp_all add: getListenerName_def resolveAddr_def lookupHost_def name_defs to_lower_def lower_char_def tryExpandFQDN_def
      Let_def)

text \<open>The warm-up of a fresh client ends.\<close>

lemma mock_warmup_returns:
  assumes codec: "fixtures_codec E L" and need: "ndsRequired (newXdsClient bc)" "ldsRequired (newXdsClient bc)"
    and fuel: "3 \<le> n"
  shows "\<exists>c m. warmup (mock_serve n now L (StartXDSServer E)) (newXdsClient bc, new_manager opts) = Returns (c, m) \<and>
    client_inv c \<and> manager_inv m \<and> xc_reqCh c = [] \<and>
    getListenerName c ListenerName1 = Inr ReturnedLisName1 \<and> getListenerName c ListenerName2 = Inr ReturnedLisName2 \<and>
    (\<forall>rt \<in> {NameTableType, ListenerType}. client_version c rt = ''v1'' \<and> client_nonce c rt = ''nonce1'' \<and>
       handleRequest (StartXDSServer E) (Some (current_request c rt)) = None) \<and>
    abs_cache m ListenerType ReservedLdsResourceName = Some (ResListener None)"
proof -
  obtain k where n: "n = Suc (Suc (Suc k))" using fuel by (metis Suc_le_D numeral_3_eq_3 Suc_le_mono)
  let ?serve = "mock_serve n now L (StartXDSServer E)"
  have fresh: "client_version (newXdsClient bc) rt = ''''" "client_nonce (newXdsClient bc) rt = ''''"
    "xc_reqCh (newXdsClient bc) = []" for rt
    by (simp_all add: newXdsClient_def client_version_def client_nonce_def gm_str_def)
  obtain c1 c2 where nds: "ndsWarmup_watch (newXdsClient bc) = Returns c1"
      "?serve (c1, new_manager opts) = (c2, new_manager opts)" "client_inv c2" "xc_reqCh c2 = []"
      "xc_config c2 = xc_config (newXdsClient bc)"
      "client_version c2 = (client_version (newXdsClient bc))(NameTableType := NDSVersion1)"
      "client_nonce c2 = (client_nonce (newXdsClient bc))(NameTableType := NDSNonce1)"
      "xc_cipResolver c2 = \<lparr>nr_lookupTable = [(HostName2, [ClusterIP2]), (HostName1, [ClusterIP1])],
           nr_initRequestCh = True, nr_closed = True\<rparr>"
    using mock_nds_phase [OF codec client_inv_new fresh(3) fresh(1,2), of "Suc k" now "new_manager opts"] n by metis
  have "client_version c2 ListenerType = ''''" "client_nonce c2 ListenerType = ''''"
    using nds(6,7) fresh by simp_all
  from mock_lds_phase [OF codec nds(3,4) manager_inv_new this, of k now opts]
  obtain c3 c4 m4 where lds: "listenerWarmup_watch c2 = Returns c3" "?serve (c3, new_manager opts) = (c4, m4)"
      "client_inv c4" "manager_inv m4" "xc_reqCh c4 = []"
      "client_version c4 = (client_version c2)(ListenerType := LDSVersion1)"
      "client_nonce c4 = (client_nonce c2)(ListenerType := LDSNonce1)" "xc_cipResolver c4 = xc_cipResolver c2"
      "xc_inboundInitRequestCh c4" "abs_cache m4 ListenerType ReservedLdsResourceName = Some (ResListener None)"
    unfolding n by metis
  have "ldsRequired c2" using need(2) nds(5) by (simp add: ldsRequired_def)
  with need(1) nds(1,2,8) lds(1,2,9)
  have run: "warmup ?serve (newXdsClient bc, new_manager opts) = Returns (c4, m4)"
    by (simp add: warmup_def)
  have "nr_lookupTable (xc_cipResolver c4) = [(HostName2, [ClusterIP2]), (HostName1, [ClusterIP1])]"
    using nds(8) lds(8) by simp
  note names = mock_resolves [OF this]
  have v: "client_version c4 NameTableType = NDSVersion1" "client_version c4 ListenerType = LDSVersion1"
    "client_nonce c4 NameTableType = NDSNonce1" "client_nonce c4 ListenerType = LDSNonce1"
    using nds(6,7) lds(6,7) by simp_all
  show ?thesis
    using run lds(3,4,5,10) names v
    by (intro exI [of _ c4] exI [of _ m4]) (simp add: mock_answers mock_version_defs)
qed

end
