(* ===== verification/MockStream.thy ===== *)
theory MockStream
  imports MockServer
begin

text \<open>
  \<open>StreamAggregatedResources\<close> and \<open>PushResourceUpdate\<close> of \<open>core/manager/mock/server.go\<close>: the goroutines of the
  streams of the mock control plane. A stream has a goroutine that receives requests, one that sends
  responses, and the method itself, which waits for the first error. All streams and the pushes share the
  unbuffered channel \<open>respCh\<close> of the service: a value passes when one side is about to send it and a
  sending goroutine of some stream is in its \<open>select\<close>. What a stream is asked and what passes the channel is
  recorded (\<open>mo_handled\<close>, \<open>ms_log\<close>), for the statements only.
\<close>

subsection \<open>State\<close>

datatype mock_receiver =
    MRLoop \<comment> \<open>before the \<open>select\<close> on \<open>stopCh\<close>\<close>
  | MRRecv \<comment> \<open>in \<open>stream.Recv\<close>\<close>
  | MRAnswer DiscoveryResponse \<comment> \<open>in \<open>handleRequest\<close>, about to send on \<open>respCh\<close>\<close>
  | MRDone

datatype mock_sender =
    MSSelect
  | MSSend DiscoveryResponse \<comment> \<open>in \<open>stream.Send\<close>\<close>
  | MSDone

record mock_stream =
  mo_in :: "DiscoveryRequest list" \<comment> \<open>sent by the client, not yet received\<close>
  mo_recv :: mock_receiver
  mo_send :: mock_sender
  mo_errCh :: "string list"
  mo_stopCh :: bool
  mo_result :: "string option" \<comment> \<open>the error the method has returned\<close>
  mo_out :: "DiscoveryResponse list" \<comment> \<open>sent to the client\<close>
  mo_handled :: "DiscoveryRequest list"

record mock_service =
  ms_svr :: testAdsService
  ms_streams :: "(nat, mock_stream) gomap"
  ms_pushers :: "DiscoveryResponse list" \<comment> \<open>calls of \<open>PushResourceUpdate\<close> that wait\<close>
  ms_log :: "(nat option \<times> nat \<times> DiscoveryResponse) list" \<comment> \<open>origin (a stream or a push), stream that sends it\<close>

definition errCh_cap :: nat where "errCh_cap = 2"

definition mock_StreamAggregatedResources :: mock_stream where
  "mock_StreamAggregatedResources =
     \<lparr>mo_in = [], mo_recv = MRLoop, mo_send = MSSelect, mo_errCh = [], mo_stopCh = False, mo_result = None,
      mo_out = [], mo_handled = []\<rparr>"

definition init_mock :: "testAdsService \<Rightarrow> mock_service" where
  "init_mock svr = \<lparr>ms_svr = svr, ms_streams = [], ms_pushers = [], ms_log = []\<rparr>"

subsection \<open>Steps\<close>

text \<open>What the goroutines of one stream do without the channel \<open>respCh\<close> and without errors.\<close>

inductive stream_step :: "testAdsService \<Rightarrow> mock_stream \<Rightarrow> mock_stream \<Rightarrow> bool" for svr where
  recv_stop: "mo_recv x = MRLoop \<Longrightarrow> mo_stopCh x \<Longrightarrow> stream_step svr x (x\<lparr>mo_recv := MRDone\<rparr>)"
| recv_next: "mo_recv x = MRLoop \<Longrightarrow> \<not> mo_stopCh x \<Longrightarrow> stream_step svr x (x\<lparr>mo_recv := MRRecv\<rparr>)"
| recv_msg: "mo_recv x = MRRecv \<Longrightarrow> mo_in x = req # rest \<Longrightarrow>
    stream_step svr x (x\<lparr>mo_in := rest, mo_handled := mo_handled x @ [req],
      mo_recv := (case handleRequest svr (Some req) of None \<Rightarrow> MRLoop | Some resp \<Rightarrow> MRAnswer resp)\<rparr>)"
| send_stop: "mo_send x = MSSelect \<Longrightarrow> mo_stopCh x \<Longrightarrow> stream_step svr x (x\<lparr>mo_send := MSDone\<rparr>)"
| send_resp: "mo_send x = MSSend resp \<Longrightarrow> stream_step svr x (x\<lparr>mo_out := mo_out x @ [resp], mo_send := MSSelect\<rparr>)"
| return_err: "mo_result x = None \<Longrightarrow> mo_errCh x = err # errs \<Longrightarrow>
    stream_step svr x (x\<lparr>mo_errCh := errs, mo_result := Some err, mo_stopCh := True\<rparr>)"

text \<open>The connection breaks: \<open>Recv\<close> or \<open>Send\<close> fails, and the goroutine puts the error on \<open>errCh\<close>.\<close>

inductive stream_breaks :: "mock_stream \<Rightarrow> mock_stream \<Rightarrow> bool" where
  recv_err: "mo_recv x = MRRecv \<Longrightarrow> chan_send errCh_cap err (mo_errCh x) = Returns errs \<Longrightarrow>
    stream_breaks x (x\<lparr>mo_errCh := errs, mo_recv := MRDone\<rparr>)"
| send_err: "mo_send x = MSSend resp \<Longrightarrow> chan_send errCh_cap err (mo_errCh x) = Returns errs \<Longrightarrow>
    stream_breaks x (x\<lparr>mo_errCh := errs, mo_send := MSDone\<rparr>)"

inductive mock_step :: "mock_service \<Rightarrow> mock_service \<Rightarrow> bool" where
  stream: "map_of (ms_streams s) i = Some x \<Longrightarrow> stream_step (ms_svr s) x x' \<Longrightarrow>
    mock_step s (s\<lparr>ms_streams := gm_put i x' (ms_streams s)\<rparr>)"
| answer: "map_of (ms_streams s) i = Some x \<Longrightarrow> mo_recv x = MRAnswer resp \<Longrightarrow>
    S = gm_put i (x\<lparr>mo_recv := MRLoop\<rparr>) (ms_streams s) \<Longrightarrow> map_of S j = Some y \<Longrightarrow> mo_send y = MSSelect \<Longrightarrow>
    mock_step s (s\<lparr>ms_streams := gm_put j (y\<lparr>mo_send := MSSend resp\<rparr>) S, ms_log := ms_log s @ [(Some i, j, resp)]\<rparr>)"
| pushed: "ms_pushers s = ps @ resp # qs \<Longrightarrow> map_of (ms_streams s) j = Some y \<Longrightarrow> mo_send y = MSSelect \<Longrightarrow>
    mock_step s (s\<lparr>ms_pushers := ps @ qs, ms_streams := gm_put j (y\<lparr>mo_send := MSSend resp\<rparr>) (ms_streams s),
      ms_log := ms_log s @ [(None, j, resp)]\<rparr>)"

text \<open>What comes from outside: a new stream, a request of the client, a push, a broken connection.\<close>

inductive mock_env :: "mock_service \<Rightarrow> mock_service \<Rightarrow> bool" where
  open_stream: "map_of (ms_streams s) i = None \<Longrightarrow>
    mock_env s (s\<lparr>ms_streams := gm_put i mock_StreamAggregatedResources (ms_streams s)\<rparr>)"
| request: "map_of (ms_streams s) i = Some x \<Longrightarrow>
    mock_env s (s\<lparr>ms_streams := gm_put i (x\<lparr>mo_in := mo_in x @ [req]\<rparr>) (ms_streams s)\<rparr>)"
| push: "mock_env s (s\<lparr>ms_pushers := ms_pushers s @ [resp]\<rparr>)"
| breaks: "map_of (ms_streams s) i = Some x \<Longrightarrow> stream_breaks x x' \<Longrightarrow>
    mock_env s (s\<lparr>ms_streams := gm_put i x' (ms_streams s)\<rparr>)"

definition mock_run :: "mock_service \<Rightarrow> mock_service \<Rightarrow> bool" where
  "mock_run s s' \<longleftrightarrow> mock_step s s' \<or> mock_env s s'"

definition mock_start :: "mock_service \<Rightarrow> bool" where
  "mock_start s \<longleftrightarrow> (\<exists>svr. s = init_mock svr)"

subsection \<open>What a stream owes\<close>

definition answers_to :: "testAdsService \<Rightarrow> DiscoveryRequest list \<Rightarrow> DiscoveryResponse list" where
  "answers_to svr = List.map_filter (\<lambda>req. handleRequest svr (Some req))"

fun owed :: "mock_receiver \<Rightarrow> DiscoveryResponse list" where
  "owed (MRAnswer resp) = [resp]"
| "owed _ = []"

fun in_hand :: "mock_sender \<Rightarrow> DiscoveryResponse list" where
  "in_hand (MSSend resp) = [resp]"
| "in_hand _ = []"

definition log_from :: "nat \<Rightarrow> (nat option \<times> nat \<times> DiscoveryResponse) list \<Rightarrow> DiscoveryResponse list" where
  "log_from i lg = map (snd \<circ> snd) (filter (\<lambda>e. fst e = Some i) lg)"

definition log_to :: "nat \<Rightarrow> (nat option \<times> nat \<times> DiscoveryResponse) list \<Rightarrow> DiscoveryResponse list" where
  "log_to j lg = map (snd \<circ> snd) (filter (\<lambda>e. fst (snd e) = j) lg)"

lemma log_simps [simp]:
  "log_from i [] = []" "log_to j [] = []"
  "log_from i (lg @ [(f, k, r)]) = log_from i lg @ (if f = Some i then [r] else [])"
  "log_to j (lg @ [(f, k, r)]) = log_to j lg @ (if k = j then [r] else [])"
  by (simp_all add: log_from_def log_to_def)

lemma answers_to_simps [simp]:
  "answers_to svr [] = []"
  "answers_to svr (reqs @ reqs') = answers_to svr reqs @ answers_to svr reqs'"
  "answers_to svr (req # reqs) = owed (case handleRequest svr (Some req) of None \<Rightarrow> MRLoop | Some resp \<Rightarrow> MRAnswer resp) @ answers_to svr reqs"
  by (simp_all add: answers_to_def map_filter_def split: option.split)

subsection \<open>The invariant\<close>

text \<open>
  Errors: there is one per goroutine that has ended, at most, so a goroutine that still runs finds room in
  \<open>errCh\<close>; \<open>stopCh\<close> is closed when the method returns and only then.
\<close>

definition stream_ok :: "mock_stream \<Rightarrow> bool" where
  "stream_ok x \<longleftrightarrow> (mo_stopCh x \<longleftrightarrow> mo_result x \<noteq> None) \<and>
     length (mo_errCh x) + of_bool (mo_result x \<noteq> None) \<le> of_bool (mo_recv x = MRDone) + of_bool (mo_send x = MSDone)"

text \<open>
  Responses: those a stream owes for the requests it has handled have gone through the channel in order,
  but for the one in the hands of its receiving goroutine; those its sending goroutine took have been
  sent in order, but for the one in its hands or lost with the connection.
\<close>

definition stream_log_ok :: "testAdsService \<Rightarrow> (nat option \<times> nat \<times> DiscoveryResponse) list \<Rightarrow> nat \<Rightarrow> mock_stream \<Rightarrow> bool" where
  "stream_log_ok svr lg i x \<longleftrightarrow>
     answers_to svr (mo_handled x) = log_from i lg @ owed (mo_recv x) \<and>
     (\<exists>lost. log_to i lg = mo_out x @ in_hand (mo_send x) @ lost \<and> length lost \<le> 1 \<and> (lost \<noteq> [] \<longrightarrow> mo_send x = MSDone))"

definition mock_inv :: "mock_service \<Rightarrow> bool" where
  "mock_inv s \<longleftrightarrow>
     (\<forall>i x. map_of (ms_streams s) i = Some x \<longrightarrow> stream_ok x \<and> stream_log_ok (ms_svr s) (ms_log s) i x) \<and>
     (\<forall>i. map_of (ms_streams s) i = None \<longrightarrow> log_from i (ms_log s) = [] \<and> log_to i (ms_log s) = [])"

lemma mock_invD:
  assumes "mock_inv s" and "map_of (ms_streams s) i = Some x"
  shows "stream_ok x" and "stream_log_ok (ms_svr s) (ms_log s) i x"
  using assms by (auto simp: mock_inv_def)

lemma stream_step_ok:
  assumes "stream_step svr x x'" and "stream_ok x" and "stream_log_ok svr lg i x"
  shows "stream_ok x'" and "stream_log_ok svr lg i x'"
  using assms by (cases; auto simp: stream_ok_def stream_log_ok_def split: option.splits)+

lemma stream_breaks_ok:
  assumes "stream_breaks x x'" and "stream_ok x" and "stream_log_ok svr lg i x"
  shows "stream_ok x'" and "stream_log_ok svr lg i x'"
  using assms by (cases; auto simp: stream_ok_def stream_log_ok_def chan_send_def split: if_splits)+

lemma mock_inv_put:
  assumes "mock_inv s" and "stream_ok x" and "stream_log_ok (ms_svr s) (ms_log s) i x"
  shows "mock_inv (s\<lparr>ms_streams := gm_put i x (ms_streams s)\<rparr>)"
  using assms by (auto simp: mock_inv_def split: if_splits)

text \<open>A response passes the channel: what changes for stream \<open>k\<close>.\<close>

definition passed :: "nat option \<Rightarrow> nat \<Rightarrow> DiscoveryResponse \<Rightarrow> nat \<Rightarrow> mock_stream \<Rightarrow> mock_stream" where
  "passed org dst resp k x =
     x\<lparr>mo_recv := (if org = Some k then MRLoop else mo_recv x), mo_send := (if dst = k then MSSend resp else mo_send x)\<rparr>"

lemma passed_ok:
  assumes "stream_ok x" and "stream_log_ok svr lg k x"
    and "org = Some k \<Longrightarrow> mo_recv x = MRAnswer resp" and "dst = k \<Longrightarrow> mo_send x = MSSelect"
  shows "stream_ok (passed org dst resp k x)" and "stream_log_ok svr (lg @ [(org, dst, resp)]) k (passed org dst resp k x)"
  using assms by (auto simp: passed_def stream_ok_def stream_log_ok_def)

lemma mock_inv_passed:
  assumes inv: "mock_inv s" and streams: "\<And>k. map_of S k = map_option (passed org dst resp k) (map_of (ms_streams s) k)"
    and origin: "\<And>k. org = Some k \<Longrightarrow> \<exists>x. map_of (ms_streams s) k = Some x \<and> mo_recv x = MRAnswer resp"
    and target: "\<exists>y. map_of (ms_streams s) dst = Some y \<and> mo_send y = MSSelect"
    and s': "ms_streams s' = S" "ms_svr s' = ms_svr s" "ms_log s' = ms_log s @ [(org, dst, resp)]"
  shows "mock_inv s'"
  unfolding mock_inv_def s'
proof (intro conjI allI impI)
  fix k x'
  assume "map_of S k = Some x'"
  then obtain x where x: "map_of (ms_streams s) k = Some x" "x' = passed org dst resp k x"
    by (auto simp: streams)
  have "stream_ok x" "stream_log_ok (ms_svr s) (ms_log s) k x" using mock_invD [OF inv x(1)] .
  then show "stream_ok x'" "stream_log_ok (ms_svr s) (ms_log s @ [(org, dst, resp)]) k x'"
    unfolding x(2) using origin target x(1) by (auto intro!: passed_ok)
next
  fix k
  assume "map_of S k = None"
  then have n: "map_of (ms_streams s) k = None" by (simp add: streams)
  then have "org \<noteq> Some k" "dst \<noteq> k" using origin target by auto
  with n inv show "log_from k (ms_log s @ [(org, dst, resp)]) = []" "log_to k (ms_log s @ [(org, dst, resp)]) = []"
    by (simp_all add: mock_inv_def)
qed

lemma passed_other: "org \<noteq> Some k \<Longrightarrow> dst \<noteq> k \<Longrightarrow> map_option (passed org dst resp k) v = v"
  by (cases v) (simp_all add: passed_def)

lemma mock_inv_env: "mock_env s s' \<Longrightarrow> mock_inv s \<Longrightarrow> mock_inv s'"
proof (induction rule: mock_env.induct)
  case (open_stream s i)
  then have "log_from i (ms_log s) = []" "log_to i (ms_log s) = []" by (simp_all add: mock_inv_def)
  with open_stream show ?case
    by (intro mock_inv_put) (simp_all add: mock_StreamAggregatedResources_def stream_ok_def stream_log_ok_def)
next
  case (request s i x req)
  with mock_invD [OF request(2,1)] show ?case by (intro mock_inv_put) (simp_all add: stream_ok_def stream_log_ok_def)
next
  case (breaks s i x x')
  with mock_invD [OF breaks(3,1)] stream_breaks_ok show ?case by (intro mock_inv_put) blast+
qed (simp add: mock_inv_def)

lemma mock_inv_step: "mock_step s s' \<Longrightarrow> mock_inv s \<Longrightarrow> mock_inv s'"
proof (induction rule: mock_step.induct)
  case (stream s i x x')
  with mock_invD [OF stream(3,1)] stream_step_ok show ?case by (intro mock_inv_put) blast+
next
  case (answer s i x resp S j y)
  show ?case
    by (rule mock_inv_passed [OF answer.prems, where org = "Some i" and dst = j and resp = resp
          and S = "gm_put j (y\<lparr>mo_send := MSSend resp\<rparr>) S"])
      (use answer.hyps in \<open>auto simp: passed_def passed_other split: if_splits\<close>)
next
  case (pushed s ps resp qs j y)
  show ?case
    by (rule mock_inv_passed [OF pushed.prems, where org = None and dst = j and resp = resp
          and S = "gm_put j (y\<lparr>mo_send := MSSend resp\<rparr>) (ms_streams s)"])
      (use pushed.hyps in \<open>auto simp: passed_def passed_other split: if_splits\<close>)
qed

interpretation mock: inductive_invariant mock_start mock_run mock_inv
  by unfold_locales
    (auto simp: mock_start_def init_mock_def mock_inv_def [of "\<lparr>ms_svr = _, ms_streams = [], ms_pushers = [], ms_log = []\<rparr>"] mock_run_def
      intro: mock_inv_step mock_inv_env)

lemma mock_svr: "mock_run\<^sup>*\<^sup>* s s' \<Longrightarrow> ms_svr s' = ms_svr s"
  by (induction rule: rtranclp_induct) (auto simp: mock_run_def elim!: mock_step.cases mock_env.cases)

lemma mock_run_step: "mock_run\<^sup>*\<^sup>* s t \<Longrightarrow> mock_step t u \<Longrightarrow> mock_run\<^sup>*\<^sup>* s u"
  by (auto simp: mock_run_def intro: rtranclp.rtrancl_into_rtrancl)

lemma mock_run_env: "mock_run\<^sup>*\<^sup>* s t \<Longrightarrow> mock_env t u \<Longrightarrow> mock_run\<^sup>*\<^sup>* s u"
  by (auto simp: mock_run_def intro: rtranclp.rtrancl_into_rtrancl)

subsection \<open>Order and errors\<close>

text \<open>C18: a stream of the mock control plane answers its requests in the order it received them. In every
  reachable state, whatever other streams, pushes and broken connections there are: the answers to the requests
  the stream has handled went through the channel of the service in order, but for the one its receiving
  goroutine still holds; what its sending goroutine took from the channel was sent in order, but for the one it
  holds, or a last one that was lost with the connection. So if there is only this stream and nothing was
  pushed, what was sent is a prefix of the answers. The two goroutines always find room for their error, and
  \<open>stopCh\<close> is closed exactly if the method has returned.\<close>

theorem mock_stream_order:
  assumes "mock_run\<^sup>*\<^sup>* (init_mock svr) s" and "map_of (ms_streams s) i = Some x"
  shows "answers_to svr (mo_handled x) = log_from i (ms_log s) @ owed (mo_recv x) \<and>
    (\<exists>lost. log_to i (ms_log s) = mo_out x @ in_hand (mo_send x) @ lost \<and> length lost \<le> 1 \<and> (lost \<noteq> [] \<longrightarrow> mo_send x = MSDone)) \<and>
    ((\<forall>(f, j, r) \<in> set (ms_log s). f = Some i \<and> j = i) \<longrightarrow> prefix (mo_out x) (answers_to svr (mo_handled x))) \<and>
    (mo_recv x = MRRecv \<or> in_hand (mo_send x) \<noteq> [] \<longrightarrow> (\<forall>err. chan_send errCh_cap err (mo_errCh x) \<noteq> Blocks)) \<and>
    (mo_stopCh x \<longleftrightarrow> mo_result x \<noteq> None)"
proof -
  have "mock_start (init_mock svr)" by (auto simp: mock_start_def)
  then have inv: "mock_inv s" by (rule mock.invar_reachable [OF assms(1)])
  have svr: "ms_svr s = svr" using mock_svr [OF assms(1)] by (simp add: init_mock_def)
  from mock_invD [OF inv assms(2)] have ok: "stream_ok x" and lok: "stream_log_ok svr (ms_log s) i x" by (simp_all add: svr)
  from lok obtain lost where l: "answers_to svr (mo_handled x) = log_from i (ms_log s) @ owed (mo_recv x)"
    "log_to i (ms_log s) = mo_out x @ in_hand (mo_send x) @ lost" "length lost \<le> 1" "lost \<noteq> [] \<longrightarrow> mo_send x = MSDone"
    by (auto simp: stream_log_ok_def)
  have "log_from i (ms_log s) = log_to i (ms_log s)" if "\<forall>(f, j, r) \<in> set (ms_log s). f = Some i \<and> j = i"
    using that by (auto simp: log_from_def log_to_def intro!: arg_cong [where f = "map _"] filter_cong)
  then have "prefix (mo_out x) (answers_to svr (mo_handled x))" if "\<forall>(f, j, r) \<in> set (ms_log s). f = Some i \<and> j = i"
    using that l(1,2) by simp
  moreover have "chan_send errCh_cap err (mo_errCh x) \<noteq> Blocks" if "mo_recv x = MRRecv \<or> in_hand (mo_send x) \<noteq> []" for err
    using ok that by (cases "mo_send x"; cases "mo_recv x") (auto simp: stream_ok_def chan_send_def errCh_cap_def of_bool_def split: if_splits)
  moreover have "mo_stopCh x \<longleftrightarrow> mo_result x \<noteq> None" using ok by (simp add: stream_ok_def)
  ultimately show ?thesis using l by blast
qed

subsection \<open>A stream that is left alone answers everything\<close>

definition alone :: "nat \<Rightarrow> mock_stream \<Rightarrow> mock_service \<Rightarrow> bool" where
  "alone i x s \<longleftrightarrow> ms_streams s = [(i, x)] \<and> ms_pushers s = []"

definition alive :: "mock_stream \<Rightarrow> bool" where
  "alive x \<longleftrightarrow> \<not> mo_stopCh x \<and> mo_errCh x = [] \<and> mo_recv x \<noteq> MRDone \<and> mo_send x \<noteq> MSDone"

definition promised :: "testAdsService \<Rightarrow> mock_stream \<Rightarrow> DiscoveryResponse list" where
  "promised svr x = mo_out x @ in_hand (mo_send x) @ owed (mo_recv x) @ answers_to svr (mo_in x)"

definition work :: "mock_stream \<Rightarrow> nat" where
  "work x = 4 * length (mo_in x) + (case mo_recv x of MRLoop \<Rightarrow> 1 | MRAnswer _ \<Rightarrow> 3 | _ \<Rightarrow> 0) +
     (case mo_send x of MSSend _ \<Rightarrow> 1 | _ \<Rightarrow> 0)"

lemma alive_stream_step:
  assumes "stream_step svr x x'" and "alive x"
  shows "alive x'" and "promised svr x' = promised svr x" and "work x' < work x"
  using assms by (cases; auto simp: alive_def promised_def work_def split: option.splits)+

lemma alone_step:
  assumes "mock_step s s'" and "alone i x s" and "alive x"
  obtains x' where "alone i x' s'" and "alive x'" and "promised (ms_svr s) x' = promised (ms_svr s) x"
    and "work x' < work x" and "ms_svr s' = ms_svr s"
  using assms(1)
proof cases
  case (stream k y x')
  then have "k = i" "y = x" using assms(2) by (auto simp: alone_def split: if_splits)
  with stream assms(2) alive_stream_step [of "ms_svr s" x x'] assms(3) show thesis
    by (intro that [of x']) (auto simp: alone_def)
next
  case (answer k z resp S j y)
  then have eq: "k = i" "z = x" "j = i" "y = x\<lparr>mo_recv := MRLoop\<rparr>" using assms(2) by (auto simp: alone_def split: if_splits)
  with answer assms(2,3) show thesis
    by (intro that [of "x\<lparr>mo_recv := MRLoop, mo_send := MSSend resp\<rparr>"]) (auto simp: alone_def alive_def promised_def work_def)
qed (use assms(2) in \<open>simp add: alone_def\<close>)

lemma alone_enabled:
  assumes "alone i x s" and "alive x" and "\<not> (mo_in x = [] \<and> mo_recv x = MRRecv \<and> mo_send x = MSSelect)"
  shows "\<exists>s'. mock_step s s'"
proof -
  have i: "map_of (ms_streams s) i = Some x" using assms(1) by (simp add: alone_def)
  note lift = mock_step.stream [OF i]
  consider "mo_recv x = MRLoop" | "mo_recv x = MRRecv" "mo_in x \<noteq> []" | resp where "mo_send x = MSSend resp"
    | resp where "mo_recv x = MRAnswer resp" "mo_send x = MSSelect"
    using assms(2,3) by (cases "mo_recv x"; cases "mo_send x") (auto simp: alive_def)
  then show ?thesis
  proof cases
    case 1
    then show ?thesis using lift [OF stream_step.recv_next] assms(2) by (auto simp: alive_def)
  next
    case 2
    then obtain req rest where "mo_in x = req # rest" by (cases "mo_in x") auto
    then show ?thesis using lift [OF stream_step.recv_msg [OF 2(1)]] by blast
  next
    case 3
    then show ?thesis using lift [OF stream_step.send_resp] by blast
  next
    case 4
    then show ?thesis using mock_step.answer [OF i 4(1) refl, of i "x\<lparr>mo_recv := MRLoop\<rparr>"] by auto
  qed
qed

lemma alone_steps:
  assumes "(mock_step ^^ n) s s'" and "alone i x s" and "alive x"
  shows "\<exists>x'. alone i x' s' \<and> alive x' \<and> promised (ms_svr s) x' = promised (ms_svr s) x \<and> work x' + n \<le> work x \<and> ms_svr s' = ms_svr s"
  using assms(1)
proof (induction n arbitrary: s')
  case 0
  then show ?case using assms(2,3) by auto
next
  case (Suc n)
  then obtain t where t: "(mock_step ^^ n) s t" "mock_step t s'" by auto
  from Suc.IH [OF t(1)] obtain y where y: "alone i y t" "alive y" "promised (ms_svr s) y = promised (ms_svr s) x"
    "work y + n \<le> work x" "ms_svr t = ms_svr s" by blast
  from alone_step [OF t(2) y(1,2)] obtain z where "alone i z s'" "alive z" "promised (ms_svr t) z = promised (ms_svr t) y"
    "work z < work y" "ms_svr s' = ms_svr t" by metis
  with y show ?case by (intro exI [of _ z]) simp
qed

text \<open>C17: the mock control plane answers. If there is one stream, its connection holds and nothing is pushed, then
  the goroutines come to rest after a bounded number of steps in whatever order they are scheduled, and then
  every request that had arrived has been received, and exactly its answers have been sent, in order, after
  what was sent or under way before. This is the exchange that the sequential model of a request and its
  answer takes as one step.\<close>

theorem mock_drains:
  assumes "ms_streams s = [(i, x)]" and "ms_pushers s = []" and "alive x"
  shows "(\<forall>n s'. (mock_step ^^ n) s s' \<longrightarrow> n \<le> 4 * length (mo_in x) + 4) \<and>
    (\<exists>s'. mock_step\<^sup>*\<^sup>* s s' \<and> (\<nexists>t. mock_step s' t)) \<and>
    (\<forall>s'. mock_step\<^sup>*\<^sup>* s s' \<and> (\<nexists>t. mock_step s' t) \<longrightarrow>
       (\<exists>x'. ms_streams s' = [(i, x')] \<and> alive x' \<and> mo_in x' = [] \<and> mo_recv x' = MRRecv \<and> mo_send x' = MSSelect \<and>
          mo_out x' = mo_out x @ in_hand (mo_send x) @ owed (mo_recv x) @ answers_to (ms_svr s) (mo_in x)))"
proof (intro conjI allI impI)
  have al: "alone i x s" using assms(1,2) by (simp add: alone_def)
  note run = alone_steps [OF _ al assms(3)]
  have bound: "n \<le> work x" if "(mock_step ^^ n) s s'" for n s' using run [OF that] by fastforce
  have "work x \<le> 4 * length (mo_in x) + 4" by (simp add: work_def split: mock_receiver.split mock_sender.split)
  then show "n \<le> 4 * length (mo_in x) + 4" if "(mock_step ^^ n) s s'" for n s' using bound [OF that] by simp
  show "\<exists>s'. mock_step\<^sup>*\<^sup>* s s' \<and> (\<nexists>t. mock_step s' t)"
    using bound by (rule bounded_run_ends)
  fix s'
  assume fin: "mock_step\<^sup>*\<^sup>* s s' \<and> (\<nexists>t. mock_step s' t)"
  then obtain n where "(mock_step ^^ n) s s'" using rtranclp_imp_relpowp by metis
  from run [OF this] obtain x' where x': "alone i x' s'" "alive x'" "promised (ms_svr s) x' = promised (ms_svr s) x" by blast
  with alone_enabled [OF x'(1,2)] fin have "mo_in x' = []" "mo_recv x' = MRRecv" "mo_send x' = MSSelect" by blast+
  with x' show "\<exists>x'. ms_streams s' = [(i, x')] \<and> alive x' \<and> mo_in x' = [] \<and> mo_recv x' = MRRecv \<and> mo_send x' = MSSelect \<and>
      mo_out x' = mo_out x @ in_hand (mo_send x) @ owed (mo_recv x) @ answers_to (ms_svr s) (mo_in x)"
    by (auto simp: alone_def promised_def)
qed

subsection \<open>The shared channel\<close>

text \<open>The channel is shared by all streams, so an answer need not reach the stream that asked. For every
  request the service has an answer to, there is a run in which one stream receives the request and
  another one, which never received any, sends the answer, while the first has nothing to send.\<close>

theorem mock_answer_crosses:
  assumes "handleRequest svr (Some req) = Some resp"
  shows "\<exists>s x y. mock_run\<^sup>*\<^sup>* (init_mock svr) s \<and> map_of (ms_streams s) 0 = Some x \<and> map_of (ms_streams s) 1 = Some y \<and>
    mo_handled x = [req] \<and> mo_out x = [] \<and> owed (mo_recv x) = [] \<and> mo_handled y = [] \<and> mo_out y = [resp]"
proof -
  let ?n = mock_StreamAggregatedResources
  define S where "S a b lg = \<lparr>ms_svr = svr, ms_streams = [(0, a), (1, b)], ms_pushers = [], ms_log = lg\<rparr>" for a b lg
  let ?a = "?n\<lparr>mo_in := [req]\<rparr>"
  let ?b = "?a\<lparr>mo_recv := MRRecv\<rparr>"
  let ?c = "?b\<lparr>mo_in := [], mo_handled := [req], mo_recv := MRAnswer resp\<rparr>"
  let ?d = "?c\<lparr>mo_recv := MRLoop\<rparr>"
  let ?e = "?n\<lparr>mo_send := MSSend resp\<rparr>"
  let ?f = "?e\<lparr>mo_out := [resp], mo_send := MSSelect\<rparr>"
  let ?lg = "[(Some 0, 1, resp)]"
  note [simp] = mock_StreamAggregatedResources_def S_def init_mock_def
  let ?s1 = "\<lparr>ms_svr = svr, ms_streams = [(0, ?n)], ms_pushers = [], ms_log = []\<rparr>"
  have e1: "mock_env (init_mock svr) ?s1" using mock_env.open_stream [of "init_mock svr" 0] by simp
  have e2: "mock_env ?s1 (S ?n ?n [])" using mock_env.open_stream [of ?s1 1] by simp
  have e3: "mock_env (S ?n ?n []) (S ?a ?n [])" using mock_env.request [of "S ?n ?n []" 0 ?n req] by simp
  have e4: "mock_step (S ?a ?n []) (S ?b ?n [])"
    using mock_step.stream [of "S ?a ?n []" 0 ?a, OF _ stream_step.recv_next] by simp
  have e5: "mock_step (S ?b ?n []) (S ?c ?n [])"
    using mock_step.stream [of "S ?b ?n []" 0 ?b, OF _ stream_step.recv_msg [of _ req "[]"]] assms by simp
  have e6: "mock_step (S ?c ?n []) (S ?d ?e ?lg)"
    using mock_step.answer [of "S ?c ?n []" 0 ?c resp "[(0, ?d), (1, ?n)]" 1 ?n] by simp
  have e7: "mock_step (S ?d ?e ?lg) (S ?d ?f ?lg)"
    using mock_step.stream [of "S ?d ?e ?lg" 1 ?e, OF _ stream_step.send_resp [of _ resp]] by simp
  have "mock_run\<^sup>*\<^sup>* (init_mock svr) (S ?d ?f ?lg)"
    by (rule mock_run_step [OF mock_run_step [OF mock_run_step [OF mock_run_step [OF
          mock_run_env [OF mock_run_env [OF mock_run_env [OF rtranclp.rtrancl_refl e1] e2] e3] e4] e5] e6] e7])
  then show ?thesis by (intro exI [of _ "S ?d ?f ?lg"] exI [of _ ?d] exI [of _ ?f]) simp
qed

text \<open>The first request of a fresh client for the name table, with the table as its answer.\<close>

lemma first_names_request:
  "handleRequest (StartXDSServer E) (Some (current_request (newXdsClient bc) NameTableType)) = Some (NdsResp1 E)"
  by (rule mock_answers(1)) (simp_all add: newXdsClient_def client_version_def client_nonce_def gm_str_def)

theorem mock_answer_crosses_witness:
  "\<exists>s y. mock_run\<^sup>*\<^sup>* (init_mock (StartXDSServer example_enc)) s \<and> map_of (ms_streams s) 1 = Some y \<and>
     mo_handled y = [] \<and> mo_out y = [NdsResp1 example_enc]"
  using mock_answer_crosses [OF first_names_request [of example_enc example_config]] by blast

theorem mock_stream_order_witness:
  "\<exists>s x. mock_run\<^sup>*\<^sup>* (init_mock (StartXDSServer example_enc)) s \<and> map_of (ms_streams s) 3 = Some x \<and>
     prefix (mo_out x) (answers_to (StartXDSServer example_enc) (mo_handled x))"
proof -
  let ?s = "init_mock (StartXDSServer example_enc)"
  let ?s1 = "?s\<lparr>ms_streams := [(3, mock_StreamAggregatedResources)]\<rparr>"
  have run: "mock_run\<^sup>*\<^sup>* ?s ?s1"
    using mock_env.open_stream [of ?s 3] by (auto simp: mock_run_def init_mock_def)
  have x: "map_of (ms_streams ?s1) 3 = Some mock_StreamAggregatedResources" by simp
  have "\<forall>(f, j, r) \<in> set (ms_log ?s1). f = Some 3 \<and> j = 3" by (simp add: init_mock_def)
  with mock_stream_order [OF run x] run x show ?thesis by blast
qed

theorem mock_drains_witness:
  "\<exists>s' x'. mock_step\<^sup>*\<^sup>* \<lparr>ms_svr = StartXDSServer example_enc,
       ms_streams = [(0, mock_StreamAggregatedResources\<lparr>mo_in := [current_request (newXdsClient example_config) NameTableType]\<rparr>)],
       ms_pushers = [], ms_log = []\<rparr> s' \<and> ms_streams s' = [(0, x')] \<and> mo_out x' = [NdsResp1 example_enc]"
proof -
  let ?req = "current_request (newXdsClient example_config) NameTableType"
  let ?x = "mock_StreamAggregatedResources\<lparr>mo_in := [?req]\<rparr>"
  let ?s = "\<lparr>ms_svr = StartXDSServer example_enc, ms_streams = [(0, ?x)], ms_pushers = [], ms_log = []\<rparr>"
  have "alive ?x" by (simp add: alive_def mock_StreamAggregatedResources_def)
  from mock_drains [of ?s 0 ?x, OF _ _ this] obtain s' x' where "mock_step\<^sup>*\<^sup>* ?s s'" "ms_streams s' = [(0, x')]"
    "mo_out x' = mo_out ?x @ in_hand (mo_send ?x) @ owed (mo_recv ?x) @ answers_to (StartXDSServer example_enc) [?req]" by fastforce
  then show ?thesis by (auto simp: mock_StreamAggregatedResources_def first_names_request)
qed

end
