(* ===== verification/Suite.thy ===== *)
theory Suite
  imports Manager
begin

text \<open>
  The shared parts of \<open>xdssuite\<close> and the entry point \<open>xds.go\<close>: the options of the suite, the
  process-wide manager behind \<open>SetXDSResourceManager\<close>, \<open>Init\<close>, the RPC information the suite
  reads and writes, and the Go interface \<open>XDSResourceManager\<close> as a locale.
\<close>

subsection \<open>option.go\<close>

record 'ctx SuiteOptions =
  so_routerMetaExtractor :: "'ctx \<Rightarrow> (string, string) gomap"
  so_servicePort :: "32 word"
  so_matchRetryMethod :: bool
  so_enableServiceCircuitBreak :: bool

type_synonym 'ctx SuiteOption = "'ctx SuiteOptions \<Rightarrow> 'ctx SuiteOptions"

fun SuiteOptions_Apply :: "'ctx SuiteOptions \<Rightarrow> 'ctx SuiteOption list \<Rightarrow> 'ctx SuiteOptions" where
  "SuiteOptions_Apply o' [] = o'"
| "SuiteOptions_Apply o' (op # opts) = SuiteOptions_Apply (op o') opts"

text \<open>\<open>getAllValues\<close> is \<open>metainfo.GetAllValues\<close>.\<close>

definition NewSuiteOptions :: "('ctx \<Rightarrow> (string, string) gomap) \<Rightarrow> 'ctx SuiteOption list \<Rightarrow> 'ctx SuiteOptions" where
  "NewSuiteOptions getAllValues opts =
     SuiteOptions_Apply
       \<lparr>so_routerMetaExtractor = getAllValues, so_servicePort = 0, so_matchRetryMethod = False,
        so_enableServiceCircuitBreak = False\<rparr> opts"

definition WithServicePort :: "32 word \<Rightarrow> 'ctx SuiteOption" where
  "WithServicePort port o' = o'\<lparr>so_servicePort := port\<rparr>"

definition WithMatchRetryMethod :: "bool \<Rightarrow> 'ctx SuiteOption" where
  "WithMatchRetryMethod match o' = o'\<lparr>so_matchRetryMethod := match\<rparr>"

definition WithServiceCircuitBreak :: "bool \<Rightarrow> 'ctx SuiteOption" where
  "WithServiceCircuitBreak enable o' = o'\<lparr>so_enableServiceCircuitBreak := enable\<rparr>"

definition WithRouterMetaExtractor :: "('ctx \<Rightarrow> (string, string) gomap) \<Rightarrow> 'ctx SuiteOption" where
  "WithRouterMetaExtractor ext o' = o'\<lparr>so_routerMetaExtractor := ext\<rparr>"

subsection \<open>xds.go: the singleton\<close>

type_synonym 'm singletonManager = "'m option"

definition getManager :: "'m singletonManager \<Rightarrow> 'm option" where
  "getManager s = s"

definition XDSInited :: "'m singletonManager \<Rightarrow> bool" where
  "XDSInited s \<longleftrightarrow> s \<noteq> None"

definition SetXDSResourceManager :: "'m \<Rightarrow> 'm singletonManager \<Rightarrow> string option \<times> 'm singletonManager" where
  "SetXDSResourceManager m s = (None, if s = None then Some m else s)"

text \<open>\<open>Init\<close> with what \<open>NewXDSResourceManager\<close> gives on these options.\<close>

definition Init ::
  "('o list \<Rightarrow> (string + 'm) run) \<Rightarrow> 'o list \<Rightarrow> 'm singletonManager \<Rightarrow> (string option \<times> 'm singletonManager) run" where
  "Init newXDSResourceManager opts s =
     (if XDSInited s then Returns (None, s)
      else run_bind (newXDSResourceManager opts) (\<lambda>r.
        case r of
          Inl err \<Rightarrow> Returns (Some err, s)
        | Inr m \<Rightarrow> Returns (SetXDSResourceManager m s)))"

text \<open>
  \<open>NewXDSResourceManager\<close>: the options, the bootstrap configuration unless one is given, the ADS
  client, the xDS client, which connects and warms up before it is returned. An option that panics
  is a panic here. \<open>newADSClient\<close> is the error of building the gRPC client, if any; \<open>connect\<close> and
  \<open>serve\<close> are as for \<open>client_run\<close>. The first component of the result is the stream of the sender
  and the receiver, if they run.
\<close>

definition NewXDSResourceManager ::
  "lib \<Rightarrow> env \<Rightarrow> IstioVars \<Rightarrow> (XDSServerConfig \<Rightarrow> string option) \<Rightarrow> string + nat \<Rightarrow>
     (xdsClient \<times> xdsResourceManager \<Rightarrow> xdsClient \<times> xdsResourceManager) \<Rightarrow> BootstrapConfig option \<Rightarrow> Option list \<Rightarrow>
     (string + (nat option \<times> xdsClient \<times> xdsResourceManager)) run" where
  "NewXDSResourceManager L getenv v newADSClient connect serve bootstrapConfig opts =
     (case NewOptions v opts of
        Inl p \<Rightarrow> Panics p
      | Inr o' \<Rightarrow>
          (case (case bootstrapConfig of None \<Rightarrow> newBootstrapConfig L getenv (opt_XDSSvrConfig o') | Some b \<Rightarrow> Inr b) of
             Inl err \<Rightarrow> Returns (Inl err)
           | Inr b \<Rightarrow>
               (case newADSClient (bc_xdsSvrCfg b) of
                  Some err \<Rightarrow> Returns (Inl (''[XDS] client: construct ads client failed, '' @ err))
                | None \<Rightarrow> run_bind (client_run connect serve (newXdsClient b, new_manager o')) (\<lambda>s. Returns (Inr s)))))"

text \<open>Initialisation happens once. A successful \<open>Init\<close> leaves a manager in place, every later
  \<open>Init\<close> succeeds without building another one, and a failing \<open>Init\<close> leaves the singleton as it was,
  so that it can be tried again.\<close>

theorem Init_idempotent:
  "case Init mk opts s of
     Returns (None, s') \<Rightarrow>
       getManager s' \<noteq> None \<and> Init mk' opts' s' = Returns (None, s') \<and> (s' = s \<longleftrightarrow> XDSInited s)
   | Returns (Some err, s') \<Rightarrow> s' = s \<and> mk opts = Returns (Inl err) \<and> getManager s = None
   | Blocks \<Rightarrow> mk opts = Blocks
   | Panics p \<Rightarrow> mk opts = Panics p"
  by (cases "mk opts")
    (auto simp: Init_def XDSInited_def SetXDSResourceManager_def getManager_def split: sum.splits)

text \<open>A manager without a control plane. If no stream can be opened, building the manager still
  succeeds, without an error and without warm-up: neither a sender nor a receiver runs, so every \<open>Get\<close>
  of a resource that is not cached can only end by its timeout.\<close>

theorem connect_failure_unreported:
  assumes "newADSClient (bc_xdsSvrCfg b) = None" and "NewOptions v opts = Inr o'"
  shows "NewXDSResourceManager L getenv v newADSClient (Inl err) serve (Some b) opts =
    Returns (Inr (None, newXdsClient b, new_manager o'))"
  using assms by (simp add: NewXDSResourceManager_def client_run_def)

theorem connect_failure_unreported_witness:
  "NewXDSResourceManager example_lib (\<lambda>_. '''') \<lparr>iv_IstiodAddr = ''a'', iv_IstiodSvrName = ''n'', iv_IstioAuthEnable = False\<rparr>
     (\<lambda>_. None) (Inl ''unreachable'') (\<lambda>s. s) (Some example_config) [] =
   Returns (Inr (None, newXdsClient example_config,
     new_manager (DefaultOptions \<lparr>iv_IstiodAddr = ''a'', iv_IstiodSvrName = ''n'', iv_IstioAuthEnable = False\<rparr>)))"
  by (rule connect_failure_unreported) (simp_all add: NewOptions_def)

subsection \<open>RPC information\<close>

text \<open>
  What the accessors of \<open>rpcinfo.RPCInfo\<close> return, and the calls that change it: those are made
  on values of the RPC framework and are recorded in order.
\<close>

record EndpointInfo =
  ei_ServiceName :: string
  ei_Method :: string
  ei_Tag :: "string \<Rightarrow> string \<times> bool"

record RPCInfo =
  ri_To :: "EndpointInfo option"
  ri_PackageName :: string
  ri_ServiceName :: string
  ri_MethodName :: string
  ri_TransportProtocol :: int

datatype ri_call =
    SetTag string string
  | SetTagLock string
  | SetRPCTimeout Duration

definition RouterClusterKey :: string where
  "RouterClusterKey = ''XDS_Route_Picked_Cluster''"

subsection \<open>The interface XDSResourceManager\<close>

type_synonym 's getter = "ResourceType \<Rightarrow> string \<Rightarrow> 's \<Rightarrow> (get_result \<times> 's) run"

text \<open>
  What the users of the interface rely on: a value that comes back without error is nil or a
  pointer of the Go type that belongs to the resource type asked for, and the provider's
  invariant survives the call.
\<close>

locale xds_resource_manager =
  fixes get :: "'s getter"
    and inv :: "'s \<Rightarrow> bool"
  assumes get_typed: "inv s \<Longrightarrow> get rt n s = Returns (GetOk (Some r), s') \<Longrightarrow> resource_has_type rt r"
    and get_inv: "inv s \<Longrightarrow> get rt n s = Returns (x, s') \<Longrightarrow> inv s'"
    and get_no_panic: "inv s \<Longrightarrow> get rt n s \<noteq> Panics p"
begin

lemma get_cases [consumes 1, case_names Blocks Err Nil Ok]:
  assumes "inv s"
  obtains (Blocks) "get rt n s = Blocks"
  | (Err) e s' where "get rt n s = Returns (GetErr e, s')" "inv s'"
  | (Nil) s' where "get rt n s = Returns (GetOk None, s')" "inv s'"
  | (Ok) r s' where "get rt n s = Returns (GetOk (Some r), s')" "resource_has_type rt r" "inv s'"
proof (cases "get rt n s")
  case (Returns x)
  obtain y s' where x: "x = (y, s')" by (cases x)
  with Returns have "inv s'" using get_inv [OF assms] by blast
  then show thesis
  proof (cases y)
    case (GetOk o')
    with Returns x \<open>inv s'\<close> get_typed [OF assms] that(3,4) show thesis by (cases o') auto
  qed (use Returns x \<open>inv s'\<close> that(2) in auto)
qed (use get_no_panic [OF assms] that(1) in auto)

end

end
