(* ===== verification/Router.thy ===== *)
theory Router
  imports Suite RouteMatching
begin

text \<open>
  \<open>xdssuite/router.go\<close>. The manager is reached through its interface, so the router takes \<open>get\<close>
  and the state behind it. \<open>int31n\<close> is \<open>fastrand.Int31n\<close>, \<open>json\<close> the text of \<open>MarshalJSON\<close> in an
  error, \<open>grpc\<close> the constant \<open>transport.GRPC\<close>.
\<close>

definition nil_panic :: "'a run" where
  "nil_panic = Panics ''invalid memory address or nil pointer dereference''"

definition type_assert_panic :: "'a run" where
  "type_assert_panic = Panics ''interface conversion''"

subsection \<open>Matching\<close>

definition routeMatched :: "lib \<Rightarrow> string \<Rightarrow> (string, string) gomap \<Rightarrow> Route \<Rightarrow> bool" where
  "routeMatched L path md r =
     (case rt_Match r of None \<Rightarrow> False | Some m \<Rightarrow> MatchPath m path \<and> MatchMeta L m md)"

fun first_route :: "lib \<Rightarrow> string \<Rightarrow> (string, string) gomap \<Rightarrow> Route list \<Rightarrow> Route option" where
  "first_route L path md [] = None"
| "first_route L path md (r # rs) = (if routeMatched L path md r then Some r else first_route L path md rs)"

fun first_in_hosts :: "lib \<Rightarrow> string \<Rightarrow> (string, string) gomap \<Rightarrow> VirtualHost list \<Rightarrow> Route option" where
  "first_in_hosts L path md [] = None"
| "first_in_hosts L path md (vh # vhs) =
     (case first_route L path md (vh_Routes vh) of
        Some r \<Rightarrow> Some r
      | None \<Rightarrow> first_in_hosts L path md vhs)"

definition rpc_path :: "RPCInfo \<Rightarrow> string" where
  "rpc_path ri =
     (let svcName = (if ri_PackageName ri = '''' then ri_ServiceName ri
                     else ri_PackageName ri @ ''.'' @ ri_ServiceName ri)
      in ''/'' @ svcName @ ''/'' @ ri_MethodName ri)"

definition matchHTTPRoute :: "lib \<Rightarrow> (string, string) gomap \<Rightarrow> RPCInfo \<Rightarrow> RouteConfigResource \<Rightarrow> Route option" where
  "matchHTTPRoute L md ri routeConfig =
     (case rc_HTTPRouteConfig routeConfig of
        None \<Rightarrow> None
      | Some hosts \<Rightarrow> first_in_hosts L (rpc_path ri) md hosts)"

definition matchThriftRoute :: "lib \<Rightarrow> (string, string) gomap \<Rightarrow> EndpointInfo \<Rightarrow> RouteConfigResource \<Rightarrow> Route option" where
  "matchThriftRoute L md to routeConfig =
     (case rc_ThriftRouteConfig routeConfig of
        None \<Rightarrow> None
      | Some routes \<Rightarrow> first_route L (ei_Method to) md routes)"

text \<open>The last filter of each kind.\<close>

fun pick_filters :: "NetworkFilter list \<Rightarrow> NetworkFilter option \<Rightarrow> NetworkFilter option \<Rightarrow>
    NetworkFilter option \<times> NetworkFilter option" where
  "pick_filters [] httpFilter thriftFilter = (httpFilter, thriftFilter)"
| "pick_filters (f # fs) httpFilter thriftFilter =
     (case nf_FilterType f of
        NetworkFilterTypeHTTP \<Rightarrow> pick_filters fs (Some f) thriftFilter
      | NetworkFilterTypeThrift \<Rightarrow> pick_filters fs httpFilter (Some f))"

text \<open>
  \<open>matchRoute\<close> after the listener is known, up to the route it finds inline: \<open>Inl\<close> is an error,
  \<open>Inr (Inl name)\<close> the name of the route configuration to fetch.
\<close>

definition match_inline ::
  "lib \<Rightarrow> int \<Rightarrow> (string, string) gomap \<Rightarrow> RPCInfo \<Rightarrow> EndpointInfo \<Rightarrow> ListenerResource \<Rightarrow> string + (string + Route)" where
  "match_inline L grpc md ri to listener =
     (let (httpFilter, thriftFilter) = pick_filters (lr_NetworkFilters listener) None None;
          thrift = (if ri_TransportProtocol ri \<noteq> grpc then
                      (case Option.bind thriftFilter nf_InlineRouteConfig of
                         None \<Rightarrow> None
                       | Some rcfg \<Rightarrow> matchThriftRoute L md to rcfg)
                    else None)
      in case thrift of
           Some r \<Rightarrow> Inr (Inr r)
         | None \<Rightarrow>
             (case httpFilter of
                None \<Rightarrow> Inl (''no http filter found in listener '' @ ei_ServiceName to)
              | Some f \<Rightarrow>
                  (case Option.bind (nf_InlineRouteConfig f) (matchHTTPRoute L md ri) of
                     Some r \<Rightarrow> Inr (Inr r)
                   | None \<Rightarrow> Inr (Inl (nf_RouteConfigName f)))))"

definition matchRoute ::
  "lib \<Rightarrow> int \<Rightarrow> 's getter \<Rightarrow> (string, string) gomap \<Rightarrow> RPCInfo \<Rightarrow> 's \<Rightarrow> ((string + Route) \<times> 's) run" where
  "matchRoute L grpc get md ri s =
     (case ri_To ri of
        None \<Rightarrow> nil_panic
      | Some to \<Rightarrow>
          run_bind (get ListenerType (ei_ServiceName to) s) (\<lambda>(lds, s).
            case lds of
              GetErr err \<Rightarrow> Returns (Inl (''get listener failed: '' @ err), s)
            | GetOk (Some (ResListener (Some listener))) \<Rightarrow>
                (case match_inline L grpc md ri to listener of
                   Inl err \<Rightarrow> Returns (Inl err, s)
                 | Inr (Inr r) \<Rightarrow> Returns (Inr r, s)
                 | Inr (Inl name) \<Rightarrow>
                     run_bind (get RouteConfigType name s) (\<lambda>(rds, s).
                       case rds of
                         GetErr err \<Rightarrow> Returns (Inl (''get route failed: '' @ err), s)
                       | GetOk (Some (ResRouteConfig (Some rcfg))) \<Rightarrow>
                           (case matchHTTPRoute L md ri rcfg of
                              Some rt \<Rightarrow> Returns (Inr rt, s)
                            | None \<Rightarrow> Returns (Inl ''no matched route'', s))
                       | GetOk (Some (ResRouteConfig None)) \<Rightarrow> nil_panic
                       | GetOk _ \<Rightarrow> type_assert_panic))
            | GetOk (Some (ResListener None)) \<Rightarrow> nil_panic
            | GetOk _ \<Rightarrow> type_assert_panic))"

subsection \<open>Picking a cluster\<close>

fun calTotalWeight_loop :: "32 word \<Rightarrow> WeightedCluster list \<Rightarrow> 32 word" where
  "calTotalWeight_loop tot [] = tot"
| "calTotalWeight_loop tot (wc # wcs) = calTotalWeight_loop (tot + wc_Weight wc) wcs"

definition calTotalWeight :: "WeightedCluster list \<Rightarrow> 32 word" where
  "calTotalWeight wcs = calTotalWeight_loop 0 wcs"

fun pick_loop :: "32 word \<Rightarrow> 32 word \<Rightarrow> WeightedCluster list \<Rightarrow> string + string" where
  "pick_loop currWeight targetWeight [] = Inl ''random pick failed''"
| "pick_loop currWeight targetWeight (wc # wcs) =
     (let currWeight = currWeight + wc_Weight wc
      in if currWeight \<ge> targetWeight then Inr (wc_Name wc) else pick_loop currWeight targetWeight wcs)"

definition pickCluster :: "(32 word \<Rightarrow> 32 word run) \<Rightarrow> (Route \<Rightarrow> string) \<Rightarrow> Route \<Rightarrow> (string + string) run" where
  "pickCluster int31n json route =
     (let wcs = rt_WeightedClusters route in
      if length wcs = 0 then Returns (Inl ''no weighted clusters in route'')
      else if length wcs = 1 then Returns (Inr (wc_Name (wcs ! 0)))
      else
        let totalWeight = calTotalWeight wcs in
        if totalWeight \<le> 0 then
          Returns (Inl (''total weight of route is invalid (<= 0), route: '' @ json route))
        else run_bind (int31n totalWeight) (\<lambda>targetWeight. Returns (pick_loop 0 targetWeight wcs)))"

subsection \<open>Route and the middleware\<close>

record RouteResult =
  rr_RPCTimeout :: Duration
  rr_ClusterPicked :: string

text \<open>What the router needs besides the manager.\<close>

record 'ctx XDSRouter =
  xr_lib :: lib
  xr_GRPC :: int
  xr_Int31n :: "32 word \<Rightarrow> 32 word run"
  xr_json :: "Route \<Rightarrow> string"
  xr_opts :: "'ctx SuiteOptions"

definition Route ::
  "'ctx XDSRouter \<Rightarrow> 's getter \<Rightarrow> 'ctx \<Rightarrow> RPCInfo \<Rightarrow> 's \<Rightarrow> ((string + RouteResult) \<times> 's) run" where
  "Route R get ctx ri s =
     run_bind (matchRoute (xr_lib R) (xr_GRPC R) get (so_routerMetaExtractor (xr_opts R) ctx) ri s) (\<lambda>(r, s).
       case r of
         Inl err \<Rightarrow> Returns (Inl (''[XDS] Router, no matched route for service '' @
             (case ri_To ri of None \<Rightarrow> '''' | Some to \<Rightarrow> ei_ServiceName to) @ '', err='' @ err), s)
       | Inr route \<Rightarrow>
           run_bind (pickCluster (xr_Int31n R) (xr_json R) route) (\<lambda>picked.
             case picked of
               Inl err \<Rightarrow> Returns (Inl (''[XDS] Router, no cluster selected, err='' @ err), s)
             | Inr cluster \<Rightarrow>
                 Returns (Inr \<lparr>rr_RPCTimeout = rt_Timeout route, rr_ClusterPicked = cluster\<rparr>, s)))"

datatype mw_result = CallNext "ri_call list" | ErrNoDestService | ErrRoute string

definition set_destination :: "RouteResult \<Rightarrow> ri_call list" where
  "set_destination res =
     [SetTag RouterClusterKey (rr_ClusterPicked res), SetTagLock RouterClusterKey, SetRPCTimeout (rr_RPCTimeout res)]"

definition RouterMiddleware ::
  "'ctx XDSRouter \<Rightarrow> 's getter \<Rightarrow> 'ctx \<Rightarrow> RPCInfo \<Rightarrow> 's \<Rightarrow> (mw_result \<times> 's) run" where
  "RouterMiddleware R get ctx ri s =
     (case ri_To ri of
        None \<Rightarrow> nil_panic
      | Some to \<Rightarrow>
          if snd (ei_Tag to RouterClusterKey) then Returns (CallNext [], s)
          else if ri_To ri = None then Returns (ErrNoDestService, s)
          else run_bind (Route R get ctx ri s) (\<lambda>(res, s).
            case res of
              Inl err \<Rightarrow> Returns (ErrRoute err, s)
            | Inr res \<Rightarrow> Returns (CallNext (set_destination res), s)))"

subsection \<open>Matching takes the first route that matches\<close>

lemma first_route_find: "first_route L path md rs = find (routeMatched L path md) rs"
  by (induction rs) auto

lemma find_append: "find P (xs @ ys) = (case find P xs of Some x \<Rightarrow> Some x | None \<Rightarrow> find P ys)"
  by (induction xs) auto

lemma first_in_hosts_find:
  "first_in_hosts L path md vhs = find (routeMatched L path md) (concat (map vh_Routes vhs))"
  by (induction vhs) (auto simp: first_route_find find_append split: option.split)

lemma pick_filters_last:
  "pick_filters fs h t =
     (case filter (\<lambda>f. nf_FilterType f = NetworkFilterTypeHTTP) fs of [] \<Rightarrow> h | xs \<Rightarrow> Some (last xs),
      case filter (\<lambda>f. nf_FilterType f = NetworkFilterTypeThrift) fs of [] \<Rightarrow> t | xs \<Rightarrow> Some (last xs))"
  by (induction fs h t rule: pick_filters.induct)
    (auto split: NetworkFilterType.split list.split)

subsection \<open>Weights\<close>

abbreviation weights :: "WeightedCluster list \<Rightarrow> nat" where
  "weights wcs \<equiv> sum_list (map (\<lambda>wc. unat (wc_Weight wc)) wcs)"

lemma unat_add_no_overflow: "unat a + unat b < 2 ^ 32 \<Longrightarrow> unat (a + b) = unat a + unat b" for a b :: "32 word"
  by (simp add: unat_word_ariths)

lemma calTotalWeight_loop_mod: "unat (calTotalWeight_loop t wcs) = (unat t + weights wcs) mod 2 ^ 32"
proof (induction t wcs rule: calTotalWeight_loop.induct)
  case (1 t)
  have "unat t < 2 ^ 32" using unsigned_less [where 'a = nat, of t] by simp
  then show ?case by simp
next
  case (2 t wc wcs)
  then show ?case by (simp add: unat_word_ariths mod_add_left_eq add.assoc)
qed

lemma calTotalWeight_mod: "unat (calTotalWeight wcs) = weights wcs mod 2 ^ 32"
  by (simp add: calTotalWeight_def calTotalWeight_loop_mod)

text \<open>The loop finds the first cluster at which the running sum reaches the target.\<close>

lemma pick_loop_index:
  assumes "unat cur + weights wcs < 2 ^ 32" and "unat t \<le> unat cur + weights wcs" and "wcs \<noteq> []"
  shows "\<exists>i < length wcs. pick_loop cur t wcs = Inr (wc_Name (wcs ! i)) \<and>
    unat t \<le> unat cur + weights (take (Suc i) wcs) \<and> (\<forall>j < i. unat cur + weights (take (Suc j) wcs) < unat t)"
  using assms
proof (induction cur t wcs rule: pick_loop.induct)
  case (2 cur t wc wcs)
  have cur: "unat (cur + wc_Weight wc) = unat cur + unat (wc_Weight wc)"
    using "2.prems"(1) by (intro unat_add_no_overflow) simp
  show ?case
  proof (cases "t \<le> cur + wc_Weight wc")
    case True
    then have "unat t \<le> unat cur + unat (wc_Weight wc)" using cur by (simp add: word_le_nat_alt)
    with True show ?thesis by (intro exI [of _ 0]) simp
  next
    case False
    then have lt: "unat cur + unat (wc_Weight wc) < unat t" using cur by (simp add: word_le_nat_alt)
    with "2.prems" have "wcs \<noteq> []" by auto
    with "2.IH" [OF refl False] "2.prems" cur obtain i where
      i: "i < length wcs" "pick_loop (cur + wc_Weight wc) t wcs = Inr (wc_Name (wcs ! i))"
      "unat t \<le> unat cur + unat (wc_Weight wc) + weights (take (Suc i) wcs)"
      "\<And>j. j < i \<Longrightarrow> unat cur + unat (wc_Weight wc) + weights (take (Suc j) wcs) < unat t"
      by auto
    have "unat cur + weights (take (Suc j) (wc # wcs)) < unat t" if "j < Suc i" for j
      using that lt i(4) [of "j - 1"] by (cases j) (auto simp: add.assoc)
    with i False show ?thesis by (intro exI [of _ "Suc i"]) (simp add: add.assoc)
  qed
qed simp

text \<open>The documented behaviour of \<open>fastrand.Int31n\<close>: a value below a positive bound, else a panic.\<close>

definition int31n_ok :: "(32 word \<Rightarrow> 32 word run) \<Rightarrow> bool" where
  "int31n_ok int31n \<longleftrightarrow>
     (\<forall>n. if 0 < sint n then (\<exists>v. int31n n = Returns v \<and> unat v < unat n) else (\<exists>p. int31n n = Panics p))"

lemma sint_small:
  fixes n :: "32 word"
  assumes "unat n < 2 ^ 31"
  shows "sint n = int (unat n)"
proof -
  have "uint n < 2 ^ 31" using assms by (metis of_nat_less_iff of_nat_numeral of_nat_power uint_nat)
  moreover have "- (2 ^ 31) \<le> uint n" by (rule order_trans [of _ 0]) simp_all
  ultimately have "signed_take_bit 31 (uint n) = uint n" by (intro signed_take_bit_int_eq_self)
  then show ?thesis by (simp add: sint_uint)
qed

lemma sint_large:
  fixes n :: "32 word"
  assumes "2 ^ 31 \<le> unat n"
  shows "sint n < 0"
proof -
  have "unat n < 2 ^ 32" using unsigned_less [where 'a = nat, of n] by simp
  with assms have "unat n div 2 ^ 31 = 1" by (intro div_nat_eqI) simp_all
  then have "uint n div 2 ^ 31 = 1" by (metis of_nat_1 of_nat_numeral of_nat_power uint_nat zdiv_int)
  then show ?thesis by (simp add: sint_uint signed_take_bit_negative_iff bit_iff_odd)
qed

lemma pickCluster_draw:
  assumes "int31n_ok int31n" and "2 \<le> length wcs" and "0 < weights wcs" and "weights wcs < 2 ^ 31"
    and "wcs = rt_WeightedClusters route"
  obtains t where "unat t < weights wcs" and "pickCluster int31n json route = Returns (pick_loop 0 t wcs)"
proof -
  have total: "unat (calTotalWeight wcs) = weights wcs" using assms(4) by (simp add: calTotalWeight_mod)
  then have "0 < sint (calTotalWeight wcs)" using assms(3,4) by (subst sint_small) simp_all
  then obtain t where "int31n (calTotalWeight wcs) = Returns t" "unat t < weights wcs"
    using assms(1) total unfolding int31n_ok_def by metis
  moreover have "\<not> calTotalWeight wcs \<le> 0" using assms(3) by (simp only: word_le_nat_alt total unsigned_0 not_le)
  moreover have "wcs \<noteq> []" "length wcs \<noteq> 1" using assms(2) by auto
  ultimately have "pickCluster int31n json route = Returns (pick_loop 0 t wcs)"
    unfolding pickCluster_def Let_def assms(5) [symmetric] by simp
  with \<open>unat t < weights wcs\<close> show thesis by (rule that)
qed

subsection \<open>Shares\<close>

lemma weights_take_mono: "i \<le> j \<Longrightarrow> weights (take i wcs) \<le> weights (take j wcs)"
proof -
  assume "i \<le> j"
  then have "take j wcs = take i wcs @ take (j - i) (drop i wcs)" by (metis le_add_diff_inverse take_add)
  then show ?thesis by simp
qed

lemma weights_take_le: "weights (take i wcs) \<le> weights wcs"
  using weights_take_mono [of i "max i (length wcs)" wcs] by simp

lemma weights_take_Suc: "i < length wcs \<Longrightarrow> weights (take (Suc i) wcs) = weights (take i wcs) + unat (wc_Weight (wcs ! i))"
  by (simp add: take_Suc_conv_app_nth)

text \<open>The targets at which position \<open>i\<close> is picked.\<close>

lemma picked_at_iff:
  assumes "weights wcs < 2 ^ 32" and "distinct (map wc_Name wcs)" and "i < length wcs" and "t < weights wcs"
  shows "pick_loop 0 (word_of_nat t) wcs = Inr (wc_Name (wcs ! i)) \<longleftrightarrow>
    (i = 0 \<or> weights (take i wcs) < t) \<and> t \<le> weights (take (Suc i) wcs)"
proof -
  have t: "unat (word_of_nat t :: 32 word) = t" using assms(1,4) by (simp add: unat_of_nat)
  have "unat (0 :: 32 word) + weights wcs < 2 ^ 32" "t \<le> unat (0 :: 32 word) + weights wcs" "wcs \<noteq> []"
    using assms(1,3,4) by auto
  from pick_loop_index [OF this(1) _ this(3), of "word_of_nat t", unfolded t, OF this(2)] obtain k where
    k: "k < length wcs" "pick_loop 0 (word_of_nat t) wcs = Inr (wc_Name (wcs ! k))"
      "t \<le> weights (take (Suc k) wcs)" "\<And>j. j < k \<Longrightarrow> weights (take (Suc j) wcs) < t"
    unfolding unsigned_0 add_0 by blast
  have "wc_Name (wcs ! k) = wc_Name (wcs ! i) \<longleftrightarrow> k = i"
    using assms(2,3) k(1) nth_eq_iff_index_eq [of "map wc_Name wcs" k i] by simp
  moreover have "k = i \<longleftrightarrow> (i = 0 \<or> weights (take i wcs) < t) \<and> t \<le> weights (take (Suc i) wcs)"
  proof
    assume ki: "k = i"
    then show "(i = 0 \<or> weights (take i wcs) < t) \<and> t \<le> weights (take (Suc i) wcs)"
      using k(3) k(4) [of "i - 1"] by (cases i) auto
  next
    assume r: "(i = 0 \<or> weights (take i wcs) < t) \<and> t \<le> weights (take (Suc i) wcs)"
    have "\<not> i < k" using k(4) [of i] r by auto
    moreover have "\<not> k < i" using weights_take_mono [of "Suc k" i wcs] k(3) r by auto
    ultimately show "k = i" by simp
  qed
  ultimately show ?thesis using k(2) by simp
qed

text \<open>C24: how often the random draw picks each cluster. Of the equally likely targets (as many as the
  total weight) the first cluster gets one more than its weight, the cluster at which the total is
  reached one less, and every other exactly its weight: the shares are off by one target from the
  configured weights.\<close>

theorem pickCluster_shares:
  assumes "weights wcs < 2 ^ 32" and "distinct (map wc_Name wcs)" and "i < length wcs"
  shows "card {t. t < weights wcs \<and> pick_loop 0 (word_of_nat t) wcs = Inr (wc_Name (wcs ! i))} =
    (if i = 0 then min (weights wcs) (unat (wc_Weight (wcs ! 0)) + 1)
     else if weights (take (Suc i) wcs) < weights wcs then unat (wc_Weight (wcs ! i))
     else unat (wc_Weight (wcs ! i)) - 1)"
proof -
  let ?S = "{t. t < weights wcs \<and> pick_loop 0 (word_of_nat t) wcs = Inr (wc_Name (wcs ! i))}"
  have S: "?S = {t. t < weights wcs \<and> (i = 0 \<or> weights (take i wcs) < t) \<and> t \<le> weights (take (Suc i) wcs)}"
    using picked_at_iff [OF assms] by blast
  note suc = weights_take_Suc [OF assms(3)]
  show ?thesis
  proof (cases "i = 0")
    case True
    with suc have "?S = {..< min (weights wcs) (unat (wc_Weight (wcs ! 0)) + 1)}" unfolding S by auto
    with True show ?thesis by simp
  next
    case False
    have "?S = {weights (take i wcs) <..< min (weights wcs) (Suc (weights (take (Suc i) wcs)))}"
      unfolding S using False by auto
    then have "card ?S = min (weights wcs) (Suc (weights (take (Suc i) wcs))) - Suc (weights (take i wcs))"
      by simp
    with False suc weights_take_le [of "Suc i" wcs] show ?thesis
      by (cases "weights (take (Suc i) wcs) < weights wcs") simp_all
  qed
qed

text \<open>Two clusters of weight one, in every draw the random generator allows: the first is always
  picked and the second never gets a request.\<close>

theorem pickCluster_even_split:
  assumes "int31n_ok int31n"
    and "rt_WeightedClusters route = [\<lparr>wc_Name = a, wc_Weight = 1\<rparr>, \<lparr>wc_Name = b, wc_Weight = 1\<rparr>]"
  shows "pickCluster int31n json route = Returns (Inr a)"
proof -
  let ?wcs = "[\<lparr>wc_Name = a, wc_Weight = 1\<rparr>, \<lparr>wc_Name = b, wc_Weight = 1\<rparr>] :: WeightedCluster list"
  have w: "weights ?wcs = 2" by simp
  obtain t where t: "unat t < weights ?wcs" "pickCluster int31n json route = Returns (pick_loop 0 t ?wcs)"
    by (rule pickCluster_draw [OF assms(1), of ?wcs route json]) (simp_all add: assms(2))
  from t(1) have "t \<le> 1" unfolding w by (simp add: word_le_nat_alt)
  with t(2) show ?thesis by simp
qed

theorem pickCluster_shares_witness:
  "card {t. t < (2::nat) \<and> pick_loop 0 (word_of_nat t)
     [\<lparr>wc_Name = ''a'', wc_Weight = 1\<rparr>, \<lparr>wc_Name = ''b'', wc_Weight = 1\<rparr>] = Inr ''b''} = 0"
  using pickCluster_shares [of "[\<lparr>wc_Name = ''a'', wc_Weight = 1\<rparr>, \<lparr>wc_Name = ''b'', wc_Weight = 1\<rparr>]" 1]
  by simp

definition example_int31n :: "32 word \<Rightarrow> 32 word run" where
  "example_int31n n = (if 0 < sint n then Returns (n - 1) else Panics ''invalid argument to Int31n'')"

lemma example_int31n_ok: "int31n_ok example_int31n"
proof -
  have "unat (n - 1) < unat n" if "0 < sint n" for n :: "32 word"
  proof -
    from that have "n \<noteq> 0" by auto
    then show ?thesis by (simp add: unat_minus_one unat_gt_0 [symmetric])
  qed
  then show ?thesis by (simp add: int31n_ok_def example_int31n_def)
qed

theorem pickCluster_even_split_witness:
  "pickCluster example_int31n (\<lambda>_. '''')
     (zero_Route\<lparr>rt_WeightedClusters := [\<lparr>wc_Name = ''a'', wc_Weight = 1\<rparr>, \<lparr>wc_Name = ''b'', wc_Weight = 1\<rparr>]\<rparr>) =
   Returns (Inr ''a'')"
  by (rule pickCluster_even_split [OF example_int31n_ok]) simp

text \<open>C25: the pick never fails for a valid route. With at least two clusters and a total weight between
  1 and \<open>2^31 - 1\<close> one of the clusters is returned: the first whose cumulated weight reaches the target,
  for some target below the total.\<close>

theorem pickCluster_total:
  assumes "int31n_ok int31n" and "2 \<le> length (rt_WeightedClusters route)"
    and "0 < weights (rt_WeightedClusters route)" and "weights (rt_WeightedClusters route) < 2 ^ 31"
  shows "\<exists>t i. t < weights (rt_WeightedClusters route) \<and> i < length (rt_WeightedClusters route) \<and>
    pickCluster int31n json route = Returns (Inr (wc_Name (rt_WeightedClusters route ! i))) \<and>
    t \<le> weights (take (Suc i) (rt_WeightedClusters route)) \<and>
    (\<forall>j < i. weights (take (Suc j) (rt_WeightedClusters route)) < t)"
proof -
  let ?wcs = "rt_WeightedClusters route"
  obtain t where t: "unat t < weights ?wcs" "pickCluster int31n json route = Returns (pick_loop 0 t ?wcs)"
    by (rule pickCluster_draw [OF assms refl])
  have "unat (0 :: 32 word) + weights ?wcs < 2 ^ 32" "unat t \<le> unat (0 :: 32 word) + weights ?wcs" "?wcs \<noteq> []"
    using assms t(1) by auto
  from pick_loop_index [OF this] t show ?thesis unfolding unsigned_0 add_0 by auto
qed

theorem pickCluster_total_witness:
  "pickCluster example_int31n (\<lambda>_. '''')
     (zero_Route\<lparr>rt_WeightedClusters := [\<lparr>wc_Name = ''a'', wc_Weight = 30\<rparr>, \<lparr>wc_Name = ''b'', wc_Weight = 70\<rparr>]\<rparr>)
   \<in> {Returns (Inr ''a''), Returns (Inr ''b'')}"
proof -
  let ?r = "zero_Route\<lparr>rt_WeightedClusters := [\<lparr>wc_Name = ''a'', wc_Weight = 30\<rparr>, \<lparr>wc_Name = ''b'', wc_Weight = 70\<rparr>]\<rparr>"
  obtain i where i: "i < Suc (Suc 0)"
    "pickCluster example_int31n (\<lambda>_. '''') ?r = Returns (Inr (wc_Name (rt_WeightedClusters ?r ! i)))"
    using pickCluster_total [OF example_int31n_ok, of ?r "\<lambda>_. ''''"] by auto
  from i(1) have "i = 0 \<or> i = 1" by auto
  with i(2) show ?thesis by auto
qed

text \<open>C38: totals out of range. The total is computed modulo \<open>2^32\<close>; a total from \<open>2^31\<close> to \<open>2^32 - 1\<close>
  is negative as the \<open>int32\<close> given to \<open>Int31n\<close>, which panics, and a total that wraps to 0 is reported as
  an invalid weight.\<close>

theorem pickCluster_total_out_of_range:
  assumes "int31n_ok int31n" and "2 \<le> length (rt_WeightedClusters route)"
    and "2 ^ 31 \<le> weights (rt_WeightedClusters route)" and "weights (rt_WeightedClusters route) \<le> 2 ^ 32"
  shows "if weights (rt_WeightedClusters route) = 2 ^ 32
    then pickCluster int31n json route =
      Returns (Inl (''total weight of route is invalid (<= 0), route: '' @ json route))
    else \<exists>p. pickCluster int31n json route = Panics p"
proof -
  let ?wcs = "rt_WeightedClusters route" and ?T = "calTotalWeight (rt_WeightedClusters route)"
  have ne: "?wcs \<noteq> []" "length ?wcs \<noteq> 1" using assms(2) by auto
  show ?thesis
  proof (cases "weights ?wcs = 2 ^ 32")
    case True
    then have "unat ?T = 0" by (simp only: calTotalWeight_mod) simp
    then have "?T = 0" by (simp only: unat_eq_zero)
    with True ne show ?thesis by (simp add: pickCluster_def Let_def)
  next
    case False
    then have T: "unat ?T = weights ?wcs" using assms(4) by (simp only: calTotalWeight_mod) simp
    with assms(3) have "sint ?T < 0" by (intro sint_large) simp
    then obtain p where "int31n ?T = Panics p" using assms(1) unfolding int31n_ok_def by (metis less_asym)
    moreover have "0 < weights ?wcs" using assms(3) by (rule less_le_trans [rotated]) simp
    then have "\<not> ?T \<le> 0" by (simp only: word_le_nat_alt T unsigned_0 not_le not_False_eq_True)
    ultimately show ?thesis using ne False by (simp add: pickCluster_def Let_def)
  qed
qed

theorem pickCluster_total_out_of_range_witness:
  "\<exists>p. pickCluster example_int31n (\<lambda>_. '''')
     (zero_Route\<lparr>rt_WeightedClusters := [\<lparr>wc_Name = ''a'', wc_Weight = 0x40000000\<rparr>, \<lparr>wc_Name = ''b'', wc_Weight = 0x40000000\<rparr>]\<rparr>) = Panics p"
  using pickCluster_total_out_of_range [OF example_int31n_ok,
      of "zero_Route\<lparr>rt_WeightedClusters := [\<lparr>wc_Name = ''a'', wc_Weight = 0x40000000\<rparr>, \<lparr>wc_Name = ''b'', wc_Weight = 0x40000000\<rparr>]\<rparr>"
        "\<lambda>_. ''''"]
  by simp

subsection \<open>The route of a request\<close>

text \<open>
  The reference: the routes of a listener that apply to a request, in the order in which they are
  tried. A gRPC request skips the thrift routes.
\<close>

definition last_filter :: "NetworkFilterType \<Rightarrow> ListenerResource \<Rightarrow> NetworkFilter option" where
  "last_filter ty listener =
     (case filter (\<lambda>f. nf_FilterType f = ty) (lr_NetworkFilters listener) of [] \<Rightarrow> None | fs \<Rightarrow> Some (last fs))"

definition thrift_candidates :: "lib \<Rightarrow> (string, string) gomap \<Rightarrow> EndpointInfo \<Rightarrow> ListenerResource \<Rightarrow> Route list" where
  "thrift_candidates L md to listener =
     filter (routeMatched L (ei_Method to) md)
       (case Option.bind (Option.bind (last_filter NetworkFilterTypeThrift listener) nf_InlineRouteConfig) rc_ThriftRouteConfig of
          None \<Rightarrow> [] | Some rs \<Rightarrow> rs)"

definition http_candidates :: "lib \<Rightarrow> (string, string) gomap \<Rightarrow> RPCInfo \<Rightarrow> RouteConfigResource option \<Rightarrow> Route list" where
  "http_candidates L md ri rcfg =
     filter (routeMatched L (rpc_path ri) md)
       (case Option.bind rcfg rc_HTTPRouteConfig of None \<Rightarrow> [] | Some vhs \<Rightarrow> concat (map vh_Routes vhs))"

lemma find_filter: "find P xs = (case filter P xs of [] \<Rightarrow> None | x # _ \<Rightarrow> Some x)"
  by (induction xs) auto

lemma matchHTTPRoute_candidates:
  "matchHTTPRoute L md ri rcfg = (case http_candidates L md ri (Some rcfg) of [] \<Rightarrow> None | r # _ \<Rightarrow> Some r)"
  by (auto simp: matchHTTPRoute_def http_candidates_def first_in_hosts_find find_filter split: option.split)

lemma matchThriftRoute_candidates:
  assumes "Option.bind (last_filter NetworkFilterTypeThrift listener) nf_InlineRouteConfig = Some rcfg"
  shows "matchThriftRoute L md to rcfg = (case thrift_candidates L md to listener of [] \<Rightarrow> None | r # _ \<Rightarrow> Some r)"
  using assms by (auto simp: matchThriftRoute_def thrift_candidates_def first_route_find find_filter split: option.split)

lemma pick_filters_last_filter:
  "pick_filters (lr_NetworkFilters l) None None = (last_filter NetworkFilterTypeHTTP l, last_filter NetworkFilterTypeThrift l)"
  by (simp add: pick_filters_last last_filter_def)

lemma match_inline_candidates:
  "match_inline L grpc md ri to listener =
     (case (if ri_TransportProtocol ri = grpc then [] else thrift_candidates L md to listener) @
         http_candidates L md ri (Option.bind (last_filter NetworkFilterTypeHTTP listener) nf_InlineRouteConfig) of
        r # _ \<Rightarrow> Inr (Inr r)
      | [] \<Rightarrow> (case last_filter NetworkFilterTypeHTTP listener of
            Some f \<Rightarrow> Inr (Inl (nf_RouteConfigName f))
          | None \<Rightarrow> Inl (''no http filter found in listener '' @ ei_ServiceName to)))"
proof -
  have h: "Option.bind (nf_InlineRouteConfig f) (matchHTTPRoute L md ri) =
      (case http_candidates L md ri (nf_InlineRouteConfig f) of [] \<Rightarrow> None | r # _ \<Rightarrow> Some r)" for f
    by (cases "nf_InlineRouteConfig f") (simp_all add: matchHTTPRoute_candidates http_candidates_def)
  have n: "http_candidates L md ri None = []" by (simp add: http_candidates_def)
  have t: "(case Option.bind (last_filter NetworkFilterTypeThrift listener) nf_InlineRouteConfig of
      None \<Rightarrow> None | Some rcfg \<Rightarrow> matchThriftRoute L md to rcfg) =
      (case thrift_candidates L md to listener of [] \<Rightarrow> None | r # _ \<Rightarrow> Some r)"
    by (cases "Option.bind (last_filter NetworkFilterTypeThrift listener) nf_InlineRouteConfig")
      (simp_all add: matchThriftRoute_candidates thrift_candidates_def)
  show ?thesis
    unfolding match_inline_def pick_filters_last_filter Let_def prod.case t
    by (cases "last_filter NetworkFilterTypeHTTP listener") (auto simp: h n split: list.split)
qed

text \<open>C22: the route of a request within a listener. It is the first matching route among the thrift
  routes of the last thrift filter (not for gRPC), then among the inline HTTP routes of the last HTTP
  filter; if none matches, the route configuration named by that HTTP filter is asked for, and a
  listener without HTTP filter is an error.\<close>

theorem match_inline_spec:
  "match_inline L grpc md ri to listener =
     (case (if ri_TransportProtocol ri = grpc then [] else thrift_candidates L md to listener) @
         http_candidates L md ri (Option.bind (last_filter NetworkFilterTypeHTTP listener) nf_InlineRouteConfig) of
        r # _ \<Rightarrow> Inr (Inr r)
      | [] \<Rightarrow> (case last_filter NetworkFilterTypeHTTP listener of
            Some f \<Rightarrow> Inr (Inl (nf_RouteConfigName f))
          | None \<Rightarrow> Inl (''no http filter found in listener '' @ ei_ServiceName to)))"
  by (rule match_inline_candidates)

text \<open>\<open>Get\<close> answers without an error and with nothing that can be dereferenced.\<close>

definition nil_answer :: "'s getter \<Rightarrow> ResourceType \<Rightarrow> string \<Rightarrow> 's \<Rightarrow> bool" where
  "nil_answer get rt n s \<longleftrightarrow>
     (case get rt n s of
        Returns (GetOk r, s') \<Rightarrow> r \<in> {None, Some (ResListener None), Some (ResRouteConfig None), Some (ResCluster None)}
      | _ \<Rightarrow> False)"

lemma has_typeE:
  "resource_has_type ListenerType r \<Longrightarrow> \<exists>x. r = ResListener x"
  "resource_has_type RouteConfigType r \<Longrightarrow> \<exists>x. r = ResRouteConfig x"
  "resource_has_type ClusterType r \<Longrightarrow> \<exists>x. r = ResCluster x"
  "resource_has_type EndpointsType r \<Longrightarrow> \<exists>x. r = ResEndpoints x"
  by (cases r; simp)+

context xds_resource_manager
begin

lemma route_config_panics:
  assumes "inv s"
  shows "(\<exists>p. run_bind (get RouteConfigType name s) (\<lambda>(rds, s). case rds of
        GetErr err \<Rightarrow> Returns (Inl (''get route failed: '' @ err), s)
      | GetOk (Some (ResRouteConfig (Some rcfg))) \<Rightarrow>
          (case matchHTTPRoute L md ri rcfg of Some rt \<Rightarrow> Returns (Inr rt, s) | None \<Rightarrow> Returns (Inl ''no matched route'', s))
      | GetOk (Some (ResRouteConfig None)) \<Rightarrow> nil_panic
      | GetOk _ \<Rightarrow> type_assert_panic) = Panics p) \<longleftrightarrow> nil_answer get RouteConfigType name s"
  using assms
proof (cases rule: get_cases [where rt = RouteConfigType and n = name])
  case (Ok r s')
  then obtain x where "r = ResRouteConfig x" using has_typeE(2) by blast
  with Ok show ?thesis by (cases x) (auto simp: nil_answer_def nil_panic_def split: option.split)
qed (auto simp: nil_answer_def type_assert_panic_def)

text \<open>With the interface's contract the match panics exactly on a nil listener or a nil route configuration.\<close>

lemma matchRoute_panics_iff:
  assumes "inv s" and to: "ri_To ri = Some to"
  shows "(\<exists>p. matchRoute L grpc get md ri s = Panics p) \<longleftrightarrow>
    nil_answer get ListenerType (ei_ServiceName to) s \<or>
    (\<exists>l s1 name. get ListenerType (ei_ServiceName to) s = Returns (GetOk (Some (ResListener (Some l))), s1) \<and>
       match_inline L grpc md ri to l = Inr (Inl name) \<and> nil_answer get RouteConfigType name s1)"
  using assms(1)
proof (cases rule: get_cases [where rt = ListenerType and n = "ei_ServiceName to"])
  case (Ok r s')
  then obtain x where r: "r = ResListener x" using has_typeE(1) by blast
  show ?thesis
  proof (cases x)
    case None
    with Ok r show ?thesis by (simp add: matchRoute_def to nil_answer_def nil_panic_def)
  next
    case (Some l)
    note rc = route_config_panics [OF Ok(3), of _ L md ri]
    show ?thesis
    proof (cases "match_inline L grpc md ri to l")
      case (Inr x)
      with rc Ok(1) r Some show ?thesis by (cases x) (simp_all add: matchRoute_def to nil_answer_def [of _ ListenerType])
    qed (use Ok(1) r Some in \<open>simp add: matchRoute_def to nil_answer_def\<close>)
  qed
qed (auto simp: matchRoute_def to nil_answer_def type_assert_panic_def)

end

text \<open>The middleware. A request whose destination already carries the cluster tag goes on
  untouched and without a lookup. Otherwise a routed request goes on with the picked cluster as a locked
  tag and the timeout of its route, and a routing error is returned without calling on. A request without
  destination panics before the check for it: \<open>ErrNoDestService\<close> is never returned.\<close>

theorem RouterMiddleware_spec:
  "(case ri_To ri of
      None \<Rightarrow> \<exists>p. RouterMiddleware R get ctx ri s = Panics p
    | Some to \<Rightarrow>
        if snd (ei_Tag to RouterClusterKey) then RouterMiddleware R get ctx ri s = Returns (CallNext [], s)
        else (case Route R get ctx ri s of
                Returns (Inr res, s') \<Rightarrow> RouterMiddleware R get ctx ri s = Returns (CallNext
                  [SetTag RouterClusterKey (rr_ClusterPicked res), SetTagLock RouterClusterKey,
                   SetRPCTimeout (rr_RPCTimeout res)], s')
              | Returns (Inl err, s') \<Rightarrow> RouterMiddleware R get ctx ri s = Returns (ErrRoute err, s')
              | Blocks \<Rightarrow> RouterMiddleware R get ctx ri s = Blocks
              | Panics p \<Rightarrow> RouterMiddleware R get ctx ri s = Panics p)) \<and>
   RouterMiddleware R get ctx ri s \<noteq> Returns (ErrNoDestService, s'')"
  by (auto simp: RouterMiddleware_def nil_panic_def set_destination_def split: option.split run.split sum.split)

text \<open>The router does not check for a nil listener. If \<open>Get\<close> answers with one, or with no value and
  no error, routing the request panics.\<close>

theorem nil_listener_panics:
  assumes "ri_To ri = Some to" and "\<not> snd (ei_Tag to RouterClusterKey)"
    and "get ListenerType (ei_ServiceName to) s = Returns (GetOk r, s')" and "r = None \<or> r = Some (ResListener None)"
  shows "\<exists>p. RouterMiddleware R get ctx ri s = Panics p"
  using assms
  by (auto simp: RouterMiddleware_def Route_def matchRoute_def nil_panic_def type_assert_panic_def)

definition example_ri :: RPCInfo where
  "example_ri = \<lparr>ri_To = Some \<lparr>ei_ServiceName = ''svc'', ei_Method = ''m'', ei_Tag = (\<lambda>_. ('''', False))\<rparr>,
     ri_PackageName = '''', ri_ServiceName = ''svc'', ri_MethodName = ''m'', ri_TransportProtocol = 0\<rparr>"

definition example_router :: "unit XDSRouter" where
  "example_router = \<lparr>xr_lib = example_lib, xr_GRPC = 4, xr_Int31n = example_int31n, xr_json = (\<lambda>_. ''''),
     xr_opts = NewSuiteOptions (\<lambda>_. []) []\<rparr>"

theorem nil_listener_panics_witness:
  "\<exists>p. RouterMiddleware example_router (\<lambda>rt n s. Returns (GetOk None, s)) () example_ri () = Panics p"
  by (rule nil_listener_panics [where to = "the (ri_To example_ri)" and r = None]) (simp_all add: example_ri_def)

end
