(* ===== verification/Resolver.thy ===== *)
theory Resolver
  imports Router
begin

text \<open>
  \<open>xdssuite/resolver.go\<close>: from a cluster name to the instances of its endpoints, through the
  manager's interface.
\<close>

record Instance =
  in_Network :: string
  in_Address :: string
  in_Weight :: int
  in_Tags :: "(string, string) gomap"

record Result =
  res_Cacheable :: bool
  res_CacheKey :: string
  res_Instances :: "Instance list"

definition Target :: "EndpointInfo \<Rightarrow> string" where
  "Target target =
     (case ei_Tag target RouterClusterKey of
        (dest, ok) \<Rightarrow> if \<not> ok then ei_ServiceName target else dest)"

text \<open>The end of \<open>getEndpoints\<close>: the endpoints of all localities, in order.\<close>

definition all_endpoints :: "string \<Rightarrow> EndpointsResource option \<Rightarrow> string + Endpoint list" where
  "all_endpoints desc endpoints =
     (case endpoints of
        None \<Rightarrow> Inl (''no endpoints for cluster: '' @ desc)
      | Some e \<Rightarrow>
          if length (er_Localities e) = 0 then Inl (''no endpoints for cluster: '' @ desc)
          else Inr (concat (er_Localities e)))"

definition getEndpoints :: "'s getter \<Rightarrow> string \<Rightarrow> 's \<Rightarrow> ((string + Endpoint list) \<times> 's) run" where
  "getEndpoints get desc s =
     run_bind (get ClusterType desc s) (\<lambda>(res, s).
       case res of
         GetErr err \<Rightarrow> Returns (Inl err, s)
       | GetOk (Some (ResCluster (Some cluster))) \<Rightarrow>
           (case cr_InlineEndpoints cluster of
              Some endpoints \<Rightarrow> Returns (all_endpoints desc (Some endpoints), s)
            | None \<Rightarrow>
                run_bind (get EndpointsType (cr_EndpointName cluster) s) (\<lambda>(resource, s).
                  case resource of
                    GetErr err \<Rightarrow> Returns (Inl err, s)
                  | GetOk (Some (ResEndpoints endpoints)) \<Rightarrow> Returns (all_endpoints desc endpoints, s)
                  | GetOk _ \<Rightarrow> type_assert_panic))
       | GetOk (Some (ResCluster None)) \<Rightarrow> nil_panic
       | GetOk _ \<Rightarrow> type_assert_panic)"

text \<open>\<open>discovery.NewInstance\<close> is given the address, the weight as an \<open>int\<close> and the tags.\<close>

definition to_instance :: "Endpoint \<Rightarrow> Instance" where
  "to_instance e =
     \<lparr>in_Network = Network (ep_addr e), in_Address = AddrString (ep_addr e),
      in_Weight = int (unat (ep_weight e)), in_Tags = ep_meta e\<rparr>"

definition Resolve :: "'s getter \<Rightarrow> string \<Rightarrow> 's \<Rightarrow> ((string + Result) \<times> 's) run" where
  "Resolve get desc s =
     run_bind (getEndpoints get desc s) (\<lambda>(eps, s).
       case eps of
         Inl err \<Rightarrow> Returns (Inl err, s)
       | Inr eps \<Rightarrow>
           Returns (Inr \<lparr>res_Cacheable = True, res_CacheKey = desc, res_Instances = map to_instance eps\<rparr>, s))"

text \<open>\<open>Diff\<close> is the framework's \<open>DefaultDiff\<close>, an argument.\<close>

definition Diff :: "(string \<Rightarrow> Result \<Rightarrow> Result \<Rightarrow> 'change \<times> bool) \<Rightarrow> string \<Rightarrow> Result \<Rightarrow> Result \<Rightarrow> 'change \<times> bool" where
  "Diff DefaultDiff cacheKey prev next_result = DefaultDiff cacheKey prev next_result"

definition resolver_Name :: string where
  "resolver_Name = ''xdsResolver''"

text \<open>A cluster resolves to all its endpoints: the inline ones if it has any, otherwise those of the
  endpoint resource it names, one instance per endpoint in the order of the localities, under the cluster
  name as cache key. A cluster or endpoint lookup that fails, or no locality, is an error.\<close>

theorem Resolve_spec:
  assumes "get ClusterType desc s = Returns (GetOk (Some (ResCluster (Some cluster))), s1)"
  shows "Resolve get desc s =
    (case cr_InlineEndpoints cluster of
       Some e \<Rightarrow> if er_Localities e = [] then Returns (Inl (''no endpoints for cluster: '' @ desc), s1)
         else Returns (Inr \<lparr>res_Cacheable = True, res_CacheKey = desc,
           res_Instances = concat (map (map to_instance) (er_Localities e))\<rparr>, s1)
     | None \<Rightarrow>
         (case get EndpointsType (cr_EndpointName cluster) s1 of
            Returns (GetErr err, s2) \<Rightarrow> Returns (Inl err, s2)
          | Returns (GetOk (Some (ResEndpoints (Some e))), s2) \<Rightarrow>
              if er_Localities e = [] then Returns (Inl (''no endpoints for cluster: '' @ desc), s2)
              else Returns (Inr \<lparr>res_Cacheable = True, res_CacheKey = desc,
                res_Instances = concat (map (map to_instance) (er_Localities e))\<rparr>, s2)
          | Returns (GetOk (Some (ResEndpoints None)), s2) \<Rightarrow> Returns (Inl (''no endpoints for cluster: '' @ desc), s2)
          | Returns (GetOk _, s2) \<Rightarrow> type_assert_panic
          | Blocks \<Rightarrow> Blocks
          | Panics p \<Rightarrow> Panics p))"
  using assms
  by (auto simp: Resolve_def getEndpoints_def all_endpoints_def map_concat type_assert_panic_def
      split: option.split run.split get_result.split Resource.split)

definition example_cluster :: ClusterResource where
  "example_cluster =
     \<lparr>cr_DiscoveryType = ClusterDiscoveryTypeEDS, cr_LbPolicy = ClusterLbRoundRobin, cr_EndpointName = ''e'',
      cr_InlineEndpoints = Some \<lparr>er_Localities = [[\<lparr>ep_addr = NewNetAddr ''tcp'' ''10.0.0.1:80'', ep_weight = 5, ep_meta = []\<rparr>]]\<rparr>,
      cr_OutlierDetection = None\<rparr>"

theorem Resolve_spec_witness:
  "Resolve (\<lambda>rt n s. Returns (GetOk (Some (ResCluster (Some example_cluster))), s)) ''c'' () =
     Returns (Inr \<lparr>res_Cacheable = True, res_CacheKey = ''c'',
       res_Instances = [\<lparr>in_Network = ''tcp'', in_Address = ''10.0.0.1:80'', in_Weight = 5, in_Tags = []\<rparr>]\<rparr>, ())"
  using Resolve_spec [of "\<lambda>rt n s. Returns (GetOk (Some (ResCluster (Some example_cluster))), s)" "''c''" "()" example_cluster "()"]
  by (simp add: example_cluster_def to_instance_def)

context xds_resource_manager
begin

lemma endpoints_panics:
  assumes "inv s"
  shows "(\<exists>p. run_bind (get EndpointsType name s) (\<lambda>(resource, s). case resource of
        GetErr err \<Rightarrow> Returns (Inl err, s)
      | GetOk (Some (ResEndpoints endpoints)) \<Rightarrow> Returns (all_endpoints desc endpoints, s)
      | GetOk _ \<Rightarrow> type_assert_panic) = Panics p) \<longleftrightarrow> nil_answer get EndpointsType name s"
  using assms
proof (cases rule: get_cases [where rt = EndpointsType and n = name])
  case (Ok r s')
  then obtain x where "r = ResEndpoints x" using has_typeE(4) by blast
  with Ok show ?thesis by (simp add: nil_answer_def)
qed (auto simp: nil_answer_def type_assert_panic_def)

text \<open>With the interface's contract exactly a nil cluster or missing endpoints make the resolver panic.\<close>

lemma getEndpoints_panics_iff:
  assumes "inv s"
  shows "(\<exists>p. getEndpoints get desc s = Panics p) \<longleftrightarrow>
    nil_answer get ClusterType desc s \<or>
    (\<exists>cl s1. get ClusterType desc s = Returns (GetOk (Some (ResCluster (Some cl))), s1) \<and>
       cr_InlineEndpoints cl = None \<and> nil_answer get EndpointsType (cr_EndpointName cl) s1)"
  using assms
proof (cases rule: get_cases [where rt = ClusterType and n = desc])
  case (Ok r s')
  then obtain x where r: "r = ResCluster x" using has_typeE(3) by blast
  show ?thesis
  proof (cases x)
    case None
    with Ok r show ?thesis by (simp add: getEndpoints_def nil_answer_def nil_panic_def)
  next
    case (Some cl)
    note e = endpoints_panics [OF Ok(3), of "cr_EndpointName cl" desc]
    show ?thesis
    proof (cases "cr_InlineEndpoints cl")
      case None
      with e Ok(1) r Some show ?thesis by (simp add: getEndpoints_def nil_answer_def [of _ ClusterType])
    qed (use Ok(1) r Some in \<open>simp add: getEndpoints_def nil_answer_def\<close>)
  qed
qed (auto simp: getEndpoints_def nil_answer_def type_assert_panic_def)

end

end
