(* ===== verification/EndToEnd.thy ===== *)
theory EndToEnd
  imports System Router Resolver
begin

text \<open>
  The components put together: a \<open>Get\<close> whose wait is filled by the receiver handling messages, as the
  provider of the interface that the router and the resolver use.
\<close>

definition notifier_closed :: "xdsResourceManager \<Rightarrow> nat \<Rightarrow> bool" where
  "notifier_closed m nf \<longleftrightarrow> map_option nt_ch (map_of (m_notifiers m) nf) = Some True"

text \<open>
  What the receiver does while a \<open>Get\<close> waits: it handles the messages in order until the notifier is
  closed. If they run out, or the receiver is stuck, the \<open>Get\<close> times out.
\<close>

fun serve_until ::
  "int \<Rightarrow> lib \<Rightarrow> message list \<Rightarrow> nat \<Rightarrow> xdsResourceManager \<Rightarrow> xdsClient \<Rightarrow> bool \<times> xdsResourceManager \<times> xdsClient" where
  "serve_until now L [] nf m c = (notifier_closed m nf, m, c)"
| "serve_until now L (msg # msgs) nf m c =
     (if notifier_closed m nf then (True, m, c)
      else case handleResponse now L msg c m of
        Returns (err, c, m) \<Rightarrow> serve_until now L msgs nf m c
      | _ \<Rightarrow> (False, m, c))"

text \<open>\<open>Get\<close> on the manager and its client, with the messages that arrive during each call.\<close>

definition manager_get ::
  "int \<Rightarrow> lib \<Rightarrow> (ResourceType \<Rightarrow> string \<Rightarrow> message list) \<Rightarrow> (xdsResourceManager \<times> xdsClient) getter" where
  "manager_get now L msgs rt n s =
     run_bind (Get now (serve_until now L (msgs rt n)) rt n (fst s) (snd s)) (\<lambda>(r, m, c). Returns (r, (m, c)))"

subsection \<open>What a message does to the cache\<close>

definition update_ok :: "ResourceType \<Rightarrow> (string, Resource) gomap \<Rightarrow> bool" where
  "update_ok rt up \<longleftrightarrow> gm_wf up \<and> (\<forall>(n, r) \<in> set up. resource_has_type rt r) \<and>
     (\<forall>n. map_of up n \<notin> {Some (ResRouteConfig None), Some (ResCluster None)})"

definition no_nil :: "xdsResourceManager \<Rightarrow> bool" where
  "no_nil m \<longleftrightarrow> (\<forall>rt n. abs_cache m rt n \<notin> {Some (ResRouteConfig None), Some (ResCluster None)})"

lemma named_decoder_not_nil:
  assumes "rt = RouteConfigType \<or> rt = ClusterType \<or> rt = EndpointsType"
  shows "map_of (fst (named_decoder rt L raws)) n \<notin> {Some (ResRouteConfig None), Some (ResCluster None)}"
  using assms
  by (auto simp: UnmarshalRDS_def UnmarshalCDS_def UnmarshalEDS_def
      dest!: rds.ret_SomeD cds.ret_SomeD eds.ret_SomeD rds_one_typed cds_one_typed eds_one_typed)

lemma only_watched_update_ok:
  assumes rt: "rt = RouteConfigType \<or> rt = ClusterType \<or> rt = EndpointsType"
    and d: "named_decoder rt L raws = (res, None)"
  shows "update_ok rt (only_watched c rt res)"
proof -
  have wf: "gm_wf res" and ty: "\<forall>(n, r) \<in> set res. resource_has_type rt r"
    and nn: "\<And>n. map_of res n \<notin> {Some (ResRouteConfig None), Some (ResCluster None)}"
    using named_decoder_ok [OF rt, of L raws] named_decoder_not_nil [OF rt, of L raws] by (simp_all add: d)
  from only_watched_ok [OF wf ty, of st ver c for st ver] nn show ?thesis
    by (simp add: update_ok_def only_watched_lookup)
qed

lemma lds_filter_update_ok: "update_ok ListenerType (lds_filter c res)"
  using lds_filter_wf lds_filter_typed lds_entry_typed [of c res]
  by (auto simp: update_ok_def lds_filter_lookup dest!: lds_entry_typed)

lemma decode_cases:
  assumes "served rt" and "decode L rt raws = Inr d"
  obtains (Named) res where "rt = RouteConfigType \<or> rt = ClusterType \<or> rt = EndpointsType"
      "d = DNamed rt res" "named_decoder rt L raws = (res, None)"
  | (Listeners) res where "rt = ListenerType" "d = DListeners res"
  | (Names) nt where "rt = NameTableType" "d = DNames nt"
  using assms
  by (auto simp: decode_def served_def ResourceTypeToURL_def split: ResourceType.splits sum.splits option.splits prod.splits if_splits)

text \<open>A handled message leaves the manager alone or is one well formed update.\<close>

lemma handleResponse_updates:
  assumes "handleResponse now L msg c m = Returns (err, c', m')"
  shows "m' = m \<or> (\<exists>rt up ver. update_ok rt up \<and> UpdateResource now rt up ver m = Returns m')"
proof (cases "\<exists>resp rt. msg = Response resp \<and> map_of ResourceURLToType (resp_TypeUrl resp) = Some rt \<and>
    map_of (xc_watchedResource c) rt \<noteq> None")
  case True
  then obtain resp rt where msg: "msg = Response resp" and rt: "map_of ResourceURLToType (resp_TypeUrl resp) = Some rt"
    and w: "map_of (xc_watchedResource c) rt \<noteq> None" by blast
  have sv: "served rt" using rt by (simp add: served_def ResourceURLToType_iff)
  from handleResponse_decode [OF rt w assms [unfolded msg]] show ?thesis
  proof (elim disjE exE conjE)
    fix d c1
    assume d: "decode L rt (resp_Resources resp) = Inr d"
      and fin: "finish now (resp_VersionInfo resp) d c1 m = Returns (c', m')"
    from sv d show ?thesis
    proof (cases rule: decode_cases)
      case (Named res)
      with fin only_watched_update_ok [OF Named(1,3)] show ?thesis by (auto simp: finish_def)
    next
      case (Listeners res)
      with fin lds_filter_update_ok show ?thesis by (auto simp: finish_def)
    qed (use fin in \<open>auto simp: finish_def\<close>)
  qed simp
next
  case False
  then show ?thesis using assms by (auto simp: handleResponse_def split: message.splits option.splits if_splits)
qed

lemma update_no_nil:
  assumes "manager_inv m" and "no_nil m" and "update_ok rt up" and "UpdateResource now rt up ver m = Returns m'"
  shows "manager_inv m'" and "no_nil m'"
proof -
  from assms(3) have up: "gm_wf up" "\<forall>(n, r) \<in> set up. resource_has_type rt r"
    and nn: "\<And>n. map_of up n \<notin> {Some (ResRouteConfig None), Some (ResCluster None)}" by (simp_all add: update_ok_def)
  obtain m1 where "UpdateResource now rt up ver m = Returns m1" "manager_inv m1"
    "abs_cache m1 = spec_update rt up (abs_cache m)"
    by (rule UpdateResource_Returns [OF assms(1) up, of now ver])
  with assms(4) have m': "manager_inv m'" "abs_cache m' = spec_update rt up (abs_cache m)" by simp_all
  show "manager_inv m'" by (rule m'(1))
  show "no_nil m'"
    unfolding no_nil_def
  proof (intro allI)
    fix rt' n
    have "abs_cache m' rt' n \<in> {abs_cache m rt' n, map_of up n}"
      by (auto simp: m'(2) spec_update_def map_add_def split: option.split)
    with nn [of n] assms(2) show "abs_cache m' rt' n \<notin> {Some (ResRouteConfig None), Some (ResCluster None)}"
      unfolding no_nil_def by (metis insertE singletonD)
  qed
qed

text \<open>An update either leaves a registered waiter where it is, or brings its resource and wakes it.\<close>

lemma update_awaited:
  assumes "manager_inv m" and "update_ok rt' up" and "UpdateResource now rt' up ver m = Returns m'"
    and nf: "gm2_get (m_notifierMap m) rt n = Some nf"
  shows "gm2_get (m_notifierMap m') rt n = Some nf \<or> notifier_closed m' nf \<and> abs_cache m' rt n \<noteq> None"
proof -
  from assms(2) have up: "gm_wf up" "\<forall>(n, r) \<in> set up. resource_has_type rt' r" by (simp_all add: update_ok_def)
  obtain m1 where m1: "UpdateResource now rt' up ver m = Returns m1" "abs_cache m1 = spec_update rt' up (abs_cache m)"
    "gm2_get (m_notifierMap m1) rt n = (if rt = rt' \<and> map_of up n \<noteq> None then None else gm2_get (m_notifierMap m) rt n)"
    "map_of (m_notifiers m1) nf = (if \<exists>n. map_of up n \<noteq> None \<and> gm2_get (m_notifierMap m) rt' n = Some nf
        then Some \<lparr>nt_ch = True, nt_err = None\<rparr> else map_of (m_notifiers m) nf)"
    by (rule UpdateResource_Returns [OF assms(1) up, of now ver]) blast
  show ?thesis
  proof (cases "rt = rt' \<and> map_of up n \<noteq> None")
    case True
    then have "\<exists>n. map_of up n \<noteq> None \<and> gm2_get (m_notifierMap m) rt' n = Some nf" using nf by blast
    then have "map_of (m_notifiers m1) nf = Some \<lparr>nt_ch = True, nt_err = None\<rparr>" using m1(4) by (simp only: if_True)
    moreover have "abs_cache m1 rt n \<noteq> None" using True m1(2) by (auto simp: spec_update_def)
    ultimately have "notifier_closed m1 nf \<and> abs_cache m1 rt n \<noteq> None" by (simp add: notifier_closed_def)
    with m1(1) assms(3) show ?thesis by simp
  next
    case False
    with m1(1,3) assms(3) nf show ?thesis by auto
  qed
qed

subsection \<open>The wait\<close>

definition world_inv :: "xdsResourceManager \<times> xdsClient \<Rightarrow> bool" where
  "world_inv s \<longleftrightarrow> manager_inv (fst s) \<and> client_inv (snd s) \<and> no_nil (fst s)"

lemma world_inv_new: "world_inv (new_manager opts, newXdsClient b)"
  by (simp add: world_inv_def manager_inv_new client_inv_new no_nil_def) (simp add: abs_cache_def new_manager_def gm2_get_def gm_sub_def)

lemma handleResponse_world:
  assumes "world_inv (m, c)" and "handleResponse now L msg c m = Returns (err, c', m')"
  shows "world_inv (m', c')"
    and "gm2_get (m_notifierMap m) rt n = Some nf \<Longrightarrow>
      gm2_get (m_notifierMap m') rt n = Some nf \<or> notifier_closed m' nf \<and> abs_cache m' rt n \<noteq> None"
proof -
  from assms(1) have inv: "client_inv c" "manager_inv m" "no_nil m" by (simp_all add: world_inv_def)
  with handleResponse_ok [OF inv(1,2), of now L msg] assms(2) have c': "client_inv c'" "manager_inv m'"
    by (simp_all add: handler_ok_def)
  with handleResponse_updates [OF assms(2)] update_no_nil [OF inv(2,3)] inv show "world_inv (m', c')"
    unfolding world_inv_def by auto
  show "gm2_get (m_notifierMap m) rt n = Some nf \<Longrightarrow>
      gm2_get (m_notifierMap m') rt n = Some nf \<or> notifier_closed m' nf \<and> abs_cache m' rt n \<noteq> None"
    using handleResponse_updates [OF assms(2)] update_awaited [OF inv(2)] by blast
qed

lemma awaited_open: "manager_inv m \<Longrightarrow> gm2_get (m_notifierMap m) rt n = Some nf \<Longrightarrow> \<not> notifier_closed m nf"
  using notifiers_okD [of m rt n nf] by (simp add: notifier_closed_def)

lemma serve_until_spec:
  assumes "world_inv (m, c)" and "serve_until now L msgs nf m c = (b, m', c')"
    and "gm2_get (m_notifierMap m) rt n = Some nf \<or> notifier_closed m nf \<and> abs_cache m rt n \<noteq> None"
  shows "world_inv (m', c') \<and> (b \<longrightarrow> abs_cache m' rt n \<noteq> None)"
  using assms
proof (induction msgs arbitrary: m c)
  case Nil
  then show ?case using awaited_open [of m rt n nf] by (auto simp: world_inv_def)
next
  case (Cons msg msgs)
  show ?case
  proof (cases "notifier_closed m nf")
    case True
    with Cons.prems awaited_open [of m rt n nf] show ?thesis by (auto simp: world_inv_def)
  next
    case False
    with Cons.prems(3) have nf: "gm2_get (m_notifierMap m) rt n = Some nf" by simp
    show ?thesis
    proof (cases "handleResponse now L msg c m")
      case (Returns x)
      obtain err c1 m1 where x: "x = (err, c1, m1)" by (cases x)
      note h = handleResponse_world [OF Cons.prems(1) Returns [unfolded x]]
      from Cons.IH [OF h(1) _ h(2) [OF nf]] Cons.prems(2) Returns x False show ?thesis by simp
    qed (use Cons.prems False in auto)
  qed
qed

text \<open>What a call of \<open>Get\<close> leaves behind and what it can answer.\<close>

lemma manager_get_spec:
  assumes "world_inv s" and "manager_get now L msgs rt n s = Returns (r, s')"
  shows "world_inv s'" and "r = GetOk x \<Longrightarrow> x = abs_cache (fst s') rt n \<and> x \<noteq> None"
proof -
  obtain m c m' c' where s: "s = (m, c)" "s' = (m', c')" by (cases s, cases s')
  have inv: "manager_inv m" "client_inv c" "no_nil m" using assms(1) by (simp_all add: s world_inv_def)
  obtain l m1 where l: "get_lookup now rt n m = (l, m1)" by (cases "get_lookup now rt n m")
  have "no_nil (snd (getFromCache now rt n m))" using inv(3) by (simp add: no_nil_def abs_cache_def)
  then have m1: "no_nil m1" using l inv(3) by (auto simp: get_lookup_def split: if_splits prod.splits option.splits)
  have inv1: "manager_inv m1" using get_lookup_inv [OF inv(1), of now rt n] by (simp add: l)
  have run: "Get now (serve_until now L (msgs rt n)) rt n m c = Returns (r, m', c')"
    using assms(2) by (auto simp: manager_get_def s)
  have "world_inv s' \<and> (\<forall>x. r = GetOk x \<longrightarrow> x = abs_cache (fst s') rt n \<and> x \<noteq> None)"
  proof (cases l)
    case (Some y)
    with run l have "r = y" "m' = m1" "c' = c" by (simp_all add: Get_def)
    with Some inv(2) inv1 m1 l show ?thesis
      by (auto simp: s world_inv_def get_lookup_def dest!: getFromCache_abs split: if_splits prod.splits option.splits)
  next
    case None
    with run l obtain nf m2 c2 where reg: "get_register rt n m1 c = Returns (nf, m2, c2)"
      by (auto simp: Get_def)
    obtain b m3 c3 where serve: "serve_until now L (msgs rt n) nf m2 c2 = (b, m3, c3)"
      by (cases "serve_until now L (msgs rt n) nf m2 c2")
    have ans: "(if b then get_notified now rt n nf m3 else get_timeout rt n m3) = (r, m')" and c': "c' = c3"
      using run l None reg serve by (auto simp: Get_def case_prod_beta)
    note rr = get_register_Returns [OF reg]
    have "no_nil m2" using m1 unfolding no_nil_def abs_cache_def by (subst rr(1)) simp
    then have w2: "world_inv (m2, c2)"
      using get_register_inv [OF inv1 reg] get_register_client_inv [OF inv(2) reg] by (simp add: world_inv_def)
    from serve_until_spec [OF w2 serve, of rt n] rr(2) have w3: "world_inv (m3, c3)" "b \<Longrightarrow> abs_cache m3 rt n \<noteq> None"
      by simp_all
    have "abs_cache m' = abs_cache m3" "manager_inv m'"
      using ans w3(1) get_notified_inv [of m3 now rt n nf] get_timeout_inv [of m3 rt n]
      by (auto simp: world_inv_def abs_cache_def fun_eq_iff get_notified_def get_timeout_def
          dest!: getFromCache_abs [unfolded abs_cache_def fun_eq_iff] split: if_splits option.splits prod.splits)
    moreover have "x = abs_cache m3 rt n \<and> b" if "r = GetOk x" for x
      using ans that
      by (auto simp: get_notified_def get_timeout_def dest!: getFromCache_abs split: if_splits option.splits prod.splits)
    ultimately show ?thesis using w3 by (auto simp: s c' world_inv_def no_nil_def)
  qed
  then show "world_inv s'" and "r = GetOk x \<Longrightarrow> x = abs_cache (fst s') rt n \<and> x \<noteq> None" by auto
qed

lemma manager_get_no_panic: "manager_get now L msgs rt n s \<noteq> Panics p"
  by (auto simp: manager_get_def Get_def run_bind_Panics_iff get_register_not_Panics split: prod.splits option.splits)

interpretation mgr: xds_resource_manager "manager_get now L msgs" world_inv for now L msgs
proof
  show "resource_has_type rt r" if "world_inv s" "manager_get now L msgs rt n s = Returns (GetOk (Some r), s')" for s rt n r s'
    using manager_get_spec [OF that] cache_typedD [of "fst s'" rt n r] by (simp add: world_inv_def abs_cache_def)
qed (use manager_get_spec(1) manager_get_no_panic in \<open>auto intro: manager_get_spec(1)\<close>)

subsection \<open>Properties of the composition\<close>

lemma manager_get_nil:
  assumes "world_inv s"
  shows "nil_answer (manager_get now L msgs) rt n s \<longleftrightarrow>
    (\<exists>s'. manager_get now L msgs rt n s = Returns (GetOk (Some (ResListener None)), s') \<and> rt = ListenerType)"
  using assms
proof (cases rule: mgr.get_cases [where now = now and L = L and msgs = msgs and rt = rt and n = n])
  case (Nil s')
  with manager_get_spec(2) [OF assms Nil(1) refl] show ?thesis by simp
next
  case (Ok r s')
  have "abs_cache (fst s') rt n = Some r" "no_nil (fst s')"
    using manager_get_spec(2) [OF assms Ok(1) refl] Ok(3) by (simp_all add: world_inv_def)
  then have "r \<noteq> ResRouteConfig None" "r \<noteq> ResCluster None" unfolding no_nil_def by force+
  moreover have "r = ResListener None \<Longrightarrow> rt = ListenerType" using Ok(2) by (cases rt) auto
  ultimately show ?thesis using Ok(1) by (auto simp: nil_answer_def)
qed (auto simp: nil_answer_def)

lemma manager_get_not_nil: "world_inv s \<Longrightarrow> rt \<noteq> ListenerType \<Longrightarrow> \<not> nil_answer (manager_get now L msgs) rt n s"
  by (simp add: manager_get_nil)


lemma update_wakes:
  assumes "manager_inv m" and "update_ok rt up" and "UpdateResource now rt up ver m = Returns m'"
    and "gm2_get (m_notifierMap m) rt n = Some nf" and "map_of up n = Some r"
  shows "map_of (m_notifiers m') nf = Some \<lparr>nt_ch = True, nt_err = None\<rparr>" and "abs_cache m' rt n = Some r"
proof -
  from assms(2) have up: "gm_wf up" "\<forall>(n, r) \<in> set up. resource_has_type rt r" by (simp_all add: update_ok_def)
  obtain m1 where m1: "UpdateResource now rt up ver m = Returns m1" "abs_cache m1 = spec_update rt up (abs_cache m)"
    "map_of (m_notifiers m1) nf = (if \<exists>n. map_of up n \<noteq> None \<and> gm2_get (m_notifierMap m) rt n = Some nf
        then Some \<lparr>nt_ch = True, nt_err = None\<rparr> else map_of (m_notifiers m) nf)"
    by (rule UpdateResource_Returns [OF assms(1) up, of now ver]) blast
  have "\<exists>n. map_of up n \<noteq> None \<and> gm2_get (m_notifierMap m) rt n = Some nf" using assms(4,5) by auto
  then have "map_of (m_notifiers m1) nf = Some \<lparr>nt_ch = True, nt_err = None\<rparr>" using m1(3) by (simp only: if_True)
  moreover have "abs_cache m1 rt n = Some r" using m1(2) assms(5) by (simp add: spec_update_def)
  ultimately show "map_of (m_notifiers m') nf = Some \<lparr>nt_ch = True, nt_err = None\<rparr>" "abs_cache m' rt n = Some r"
    using m1(1) assms(3) by simp_all
qed

text \<open>A \<open>Get\<close> that misses and whose first message is an update with its resource.\<close>

lemma get_completed:
  assumes "world_inv (m, c)" and lookup: "get_lookup now rt n m = (None, m1)"
    and reg: "get_register rt n m1 c = Returns (nf, m2, c2)"
    and handle: "handleResponse now L msg c2 m2 = Returns (err, c3, m3)"
    and up: "UpdateResource now rt up ver m2 = Returns m3" "update_ok rt up" "map_of up n = Some r"
    and msgs: "msgs rt n = msg # rest"
  shows "\<exists>m4. manager_get now L msgs rt n (m, c) = Returns (GetOk (Some r), (m4, c3)) \<and> abs_cache m4 rt n = Some r"
proof -
  have "manager_inv m1" using get_lookup_inv [of m now rt n] assms(1) by (simp add: lookup world_inv_def)
  then have inv2: "manager_inv m2" by (rule get_register_inv [OF _ reg])
  have nf: "gm2_get (m_notifierMap m2) rt n = Some nf" by (rule get_register_Returns(2) [OF reg])
  note w = update_wakes [OF inv2 up(2,1) nf up(3)]
  have "notifier_closed m3 nf" using w(1) by (simp add: notifier_closed_def)
  then have "serve_until now L (msgs rt n) nf m2 c2 = (True, m3, c3)"
    using awaited_open [OF inv2 nf] handle by (cases rest) (simp_all add: msgs)
  moreover obtain x m4 where g: "getFromCache now rt n m3 = (x, m4)" by fastforce
  moreover note getFromCache_abs [OF g] w
  ultimately show ?thesis
    by (simp add: manager_get_def Get_def lookup reg get_notified_def)
qed

lemma get_lookup_miss:
  assumes "served rt" and "abs_cache m rt n = None"
  obtains m1 where "get_lookup now rt n m = (None, m1)" and "m_notifierMap m1 = m_notifierMap m"
proof -
  obtain x m1 where g: "getFromCache now rt n m = (x, m1)" by fastforce
  with getFromCache_abs [OF g] assms getFromCache_frame(2) [of now rt n m] that show thesis
    by (simp add: get_lookup_def served_def)
qed

text \<open>
  The first waiter of a name, served by an accepted response: its subscription is in the client that
  the handler works on, and the handler gets through.
\<close>

lemma first_waiter_served:
  assumes inv: "world_inv (m, c)" and miss: "abs_cache m rt n = None" "gm2_get (m_notifierMap m) rt n = None"
    and room: "length (xc_reqCh c) < 1023" and rt: "map_of ResourceURLToType (resp_TypeUrl resp) = Some rt"
    and d: "decode L rt (resp_Resources resp) = Inr d"
  obtains m1 nf m2 c2 c3 c4 err m3 where "get_lookup now rt n m = (None, m1)" and "get_register rt n m1 c = Returns (nf, m2, c2)"
    and "Watch rt n False c = Returns c2"
    and "updateAndACK rt (resp_Nonce resp) (resp_VersionInfo resp) None c2 = Returns c3"
    and "handleResponse now L (Response resp) c2 m2 = Returns (err, c4, m3)"
    and "finish now (resp_VersionInfo resp) d c3 m2 = Returns (c4, m3)"
proof -
  have sv: "served rt" using rt by (simp add: served_def ResourceURLToType_iff)
  obtain m1 where l: "get_lookup now rt n m = (None, m1)" and nm: "m_notifierMap m1 = m_notifierMap m"
    by (rule get_lookup_miss [OF sv miss(1)])
  have inv1: "manager_inv m1" using get_lookup_inv [of m now rt n] inv by (simp add: l world_inv_def)
  obtain c2 where c2: "Watch rt n False c = Returns c2"
    using Watch_Returns_iff [of rt n False c] room by (auto simp: reqCh_cap_def)
  then obtain nf m2 where r: "get_register rt n m1 c = Returns (nf, m2, c2)"
    using miss(2) nm by (auto simp: get_register_def Let_def gm2_get_def gm_sub_def split: option.splits)
  have inv2: "client_inv c2" "manager_inv m2"
    using inv get_register_client_inv [OF _ r] get_register_inv [OF inv1 r] by (simp_all add: world_inv_def)
  have q: "length (xc_reqCh c2) < reqCh_cap" "map_of (xc_watchedResource c2) rt \<noteq> None"
    using Watch_Returns(2,4) [OF c2] room by (simp_all add: reqCh_cap_def)
  from handleResponse_ok [OF inv2, of now L "Response resp"] q(1) obtain err c4 m3
    where h: "handleResponse now L (Response resp) c2 m2 = Returns (err, c4, m3)"
    by (auto simp: handler_ok_def split: run.splits)
  from handleResponse_decode [OF rt q(2) h] d obtain c3
    where "updateAndACK rt (resp_Nonce resp) (resp_VersionInfo resp) None c2 = Returns c3"
      and "finish now (resp_VersionInfo resp) d c3 m2 = Returns (c4, m3)" by auto
  with l r c2 h that show thesis by blast
qed



text \<open>C36: a listener that the control plane does not know. Without the name table, a \<open>Get\<close> of a listener
  that the next accepted response does not contain is answered with a nil listener and no error, and a
  request routed to it panics.\<close>

theorem absent_listener_panics:
  assumes "world_inv (m, c)" and "abs_cache m ListenerType n = None" and "gm2_get (m_notifierMap m) ListenerType n = None"
    and "length (xc_reqCh c) < 1023" and "\<not> ndsRequired c" and msgs: "msgs ListenerType n = Response resp # rest"
    and url: "resp_TypeUrl resp = ListenerTypeURL" and dec: "UnmarshalLDS L (resp_Resources resp) = (res, None)"
    and "map_of res n = None"
  shows "(\<exists>s'. manager_get now L msgs ListenerType n (m, c) = Returns (GetOk (Some (ResListener None)), s')) \<and>
    (ri_To ri = Some to \<and> ei_ServiceName to = n \<longrightarrow> (\<exists>p. matchRoute L' grpc (manager_get now L msgs) md ri (m, c) = Panics p))"
proof -
  have t: "map_of ResourceURLToType (resp_TypeUrl resp) = Some ListenerType"
    using url by (simp add: ResourceURLToType_iff ResourceTypeToURL_def)
  have "decode L ListenerType (resp_Resources resp) = Inr (DListeners res)" using dec by (simp add: decode_def)
  from first_waiter_served [OF assms(1-4) t this, of now]
  obtain m1 nf m2 c2 c3 c4 err m3 where
    l: "get_lookup now ListenerType n m = (None, m1)" and reg: "get_register ListenerType n m1 c = Returns (nf, m2, c2)"
    and wt: "Watch ListenerType n False c = Returns c2"
    and ack: "updateAndACK ListenerType (resp_Nonce resp) (resp_VersionInfo resp) None c2 = Returns c3"
    and h: "handleResponse now L (Response resp) c2 m2 = Returns (err, c4, m3)"
    and fin: "finish now (resp_VersionInfo resp) (DListeners res) c3 m2 = Returns (c4, m3)" by metis
  have w: "n \<in> watched c3 ListenerType"
    using updateAndACK_answer(3) [OF ack] Watch_watched [OF wt] by simp
  have "xc_config c2 = xc_config c" "xc_config c3 = xc_config c2"
    by (subst Watch_Returns(5) [OF wt], simp) (subst updateAndACK_Returns(5) [OF ack], simp)
  with assms(5) have "\<not> ndsRequired c3" by (simp add: ndsRequired_def)
  with w assms(9) have "map_of (lds_filter c3 res) n = Some (ResListener None)"
    by (simp add: lds_filter_lookup lds_entry_def)
  moreover have "UpdateResource now ListenerType (lds_filter c3 res) (resp_VersionInfo resp) m2 = Returns m3"
    using fin by (auto simp: finish_def)
  ultimately obtain s' where g: "manager_get now L msgs ListenerType n (m, c) = Returns (GetOk (Some (ResListener None)), s')"
    using get_completed [where r = "ResListener None" and msgs = msgs, OF assms(1) l reg h _ lds_filter_update_ok _ msgs] by blast
  then show ?thesis by (auto simp: matchRoute_def nil_panic_def)
qed


subsection \<open>Examples\<close>

text \<open>A library that decodes every cluster load assignment to an empty one.\<close>

definition eds_lib :: lib where
  "eds_lib = example_lib\<lparr>Unmarshal_ClusterLoadAssignment := (\<lambda>_. Inr \<lparr>cla_ClusterName = ''e1'', cla_Endpoints = []\<rparr>)\<rparr>"

definition eds_resp :: DiscoveryResponse where
  "eds_resp = (example_resp EndpointTypeURL)\<lparr>resp_Resources := [\<lparr>any_TypeUrl = EndpointTypeURL, any_Value = []\<rparr>]\<rparr>"

definition new_world :: "xdsResourceManager \<times> xdsClient" where
  "new_world = (new_manager example_opts, newXdsClient example_config)"

lemma new_world_facts:
  "abs_cache (new_manager opts) rt n = None" "gm2_get (m_notifierMap (new_manager opts)) rt n = None"
  "length (xc_reqCh (newXdsClient b)) < 1023"
  by (simp_all add: abs_cache_def new_manager_def newXdsClient_def gm2_get_def gm_sub_def)



theorem absent_listener_panics_witness:
  "\<exists>s' p. manager_get 0 example_lib (\<lambda>_ _. [Response (example_resp ListenerTypeURL)]) ListenerType ''svc''
       (new_manager example_opts, newXdsClient (example_config\<lparr>bc_xdsSvrCfg := (bc_xdsSvrCfg example_config)\<lparr>xsc_NDSNotRequired := True\<rparr>\<rparr>)) =
     Returns (GetOk (Some (ResListener None)), s') \<and>
     matchRoute example_lib 4 (manager_get 0 example_lib (\<lambda>_ _. [Response (example_resp ListenerTypeURL)])) [] example_ri
       (new_manager example_opts, newXdsClient (example_config\<lparr>bc_xdsSvrCfg := (bc_xdsSvrCfg example_config)\<lparr>xsc_NDSNotRequired := True\<rparr>\<rparr>)) = Panics p"
proof -
  let ?b = "example_config\<lparr>bc_xdsSvrCfg := (bc_xdsSvrCfg example_config)\<lparr>xsc_NDSNotRequired := True\<rparr>\<rparr>"
  let ?msgs = "\<lambda>_ _. [Response (example_resp ListenerTypeURL)]"
  have "\<not> ndsRequired (newXdsClient ?b)" by (simp add: ndsRequired_def newXdsClient_def)
  moreover have "UnmarshalLDS example_lib (resp_Resources (example_resp ListenerTypeURL)) = ([], None)"
    by (simp add: UnmarshalLDS_def unmarshal_all_def unmarshal_result_def empty_acc_def example_resp_def)
  moreover have "resp_TypeUrl (example_resp ListenerTypeURL) = ListenerTypeURL" by (simp add: example_resp_def)
  moreover have "ri_To example_ri = Some (the (ri_To example_ri)) \<and> ei_ServiceName (the (ri_To example_ri)) = ''svc''"
    by (simp add: example_ri_def)
  ultimately show ?thesis
    using absent_listener_panics [of "new_manager example_opts" "newXdsClient ?b" "''svc''" ?msgs "example_resp ListenerTypeURL" "[]"
        example_lib "[]" 0 example_ri "the (ri_To example_ri)" example_lib 4 "[]"]
    by (auto simp: world_inv_new new_world_facts)
qed


end
