(* ===== verification/MockEndToEnd.thy ===== *)
theory MockEndToEnd
  imports MockServer EndToEnd
begin

text \<open>
  The request path against the mock control plane: a \<open>Get\<close> whose wait is filled by the exchange of the sender,
  the server and the receiver, and a cluster resolved through it.
\<close>

subsection \<open>The exchange is a run of the goroutines\<close>

text \<open>
  \<open>mock_serve\<close> interleaves the sender and the receiver in one particular way. What it computes is reached by their
  steps, so every invariant of the running client holds for it.
\<close>

lemma handled_is_run:
  assumes "sy_recv s = RRecv st" and "handleResponse now L (Response resp) (sy_c s) (sy_m s) = Returns (err, c', m')"
  shows "step\<^sup>*\<^sup>* s (s\<lparr>sy_m := m', sy_c := c'\<rparr>)"
proof (cases "\<exists>rt. map_of ResourceURLToType (resp_TypeUrl resp) = Some rt \<and> map_of (xc_watchedResource (sy_c s)) rt \<noteq> None")
  case True
  then show ?thesis using handler_steps [OF assms(1) _ _ assms(2)] by blast
next
  case False
  then have "c' = sy_c s" "m' = sy_m s" using assms(2) by (auto simp: handleResponse_def split: option.splits)
  then show ?thesis by simp
qed

lemma mock_serve_is_run:
  assumes "sy_recv s = RRecv st" and "sy_stream s = Some st" and "sy_sender s"
  shows "\<exists>out. step\<^sup>*\<^sup>* s (s\<lparr>sy_c := fst (mock_serve n now L svr (sy_c s, sy_m s)), sy_m := snd (mock_serve n now L svr (sy_c s, sy_m s)),
    sy_sent := sy_sent s @ out\<rparr>)"
  using assms
proof (induction n arbitrary: s)
  case 0
  then show ?case by (auto intro!: exI [of _ "[]"])
next
  case (Suc n)
  show ?case
  proof (cases "xc_reqCh (sy_c s)")
    case Nil
    then show ?thesis by (auto simp: sender_on_request_def intro!: exI [of _ "[]"])
  next
    case (Cons req ch)
    let ?c = "(sy_c s)\<lparr>xc_reqCh := ch\<rparr>"
    let ?s1 = "s\<lparr>sy_c := ?c, sy_stream := Some st, sy_sent := sy_sent s @ [(st, req)]\<rparr>"
    have 1: "step s ?s1"
      by (rule step.send_request [of _ "\<lambda>_. None"]) (use Suc.prems Cons in \<open>simp_all add: sender_on_request_def\<close>)
    have eq: "?s1 = s\<lparr>sy_c := ?c, sy_sent := sy_sent s @ [(st, req)]\<rparr>" using Suc.prems(2) by (cases s) simp
    have s1: "sy_recv ?s1 = RRecv st" "sy_stream ?s1 = Some st" "sy_sender ?s1" using Suc.prems by simp_all
    show ?thesis
    proof (cases "\<exists>resp err c m. handleRequest svr (Some req) = Some resp \<and> handleResponse now L (Response resp) ?c (sy_m s) = Returns (err, c, m)")
      case True
      then obtain resp err c m where r: "handleRequest svr (Some req) = Some resp"
        "handleResponse now L (Response resp) ?c (sy_m s) = Returns (err, c, m)" by blast
      let ?s2 = "?s1\<lparr>sy_m := m, sy_c := c\<rparr>"
      have 2: "step\<^sup>*\<^sup>* ?s1 ?s2" by (rule handled_is_run [OF s1(1)]) (use r(2) in simp)
      from Suc.IH [of ?s2] s1 obtain out where 3: "step\<^sup>*\<^sup>* ?s2 (?s2\<lparr>sy_c := fst (mock_serve n now L svr (c, m)),
          sy_m := snd (mock_serve n now L svr (c, m)), sy_sent := sy_sent ?s2 @ out\<rparr>)" by auto
      have "mock_serve (Suc n) now L svr (sy_c s, sy_m s) = mock_serve n now L svr (c, m)"
        using Cons r by (simp add: sender_on_request_def)
      with 1 2 3 eq show ?thesis by (intro exI [of _ "(st, req) # out"]) simp
    next
      case False
      have "\<exists>out. step\<^sup>*\<^sup>* ?s1 (?s1\<lparr>sy_c := fst (mock_serve n now L svr (?c, sy_m s)), sy_m := snd (mock_serve n now L svr (?c, sy_m s)),
          sy_sent := sy_sent ?s1 @ out\<rparr>)" using Suc.IH [of ?s1] s1 by simp
      moreover from False Cons have "mock_serve (Suc n) now L svr (sy_c s, sy_m s) =
          (if handleRequest svr (Some req) = None then mock_serve n now L svr (?c, sy_m s) else (?c, sy_m s))"
        by (auto simp: sender_on_request_def split: option.split run.split)
      ultimately show ?thesis using 1 eq
        by (cases "handleRequest svr (Some req)")
          (fastforce intro: converse_rtranclp_into_rtranclp exI [of _ "[(st, req)]"] exI [of _ "(st, req) # out" for out])+
    qed
  qed
qed

subsection \<open>The warm-up is a run of the goroutines\<close>

definition live :: "nat \<Rightarrow> sys \<Rightarrow> bool" where
  "live st s \<longleftrightarrow> sy_recv s = RRecv st \<and> sy_stream s = Some st \<and> sy_sender s"

text \<open>One wait of the warm-up: a subscription, the exchange, and the channel that is then closed.\<close>

lemma served_is_run:
  assumes "live st s" and "step s (s\<lparr>sy_c := c1, sy_warm := w\<rparr>)" and "mock_serve n now L svr (c1, sy_m s) = (c2, m2)"
    and "\<And>s'. sy_warm s' = w \<Longrightarrow> sy_c s' = c2 \<Longrightarrow> step s' (s'\<lparr>sy_warm := w'\<rparr>)"
  shows "\<exists>s'. step\<^sup>*\<^sup>* s s' \<and> sy_c s' = c2 \<and> sy_m s' = m2 \<and> sy_warm s' = w' \<and> live st s'"
proof -
  let ?s1 = "s\<lparr>sy_c := c1, sy_warm := w\<rparr>"
  from assms(1) have "sy_recv ?s1 = RRecv st" "sy_stream ?s1 = Some st" "sy_sender ?s1" by (simp_all add: live_def)
  from mock_serve_is_run [OF this, of n now L svr] obtain out where
    2: "step\<^sup>*\<^sup>* ?s1 (?s1\<lparr>sy_c := c2, sy_m := m2, sy_sent := sy_sent ?s1 @ out\<rparr>)" by (auto simp: assms(3))
  let ?s2 = "?s1\<lparr>sy_c := c2, sy_m := m2, sy_sent := sy_sent ?s1 @ out\<rparr>"
  have "step ?s2 (?s2\<lparr>sy_warm := w'\<rparr>)" by (rule assms(4)) simp_all
  with assms(2) 2 have "step\<^sup>*\<^sup>* s (?s2\<lparr>sy_warm := w'\<rparr>)" by (meson converse_rtranclp_into_rtranclp rtranclp.rtrancl_into_rtrancl)
  then show ?thesis using assms(1) by (intro exI [of _ "?s2\<lparr>sy_warm := w'\<rparr>"]) (simp add: live_def)
qed

lemma warmup_is_run:
  assumes "warmup (mock_serve n now L svr) (newXdsClient bc, new_manager opts) = Returns (c, m)"
  shows "\<exists>s. step\<^sup>*\<^sup>* (init_sys bc opts st) s \<and> sy_c s = c \<and> sy_m s = m \<and> sy_warm s = WDone"
proof -
  let ?s0 = "init_sys bc opts st" and ?serve = "mock_serve n now L svr"
  have i: "sy_c ?s0 = newXdsClient bc" "sy_m ?s0 = new_manager opts" "sy_warm ?s0 = WNds" "live st ?s0"
    by (simp_all add: init_sys_def live_def)
  from assms obtain x where x: "(if ndsRequired (newXdsClient bc) then
        run_bind (ndsWarmup_watch (newXdsClient bc)) (\<lambda>c. let s = ?serve (c, new_manager opts) in
          if nr_initRequestCh (xc_cipResolver (fst s)) then Returns s else Blocks)
      else Returns (newXdsClient bc, new_manager opts)) = Returns x"
    "(if ldsRequired (fst x) then run_bind (listenerWarmup_watch (fst x)) (\<lambda>c. let s = ?serve (c, snd x) in
          if xc_inboundInitRequestCh (fst s) then Returns s else Blocks) else Returns x) = Returns (c, m)"
    by (simp only: warmup_def run_bind_Returns_iff fst_conv snd_conv) blast
  obtain c1 m1 where "x = (c1, m1)" by (cases x)
  note nds = x(1) [unfolded this] and lds = x(2) [unfolded this fst_conv snd_conv]
  have "\<exists>s1. step\<^sup>*\<^sup>* ?s0 s1 \<and> sy_c s1 = c1 \<and> sy_m s1 = m1 \<and> sy_warm s1 = WLds \<and> live st s1"
  proof (cases "ndsRequired (newXdsClient bc)")
    case True
    with nds obtain c0 where c0: "ndsWarmup_watch (newXdsClient bc) = Returns c0" "?serve (c0, new_manager opts) = (c1, m1)"
      "nr_initRequestCh (xc_cipResolver c1)" by (auto simp: Let_def split: if_splits)
    show ?thesis
      by (rule served_is_run [OF i(4), where w = WNdsWait and ?c1.0 = c0])
        (use i True c0 in \<open>auto intro: step.warm_nds step.warm_nds_done\<close>)
  next
    case False
    then have "step ?s0 (?s0\<lparr>sy_warm := WLds\<rparr>)" by (intro step.warm_nds_skip) (simp_all add: i)
    with False nds i show ?thesis by (intro exI [of _ "?s0\<lparr>sy_warm := WLds\<rparr>"]) (auto simp: live_def)
  qed
  then obtain s1 where s1: "step\<^sup>*\<^sup>* ?s0 s1" "sy_c s1 = c1" "sy_m s1 = m1" "sy_warm s1 = WLds" "live st s1" by blast
  have "\<exists>s2. step\<^sup>*\<^sup>* s1 s2 \<and> sy_c s2 = c \<and> sy_m s2 = m \<and> sy_warm s2 = WDone"
  proof (cases "ldsRequired c1")
    case True
    with lds obtain c0 where c0: "listenerWarmup_watch c1 = Returns c0" "?serve (c0, m1) = (c, m)" "xc_inboundInitRequestCh c"
      by (auto simp: Let_def split: if_splits)
    have "\<exists>s2. step\<^sup>*\<^sup>* s1 s2 \<and> sy_c s2 = c \<and> sy_m s2 = m \<and> sy_warm s2 = WDone \<and> live st s2"
      by (rule served_is_run [OF s1(5), where w = WLdsWait and ?c1.0 = c0])
        (use s1 True c0 in \<open>auto intro: step.warm_lds step.warm_lds_done\<close>)
    then show ?thesis by blast
  next
    case False
    then have "step s1 (s1\<lparr>sy_warm := WDone\<rparr>)" by (intro step.warm_lds_skip) (simp_all add: s1)
    with False lds s1 show ?thesis by (intro exI [of _ "s1\<lparr>sy_warm := WDone\<rparr>"]) auto
  qed
  with s1(1) show ?thesis using rtranclp_trans [of step] by metis
qed

text \<open>C16: the warm-up of a fresh client against the mock control plane ends: the name table is loaded, its
  hosts resolve to the listener names of the outbound listeners, both types are at version \<open>v1\<close> with the
  last nonce of the server, every request has been sent, and the server has nothing more to say. The state is
  one that the goroutines reach by their own steps, with the warm-up done. The inbound listener that the first
  answer brought is gone: the server answers its acknowledgement with the outbound listeners, and the cache
  then holds a nil listener for the reserved name, without an error.\<close>

theorem mock_warmup:
  assumes "fixtures_codec E L" and "ndsRequired (newXdsClient bc)" and "ldsRequired (newXdsClient bc)" and "3 \<le> n"
  shows "\<exists>c m. warmup (mock_serve n now L (StartXDSServer E)) (newXdsClient bc, new_manager opts) = Returns (c, m) \<and>
    (\<exists>s. step\<^sup>*\<^sup>* (init_sys bc opts st) s \<and> sy_c s = c \<and> sy_m s = m \<and> sy_warm s = WDone) \<and>
    client_inv c \<and> manager_inv m \<and> xc_reqCh c = [] \<and>
    getListenerName c ListenerName1 = Inr ReturnedLisName1 \<and> getListenerName c ListenerName2 = Inr ReturnedLisName2 \<and>
    (\<forall>rt \<in> {NameTableType, ListenerType}. client_version c rt = ''v1'' \<and> client_nonce c rt = ''nonce1'' \<and>
       handleRequest (StartXDSServer E) (Some (current_request c rt)) = None) \<and>
    abs_cache m ListenerType ReservedLdsResourceName = Some (ResListener None)"
  using mock_warmup_returns [OF assms] warmup_is_run by metis

theorem mock_warmup_witness:
  "\<exists>s. step\<^sup>*\<^sup>* (init_sys example_config example_opts 7) s \<and> sy_warm s = WDone \<and>
     abs_cache (sy_m s) ListenerType ReservedLdsResourceName = Some (ResListener None)"
proof -
  have "ndsRequired (newXdsClient example_config)" "ldsRequired (newXdsClient example_config)"
    by (simp_all add: ndsRequired_def ldsRequired_def newXdsClient_def example_config_def)
  from mock_warmup [OF example_codec this, of 3 0 example_opts 7] show ?thesis by auto
qed

subsection \<open>Fetching\<close>

definition mock_get ::
  "nat \<Rightarrow> int \<Rightarrow> lib \<Rightarrow> testAdsService \<Rightarrow> (xdsResourceManager \<times> xdsClient) getter" where
  "mock_get k now L svr rt n s =
     run_bind (Get now (\<lambda>nf m c. let (c, m) = mock_serve k now L svr (c, m) in (notifier_closed m nf, m, c)) rt n (fst s) (snd s))
       (\<lambda>(r, m, c). Returns (r, (m, c)))"

lemma handle_named_on_empty_queue:
  assumes inv: "client_inv c" "manager_inv m" and q: "xc_reqCh c = []"
    and rt: "rt = RouteConfigType \<or> rt = ClusterType \<or> rt = EndpointsType"
    and url: "resp_TypeUrl resp = gm_str ResourceTypeToURL rt" and w: "map_of (xc_watchedResource c) rt \<noteq> None"
    and d: "named_decoder rt L (resp_Resources resp) = (res, None)"
  obtains c' m' err where "handleResponse now L (Response resp) c m = Returns (err, c', m')"
    and "client_inv c'" and "manager_inv m'" and "xc_reqCh c' = [current_request c' rt]"
    and "client_version c' = (client_version c)(rt := resp_VersionInfo resp)"
    and "client_nonce c' = (client_nonce c)(rt := resp_Nonce resp)"
    and "xc_watchedResource c' = xc_watchedResource c"
    and "UpdateResource now rt (only_watched c' rt res) (resp_VersionInfo resp) m = Returns m'"
proof -
  obtain c1 where c1: "updateAndACK rt (resp_Nonce resp) (resp_VersionInfo resp) None c = Returns c1"
      "xc_reqCh c1 = [current_request c1 rt]" "client_version c1 = (client_version c)(rt := resp_VersionInfo resp)"
      "client_nonce c1 = (client_nonce c)(rt := resp_Nonce resp)" "xc_watchedResource c1 = xc_watchedResource c"
      "client_inv c1"
    using ack_on_empty_queue [OF q] inv(1) by metis
  have t: "map_of ResourceURLToType (resp_TypeUrl resp) = Some rt"
    using rt url by (auto simp: gm_str_def ResourceTypeToURL_def ResourceURLToType_def url_defs)
  have dec: "decode L rt (resp_Resources resp) = Inr (DNamed rt res)" using rt d by (auto simp: decode_def)
  from handleResponse_ok [OF inv, of now L "Response resp"] q obtain err c4 m3
    where h: "handleResponse now L (Response resp) c m = Returns (err, c4, m3)" "manager_inv m3"
    by (auto simp: handler_ok_def reqCh_cap_def split: run.splits)
  from handleResponse_decode [OF t w h(1)] dec c1(1)
  have "finish now (resp_VersionInfo resp) (DNamed rt res) c1 m = Returns (c4, m3)" by auto
  then have "c4 = c1" "UpdateResource now rt (only_watched c1 rt res) (resp_VersionInfo resp) m = Returns m3"
    by (auto simp: finish_def)
  with that h c1 show thesis by blast
qed

text \<open>A type of which nothing has been asked for yet.\<close>

definition untouched :: "ResourceType \<Rightarrow> xdsResourceManager \<times> xdsClient \<Rightarrow> bool" where
  "untouched rt s \<longleftrightarrow> client_version (snd s) rt = '''' \<and> client_nonce (snd s) rt = '''' \<and>
     (\<forall>n. abs_cache (fst s) rt n = None \<and> gm2_get (m_notifierMap (fst s)) rt n = None)"

definition idle :: "xdsResourceManager \<times> xdsClient \<Rightarrow> bool" where
  "idle s \<longleftrightarrow> manager_inv (fst s) \<and> client_inv (snd s) \<and> xc_reqCh (snd s) = []"

text \<open>The server has an answer for a type, and takes its acknowledgement as one.\<close>

definition answers :: "testAdsService \<Rightarrow> ResourceType \<Rightarrow> DiscoveryResponse \<Rightarrow> bool" where
  "answers svr rt resp \<longleftrightarrow> gm2_get (resourceCache svr) rt '''' = Some resp \<and> resp_Nonce resp \<noteq> '''' \<and>
     resp_TypeUrl resp = gm_str ResourceTypeToURL rt \<and>
     (case gm2_get (resourceCache svr) rt (resp_VersionInfo resp) of None \<Rightarrow> True | Some r \<Rightarrow> resp_Nonce r = resp_Nonce resp)"

lemma first_get:
  assumes s: "idle (m, c)" "untouched rt (m, c)" and sv: "served rt"
  obtains m1 nf m2 c2 where "get_lookup now rt n m = (None, m1)" and "get_register rt n m1 c = Returns (nf, m2, c2)"
    and "manager_inv m2" and "abs_cache m2 = abs_cache m" and "gm2_get (m_notifierMap m2) rt n = Some nf"
    and "\<And>rt' n'. rt' \<noteq> rt \<Longrightarrow> gm2_get (m_notifierMap m2) rt' n' = gm2_get (m_notifierMap m) rt' n'"
    and "client_inv c2" and "xc_reqCh c2 = [current_request c2 rt]" and "client_version c2 = client_version c"
    and "client_nonce c2 = client_nonce c" and "n \<in> watched c2 rt" and "map_of (xc_watchedResource c2) rt \<noteq> None"
    and "xc_config c2 = xc_config c" and "xc_cipResolver c2 = xc_cipResolver c"
proof -
  have inv: "manager_inv m" "client_inv c" "xc_reqCh c = []" using s(1) by (simp_all add: idle_def)
  obtain m1 where l: "get_lookup now rt n m = (None, m1)" and nm: "m_notifierMap m1 = m_notifierMap m"
    using get_lookup_miss [OF sv, of m n now] s(2) by (auto simp: untouched_def)
  have "m1 = snd (getFromCache now rt n m)"
    using l sv by (auto simp: get_lookup_def served_def split: prod.splits option.splits)
  then have m1: "abs_cache m1 = abs_cache m" by (simp add: abs_cache_def fun_eq_iff)
  have inv1: "manager_inv m1" using get_lookup_inv [OF inv(1), of now rt n] by (simp add: l)
  obtain c2 where c2: "Watch rt n False c = Returns c2" "client_inv c2" "xc_reqCh c2 = [current_request c2 rt]"
      "client_version c2 = client_version c" "client_nonce c2 = client_nonce c" "n \<in> watched c2 rt"
      "map_of (xc_watchedResource c2) rt \<noteq> None" "xc_config c2 = xc_config c" "xc_cipResolver c2 = xc_cipResolver c"
    using watch_on_empty_queue [OF inv(2,3)] by metis
  obtain nf m2 where reg: "get_register rt n m1 c = Returns (nf, m2, c2)"
    using s(2) nm c2(1) by (auto simp: untouched_def get_register_def Let_def gm2_get_def gm_sub_def split: option.splits)
  note r2 = get_register_Returns [OF reg]
  have "abs_cache m2 = abs_cache m" using m1 by (subst r2(1)) (simp add: abs_cache_def fun_eq_iff)
  with l reg get_register_inv [OF inv1 reg] r2(2,3) nm c2(2-9) that show thesis by simp
qed

lemma update_frame:
  assumes "manager_inv m" and "update_ok rt up" and "UpdateResource now rt up ver m = Returns m'" and "rt' \<noteq> rt"
  shows "abs_cache m' rt' n = abs_cache m rt' n" and "gm2_get (m_notifierMap m') rt' n = gm2_get (m_notifierMap m) rt' n"
proof -
  obtain m1 where "UpdateResource now rt up ver m = Returns m1" "abs_cache m1 = spec_update rt up (abs_cache m)"
      "\<And>rt' n. gm2_get (m_notifierMap m1) rt' n = (if rt' = rt \<and> map_of up n \<noteq> None then None else gm2_get (m_notifierMap m) rt' n)"
    by (rule UpdateResource_Returns [OF assms(1), of up rt now ver]) (use assms(2) in \<open>auto simp: update_ok_def\<close>)
  with assms(3,4) show "abs_cache m' rt' n = abs_cache m rt' n"
    and "gm2_get (m_notifierMap m') rt' n = gm2_get (m_notifierMap m) rt' n" by (auto simp: spec_update_def)
qed

lemma mock_get_done:
  assumes l: "get_lookup now rt n m = (None, m1)" and reg: "get_register rt n m1 c = Returns (nf, m2, c2)"
    and serve: "mock_serve k now L svr (c2, m2) = (c3, m3)" and inv: "manager_inv m3" "client_inv c3" "xc_reqCh c3 = []"
    and woken: "map_of (m_notifiers m3) nf = Some \<lparr>nt_ch = True, nt_err = None\<rparr>" "abs_cache m3 rt n = Some r"
  obtains m4 where "mock_get k now L svr rt n (m, c) = Returns (GetOk (Some r), (m4, c3))" "idle (m4, c3)"
    "m_cache m4 = m_cache m3" "m_notifierMap m4 = m_notifierMap m3"
proof -
  obtain x m4 where g: "getFromCache now rt n m3 = (x, m4)" by fastforce
  have "manager_inv m4" "m_cache m4 = m_cache m3" "m_notifierMap m4 = m_notifierMap m3"
    using getFromCache_inv [OF inv(1), of now rt n] getFromCache_frame(1,2) [of now rt n m3] by (simp_all add: g)
  moreover have "mock_get k now L svr rt n (m, c) = Returns (GetOk (Some r), (m4, c3))"
    using getFromCache_abs [OF g] woken
    by (simp add: mock_get_def Get_def l reg serve get_notified_def g notifier_closed_def del: mock_serve.simps)
  ultimately show ?thesis using that inv(2,3) by (simp add: idle_def)
qed

lemma mock_get_fetches:
  assumes s: "idle (m, c)" "untouched rt (m, c)" and rt: "rt = RouteConfigType \<or> rt = ClusterType \<or> rt = EndpointsType"
    and svr: "answers svr rt resp" and d: "named_decoder rt L (resp_Resources resp) = (res, None)" "map_of res n = Some r"
  shows "\<exists>s'. mock_get (Suc (Suc k)) now L svr rt n (m, c) = Returns (GetOk (Some r), s') \<and> idle s' \<and>
    (\<forall>rt'. rt' \<noteq> rt \<longrightarrow> untouched rt' (m, c) \<longrightarrow> untouched rt' s')"
proof -
  have sv: "served rt" using rt by (auto simp: served_def ResourceTypeToURL_def)
  have cached: "map_of (resourceCache svr) rt \<noteq> None" and u: "map_of ResourceTypeToURL rt \<noteq> None"
    using svr sv by (auto simp: answers_def served_def gm2_get_def gm_sub_def split: option.splits)
  obtain m1 nf m2 c2 where l: "get_lookup now rt n m = (None, m1)" and reg: "get_register rt n m1 c = Returns (nf, m2, c2)"
    and m2: "manager_inv m2" "abs_cache m2 = abs_cache m" "gm2_get (m_notifierMap m2) rt n = Some nf"
      "\<And>rt' n'. rt' \<noteq> rt \<Longrightarrow> gm2_get (m_notifierMap m2) rt' n' = gm2_get (m_notifierMap m) rt' n'"
    and c2: "client_inv c2" "xc_reqCh c2 = [current_request c2 rt]" "client_version c2 = client_version c"
      "client_nonce c2 = client_nonce c" "n \<in> watched c2 rt" "map_of (xc_watchedResource c2) rt \<noteq> None"
    by (rule first_get [OF s sv, of now n]) blast
  let ?c2 = "c2\<lparr>xc_reqCh := []\<rparr>"
  have q2: "client_inv ?c2" "xc_reqCh ?c2 = []" "map_of (xc_watchedResource ?c2) rt \<noteq> None"
    using c2(1,6) by (simp_all add: client_inv_def)
  have url: "resp_TypeUrl resp = gm_str ResourceTypeToURL rt" using svr by (simp add: answers_def)
  obtain c3 m3 err where c3: "handleResponse now L (Response resp) ?c2 m2 = Returns (err, c3, m3)"
      "client_inv c3" "manager_inv m3" "xc_reqCh c3 = [current_request c3 rt]"
      "client_version c3 = (client_version ?c2)(rt := resp_VersionInfo resp)"
      "client_nonce c3 = (client_nonce ?c2)(rt := resp_Nonce resp)" "xc_watchedResource c3 = xc_watchedResource ?c2"
      "UpdateResource now rt (only_watched c3 rt res) (resp_VersionInfo resp) m2 = Returns m3"
    by (rule handle_named_on_empty_queue [OF q2(1) m2(1) q2(2) rt url q2(3) d(1), of now])
  note v3 = c3(5,6) [unfolded clear_queue c2(3,4)]
  have n: "map_of (only_watched c3 rt res) n = Some r"
    using d(2) c2(5) c3(7) by (simp add: only_watched_lookup watched_def)
  have up: "update_ok rt (only_watched c3 rt res)" by (rule only_watched_update_ok [OF rt d(1)])
  note w = update_wakes [OF m2(1) up c3(8) m2(3) n] and fr = update_frame [OF m2(1) up c3(8)]
  have "handleRequest svr (Some (current_request c2 rt)) = Some resp"
    using handleRequest_current [OF u cached, of c2] svr s(2) c2(3,4) by (auto simp: answers_def untouched_def)
  moreover have "handleRequest svr (Some (current_request c3 rt)) = None"
    using handleRequest_current [OF u cached, of c3] svr v3 by (auto simp: answers_def split: option.splits)
  ultimately have serve: "mock_serve (Suc (Suc k)) now L svr (c2, m2) = (c3\<lparr>xc_reqCh := []\<rparr>, m3)"
    using mock_serve_answered [OF c2(2) _ c3(1)] mock_serve_ignored [OF c3(4)] by simp
  have "client_inv (c3\<lparr>xc_reqCh := []\<rparr>)" using c3(2) by (simp add: client_inv_def)
  then obtain m4 where m4: "mock_get (Suc (Suc k)) now L svr rt n (m, c) = Returns (GetOk (Some r), (m4, c3\<lparr>xc_reqCh := []\<rparr>))"
      "idle (m4, c3\<lparr>xc_reqCh := []\<rparr>)" "m_cache m4 = m_cache m3" "m_notifierMap m4 = m_notifierMap m3"
    using mock_get_done [OF l reg serve c3(3) _ _ w] by auto
  have "untouched rt' (m4, c3\<lparr>xc_reqCh := []\<rparr>)" if "rt' \<noteq> rt" "untouched rt' (m, c)" for rt'
    using that m4(3,4) v3 fr m2(2,4) by (simp add: untouched_def abs_cache_def fun_eq_iff)
  with m4(1,2) show ?thesis by blast
qed

lemma mock_server_answers:
  "answers (StartXDSServer E) RouteConfigType (RdsResp1 E)"
  "answers (StartXDSServer E) ClusterType (CdsResp1 E)"
  "answers (StartXDSServer E) EndpointsType (EdsResp1 E)"
  by (simp_all add: answers_def StartXDSServer_def gm2_get_def gm_sub_def gm_str_def ResourceTypeToURL_def
      mock_resp_defs mock_version_defs)

text \<open>
  A listener is fetched in two rounds: the first answer of the server does not have it, which wakes nobody, the
  answer to its acknowledgement has it under the address of the host.
\<close>

definition names_loaded :: "xdsClient \<Rightarrow> bool" where
  "names_loaded c \<longleftrightarrow> ndsRequired c \<and> nr_lookupTable (xc_cipResolver c) = [(HostName2, [ClusterIP2]), (HostName1, [ClusterIP1])]"

lemma names_loaded_cong: "xc_config c' = xc_config c \<Longrightarrow> xc_cipResolver c' = xc_cipResolver c \<Longrightarrow> names_loaded c' = names_loaded c"
  by (simp add: names_loaded_def ndsRequired_def)

lemma lds_entries:
  assumes "names_loaded c"
  shows "lds_entry c [(ReturnedInbound, inbound_resource)] ListenerName1 = None"
    and "lds_entry c [(ReturnedLisName1, listener1_resource), (ReturnedLisName2, listener2_resource L)] ListenerName1 =
      Some (ResListener (Some listener1_resource))"
  using assms mock_resolves(1) [of c]
  by (simp_all add: names_loaded_def lds_entry_def ReservedLdsResourceName_def name_defs)

lemma lds_update_ok: "lds_update c res up \<Longrightarrow> update_ok ListenerType up"
  unfolding lds_update_def update_ok_def by (auto dest!: lds_entry_typed split: if_splits)

lemma lds_update_unwatched_keeps:
  assumes "manager_inv m" and "lds_update c res up" and "UpdateResource now ListenerType up ver m = Returns m'" and "lds_entry c res n = None"
  shows "gm2_get (m_notifierMap m') ListenerType n = gm2_get (m_notifierMap m) ListenerType n"
proof -
  obtain m1 where "UpdateResource now ListenerType up ver m = Returns m1"
      "\<And>rt' n. gm2_get (m_notifierMap m1) rt' n = (if rt' = ListenerType \<and> map_of up n \<noteq> None then None else gm2_get (m_notifierMap m) rt' n)"
    by (rule UpdateResource_Returns [OF assms(1), of up ListenerType now ver]) (use assms(2) in \<open>auto simp: lds_update_def\<close>)
  with assms(2-4) show ?thesis by (simp add: lds_update_def)
qed

lemma mock_get_listener:
  assumes codec: "fixtures_codec E L" and s: "idle (m, c)" "untouched ListenerType (m, c)" and names: "names_loaded c"
  shows "\<exists>s'. mock_get (Suc (Suc (Suc k))) now L (StartXDSServer E) ListenerType ListenerName1 (m, c) =
      Returns (GetOk (Some (ResListener (Some listener1_resource))), s') \<and> idle s' \<and> names_loaded (snd s') \<and>
    (\<forall>rt'. rt' \<noteq> ListenerType \<longrightarrow> untouched rt' (m, c) \<longrightarrow> untouched rt' s')"
proof -
  let ?rt = ListenerType and ?n = ListenerName1
  have sv: "served ?rt" by (simp add: served_def ResourceTypeToURL_def)
  obtain m1 nf m2 c2 where l: "get_lookup now ?rt ?n m = (None, m1)" and reg: "get_register ?rt ?n m1 c = Returns (nf, m2, c2)"
    and m2: "manager_inv m2" "abs_cache m2 = abs_cache m" "gm2_get (m_notifierMap m2) ?rt ?n = Some nf"
      "\<And>rt' n'. rt' \<noteq> ?rt \<Longrightarrow> gm2_get (m_notifierMap m2) rt' n' = gm2_get (m_notifierMap m) rt' n'"
    and c2: "client_inv c2" "xc_reqCh c2 = [current_request c2 ?rt]" "client_version c2 = client_version c"
      "client_nonce c2 = client_nonce c" "?n \<in> watched c2 ?rt" "map_of (xc_watchedResource c2) ?rt \<noteq> None"
      "xc_config c2 = xc_config c" "xc_cipResolver c2 = xc_cipResolver c"
    by (rule first_get [OF s sv, of now ?n]) blast
  have fresh: "client_version c2 ?rt = ''''" "client_nonce c2 ?rt = ''''" using s(2) c2(3,4) by (simp_all add: untouched_def)
  have nl: "names_loaded c2" using names names_loaded_cong [OF c2(7,8)] by simp
  obtain c3 m3 m4 up1 up2 where ex: "mock_serve (Suc (Suc (Suc k))) now L (StartXDSServer E) (c2, m2) = (c3, m4)"
      "client_inv c3" "manager_inv m3" "manager_inv m4" "xc_reqCh c3 = []" "xc_config c3 = xc_config c2"
      "client_version c3 = (client_version c2)(?rt := LDSVersion1)" "client_nonce c3 = (client_nonce c2)(?rt := LDSNonce1)"
      "xc_cipResolver c3 = xc_cipResolver c2"
    and u1: "lds_update c2 [(ReturnedInbound, inbound_resource)] up1" "UpdateResource now ?rt up1 LDSVersion1 m2 = Returns m3"
    and u2: "lds_update c2 [(ReturnedLisName1, listener1_resource), (ReturnedLisName2, listener2_resource L)] up2"
      "UpdateResource now ?rt up2 LDSVersion1 m3 = Returns m4"
    by (rule mock_lds_exchange [OF codec c2(1,2) m2(1) fresh c2(6), of k now]) blast
  have "gm2_get (m_notifierMap m3) ?rt ?n = Some nf"
    using lds_update_unwatched_keeps [OF m2(1) u1 lds_entries(1) [OF nl]] m2(3) by simp
  moreover have "map_of up2 ?n = Some (ResListener (Some listener1_resource))"
    using u2(1) c2(5) lds_entries(2) [OF nl, of L] by (simp add: lds_update_def)
  ultimately have w: "map_of (m_notifiers m4) nf = Some \<lparr>nt_ch = True, nt_err = None\<rparr>"
      "abs_cache m4 ?rt ?n = Some (ResListener (Some listener1_resource))"
    using update_wakes [OF ex(3) lds_update_ok [OF u2(1)] u2(2)] by blast+
  note fr = update_frame [OF m2(1) lds_update_ok [OF u1(1)] u1(2)] update_frame [OF ex(3) lds_update_ok [OF u2(1)] u2(2)]
  obtain m5 where m5: "mock_get (Suc (Suc (Suc k))) now L (StartXDSServer E) ?rt ?n (m, c) =
      Returns (GetOk (Some (ResListener (Some listener1_resource))), (m5, c3))" "idle (m5, c3)"
      "m_cache m5 = m_cache m4" "m_notifierMap m5 = m_notifierMap m4"
    by (rule mock_get_done [OF l reg ex(1,4,2,5) w])
  have "names_loaded c3" using nl names_loaded_cong [OF ex(6,9)] by simp
  moreover have "untouched rt' (m5, c3)" if "rt' \<noteq> ?rt" "untouched rt' (m, c)" for rt'
    using that m5(3,4) ex(7,8) fr m2(2,4) c2(3,4) by (simp add: untouched_def abs_cache_def fun_eq_iff)
  ultimately show ?thesis using m5(1,2) by (metis snd_conv)
qed

text \<open>A cluster is resolved to the instances of the assignment it names.\<close>

lemma mock_Resolve:
  assumes codec: "fixtures_codec E L" and s: "idle s" "untouched ClusterType s" "untouched EndpointsType s" and k: "2 \<le> k"
  shows "\<exists>s'. Resolve (mock_get k now L (StartXDSServer E)) ClusterName1 s =
      Returns (Inr \<lparr>res_Cacheable = True, res_CacheKey = ClusterName1, res_Instances =
        [\<lparr>in_Network = ''tcp'', in_Address = ''127.0.0.1:8080'', in_Weight = 50, in_Tags = []\<rparr>,
         \<lparr>in_Network = ''tcp'', in_Address = ''127.0.0.1:8081'', in_Weight = 50, in_Tags = []\<rparr>]\<rparr>, s') \<and> idle s'"
proof -
  let ?get = "mock_get k now L (StartXDSServer E)"
  obtain j where j: "k = Suc (Suc j)" using k by (metis Suc_le_D numeral_2_eq_2 Suc_le_mono)
  obtain m c where mc: "s = (m, c)" by (cases s)
  have d: "named_decoder ClusterType L (resp_Resources (CdsResp1 E)) =
      ([(ClusterName1, ResCluster (Some (cluster_resource 100))), (ClusterName2, ResCluster (Some (cluster_resource 0)))], None)"
    and e: "named_decoder EndpointsType L (resp_Resources (EdsResp1 E)) =
      ([(EndpointName1, ResEndpoints (Some endpoints1_resource)), (EndpointName2, ResEndpoints None)], None)"
    using fixture_responses(5,6) [OF codec] by (simp_all add: CdsResp1_def EdsResp1_def)
  obtain s1 where g1: "?get ClusterType ClusterName1 s = Returns (GetOk (Some (ResCluster (Some (cluster_resource 100)))), s1)"
      "idle s1" "untouched EndpointsType s1"
    using mock_get_fetches [OF s(1,2) [unfolded mc] _ mock_server_answers(2) d, of ClusterName1 "ResCluster (Some (cluster_resource 100))" j now] s(3)
    unfolding mc j by auto
  obtain m1 c1 where s1: "s1 = (m1, c1)" by (cases s1)
  obtain s2 where g2: "?get EndpointsType EndpointName1 s1 = Returns (GetOk (Some (ResEndpoints (Some endpoints1_resource))), s2)" "idle s2"
    using mock_get_fetches [OF g1(2,3) [unfolded s1] _ mock_server_answers(3) e, of EndpointName1 "ResEndpoints (Some endpoints1_resource)" j now]
    unfolding s1 j by auto
  show ?thesis
    using g1(1) g2
    by (intro exI [of _ s2])
      (simp add: Resolve_def getEndpoints_def cluster_resource_def all_endpoints_def endpoints1_resource_def to_instance_def)
qed

end
