(* ===== verification/RequestPath.thy ===== *)
theory RequestPath
  imports EndToEnd MockEndToEnd
begin

text \<open>
  A request from the router middleware to the instances of its cluster (\<open>xdssuite/router.go\<close>,
  \<open>xdssuite/resolver.go\<close> on \<open>core/manager/manager.go\<close>). The framework runs the middleware, which sets the tag
  with the picked cluster, and then the resolver on the tagged destination. What a request finds in a cache
  is defined on the abstract cache, and the locale \<open>resource_reader\<close> is what the two parts rely on of a
  \<open>Get\<close> that hits.
\<close>

subsection \<open>What the cache says about a request\<close>

text \<open>The routes that apply, in the order in which they are tried: thrift, inline HTTP, the named configuration.\<close>

definition route_config_of :: "abs_cache \<Rightarrow> string \<Rightarrow> RouteConfigResource option" where
  "route_config_of A name = (case A RouteConfigType name of Some (ResRouteConfig rc) \<Rightarrow> rc | _ \<Rightarrow> None)"

definition inline_candidates :: "lib \<Rightarrow> int \<Rightarrow> (string, string) gomap \<Rightarrow> RPCInfo \<Rightarrow> EndpointInfo \<Rightarrow> ListenerResource \<Rightarrow> Route list" where
  "inline_candidates L grpc md ri to listener =
     (if ri_TransportProtocol ri = grpc then [] else thrift_candidates L md to listener) @
     http_candidates L md ri (Option.bind (last_filter NetworkFilterTypeHTTP listener) nf_InlineRouteConfig)"

definition named_candidates :: "lib \<Rightarrow> (string, string) gomap \<Rightarrow> RPCInfo \<Rightarrow> abs_cache \<Rightarrow> ListenerResource \<Rightarrow> Route list" where
  "named_candidates L md ri A listener =
     (case last_filter NetworkFilterTypeHTTP listener of
        None \<Rightarrow> []
      | Some f \<Rightarrow> http_candidates L md ri (route_config_of A (nf_RouteConfigName f)))"

text \<open>The localities of a cluster.\<close>

definition localities_of :: "abs_cache \<Rightarrow> string \<Rightarrow> Endpoint list list" where
  "localities_of A cluster =
     (case A ClusterType cluster of
        Some (ResCluster (Some c)) \<Rightarrow>
          (case cr_InlineEndpoints c of
             Some e \<Rightarrow> er_Localities e
           | None \<Rightarrow> (case A EndpointsType (cr_EndpointName c) of Some (ResEndpoints (Some e)) \<Rightarrow> er_Localities e | _ \<Rightarrow> []))
      | _ \<Rightarrow> [])"

text \<open>A route that can be picked from: one cluster, or weights whose sum is positive and below \<open>2^31\<close>.\<close>

definition pickable :: "WeightedCluster list \<Rightarrow> bool" where
  "pickable wcs \<longleftrightarrow> length wcs = 1 \<or> 2 \<le> length wcs \<and> 0 < weights wcs \<and> weights wcs < 2 ^ 31"

lemma pickCluster_picks:
  assumes "int31n_ok int31n" and "pickable (rt_WeightedClusters route)"
  obtains wc where "wc \<in> set (rt_WeightedClusters route)" and "pickCluster int31n json route = Returns (Inr (wc_Name wc))"
proof (cases "length (rt_WeightedClusters route) = 1")
  case True
  then show thesis by (intro that [of "rt_WeightedClusters route ! 0"]) (auto simp: pickCluster_def Let_def)
next
  case False
  let ?wcs = "rt_WeightedClusters route"
  from False assms(2) have w: "2 \<le> length ?wcs" "0 < weights ?wcs" "weights ?wcs < 2 ^ 31" by (auto simp: pickable_def)
  obtain t where t: "unat t < weights ?wcs" "pickCluster int31n json route = Returns (pick_loop 0 t ?wcs)"
    by (rule pickCluster_draw [OF assms(1) w refl])
  have "unat (0 :: 32 word) + weights ?wcs < 2 ^ 32" "unat t \<le> unat (0 :: 32 word) + weights ?wcs" "?wcs \<noteq> []"
    using w t(1) by auto
  from pick_loop_index [OF this] t(2) that show thesis by (auto simp: in_set_conv_nth)
qed

subsection \<open>Routing and resolving with a Get that hits\<close>

locale resource_reader =
  fixes get :: "'s getter"
    and view :: "'s \<Rightarrow> abs_cache"
    and rest :: "'s \<Rightarrow> 'c"
  assumes hit: "served rt \<Longrightarrow> view s rt n = Some r \<Longrightarrow>
    \<exists>s'. get rt n s = Returns (GetOk (Some r), s') \<and> view s' = view s \<and> rest s' = rest s"
begin

lemma hitE:
  assumes "view s rt n = Some r" and "served rt"
  obtains s' where "get rt n s = Returns (GetOk (Some r), s')" and "view s' = view s" and "rest s' = rest s"
  using hit [OF assms(2,1)] by blast

lemma matchRoute_hit:
  assumes to: "ri_To ri = Some to" and lis: "view s ListenerType (ei_ServiceName to) = Some (ResListener (Some lis))"
    and first: "inline_candidates L grpc md ri to lis @ named_candidates L md ri (view s) lis = r # rs"
  obtains s' where "matchRoute L grpc get md ri s = Returns (Inr r, s')" and "view s' = view s" and "rest s' = rest s"
proof -
  have sv: "served ListenerType" "served RouteConfigType" by (simp_all add: served_def ResourceTypeToURL_def)
  obtain s1 where s1: "get ListenerType (ei_ServiceName to) s = Returns (GetOk (Some (ResListener (Some lis))), s1)"
    "view s1 = view s" "rest s1 = rest s" by (rule hitE [OF lis sv(1)])
  note mi = match_inline_candidates [of L grpc md ri to lis, folded inline_candidates_def]
  show thesis
  proof (cases "inline_candidates L grpc md ri to lis")
    case (Cons r' rs')
    with first have "match_inline L grpc md ri to lis = Inr (Inr r)" by (simp add: mi)
    with to s1 show thesis by (intro that [of s1]) (simp_all add: matchRoute_def)
  next
    case Nil
    with first obtain f rc where f: "last_filter NetworkFilterTypeHTTP lis = Some f"
      and rc: "view s RouteConfigType (nf_RouteConfigName f) = Some (ResRouteConfig (Some rc))"
      and c: "http_candidates L md ri (Some rc) = r # rs"
      by (auto simp: named_candidates_def route_config_of_def http_candidates_def
          split: option.splits Resource.splits Option.bind_splits)
    from rc s1(2) obtain s2 where s2: "get RouteConfigType (nf_RouteConfigName f) s1 = Returns (GetOk (Some (ResRouteConfig (Some rc))), s2)"
      "view s2 = view s1" "rest s2 = rest s1" using hitE [OF _ sv(2)] by metis
    from Nil f have "match_inline L grpc md ri to lis = Inr (Inl (nf_RouteConfigName f))" by (simp add: mi)
    with to s1 s2 c show thesis by (intro that [of s2]) (simp_all add: matchRoute_def matchHTTPRoute_candidates)
  qed
qed

lemma Resolve_hit:
  assumes "localities_of (view s) cluster \<noteq> []"
  obtains s' where "Resolve get cluster s = Returns (Inr \<lparr>res_Cacheable = True, res_CacheKey = cluster,
      res_Instances = map to_instance (concat (localities_of (view s) cluster))\<rparr>, s')"
    and "view s' = view s" and "rest s' = rest s"
proof -
  have sv: "served ClusterType" "served EndpointsType" by (simp_all add: served_def ResourceTypeToURL_def)
  from assms obtain c where c: "view s ClusterType cluster = Some (ResCluster (Some c))"
    by (auto simp: localities_of_def split: option.splits Resource.splits)
  obtain s1 where s1: "get ClusterType cluster s = Returns (GetOk (Some (ResCluster (Some c))), s1)"
    "view s1 = view s" "rest s1 = rest s" by (rule hitE [OF c sv(1)])
  show thesis
  proof (cases "cr_InlineEndpoints c")
    case (Some e)
    with assms c s1 show thesis
      by (intro that [of s1]) (simp_all add: Resolve_def getEndpoints_def all_endpoints_def localities_of_def)
  next
    case None
    with assms c obtain e where e: "view s EndpointsType (cr_EndpointName c) = Some (ResEndpoints (Some e))"
      by (auto simp: localities_of_def split: option.splits Resource.splits)
    then obtain s2 where "get EndpointsType (cr_EndpointName c) s1 = Returns (GetOk (Some (ResEndpoints (Some e))), s2)"
      "view s2 = view s1" "rest s2 = rest s1" using s1(2) hitE [OF _ sv(2)] by metis
    with assms c e s1 None show thesis
      by (intro that [of s2]) (simp_all add: Resolve_def getEndpoints_def all_endpoints_def localities_of_def)
  qed
qed

lemma request_hit:
  assumes to: "ri_To ri = Some to" "\<not> snd (ei_Tag to RouterClusterKey)"
    and lis: "view s ListenerType (ei_ServiceName to) = Some (ResListener (Some lis))"
    and first: "inline_candidates (xr_lib R) (xr_GRPC R) (so_routerMetaExtractor (xr_opts R) ctx) ri to lis @
      named_candidates (xr_lib R) (so_routerMetaExtractor (xr_opts R) ctx) ri (view s) lis = r # rs"
    and pick: "int31n_ok (xr_Int31n R)" "pickable (rt_WeightedClusters r)"
    and ends: "\<And>wc. wc \<in> set (rt_WeightedClusters r) \<Longrightarrow> localities_of (view s) (wc_Name wc) \<noteq> []"
  shows "\<exists>wc \<in> set (rt_WeightedClusters r). \<exists>s1 s2.
    RouterMiddleware R get ctx ri s =
      Returns (CallNext (set_destination \<lparr>rr_RPCTimeout = rt_Timeout r, rr_ClusterPicked = wc_Name wc\<rparr>), s1) \<and>
    Resolve get (wc_Name wc) s1 = Returns (Inr \<lparr>res_Cacheable = True, res_CacheKey = wc_Name wc,
      res_Instances = map to_instance (concat (localities_of (view s) (wc_Name wc)))\<rparr>, s2) \<and>
    view s2 = view s \<and> rest s2 = rest s"
proof -
  obtain s1 where s1: "matchRoute (xr_lib R) (xr_GRPC R) get (so_routerMetaExtractor (xr_opts R) ctx) ri s = Returns (Inr r, s1)"
    "view s1 = view s" "rest s1 = rest s" by (rule matchRoute_hit [OF to(1) lis first])
  obtain wc where wc: "wc \<in> set (rt_WeightedClusters r)" "pickCluster (xr_Int31n R) (xr_json R) r = Returns (Inr (wc_Name wc))"
    by (rule pickCluster_picks [OF pick])
  from ends [OF wc(1)] s1(2) have "localities_of (view s1) (wc_Name wc) \<noteq> []" by simp
  then obtain s2 where s2: "Resolve get (wc_Name wc) s1 = Returns (Inr \<lparr>res_Cacheable = True, res_CacheKey = wc_Name wc,
      res_Instances = map to_instance (concat (localities_of (view s1) (wc_Name wc)))\<rparr>, s2)" "view s2 = view s1" "rest s2 = rest s1"
    by (rule Resolve_hit)
  with s1 wc to show ?thesis
    by (intro bexI [OF _ wc(1)] exI [of _ s1] exI [of _ s2]) (simp add: RouterMiddleware_def Route_def)
qed

end

subsection \<open>The manager\<close>

lemma Get_hit:
  assumes "served rt" and "abs_cache m rt n = Some r"
  shows "\<exists>m'. Get now wait rt n m c = Returns (GetOk (Some r), m', c) \<and> abs_cache m' = abs_cache m"
proof -
  obtain x m' where g: "getFromCache now rt n m = (x, m')" by fastforce
  have "x = Some r" using getFromCache_abs [OF g] assms(2) by simp
  moreover have "m_cache m' = m_cache m" using getFromCache_frame(1) [of now rt n m] by (simp add: g)
  ultimately show ?thesis using assms(1) by (auto simp: Get_def get_lookup_def served_def g abs_cache_def fun_eq_iff)
qed

interpretation cached: resource_reader "manager_get now L msgs" "\<lambda>s. abs_cache (fst s)" snd for now L msgs
  by unfold_locales (use Get_hit in \<open>fastforce simp: manager_get_def\<close>)

interpretation mock_cached: resource_reader "mock_get k now L svr" "\<lambda>s. abs_cache (fst s)" snd for k now L svr
  by unfold_locales (use Get_hit in \<open>fastforce simp: mock_get_def\<close>)

text \<open>C11: a request whose resources are cached is served from the cache. The middleware takes the first route that
  matches, in the order thrift, inline, named configuration, and tags the destination with one of the route's
  clusters and the route's timeout; resolving the tagged destination gives one instance per endpoint of that
  cluster, in the order of its localities. Nothing is subscribed, sent or waited for: the client is as before,
  whatever the control plane would have sent, and so is the cache.\<close>

theorem request_from_cache:
  assumes "ri_To ri = Some to" and "\<not> snd (ei_Tag to RouterClusterKey)"
    and "abs_cache m ListenerType (ei_ServiceName to) = Some (ResListener (Some lis))"
    and "inline_candidates (xr_lib R) (xr_GRPC R) (so_routerMetaExtractor (xr_opts R) ctx) ri to lis @
      named_candidates (xr_lib R) (so_routerMetaExtractor (xr_opts R) ctx) ri (abs_cache m) lis = r # rs"
    and "int31n_ok (xr_Int31n R)" and "pickable (rt_WeightedClusters r)"
    and "\<And>wc. wc \<in> set (rt_WeightedClusters r) \<Longrightarrow> localities_of (abs_cache m) (wc_Name wc) \<noteq> []"
  shows "\<exists>wc \<in> set (rt_WeightedClusters r). \<exists>s1.
    RouterMiddleware R (manager_get now L msgs) ctx ri (m, c) =
      Returns (CallNext [SetTag RouterClusterKey (wc_Name wc), SetTagLock RouterClusterKey, SetRPCTimeout (rt_Timeout r)], s1) \<and>
    (\<forall>to'. ei_Tag to' RouterClusterKey = (wc_Name wc, True) \<longrightarrow> (\<exists>m'.
       Resolve (manager_get now L msgs) (Target to') s1 = Returns (Inr \<lparr>res_Cacheable = True, res_CacheKey = wc_Name wc,
         res_Instances = map to_instance (concat (localities_of (abs_cache m) (wc_Name wc)))\<rparr>, (m', c)) \<and>
       abs_cache m' = abs_cache m))"
  using cached.request_hit [where s = "(m, c)" and now = now and L = L and msgs = msgs, OF assms(1,2) _ _ assms(5,6)] assms(3,4,7)
  by (fastforce simp: Target_def set_destination_def)

subsection \<open>The mock control plane\<close>

lemma no_fixture_path: "matchHTTPRoute L md ri (http_routes L) = None"
  by (simp add: matchHTTPRoute_def http_routes_def routeMatched_def rpc_path_def Let_def HTTP_MatchPath_def)

lemma listener1_match:
  "match_inline L grpc md ri to listener1_resource =
     (if ri_TransportProtocol ri \<noteq> grpc \<and> routeMatched L (ei_Method to) md thrift_route then Inr (Inr thrift_route)
      else Inr (Inl RouteConfigName1))"
  by (simp add: match_inline_candidates thrift_candidates_def http_candidates_def last_filter_def listener1_resource_def
      rds_filter_def thrift_filter_def)


definition warm_client :: xdsClient where
  "warm_client = newXdsClient example_config\<lparr>xc_cipResolver :=
     \<lparr>nr_lookupTable = [(HostName2, [ClusterIP2]), (HostName1, [ClusterIP1])], nr_initRequestCh = True, nr_closed = True\<rparr>\<rparr>"

definition example_to :: EndpointInfo where
  "example_to = \<lparr>ei_ServiceName = ListenerName1, ei_Method = ''method'', ei_Tag = (\<lambda>_. ('''', False))\<rparr>"


text \<open>A cached listener with one thrift route for every method, to a cached cluster with one endpoint.\<close>

definition any_route :: Route where
  "any_route = zero_Route\<lparr>rt_Match := Some (ThriftMatch \<lparr>trm_Method = '''', trm_ServiceName = '''', trm_Tags = []\<rparr>),
     rt_WeightedClusters := [\<lparr>wc_Name = ''c'', wc_Weight = 1\<rparr>]\<rparr>"

definition any_listener :: ListenerResource where
  "any_listener = \<lparr>lr_NetworkFilters = [\<lparr>nf_FilterType = NetworkFilterTypeThrift, nf_RouteConfigName = '''', nf_RoutePort = 0,
     nf_InlineRouteConfig = Some \<lparr>rc_HTTPRouteConfig = None, rc_ThriftRouteConfig = Some [any_route], rc_MaxTokens = 0, rc_TokensPerFill = 0\<rparr>\<rparr>]\<rparr>"

definition cached_manager :: xdsResourceManager where
  "cached_manager = new_manager example_opts\<lparr>m_cache :=
     [(ListenerType, [(''svc'', ResListener (Some any_listener))]), (ClusterType, [(''c'', ResCluster (Some example_cluster))])]\<rparr>"

theorem request_from_cache_witness:
  "\<exists>s1. RouterMiddleware example_router (manager_get 0 example_lib (\<lambda>_ _. [])) () example_ri (cached_manager, newXdsClient example_config) =
     Returns (CallNext [SetTag RouterClusterKey ''c'', SetTagLock RouterClusterKey, SetRPCTimeout (rt_Timeout any_route)], s1)"
proof -
  let ?to = "the (ri_To example_ri)" and ?m = cached_manager
  have lis: "abs_cache ?m ListenerType (ei_ServiceName ?to) = Some (ResListener (Some any_listener))"
    by (simp add: cached_manager_def abs_cache_def gm2_get_def gm_sub_def example_ri_def)
  have "routeMatched example_lib path md any_route" for path md
    by (simp add: routeMatched_def any_route_def Thrift_MatchPath_def Thrift_MatchMeta_def)
  then have cand: "inline_candidates (xr_lib example_router) (xr_GRPC example_router) (so_routerMetaExtractor (xr_opts example_router) ())
      example_ri ?to any_listener @ named_candidates (xr_lib example_router) (so_routerMetaExtractor (xr_opts example_router) ())
      example_ri (abs_cache ?m) any_listener = any_route # []"
    by (simp add: inline_candidates_def named_candidates_def thrift_candidates_def http_candidates_def last_filter_def
        any_listener_def example_router_def example_ri_def)
  have ends: "localities_of (abs_cache ?m) (wc_Name wc) \<noteq> []" if "wc \<in> set (rt_WeightedClusters any_route)" for wc
    using that by (simp add: any_route_def localities_of_def cached_manager_def abs_cache_def gm2_get_def gm_sub_def example_cluster_def)
  have "ri_To example_ri = Some ?to" "\<not> snd (ei_Tag ?to RouterClusterKey)" by (simp_all add: example_ri_def)
  moreover have "int31n_ok (xr_Int31n example_router)" by (simp add: example_router_def example_int31n_ok)
  moreover have "pickable (rt_WeightedClusters any_route)" by (simp add: pickable_def any_route_def)
  ultimately obtain wc s1 where "wc \<in> set (rt_WeightedClusters any_route)"
    "RouterMiddleware example_router (manager_get 0 example_lib (\<lambda>_ _. [])) () example_ri (?m, newXdsClient example_config) =
      Returns (CallNext [SetTag RouterClusterKey (wc_Name wc), SetTagLock RouterClusterKey, SetRPCTimeout (rt_Timeout any_route)], s1)"
    using request_from_cache [OF _ _ lis cand _ _ ends, where now = 0 and L = example_lib and msgs = "\<lambda>_ _. []" and c = "newXdsClient example_config"]
    by blast
  then show ?thesis by (auto simp: any_route_def)
qed

end
