(* ===== verification/Json.thy ===== *)
theory Json
  imports Manager Cds "HOL-Library.Char_ord" "HOL-Library.List_Lexorder"
begin

text \<open>
  What the resources look like as JSON, in the file that \<open>Dump\<close> writes and in the router's error
  messages: the \<open>MarshalJSON\<close> methods of \<open>rds.go\<close>, \<open>cds.go\<close> and \<open>eds.go\<close>, and \<open>encoding/json\<close> on the
  structs around them. JSON text is represented by its value; the keys of a map are sorted, as the package
  does. An empty slice is \<open>JArray []\<close>, which the package prints as \<open>[]\<close>, or as \<open>null\<close> if the slice is nil.
\<close>

datatype json =
    JNull
  | JNumber int
  | JString string
  | JArray "json list"
  | JObject "(string \<times> json) list"

definition json_option :: "('a \<Rightarrow> json) \<Rightarrow> 'a option \<Rightarrow> json" where
  "json_option f p = (case p of None \<Rightarrow> JNull | Some x \<Rightarrow> f x)"

definition json_slice :: "('a \<Rightarrow> json) \<Rightarrow> 'a list \<Rightarrow> json" where
  "json_slice f xs = JArray (map f xs)"

definition json_map :: "('a \<Rightarrow> json) \<Rightarrow> (string, 'a) gomap \<Rightarrow> json" where
  "json_map f m = JObject (sort_key fst (map (\<lambda>(k, v). (k, f v)) m))"

definition json_uint :: "32 word \<Rightarrow> json" where
  "json_uint w = JNumber (int (unat w))"

subsection \<open>Durations\<close>

text \<open>
  \<open>time.Duration.String\<close>: \<open>dur_frac\<close> are the digits of a fraction with \<open>prec\<close> places, trailing zeros and an
  empty fraction left out; the micro sign is its two bytes in UTF-8.
\<close>

fun digits :: "nat \<Rightarrow> nat \<Rightarrow> string" where
  "digits 0 n = []"
| "digits (Suc p) n = digits p (n div 10) @ [char_of (48 + n mod 10)]"

definition dur_frac :: "nat \<Rightarrow> nat \<Rightarrow> string" where
  "dur_frac prec n = (if n = 0 then '''' else ''.'' @ rev (dropWhile (\<lambda>c. c = CHR ''0'') (rev (digits prec n))))"

definition with_frac :: "nat \<Rightarrow> nat \<Rightarrow> string" where
  "with_frac prec u = itoa (u div 10 ^ prec) @ dur_frac prec (u mod 10 ^ prec)"

definition Duration_String :: "Duration \<Rightarrow> string" where
  "Duration_String d =
     (let u = nat \<bar>d\<bar>; secs = u div 10 ^ 9; mins = secs div 60; hours = mins div 60;
          s = itoa (secs mod 60) @ dur_frac 9 (u mod 10 ^ 9) @ ''s''
      in if u = 0 then ''0s''
         else (if d < 0 then ''-'' else '''') @
           (if u < 10 ^ 3 then itoa u @ ''ns''
            else if u < 10 ^ 6 then with_frac 3 u @ [CHR 0xC2, CHR 0xB5] @ ''s''
            else if u < 10 ^ 9 then with_frac 6 u @ ''ms''
            else if mins = 0 then s
            else if hours = 0 then itoa (mins mod 60) @ ''m'' @ s
            else itoa hours @ ''h'' @ itoa (mins mod 60) @ ''m'' @ s))"

subsection \<open>Routes\<close>

text \<open>The two string types are strings; the regular expression is an unexported field.\<close>

fun Matcher_json :: "Matcher \<Rightarrow> json" where
  "Matcher_json (PrefixMatcher p) = JString p"
| "Matcher_json (ExactMatcher e) = JString e"
| "Matcher_json (RegexMatcher re) = JObject []"

fun RouteMatch_json :: "RouteMatch \<Rightarrow> json" where
  "RouteMatch_json (HTTPMatch h) =
     JObject [(''Path'', JString (hrm_Path h)), (''Prefix'', JString (hrm_Prefix h)), (''Headers'', json_map Matcher_json (hrm_Headers h))]"
| "RouteMatch_json (ThriftMatch t) =
     JObject [(''Method'', JString (trm_Method t)), (''ServiceName'', JString (trm_ServiceName t)), (''Tags'', json_map Matcher_json (trm_Tags t))]"

definition WeightedCluster_json :: "WeightedCluster \<Rightarrow> json" where
  "WeightedCluster_json w = JObject [(''Name'', JString (wc_Name w)), (''Weight'', json_uint (wc_Weight w))]"

definition Route_MarshalJSON :: "Route \<Rightarrow> json" where
  "Route_MarshalJSON r =
     JObject [(''Match'', json_option RouteMatch_json (rt_Match r)),
              (''Weighted_Clusters'', json_slice WeightedCluster_json (rt_WeightedClusters r)),
              (''Timeout'', JString (Duration_String (rt_Timeout r)))]"

definition VirtualHost_json :: "VirtualHost \<Rightarrow> json" where
  "VirtualHost_json vh = JObject [(''Name'', JString (vh_Name vh)), (''Routes'', json_slice Route_MarshalJSON (vh_Routes vh))]"

definition RouteConfigResource_json :: "RouteConfigResource \<Rightarrow> json" where
  "RouteConfigResource_json r =
     JObject [(''HTTPRouteConfig'', json_option (\<lambda>vhs. JObject [(''VirtualHosts'', json_slice VirtualHost_json vhs)]) (rc_HTTPRouteConfig r)),
              (''ThriftRouteConfig'', json_option (\<lambda>rs. JObject [(''Routes'', json_slice Route_MarshalJSON rs)]) (rc_ThriftRouteConfig r)),
              (''MaxTokens'', json_uint (rc_MaxTokens r)), (''TokensPerFill'', json_uint (rc_TokensPerFill r))]"

subsection \<open>Listeners, endpoints, clusters\<close>

definition NetworkFilterType_code :: "NetworkFilterType \<Rightarrow> int" where
  "NetworkFilterType_code t = (case t of NetworkFilterTypeHTTP \<Rightarrow> 0 | NetworkFilterTypeThrift \<Rightarrow> 1)"

definition NetworkFilter_json :: "NetworkFilter \<Rightarrow> json" where
  "NetworkFilter_json f =
     JObject [(''FilterType'', JNumber (NetworkFilterType_code (nf_FilterType f))), (''RouteConfigName'', JString (nf_RouteConfigName f)),
              (''RoutePort'', json_uint (nf_RoutePort f)), (''InlineRouteConfig'', json_option RouteConfigResource_json (nf_InlineRouteConfig f))]"

definition ListenerResource_json :: "ListenerResource \<Rightarrow> json" where
  "ListenerResource_json l = JObject [(''NetworkFilters'', json_slice NetworkFilter_json (lr_NetworkFilters l))]"

text \<open>\<open>omitempty\<close> leaves out an empty map and a nil pointer.\<close>

definition Endpoint_MarshalJSON :: "Endpoint \<Rightarrow> json" where
  "Endpoint_MarshalJSON e =
     JObject ([(''eds_addr'', JString (AddrString (ep_addr e))), (''weight'', json_uint (ep_weight e))] @
              (if ep_meta e = [] then [] else [(''meta'', json_map JString (ep_meta e))]))"

definition EndpointsResource_json :: "EndpointsResource \<Rightarrow> json" where
  "EndpointsResource_json r =
     JObject [(''Localities'', json_slice (\<lambda>eps. JObject [(''Endpoints'', json_slice Endpoint_MarshalJSON eps)]) (er_Localities r))]"

definition InlineEDS :: "ClusterResource \<Rightarrow> EndpointsResource option" where
  "InlineEDS c = cr_InlineEndpoints c"

definition ClusterResource_MarshalJSON :: "ClusterResource \<Rightarrow> json" where
  "ClusterResource_MarshalJSON c =
     JObject ([(''discovery_type'', JString (ClusterDiscoveryType_String (cr_DiscoveryType c))),
               (''lb_policy'', JString (ClusterLbPolicy_String (cr_LbPolicy c))),
               (''endpoint_name'', JString (cr_EndpointName c))] @
              (case InlineEDS c of None \<Rightarrow> [] | Some e \<Rightarrow> [(''meta'', EndpointsResource_json e)]))"

fun Resource_json :: "Resource \<Rightarrow> json" where
  "Resource_json (ResListener p) = json_option ListenerResource_json p"
| "Resource_json (ResRouteConfig p) = json_option RouteConfigResource_json p"
| "Resource_json (ResCluster p) = json_option ClusterResource_MarshalJSON p"
| "Resource_json (ResEndpoints p) = json_option EndpointsResource_json p"

text \<open>The file name and the value that \<open>Dump\<close> writes.\<close>

definition Dump_json :: "xdsResourceManager \<Rightarrow> string \<times> json" where
  "Dump_json m = (fst (Dump m), json_map (json_map Resource_json) (snd (Dump m)))"

subsection \<open>What the text determines\<close>

lemma sort_key_set_eq: "sort_key f xs = sort_key f ys \<Longrightarrow> set xs = set ys"
  by (metis set_sort)

lemma json_map_inj:
  assumes "json_map f m = json_map f m'" and "gm_wf m" and "gm_wf m'" and "inj f"
  shows "map_of m = map_of m'"
proof (rule map_of_eqI)
  have s: "set (map (\<lambda>(k, v). (k, f v)) m) = set (map (\<lambda>(k, v). (k, f v)) m')"
    using assms(1) sort_key_set_eq unfolding json_map_def json.inject by blast
  then have "fst ` set (map (\<lambda>(k, v). (k, f v)) m) = fst ` set (map (\<lambda>(k, v). (k, f v)) m')" by simp
  then show "set (map fst m) = set (map fst m')" by (simp add: image_image case_prod_beta)
  show "\<forall>x \<in> set (map fst m). map_of m x = map_of m' x"
  proof
    fix x
    assume "x \<in> set (map fst m)"
    then obtain v where v: "(x, v) \<in> set m" by auto
    then have "(x, f v) \<in> set (map (\<lambda>(k, v). (k, f v)) m')" unfolding s [symmetric] by force
    then have "(x, v) \<in> set m'" using assms(4) by (auto dest: injD)
    with v assms(2,3) show "map_of m x = map_of m' x" by simp
  qed
qed

text \<open>An endpoint's text gives its address, its weight and its tags.\<close>

lemma Endpoint_MarshalJSON_inj:
  assumes "Endpoint_MarshalJSON e = Endpoint_MarshalJSON e'" and "gm_wf (ep_meta e)" and "gm_wf (ep_meta e')"
  shows "AddrString (ep_addr e) = AddrString (ep_addr e')" and "ep_weight e = ep_weight e'"
    and "map_of (ep_meta e) = map_of (ep_meta e')"
proof -
  show "AddrString (ep_addr e) = AddrString (ep_addr e')" and "ep_weight e = ep_weight e'"
    using assms(1) by (auto simp: Endpoint_MarshalJSON_def json_uint_def word_uint_eq_iff)
  have "inj JString" by (simp add: inj_def)
  with assms json_map_inj [of JString "ep_meta e" "ep_meta e'"] show "map_of (ep_meta e) = map_of (ep_meta e')"
    by (auto simp: Endpoint_MarshalJSON_def split: if_splits)
qed

text \<open>
  A cluster's text does not show its outlier detection, a route's not its retry policy; a regular expression
  prints as an empty object, and an exact and a prefix matcher print alike.
\<close>

lemma cluster_text_hides: "ClusterResource_MarshalJSON (c\<lparr>cr_OutlierDetection := od\<rparr>) = ClusterResource_MarshalJSON c"
  by (simp add: ClusterResource_MarshalJSON_def InlineEDS_def)

lemma route_text_hides: "Route_MarshalJSON (r\<lparr>rt_RetryPolicy := rp\<rparr>) = Route_MarshalJSON r"
  by (simp add: Route_MarshalJSON_def)

lemma digits_numeral: "digits (numeral k) n = digits (pred_numeral k) (n div 10) @ [char_of (48 + n mod 10)]"
  by (simp only: numeral_eq_Suc digits.simps)

lemma Duration_String_examples:
  "Duration_String 0 = ''0s''" "Duration_String 1500000000 = ''1.5s''" "Duration_String (- 250000000) = ''-250ms''"
  "Duration_String 5405001000000 = ''1h30m5.001s''"
  by (simp_all add: Duration_String_def Let_def with_frac_def dur_frac_def itoa.simps digits_numeral)
    (simp_all add: char_of_def bit_Suc_0_iff)

end
