(* ===== verification/PolicySync.thy ===== *)
theory PolicySync
  imports Suite Float64
begin

text \<open>
  What the circuit breaker and the retry container have in common: an update handler that makes the
  policies of an external store equal to those derived from an update, and switches off the policies
  it had set before that the update no longer has. The store is seen through the sequence of calls
  made on it: the policy in force for a key is that of the last call for it.
\<close>

definition last_call :: "(string \<times> 'p) list \<Rightarrow> string \<Rightarrow> 'p option" where
  "last_call calls k = map_of (rev calls) k"

lemma last_call_append [simp]:
  "last_call (xs @ ys) k = (case last_call ys k of Some p \<Rightarrow> Some p | None \<Rightarrow> last_call xs k)"
  by (simp add: last_call_def map_add_def split: option.split)

lemma last_call_Nil [simp]: "last_call [] k = None"
  by (simp add: last_call_def)

lemma last_call_const: "last_call (map (\<lambda>k. (k, p)) ks) k = (if k \<in> set ks then Some p else None)"
proof -
  have "map_of (map (\<lambda>k. (k, p)) xs) k = (if k \<in> set xs then Some p else None)" for xs by (induction xs) auto
  from this [of "rev ks"] show ?thesis by (simp add: last_call_def rev_map)
qed

lemma last_call_None: "last_call calls k = None \<longleftrightarrow> k \<notin> fst ` set calls"
  by (simp add: last_call_def map_of_eq_None_iff)

lemma last_call_wf: "gm_wf m \<Longrightarrow> last_call m k = map_of m k"
  using map_of_inject_set [of "rev m" m] by (simp add: last_call_def rev_map [symmetric])

lemma last_call_map_snd: "last_call (map (\<lambda>(k, p). (k, f p)) calls) k = map_option f (last_call calls k)"
  by (simp add: last_call_def rev_map map_of_map)

locale policy_sync =
  fixes last :: "'s \<Rightarrow> string set" \<comment> \<open>the keys set by the previous update\<close>
    and eff :: "'s \<Rightarrow> string \<Rightarrow> 'p option" \<comment> \<open>the policy in force\<close>
    and inv :: "'s \<Rightarrow> bool"
    and valid :: "'u \<Rightarrow> bool"
    and want :: "'u \<Rightarrow> string \<Rightarrow> 'p option"
    and off :: 'p
    and sync :: "'u \<Rightarrow> 's \<Rightarrow> 's"
  assumes last_sync: "inv s \<Longrightarrow> valid u \<Longrightarrow> last (sync u s) = {k. want u k \<noteq> None}"
    and eff_sync: "inv s \<Longrightarrow> valid u \<Longrightarrow> eff (sync u s) k =
      (if want u k \<noteq> None then want u k else if k \<in> last s then Some off else eff s k)"
    and inv_sync: "inv s \<Longrightarrow> valid u \<Longrightarrow> inv (sync u s)"
begin

text \<open>No policy outlives the update that set it.\<close>

definition tidy :: "'s \<Rightarrow> bool" where
  "tidy s \<longleftrightarrow> inv s \<and> (\<forall>k. k \<notin> last s \<longrightarrow> eff s k = None \<or> eff s k = Some off)"

lemma tidy_sync: "tidy s \<Longrightarrow> valid u \<Longrightarrow> tidy (sync u s)"
  by (auto simp: tidy_def last_sync eff_sync inv_sync)

lemma tidy_run: "tidy s \<Longrightarrow> list_all valid us \<Longrightarrow> tidy (foldl (\<lambda>s u. sync u s) s us)"
  by (induction us arbitrary: s) (auto simp: tidy_sync)

lemma in_force:
  assumes "tidy s" and "valid u"
  shows "case want u k of
      Some p \<Rightarrow> eff (sync u s) k = Some p
    | None \<Rightarrow> eff (sync u s) k = None \<or> eff (sync u s) k = Some off"
  using assms by (auto simp: tidy_def eff_sync split: option.split)

lemma in_force_after_run:
  assumes "tidy s" and "list_all valid us" and "valid u"
  shows "case want u k of
      Some p \<Rightarrow> eff (sync u (foldl (\<lambda>s u. sync u s) s us)) k = Some p
    | None \<Rightarrow> eff (sync u (foldl (\<lambda>s u. sync u s) s us)) k = None \<or>
        eff (sync u (foldl (\<lambda>s u. sync u s) s us)) k = Some off"
  by (rule in_force [OF tidy_run [OF assms(1,2)] assms(3)])

end

end
