(* ===== verification/CircuitBreaker.thy ===== *)
theory CircuitBreaker
  imports PolicySync Router
begin

text \<open>
  \<open>xdssuite/circuitbreak.go\<close>: cluster updates become circuit breaker configurations. The calls of
  \<open>UpdateServiceCBConfig\<close> on the suite are recorded in order; a nil suite is \<open>None\<close>.
\<close>

record CBConfig =
  cbc_Enable :: bool
  cbc_ErrRate :: float64
  cbc_MinSample :: int

definition zero_CBConfig :: CBConfig where
  "zero_CBConfig = \<lparr>cbc_Enable = False, cbc_ErrRate = Fin 0, cbc_MinSample = 0\<rparr>"

record circuitBreaker =
  cb_lastPolicies :: "string list option" \<comment> \<open>\<open>atomic.Value\<close>: empty until the first store\<close>
  cb_cb :: "(string \<times> CBConfig) list option"

definition updateAllCircuitConfigs :: "(string, CBConfig) gomap \<Rightarrow> circuitBreaker \<Rightarrow> circuitBreaker" where
  "updateAllCircuitConfigs configs cb =
     (case cb_cb cb of
        None \<Rightarrow> cb
      | Some calls \<Rightarrow>
          (let calls = calls @ configs;
               newPolicies = gm_keys configs;
               disabled = (case cb_lastPolicies cb of
                             None \<Rightarrow> []
                           | Some lastPolicies \<Rightarrow>
                               map (\<lambda>k. (k, zero_CBConfig)) (filter (\<lambda>k. k \<notin> set newPolicies) lastPolicies))
           in cb\<lparr>cb_cb := Some (calls @ disabled), cb_lastPolicies := Some newPolicies\<rparr>))"

definition cb_config :: "OutlierDetection \<Rightarrow> CBConfig" where
  "cb_config od =
     (if od_FailurePercentageRequestVolume od \<noteq> 0 \<and> od_FailurePercentageThreshold od \<noteq> 0
      then \<lparr>cbc_Enable = True,
            cbc_ErrRate = f64_percent (od_FailurePercentageThreshold od),
            cbc_MinSample = int (unat (od_FailurePercentageRequestVolume od))\<rparr>
      else zero_CBConfig)"

fun circuit_policies ::
  "(string \<times> Resource) list \<Rightarrow> (string, CBConfig) gomap \<Rightarrow> (string, CBConfig) gomap run" where
  "circuit_policies [] policies = Returns policies"
| "circuit_policies ((key, resource) # res) policies =
     (case resource of
        ResCluster None \<Rightarrow> nil_panic
      | ResCluster (Some cluster) \<Rightarrow>
          (case cr_OutlierDetection cluster of
             None \<Rightarrow> circuit_policies res policies
           | Some od \<Rightarrow> circuit_policies res (gm_put key (cb_config od) policies))
      | _ \<Rightarrow> circuit_policies res policies)"

definition updateCircuitPolicy :: "(string, Resource) gomap \<Rightarrow> circuitBreaker \<Rightarrow> circuitBreaker run" where
  "updateCircuitPolicy res cb =
     run_bind (circuit_policies res []) (\<lambda>policies. Returns (updateAllCircuitConfigs policies cb))"

definition genCBServiceKey :: "RPCInfo option \<Rightarrow> string run" where
  "genCBServiceKey ri =
     (case ri of
        None \<Rightarrow> Returns ''''
      | Some ri \<Rightarrow> (case ri_To ri of None \<Rightarrow> nil_panic | Some to \<Rightarrow> Returns (fst (ei_Tag to RouterClusterKey))))"

datatype cb_option = WithCircuitBreaker | WithInstanceMW

text \<open>\<open>handler\<close> is the number of the closure that is registered.\<close>

definition NewCircuitBreaker ::
  "'ctx SuiteOptions \<Rightarrow> nat \<Rightarrow> xdsResourceManager singletonManager \<Rightarrow> (cb_option \<times> circuitBreaker \<times> xdsResourceManager) run" where
  "NewCircuitBreaker opt handler s =
     (case getManager s of
        None \<Rightarrow> Panics ''xds resource manager has not been initialized''
      | Some m \<Rightarrow>
          Returns (if so_enableServiceCircuitBreak opt then WithCircuitBreaker else WithInstanceMW,
                   \<lparr>cb_lastPolicies = None, cb_cb = Some []\<rparr>,
                   RegisterXDSUpdateHandler ClusterType handler m))"

subsection \<open>Properties\<close>

text \<open>The configuration an update asks for under a cluster name.\<close>

definition cb_want :: "(string, Resource) gomap \<Rightarrow> string \<Rightarrow> CBConfig option" where
  "cb_want res k =
     (case map_of res k of
        Some (ResCluster (Some cluster)) \<Rightarrow> map_option cb_config (cr_OutlierDetection cluster)
      | _ \<Rightarrow> None)"

definition clusters_not_nil :: "(string, Resource) gomap \<Rightarrow> bool" where
  "clusters_not_nil res \<longleftrightarrow> list_all (\<lambda>kr. snd kr \<noteq> ResCluster None) res"

lemma circuit_policies_lookup:
  "gm_wf res \<Longrightarrow> clusters_not_nil res \<Longrightarrow>
     \<exists>ps. circuit_policies res acc = Returns ps \<and> (gm_wf acc \<longrightarrow> gm_wf ps) \<and>
       map_of ps = map_of acc ++ cb_want res"
proof (induction res arbitrary: acc)
  case Nil
  have "cb_want [] = Map.empty" by (simp add: cb_want_def fun_eq_iff)
  then show ?case by simp
next
  case (Cons kr res)
  obtain k0 r where kr: "kr = (k0, r)" by (cases kr)
  have "map_of res k0 = None" using Cons.prems(1) kr by (simp add: map_of_eq_None_iff)
  then have fresh: "cb_want res k0 = None" by (simp add: cb_want_def)
  have rest: "gm_wf res" "clusters_not_nil res" using Cons.prems by (simp_all add: clusters_not_nil_def)
  define p where "p = (case r of ResCluster (Some c) \<Rightarrow> map_option cb_config (cr_OutlierDetection c) | _ \<Rightarrow> None)"
  have want: "cb_want (kr # res) k = (if k = k0 then p else cb_want res k)" for k
    by (simp add: cb_want_def kr p_def)
  have step: "circuit_policies (kr # res) acc = circuit_policies res (case p of None \<Rightarrow> acc | Some c \<Rightarrow> gm_put k0 c acc)"
    using Cons.prems(2) by (auto simp: kr p_def clusters_not_nil_def split: Resource.split option.split)
  let ?acc = "case p of None \<Rightarrow> acc | Some c \<Rightarrow> gm_put k0 c acc"
  have "map_of ?acc ++ cb_want res = map_of acc ++ cb_want (kr # res)"
    using fresh by (cases p) (auto simp: fun_eq_iff map_add_def want split: option.split)
  moreover have "gm_wf acc \<longrightarrow> gm_wf ?acc" by (simp add: distinct_update split: option.split)
  ultimately show ?case
    unfolding step using Cons.IH [OF rest, of ?acc] by auto
qed

definition cb_inv :: "circuitBreaker \<Rightarrow> bool" where
  "cb_inv cb \<longleftrightarrow> cb_cb cb \<noteq> None"

definition cb_last :: "circuitBreaker \<Rightarrow> string set" where
  "cb_last cb = (case cb_lastPolicies cb of None \<Rightarrow> {} | Some l \<Rightarrow> set l)"

definition cb_in_force :: "circuitBreaker \<Rightarrow> string \<Rightarrow> CBConfig option" where
  "cb_in_force cb k = (case cb_cb cb of None \<Rightarrow> None | Some calls \<Rightarrow> last_call calls k)"

interpretation cb_sync: policy_sync cb_last cb_in_force cb_inv "\<lambda>c. gm_wf c" map_of zero_CBConfig updateAllCircuitConfigs
proof (unfold_locales, goal_cases)
  case (1 s u)
  then show ?case
    by (auto simp: cb_last_def cb_inv_def updateAllCircuitConfigs_def Let_def map_of_eq_None_iff split: option.split)
next
  case (2 s u k)
  then obtain calls where c: "cb_cb s = Some calls" by (auto simp: cb_inv_def)
  have key: "k \<in> set (gm_keys u) \<longleftrightarrow> map_of u k \<noteq> None" by (simp only: set_keys_map_of)
  show ?case
    using 2(2) c key
    by (cases "cb_lastPolicies s")
      (auto simp: cb_in_force_def cb_last_def updateAllCircuitConfigs_def last_call_wf last_call_const
        split: option.split)
next
  case (3 s u)
  then show ?case by (auto simp: cb_inv_def updateAllCircuitConfigs_def Let_def)
qed

text \<open>An update of clusters without nil pointers runs through, and asks for what \<open>cb_want\<close> says.\<close>

lemma updateCircuitPolicy_Returns:
  assumes "gm_wf res" and "clusters_not_nil res"
  obtains ps where "updateCircuitPolicy res cb = Returns (updateAllCircuitConfigs ps cb)" and "gm_wf ps"
    and "map_of ps = cb_want res"
proof -
  obtain ps where "circuit_policies res [] = Returns ps" "gm_wf ps" "map_of ps = cb_want res"
    using circuit_policies_lookup [OF assms, of "[]"] by auto
  with that show thesis by (simp add: updateCircuitPolicy_def)
qed

fun cb_updates :: "(string, Resource) gomap list \<Rightarrow> circuitBreaker \<Rightarrow> circuitBreaker run" where
  "cb_updates [] cb = Returns cb"
| "cb_updates (u # us) cb = run_bind (updateCircuitPolicy u cb) (cb_updates us)"

definition new_cb :: circuitBreaker where
  "new_cb = \<lparr>cb_lastPolicies = None, cb_cb = Some []\<rparr>"

lemma new_cb_tidy: "cb_sync.tidy new_cb"
  by (simp add: cb_sync.tidy_def new_cb_def cb_inv_def cb_in_force_def)

lemma cb_updates_tidy:
  assumes "cb_sync.tidy cb" and "list_all (\<lambda>u. gm_wf u \<and> clusters_not_nil u) us"
  shows "\<exists>cb'. cb_updates us cb = Returns cb' \<and> cb_sync.tidy cb'"
  using assms
proof (induction us arbitrary: cb)
  case (Cons u us)
  then have u: "gm_wf u" "clusters_not_nil u" by simp_all
  obtain ps where "updateCircuitPolicy u cb = Returns (updateAllCircuitConfigs ps cb)" "gm_wf ps"
    using updateCircuitPolicy_Returns [OF u] .
  with Cons cb_sync.tidy_sync [OF Cons.prems(1)] show ?case by simp
qed simp

text \<open>
  After any sequence of cluster updates and a further one, a cluster of that last update with outlier
  detection has exactly the configuration derived from it, and every other key has none or is switched
  off, also those that earlier updates had configured.
\<close>

lemma cb_updates_in_force:
  assumes "list_all (\<lambda>u. gm_wf u \<and> clusters_not_nil u) us" and "gm_wf u" and "clusters_not_nil u"
  shows "\<exists>cb. cb_updates (us @ [u]) new_cb = Returns cb \<and>
    (\<forall>k. case cb_want u k of
       Some p \<Rightarrow> cb_in_force cb k = Some p
     | None \<Rightarrow> cb_in_force cb k = None \<or> cb_in_force cb k = Some zero_CBConfig)"
proof -
  obtain cb where cb: "cb_updates us new_cb = Returns cb" "cb_sync.tidy cb"
    using cb_updates_tidy [OF new_cb_tidy assms(1)] by blast
  obtain ps where ps: "updateCircuitPolicy u cb = Returns (updateAllCircuitConfigs ps cb)" "gm_wf ps" "map_of ps = cb_want u"
    using updateCircuitPolicy_Returns [OF assms(2,3)] .
  have "cb_updates (us @ [u]) b = run_bind (cb_updates us b) (updateCircuitPolicy u)" for b
  proof (induction us arbitrary: b)
    case Nil
    show ?case by (cases "updateCircuitPolicy u b") simp_all
  next
    case (Cons v us)
    then show ?case by (cases "updateCircuitPolicy v b") simp_all
  qed
  with cb(1) ps(1) have "cb_updates (us @ [u]) new_cb = Returns (updateAllCircuitConfigs ps cb)" by simp
  with cb_sync.in_force [OF cb(2) ps(2)] ps(3) show ?thesis by metis
qed

definition example_od :: ClusterResource where
  "example_od =
     \<lparr>cr_DiscoveryType = ClusterDiscoveryTypeEDS, cr_LbPolicy = ClusterLbRoundRobin, cr_EndpointName = ''e'',
      cr_InlineEndpoints = None,
      cr_OutlierDetection = Some \<lparr>od_FailurePercentageThreshold = 50, od_FailurePercentageRequestVolume = 100\<rparr>\<rparr>"

text \<open>The error rate of an enabled breaker is the threshold in percent as a fraction, up to the
  rounding of one \<open>float64\<close> division, and its minimal sample is the request volume; a volume or a
  threshold of 0 leaves the breaker off.\<close>

theorem cb_config_rate:
  "if od_FailurePercentageRequestVolume od = 0 \<or> od_FailurePercentageThreshold od = 0
   then \<not> cbc_Enable (cb_config od)
   else cbc_Enable (cb_config od) \<and> cbc_MinSample (cb_config od) = int (unat (od_FailurePercentageRequestVolume od)) \<and>
     (\<exists>q. cbc_ErrRate (cb_config od) = Fin q \<and>
        \<bar>q - of_nat (unat (od_FailurePercentageThreshold od)) / 100\<bar> \<le>
          of_nat (unat (od_FailurePercentageThreshold od)) / 100 / 2 ^ 53)"
proof (cases "od_FailurePercentageRequestVolume od = 0 \<or> od_FailurePercentageThreshold od = 0")
  case True
  then show ?thesis by (auto simp: cb_config_def zero_CBConfig_def)
next
  case False
  let ?t = "unat (od_FailurePercentageThreshold od)"
  from False have "0 < ?t" using unat_gt_0 by blast
  then have "0 < (of_nat ?t / 100 :: rat)" by (simp del: of_nat_unat)
  from round53_error [OF this] False show ?thesis by (simp add: cb_config_def f64_percent_def)
qed

end
