(* ===== verification/Retry.thy ===== *)
theory Retry
  imports PolicySync Router Rds
begin

text \<open>
  \<open>xdssuite/retry.go\<close>: route updates become retry policies of the clusters they route to. The calls
  on the retry container are recorded in order: \<open>Some\<close> policy is \<open>NotifyPolicyChange\<close>, \<open>None\<close> is
  \<open>DeletePolicy\<close>.
\<close>

text \<open>\<open>Duration.Milliseconds\<close>: the division of Go truncates towards zero.\<close>

definition Milliseconds :: "Duration \<Rightarrow> int" where
  "Milliseconds d = (if 0 \<le> d then d div 1000000 else - (- d div 1000000))"

datatype BackOffPolicy =
    NoneBackOff
  | FixedBackOff float64 \<comment> \<open>\<open>FixMSBackOffCfgKey\<close>\<close>
  | RandomBackOff float64 float64 \<comment> \<open>\<open>MaxMSBackOffCfgKey\<close>, \<open>MinMSBackOffCfgKey\<close>\<close>

record RetryPolicyConfig =
  rpc_Enable :: bool
  rpc_RetrySameNode :: bool
  rpc_MaxRetryTimes :: int
  rpc_MaxDurationMS :: "32 word"
  rpc_ErrorRate :: float64
  rpc_BackOffPolicy :: BackOffPolicy

definition backoff_policy :: "RetryPolicy \<Rightarrow> BackOffPolicy" where
  "backoff_policy rp =
     (case rp_RetryBackOff rp of
        None \<Rightarrow> NoneBackOff
      | Some b \<Rightarrow>
          if rbo_MaxInterval b > rbo_BaseInterval b
          then RandomBackOff (Fin (of_int (Milliseconds (rbo_MaxInterval b)))) (Fin (of_int (Milliseconds (rbo_BaseInterval b))))
          else FixedBackOff (Fin (of_int (Milliseconds (rbo_BaseInterval b)))))"

definition route_policy :: "Route \<Rightarrow> RetryPolicyConfig" where
  "route_policy route =
     (let rp = rt_RetryPolicy route in
      \<lparr>rpc_Enable = True, rpc_RetrySameNode = False, rpc_MaxRetryTimes = rp_NumRetries rp,
       rpc_MaxDurationMS = word_of_int (Milliseconds (rp_PerTryTimeout rp)) * word_of_int (rp_NumRetries rp),
       rpc_ErrorRate = rp_CBErrorRate rp, rpc_BackOffPolicy = backoff_policy rp\<rparr>)"

definition retryPolicyKey :: "string \<Rightarrow> string \<Rightarrow> string" where
  "retryPolicyKey cluster method = cluster @ ''|'' @ method"

text \<open>The \<open>NotifyPolicyChange\<close> calls for one cluster of a route, and for a whole update.\<close>

definition cluster_changes :: "Route \<Rightarrow> WeightedCluster \<Rightarrow> (string \<times> RetryPolicyConfig) list" where
  "cluster_changes route cluster =
     (wc_Name cluster, route_policy route) #
     map (\<lambda>method. (retryPolicyKey (wc_Name cluster) method, route_policy route)) (rp_Methods (rt_RetryPolicy route))"

definition host_changes :: "VirtualHost list \<Rightarrow> (string \<times> RetryPolicyConfig) list" where
  "host_changes vhs =
     concat (map (\<lambda>vh. concat (map (\<lambda>route. concat (map (cluster_changes route) (rt_WeightedClusters route)))
       (vh_Routes vh))) vhs)"

fun retry_changes :: "(string \<times> Resource) list \<Rightarrow> (string \<times> RetryPolicyConfig) list run" where
  "retry_changes [] = Returns []"
| "retry_changes ((name, resource) # res) =
     (case resource of
        ResRouteConfig None \<Rightarrow> nil_panic
      | ResRouteConfig (Some r) \<Rightarrow>
          run_bind (retry_changes res) (\<lambda>rest.
            Returns ((case rc_HTTPRouteConfig r of None \<Rightarrow> [] | Some vhs \<Rightarrow> host_changes vhs) @ rest))
      | _ \<Rightarrow> retry_changes res)"

record retrySuite =
  rs_lastPolicies :: "string list option"
  rs_Container :: "(string \<times> RetryPolicyConfig option) list"
  rs_matchMethod :: bool

definition retry_apply :: "(string \<times> RetryPolicyConfig) list \<Rightarrow> retrySuite \<Rightarrow> retrySuite" where
  "retry_apply changes rc =
     (let lastPolicies = (case rs_lastPolicies rc of None \<Rightarrow> [] | Some l \<Rightarrow> l);
          thisPolicies = remdups (map fst changes)
      in rc\<lparr>rs_Container := rs_Container rc @ map (\<lambda>(k, p). (k, Some p)) changes @
              map (\<lambda>k. (k, None)) (filter (\<lambda>k. k \<notin> set thisPolicies) lastPolicies),
            rs_lastPolicies := Some thisPolicies\<rparr>)"

definition updateRetryPolicy :: "retrySuite \<Rightarrow> (string, Resource) gomap \<Rightarrow> retrySuite run" where
  "updateRetryPolicy rc res = run_bind (retry_changes res) (\<lambda>changes. Returns (retry_apply changes rc))"

definition rs_retryPolicyKey :: "retrySuite \<Rightarrow> string \<Rightarrow> string \<Rightarrow> string" where
  "rs_retryPolicyKey rs cluster method =
     (if \<not> rs_matchMethod rs then cluster else retryPolicyKey cluster method)"

definition genRetryServiceKey ::
  "retrySuite \<Rightarrow> 'ctx XDSRouter \<Rightarrow> 's getter \<Rightarrow> 'ctx \<Rightarrow> RPCInfo option \<Rightarrow> 's \<Rightarrow> (string \<times> ri_call list \<times> 's) run" where
  "genRetryServiceKey rs R get ctx ri s =
     (case ri of
        None \<Rightarrow> Returns ('''', [], s)
      | Some ri \<Rightarrow>
          (case ri_To ri of
             None \<Rightarrow> Returns ('''', [], s)
           | Some dest \<Rightarrow>
               if snd (ei_Tag dest RouterClusterKey) then Returns (fst (ei_Tag dest RouterClusterKey), [], s)
               else run_bind (Route R get ctx ri s) (\<lambda>(res, s).
                 case res of
                   Inl err \<Rightarrow> Returns ('''', [], s)
                 | Inr res \<Rightarrow>
                     Returns (rs_retryPolicyKey rs (rr_ClusterPicked res) (ei_Method dest), set_destination res, s))))"

definition NewRetryPolicy ::
  "'ctx SuiteOptions \<Rightarrow> nat \<Rightarrow> xdsResourceManager singletonManager \<Rightarrow> (retrySuite \<times> xdsResourceManager) run" where
  "NewRetryPolicy opt handler s =
     (case getManager s of
        None \<Rightarrow> Panics ''xds resource manager has not been initialized''
      | Some m \<Rightarrow>
          Returns (\<lparr>rs_lastPolicies = None, rs_Container = [], rs_matchMethod = so_matchRetryMethod opt\<rparr>,
                   RegisterXDSUpdateHandler RouteConfigType handler m))"

subsection \<open>The container follows the updates\<close>

definition rs_last :: "retrySuite \<Rightarrow> string set" where
  "rs_last rc = (case rs_lastPolicies rc of None \<Rightarrow> {} | Some l \<Rightarrow> set l)"

definition rs_in_force :: "retrySuite \<Rightarrow> string \<Rightarrow> RetryPolicyConfig option option" where
  "rs_in_force rc k = last_call (rs_Container rc) k"

interpretation rs_sync: policy_sync rs_last rs_in_force "\<lambda>_. True" "\<lambda>_. True"
  "\<lambda>changes k. map_option Some (last_call changes k)" None retry_apply
proof (unfold_locales, goal_cases)
  case (1 s u)
  have "(last_call u k \<noteq> None) \<longleftrightarrow> k \<in> set (map fst u)" for k
    by (simp only: last_call_None not_not set_map)
  then show ?case by (auto simp: rs_last_def retry_apply_def Let_def)
next
  case (2 s u k)
  have key: "k \<in> set (map fst u) \<longleftrightarrow> last_call u k \<noteq> None"
    by (simp only: last_call_None not_not set_map)
  show ?case
    unfolding retry_apply_def Let_def rs_in_force_def rs_last_def
    by (cases "rs_lastPolicies s"; cases "last_call u k")
      (simp_all add: last_call_map_snd last_call_const key del: set_map)
qed simp

definition routes_not_nil :: "(string, Resource) gomap \<Rightarrow> bool" where
  "routes_not_nil res \<longleftrightarrow> list_all (\<lambda>kr. snd kr \<noteq> ResRouteConfig None) res"

lemma retry_changes_Returns: "routes_not_nil res \<Longrightarrow> \<exists>cs. retry_changes res = Returns cs"
proof (induction res)
  case (Cons kr res)
  obtain k r where kr: "kr = (k, r)" by (cases kr)
  from Cons obtain cs where "retry_changes res = Returns cs" by (auto simp: routes_not_nil_def)
  with Cons.prems show ?case by (auto simp: kr routes_not_nil_def split: Resource.split option.split)
qed simp

subsection \<open>Properties\<close>

fun retry_updates :: "(string, Resource) gomap list \<Rightarrow> retrySuite \<Rightarrow> retrySuite run" where
  "retry_updates [] rc = Returns rc"
| "retry_updates (u # us) rc = run_bind (updateRetryPolicy rc u) (retry_updates us)"

definition new_rs :: "bool \<Rightarrow> retrySuite" where
  "new_rs mm = \<lparr>rs_lastPolicies = None, rs_Container = [], rs_matchMethod = mm\<rparr>"

lemma new_rs_tidy: "rs_sync.tidy (new_rs mm)"
  by (simp add: rs_sync.tidy_def new_rs_def rs_in_force_def)

lemma retry_updates_append:
  "retry_updates (us @ [u]) rc = run_bind (retry_updates us rc) (\<lambda>rc. updateRetryPolicy rc u)"
proof (induction us arbitrary: rc)
  case Nil
  show ?case by (cases "updateRetryPolicy rc u") simp_all
next
  case (Cons v us)
  then show ?case by (cases "updateRetryPolicy rc v") simp_all
qed

lemma retry_updates_tidy:
  assumes "rs_sync.tidy rc" and "list_all routes_not_nil us"
  shows "\<exists>rc'. retry_updates us rc = Returns rc' \<and> rs_sync.tidy rc'"
  using assms
proof (induction us arbitrary: rc)
  case (Cons u us)
  then obtain cs where "retry_changes u = Returns cs" using retry_changes_Returns [of u] by auto
  with Cons rs_sync.tidy_sync [OF Cons.prems(1), of cs] show ?case by (simp add: updateRetryPolicy_def)
qed simp

lemma retry_updates_in_force:
  assumes "list_all routes_not_nil us" and "retry_changes u = Returns cs"
  shows "\<exists>rc. retry_updates (us @ [u]) (new_rs mm) = Returns rc \<and>
    (\<forall>k. case last_call cs k of
       Some p \<Rightarrow> rs_in_force rc k = Some (Some p)
     | None \<Rightarrow> rs_in_force rc k = None \<or> rs_in_force rc k = Some None)"
proof -
  obtain rc where rc: "retry_updates us (new_rs mm) = Returns rc" "rs_sync.tidy rc"
    using retry_updates_tidy [OF new_rs_tidy assms(1)] by blast
  have "retry_updates (us @ [u]) (new_rs mm) = Returns (retry_apply cs rc)"
    using rc(1) assms(2) by (simp add: retry_updates_append updateRetryPolicy_def)
  moreover have "case last_call cs k of
       Some p \<Rightarrow> rs_in_force (retry_apply cs rc) k = Some (Some p)
     | None \<Rightarrow> rs_in_force (retry_apply cs rc) k = None \<or> rs_in_force (retry_apply cs rc) k = Some None" for k
    using rs_sync.in_force [OF rc(2), of cs k] by (cases "last_call cs k") auto
  ultimately show ?thesis by blast
qed


definition example_route :: "string \<Rightarrow> Route" where
  "example_route c = zero_Route\<lparr>rt_WeightedClusters := [\<lparr>wc_Name = c, wc_Weight = 1\<rparr>],
     rt_RetryPolicy := zero_RetryPolicy\<lparr>rp_NumRetries := 3, rp_PerTryTimeout := 2000000000\<rparr>\<rparr>"

definition example_rc :: "string \<Rightarrow> Resource" where
  "example_rc c = ResRouteConfig (Some \<lparr>rc_HTTPRouteConfig = Some [\<lparr>vh_Name = ''h'', vh_Routes = [example_route c]\<rparr>],
     rc_ThriftRouteConfig = None, rc_MaxTokens = 0, rc_TokensPerFill = 0\<rparr>)"

lemma example_changes:
  "retry_changes [(n, example_rc c)] = Returns [(c, route_policy (example_route c))]"
  by (simp add: example_rc_def host_changes_def cluster_changes_def example_route_def zero_RetryPolicy_def)


text \<open>C40: a retry policy parsed from the control plane never backs off at random. The base interval is
  read from the maximal one, so the two are equal and the policy is none or a fixed backoff of the maximal
  interval, whatever base interval was configured.\<close>

theorem parsed_backoff_never_random:
  assumes "unmarshalRoute L r = Inr route"
  shows "backoff_policy (rt_RetryPolicy route) =
    (case rp_RetryBackOff (rt_RetryPolicy route) of
       None \<Rightarrow> NoneBackOff
     | Some b \<Rightarrow> FixedBackOff (Fin (of_int (Milliseconds (rbo_MaxInterval b)))))"
  using unmarshalRoute_backoff [OF assms] by (auto simp: backoff_policy_def split: option.split)

definition example_pb_route :: PbRoute where
  "example_pb_route =
     \<lparr>pbr_Name = ''r'', pbr_Match = Some \<lparr>pbrm_PathSpecifier = PS_Path ''/s/m'', pbrm_Headers = []\<rparr>,
      pbr_Action = Some (Route_Route \<lparr>pbra_ClusterSpecifier = CS_Cluster ''c'', pbra_Timeout = None,
        pbra_RetryPolicy = Some \<lparr>pbrp_RetryOn = ''5xx'', pbrp_NumRetries = Some 3, pbrp_PerTryTimeout = None,
          pbrp_PerTryIdleTimeout = None, pbrp_RetriableHeaders = [],
          pbrp_RetryBackOff = Some \<lparr>pbrb_BaseInterval = Some \<lparr>pbd_Seconds = 1, pbd_Nanos = 0\<rparr>, pbrb_MaxInterval = Some \<lparr>pbd_Seconds = 10, pbd_Nanos = 0\<rparr>\<rparr>\<rparr>\<rparr>)\<rparr>"

definition example_duration_lib :: lib where
  "example_duration_lib = example_lib\<lparr>AsDuration := \<lambda>d. case d of None \<Rightarrow> 0 | Some x \<Rightarrow> pbd_Seconds x * 1000000000\<rparr>"

theorem parsed_backoff_never_random_witness:
  "\<exists>route. unmarshalRoute example_duration_lib example_pb_route = Inr route \<and>
     backoff_policy (rt_RetryPolicy route) = FixedBackOff (Fin 10000)"
proof -
  obtain route where r: "unmarshalRoute example_duration_lib example_pb_route = Inr route"
    "rp_RetryBackOff (rt_RetryPolicy route) = Some \<lparr>rbo_BaseInterval = 10000000000, rbo_MaxInterval = 10000000000\<rparr>"
    by (simp add: unmarshalRoute_def example_pb_route_def parse_route_action_def parse_retry_policy_def
        example_duration_lib_def)
  with parsed_backoff_never_random [OF r(1)] show ?thesis by (simp add: Milliseconds_def)
qed

text \<open>The total retry duration is the product of the per-try timeout in milliseconds and the number of
  retries, modulo \<open>2^32\<close>.\<close>

theorem retry_duration_mod:
  assumes "0 \<le> rp_PerTryTimeout (rt_RetryPolicy route)" and "0 \<le> rp_NumRetries (rt_RetryPolicy route)"
  shows "uint (rpc_MaxDurationMS (route_policy route)) =
    (rp_PerTryTimeout (rt_RetryPolicy route) div 1000000 * rp_NumRetries (rt_RetryPolicy route)) mod 2 ^ 32"
proof -
  have "rpc_MaxDurationMS (route_policy route) =
      word_of_int (rp_PerTryTimeout (rt_RetryPolicy route) div 1000000 * rp_NumRetries (rt_RetryPolicy route))"
    using assms by (simp add: route_policy_def Let_def Milliseconds_def)
  then show ?thesis by (simp only: uint_word_of_int) simp
qed

theorem retry_duration_mod_witness:
  "uint (rpc_MaxDurationMS (route_policy (example_route ''a''))) = 6000"
  using retry_duration_mod [of "example_route ''a''"] by (simp add: example_route_def)

end
