(* ===== verification/PolicyFlow.thy ===== *)
theory PolicyFlow
  imports CircuitBreaker Retry Manager
begin

text \<open>
  From an update of the manager to the policies of the suite: the handlers that \<open>NewCircuitBreaker\<close> and
  \<open>NewRetryPolicy\<close> register are called with the map of every update of their type. What they have made
  of those calls is compared with the cache.
\<close>

definition calls_of :: "nat \<Rightarrow> xdsResourceManager \<Rightarrow> (string, Resource) gomap list" where
  "calls_of h m = map snd (filter (\<lambda>c. fst c = h) (m_handlerCalls m))"

lemma update_calls_handler:
  assumes "manager_inv m" and "gm_wf up" and "\<forall>(n, r) \<in> set up. resource_has_type rt r"
    and "map_of (m_xdsHandlers m) rt = Some hs" and "distinct hs" and "h \<in> set hs"
  obtains m' where "UpdateResource now rt up ver m = Returns m'" and "abs_cache m' = spec_update rt up (abs_cache m)"
    and "calls_of h m' = calls_of h m @ [up]"
proof -
  have "filter (\<lambda>c. fst c = h) (map (\<lambda>h. (h, up)) hs) = [(h, up)]"
    using assms(5,6) by (induction hs) (auto simp: filter_empty_conv)
  then have c: "map snd (filter (\<lambda>c. fst c = h) (map (\<lambda>h. (h, up)) hs)) = [up]" by simp
  show thesis
    by (rule UpdateResource_Returns [OF assms(1-3), of now ver]) (use that c in \<open>simp add: calls_of_def assms(4)\<close>)
qed

lemma typed_clusters_not_nil:
  "\<forall>(n, r) \<in> set up. r \<noteq> ResCluster None \<Longrightarrow> clusters_not_nil up"
  by (auto simp: clusters_not_nil_def list_all_iff)

text \<open>C26: the circuit breaker follows the cached clusters. Let the circuit breaker's handler be registered
  and have handled every call so far. After a further update of clusters, and its call, a key has exactly
  the configuration derived from the outlier detection of the cluster cached under it; every key without
  such a cluster has none or is switched off.\<close>

theorem circuit_breaker_follows_cache:
  assumes "manager_inv m" and "gm_wf up" and "\<forall>(n, r) \<in> set up. resource_has_type ClusterType r \<and> r \<noteq> ResCluster None"
    and "map_of (m_xdsHandlers m) ClusterType = Some hs" and "distinct hs" and "h \<in> set hs"
    and "list_all (\<lambda>u. gm_wf u \<and> clusters_not_nil u) (calls_of h m)"
  shows "\<exists>m' cb. UpdateResource now ClusterType up ver m = Returns m' \<and> cb_updates (calls_of h m') new_cb = Returns cb \<and>
    (\<forall>k. case abs_cache m' ClusterType k of
       Some (ResCluster (Some cl)) \<Rightarrow>
         (case cr_OutlierDetection cl of
            Some od \<Rightarrow> cb_in_force cb k = Some (cb_config od)
          | None \<Rightarrow> cb_in_force cb k \<in> {None, Some zero_CBConfig})
     | _ \<Rightarrow> cb_in_force cb k \<in> {None, Some zero_CBConfig})"
proof -
  have typed: "\<forall>(n, r) \<in> set up. resource_has_type ClusterType r" and nn: "clusters_not_nil up"
    using assms(3) by (auto intro: typed_clusters_not_nil)
  obtain m' where m': "UpdateResource now ClusterType up ver m = Returns m'"
    "abs_cache m' = spec_update ClusterType up (abs_cache m)" "calls_of h m' = calls_of h m @ [up]"
    by (rule update_calls_handler [OF assms(1,2) typed assms(4-6)])
  obtain cb where cb: "cb_updates (calls_of h m @ [up]) new_cb = Returns cb"
    and force: "\<And>k. case cb_want up k of
       Some p \<Rightarrow> cb_in_force cb k = Some p
     | None \<Rightarrow> cb_in_force cb k = None \<or> cb_in_force cb k = Some zero_CBConfig"
    using cb_updates_in_force [OF assms(7,2) nn] by blast
  have "abs_cache m' ClusterType k = map_of up k" for k
    by (simp add: m'(2) spec_update_def RequireFullADSResponse_def)
  then have "case abs_cache m' ClusterType k of
       Some (ResCluster (Some cl)) \<Rightarrow>
         (case cr_OutlierDetection cl of
            Some od \<Rightarrow> cb_in_force cb k = Some (cb_config od)
          | None \<Rightarrow> cb_in_force cb k \<in> {None, Some zero_CBConfig})
     | _ \<Rightarrow> cb_in_force cb k \<in> {None, Some zero_CBConfig}" for k
    using force [of k] by (auto simp: cb_want_def split: option.splits Resource.splits)
  with m' cb show ?thesis by auto
qed

theorem circuit_breaker_follows_cache_witness:
  "\<exists>m' cb. UpdateResource 5 ClusterType [(''a'', ResCluster (Some example_od))] ''v1''
       (RegisterXDSUpdateHandler ClusterType 3 (new_manager example_opts)) = Returns m' \<and>
     cb_updates (calls_of 3 m') new_cb = Returns cb \<and>
     cb_in_force cb ''a'' = Some (cb_config \<lparr>od_FailurePercentageThreshold = 50, od_FailurePercentageRequestVolume = 100\<rparr>)"
proof -
  let ?m = "RegisterXDSUpdateHandler ClusterType 3 (new_manager example_opts)" and ?up = "[(''a'', ResCluster (Some example_od))]"
  have m: "manager_inv ?m" by (simp add: Register_inv manager_inv_new)
  have h: "map_of (m_xdsHandlers ?m) ClusterType = Some [3]" "calls_of 3 ?m = []"
    by (simp_all add: RegisterXDSUpdateHandler_def new_manager_def calls_of_def)
  have up: "\<forall>(n, r) \<in> set ?up. resource_has_type ClusterType r \<and> r \<noteq> ResCluster None" by simp
  obtain m' cb where r: "UpdateResource 5 ClusterType ?up ''v1'' ?m = Returns m'" "cb_updates (calls_of 3 m') new_cb = Returns cb"
    and f: "case abs_cache m' ClusterType ''a'' of
       Some (ResCluster (Some cl)) \<Rightarrow>
         (case cr_OutlierDetection cl of
            Some od \<Rightarrow> cb_in_force cb ''a'' = Some (cb_config od)
          | None \<Rightarrow> cb_in_force cb ''a'' \<in> {None, Some zero_CBConfig})
     | _ \<Rightarrow> cb_in_force cb ''a'' \<in> {None, Some zero_CBConfig}"
    using circuit_breaker_follows_cache [OF m _ up h(1), of 3 5 "''v1''"] h(2) by auto
  have "abs_cache m' ClusterType ''a'' = Some (ResCluster (Some example_od))"
    by (rule UpdateResource_Returns [OF m _ _, of ?up ClusterType 5 "''v1''"])
      (use r(1) up in \<open>auto simp: spec_update_def RequireFullADSResponse_def\<close>)
  with f r show ?thesis by (auto simp: example_od_def)
qed

text \<open>C37: the retry container forgets routes that are still cached. A route response need not be complete,
  and the cache keeps the routes that it does not mention; but the retry handler takes every update as the
  complete set of routes, and deletes the policies of all others. After an update, every key that the
  update does not mention has no policy, also if a cached route configuration asks for one.\<close>

theorem retry_forgets_cached_routes:
  assumes "manager_inv m" and "gm_wf up" and "\<forall>(n, r) \<in> set up. resource_has_type RouteConfigType r"
    and "map_of (m_xdsHandlers m) RouteConfigType = Some hs" and "distinct hs" and "h \<in> set hs"
    and "list_all routes_not_nil (calls_of h m)" and "retry_changes up = Returns cs"
    and "abs_cache m RouteConfigType n = Some r" and "map_of up n = None" and "last_call cs k = None"
  shows "\<exists>m' rc. UpdateResource now RouteConfigType up ver m = Returns m' \<and>
    abs_cache m' RouteConfigType n = Some r \<and>
    retry_updates (calls_of h m') (new_rs mm) = Returns rc \<and> rs_in_force rc k \<in> {None, Some None}"
proof -
  obtain m' where m': "UpdateResource now RouteConfigType up ver m = Returns m'"
    "abs_cache m' = spec_update RouteConfigType up (abs_cache m)" "calls_of h m' = calls_of h m @ [up]"
    by (rule update_calls_handler [OF assms(1-6)])
  obtain rc where "retry_updates (calls_of h m @ [up]) (new_rs mm) = Returns rc"
    "case last_call cs k of Some p \<Rightarrow> rs_in_force rc k = Some (Some p)
       | None \<Rightarrow> rs_in_force rc k = None \<or> rs_in_force rc k = Some None"
    using retry_updates_in_force [OF assms(7,8), of mm] by blast
  moreover have "abs_cache m' RouteConfigType n = Some r"
    using assms(9,10) by (simp add: m'(2) spec_update_def RequireFullADSResponse_def map_add_def)
  ultimately show ?thesis using m'(1,3) assms(11) by auto
qed

theorem retry_forgets_cached_routes_witness:
  "\<exists>m1 m2 rc1 rc2.
     UpdateResource 1 RouteConfigType [(''r1'', example_rc ''a'')] ''v1''
       (RegisterXDSUpdateHandler RouteConfigType 3 (new_manager example_opts)) = Returns m1 \<and>
     UpdateResource 2 RouteConfigType [(''r2'', example_rc ''b'')] ''v2'' m1 = Returns m2 \<and>
     abs_cache m2 RouteConfigType ''r1'' = Some (example_rc ''a'') \<and>
     retry_updates (calls_of 3 m1) (new_rs False) = Returns rc1 \<and>
     rs_in_force rc1 ''a'' = Some (Some (route_policy (example_route ''a''))) \<and>
     retry_updates (calls_of 3 m2) (new_rs False) = Returns rc2 \<and> rs_in_force rc2 ''a'' \<in> {None, Some None}"
proof -
  let ?m = "RegisterXDSUpdateHandler RouteConfigType 3 (new_manager example_opts)"
  have m: "manager_inv ?m" by (simp add: Register_inv manager_inv_new)
  have h: "map_of (m_xdsHandlers ?m) RouteConfigType = Some [3]" "calls_of 3 ?m = []"
    by (simp_all add: RegisterXDSUpdateHandler_def new_manager_def calls_of_def)
  have up: "\<forall>(n, r) \<in> set [(x, example_rc y)]. resource_has_type RouteConfigType r" "routes_not_nil [(x, example_rc y)]" for x y
    by (simp_all add: example_rc_def routes_not_nil_def)
  obtain m1 where m1: "UpdateResource 1 RouteConfigType [(''r1'', example_rc ''a'')] ''v1'' ?m = Returns m1" "manager_inv m1"
    "abs_cache m1 = spec_update RouteConfigType [(''r1'', example_rc ''a'')] (abs_cache ?m)" "m_xdsHandlers m1 = m_xdsHandlers ?m"
    by (rule UpdateResource_Returns [OF m _ up(1)]) simp_all
  moreover have "calls_of 3 m1 = [[(''r1'', example_rc ''a'')]]"
    by (rule update_calls_handler [where now = 1 and ver = "''v1''" and h = 3, OF m _ up(1) [of "''r1''" "''a''"] h(1)])
      (use m1(1) h(2) in auto)
  moreover have r1: "abs_cache m1 RouteConfigType ''r1'' = Some (example_rc ''a'')"
    using m1(3) by (simp add: spec_update_def RequireFullADSResponse_def)
  ultimately obtain m2 rc2 where "UpdateResource 2 RouteConfigType [(''r2'', example_rc ''b'')] ''v2'' m1 = Returns m2"
    "abs_cache m2 RouteConfigType ''r1'' = Some (example_rc ''a'')"
    "retry_updates (calls_of 3 m2) (new_rs False) = Returns rc2" "rs_in_force rc2 ''a'' \<in> {None, Some None}"
    using retry_forgets_cached_routes [where hs = "[3]" and h = 3 and k = "''a''" and now = 2 and ver = "''v2''" and mm = False,
        OF m1(2) _ up(1) _ _ _ _ example_changes [of "''r2''" "''b''"] r1] h up(2)
    by (auto simp: last_call_def)
  moreover obtain rc1 where "retry_updates ([] @ [[(''r1'', example_rc ''a'')]]) (new_rs False) = Returns rc1"
    and "\<And>k. case last_call [(''a'', route_policy (example_route ''a''))] k of
        None \<Rightarrow> rs_in_force rc1 k = None \<or> rs_in_force rc1 k = Some None
      | Some p \<Rightarrow> rs_in_force rc1 k = Some (Some p)"
    using retry_updates_in_force [of "[]" _ _ False, OF _ example_changes [of "''r1''" "''a''"]] by auto
  note rc1 = this(1) this(2) [of "''a''"]
  have "retry_updates (calls_of 3 m1) (new_rs False) = Returns rc1"
    "rs_in_force rc1 ''a'' = Some (Some (route_policy (example_route ''a'')))"
    using rc1 \<open>calls_of 3 m1 = _\<close> by (simp_all add: last_call_def)
  ultimately show ?thesis using m1(1) by blast
qed

end
