(* ===== verification/Limiter.thy ===== *)
theory Limiter
  imports Suite
begin

text \<open>
  \<open>xdssuite/limiter.go\<close>: the token bucket of the reserved listener becomes the QPS limit of the
  server. The calls of \<open>UpdateLimit\<close> on the updater the server hands over are recorded.
\<close>

definition MaxInt :: int where
  "MaxInt = 2 ^ 63 - 1"

record limit_Option =
  lo_MaxQPS :: int
  lo_MaxConnections :: int

definition setLimitOption :: "32 word \<Rightarrow> limit_Option" where
  "setLimitOption token =
     (let maxQPS = int (unat token);
          maxQPS = (if maxQPS = 0 then MaxInt else maxQPS)
      in \<lparr>lo_MaxQPS = maxQPS, lo_MaxConnections = MaxInt\<rparr>)"

fun tokens_loop :: "NetworkFilter list \<Rightarrow> (32 word, 32 word) gomap \<Rightarrow> (32 word, 32 word) gomap" where
  "tokens_loop [] tpfs = tpfs"
| "tokens_loop (lis # fs) tpfs =
     (case nf_InlineRouteConfig lis of
        None \<Rightarrow> tokens_loop fs tpfs
      | Some rc \<Rightarrow> tokens_loop fs (gm_put (nf_RoutePort lis) (rc_TokensPerFill rc) tpfs))"

text \<open>A nil map reads as the empty one.\<close>

definition getLimiterPolicy :: "(string, Resource) gomap \<Rightarrow> (32 word, 32 word) gomap" where
  "getLimiterPolicy up =
     (case map_of up ReservedLdsResourceName of
        Some (ResListener (Some lds)) \<Rightarrow> tokens_loop (lr_NetworkFilters lds) []
      | _ \<Rightarrow> [])"

record limiter =
  li_updater :: bool \<comment> \<open>an updater has been stored\<close>
  li_updates :: "limit_Option list" \<comment> \<open>the options given to it, in order\<close>
  li_opt :: limit_Option
  li_port :: "32 word"

definition updateHandler :: "limit_Option \<Rightarrow> limiter \<Rightarrow> limiter" where
  "updateHandler changed l =
     (let l = l\<lparr>li_opt := \<lparr>lo_MaxQPS = lo_MaxQPS changed, lo_MaxConnections = lo_MaxConnections changed\<rparr>\<rparr>
      in if \<not> li_updater l then l else l\<lparr>li_updates := li_updates l @ [li_opt l]\<rparr>)"

definition listenerUpdater :: "(string, Resource) gomap \<Rightarrow> limiter \<Rightarrow> limiter" where
  "listenerUpdater res l =
     (let tokens = getLimiterPolicy res;
          opt = (case map_of tokens (li_port l) of
                   Some mt \<Rightarrow> setLimitOption mt
                 | None \<Rightarrow>
                     (case map_of tokens DefaultServerPort of
                        Some mt \<Rightarrow> setLimitOption mt
                      | None \<Rightarrow> setLimitOption 0))
      in updateHandler opt l)"

text \<open>The closure \<open>UpdateControl\<close>, which the server calls once with its updater, and its two statements.\<close>

definition UpdateControl_limit :: "limiter \<Rightarrow> limiter" where
  "UpdateControl_limit l = l\<lparr>li_updates := li_updates l @ [li_opt l]\<rparr>"

definition UpdateControl_store :: "limiter \<Rightarrow> limiter" where
  "UpdateControl_store l = l\<lparr>li_updater := True\<rparr>"

definition UpdateControl :: "limiter \<Rightarrow> limiter" where
  "UpdateControl l = UpdateControl_store (UpdateControl_limit l)"

definition NewLimiter ::
  "'ctx SuiteOptions \<Rightarrow> nat \<Rightarrow> xdsResourceManager singletonManager \<Rightarrow> (limiter \<times> xdsResourceManager) run" where
  "NewLimiter serverOpt handler s =
     (case getManager s of
        None \<Rightarrow> Panics ''xds resource manager has not been initialized''
      | Some m \<Rightarrow>
          Returns (\<lparr>li_updater = False, li_updates = [], li_opt = \<lparr>lo_MaxQPS = 0, lo_MaxConnections = 0\<rparr>,
                    li_port = so_servicePort serverOpt\<rparr>,
                   RegisterXDSUpdateHandler ListenerType handler m))"

subsection \<open>Properties\<close>

lemma tokens_loop_last:
  "map_of (tokens_loop fs acc) port =
     (case filter (\<lambda>f. nf_InlineRouteConfig f \<noteq> None \<and> nf_RoutePort f = port) fs of
        [] \<Rightarrow> map_of acc port
      | xs \<Rightarrow> map_option rc_TokensPerFill (nf_InlineRouteConfig (last xs)))"
  by (induction fs acc rule: tokens_loop.induct) (auto split: option.split list.split)

text \<open>The tokens the reserved listener of an update configures for a port: those of the last filter.\<close>

definition port_tokens :: "(string, Resource) gomap \<Rightarrow> 32 word \<Rightarrow> 32 word option" where
  "port_tokens up port =
     (case map_of up ReservedLdsResourceName of
        Some (ResListener (Some lds)) \<Rightarrow>
          (case filter (\<lambda>f. nf_InlineRouteConfig f \<noteq> None \<and> nf_RoutePort f = port) (lr_NetworkFilters lds) of
             [] \<Rightarrow> None
           | xs \<Rightarrow> map_option rc_TokensPerFill (nf_InlineRouteConfig (last xs)))
      | _ \<Rightarrow> None)"

lemma getLimiterPolicy_tokens: "map_of (getLimiterPolicy up) port = port_tokens up port"
  by (auto simp: getLimiterPolicy_def port_tokens_def tokens_loop_last split: option.split Resource.split list.split)

text \<open>C31: the QPS limit after a listener update is the refill rate of the reserved listener for the port of
  the service, else the one for port 0, else none; a rate of 0 means none too. Without a reserved listener,
  with a nil one included, there is no limit. An updater that is already known is told at once.\<close>

theorem listenerUpdater_limit:
  "(let l' = listenerUpdater up l;
        rate = (case port_tokens up (li_port l) of
                  Some t \<Rightarrow> t
                | None \<Rightarrow> (case port_tokens up 0 of Some t \<Rightarrow> t | None \<Rightarrow> 0))
    in li_opt l' = \<lparr>lo_MaxQPS = (if rate = 0 then 2 ^ 63 - 1 else int (unat rate)), lo_MaxConnections = 2 ^ 63 - 1\<rparr> \<and>
       li_updates l' = li_updates l @ (if li_updater l then [li_opt l'] else []) \<and>
       li_port l' = li_port l \<and> li_updater l' = li_updater l)"
  by (auto simp: listenerUpdater_def updateHandler_def setLimitOption_def Let_def getLimiterPolicy_tokens
      DefaultServerPort_def MaxInt_def uint_0_iff split: option.split)

text \<open>No limit is lost if no listener update runs inside \<open>UpdateControl\<close>. Once the server has handed over
  its updater, the last option given to it is the current one, after any sequence of listener updates
  before and after.\<close>

theorem limiter_updates_current:
  "li_updates (fold listenerUpdater after (UpdateControl (fold listenerUpdater before l))) \<noteq> [] \<and>
    last (li_updates (fold listenerUpdater after (UpdateControl (fold listenerUpdater before l)))) =
      li_opt (fold listenerUpdater after (UpdateControl (fold listenerUpdater before l)))"
proof -
  define ok where "ok l \<longleftrightarrow> li_updater l \<and> li_updates l \<noteq> [] \<and> last (li_updates l) = li_opt l" for l :: limiter
  have step: "ok (listenerUpdater u l)" if "ok l" for u l
    using that by (simp add: ok_def listenerUpdater_def updateHandler_def Let_def)
  have "ok (UpdateControl m)" for m by (simp add: ok_def UpdateControl_def UpdateControl_limit_def UpdateControl_store_def)
  moreover have "ok m \<Longrightarrow> ok (fold listenerUpdater us m)" for m us
    by (induction us arbitrary: m) (simp_all add: step)
  ultimately show ?thesis by (simp add: ok_def)
qed


end
