(* ===== verification/Wiring.thy ===== *)
theory Wiring
  imports PolicyFlow Resolver Limiter AdsService
begin

text \<open>
  How the parts are put together: \<open>newADSClient\<close> and \<open>connect\<close> of \<open>core/manager/client.go\<close>, the constructors of the router
  and the resolver, and the client and server suites of \<open>xdssuite/option.go\<close>. Options of the RPC framework
  are values of a datatype; the framework's own constructor is an argument.
\<close>

subsection \<open>The gRPC client\<close>

definition newADSClient ::
  "('info \<Rightarrow> client_option list \<Rightarrow> string + 'st kitex_client) \<Rightarrow> 'info \<Rightarrow> XDSServerConfig \<Rightarrow> string + 'st kAggregatedDiscoveryServiceClient" where
  "newADSClient kitexNewClient serviceInfo xdsSvrCfg =
     (let opts = [WithHostPorts (xsc_SvrAddr xdsSvrCfg)] in
      if xsc_XDSAuth xdsSvrCfg then
        (case GetTLSConfig (xsc_SvrAddr xdsSvrCfg) of
           Inl err \<Rightarrow> Inl err
         | Inr tlsConfig \<Rightarrow>
             NewClient kitexNewClient serviceInfo (xsc_SvrName xdsSvrCfg) (opts @ [WithGRPCTLSConfig tlsConfig] @ [WithMetaHandler]))
      else NewClient kitexNewClient serviceInfo (xsc_SvrName xdsSvrCfg) opts)"

text \<open>
  The client speaks gRPC to the server at its address; the server's certificate is not verified, and the
  token is attached exactly if authentication is on.
\<close>

lemma newADSClient_options:
  "newADSClient kitexNewClient info cfg =
     (case kitexNewClient info
        ([WithDestService (xsc_SvrName cfg), WithTransportProtocol GRPC, WithHostPorts (xsc_SvrAddr cfg)] @
         (if xsc_XDSAuth cfg
          then [WithGRPCTLSConfig \<lparr>tls_InsecureSkipVerify = True, tls_ServerName = ''''\<rparr>, WithMetaHandler] else [])) of
        Inl err \<Rightarrow> Inl err | Inr kc \<Rightarrow> Inr \<lparr>ka_kClient = newServiceClient kc\<rparr>)"
  by (simp add: newADSClient_def NewClient_def GetTLSConfig_def)

subsection \<open>Connecting\<close>

text \<open>
  \<open>connect\<close>: \<open>adsClient i\<close> is the framework's client as it is at the \<open>i\<close>-th call of
  \<open>StreamAggregatedResources\<close>, and \<open>Retry\<close> is \<open>backoff.Retry\<close> on the client's backoff: given the answers of
  the operation, how often it calls it and the error it returns. The operation keeps the stream it got in
  \<open>as\<close>; a nil stream is \<open>None\<close>.
\<close>

type_synonym retry = "(nat \<Rightarrow> string option) \<Rightarrow> nat \<times> string option"

definition connect_op :: "(nat \<Rightarrow> 'st kAggregatedDiscoveryServiceClient) \<Rightarrow> nat \<Rightarrow> string option" where
  "connect_op adsClient i = (case ads_StreamAggregatedResources (adsClient i) of Inl err \<Rightarrow> Some err | Inr stream \<Rightarrow> None)"

fun connect_as :: "(nat \<Rightarrow> 'st kAggregatedDiscoveryServiceClient) \<Rightarrow> nat \<Rightarrow> 'st option" where
  "connect_as adsClient 0 = None"
| "connect_as adsClient (Suc i) =
     (case ads_StreamAggregatedResources (adsClient i) of Inl err \<Rightarrow> connect_as adsClient i | Inr stream \<Rightarrow> Some stream)"

definition connect :: "retry \<Rightarrow> (nat \<Rightarrow> 'st kAggregatedDiscoveryServiceClient) \<Rightarrow> string + 'st option" where
  "connect Retry adsClient =
     (case Retry (connect_op adsClient) of
        (n, Some err) \<Rightarrow> Inl err
      | (n, None) \<Rightarrow> Inr (connect_as adsClient n))"

text \<open>
  What the backoff library documents of \<open>Retry\<close>: the operation is run at least once, until it does not
  return an error or the backoff stops, and the last error is returned.
\<close>

definition retries :: "retry \<Rightarrow> bool" where
  "retries Retry \<longleftrightarrow> (\<forall>op. 0 < fst (Retry op) \<and> (\<forall>i. Suc i < fst (Retry op) \<longrightarrow> op i \<noteq> None) \<and>
     snd (Retry op) = op (fst (Retry op) - 1))"

text \<open>The stream of the first attempt that succeeds, and never a nil stream; or the error of the last attempt.\<close>

lemma connect_cases:
  assumes "retries Retry"
  obtains (Connected) i s where "connect Retry adsClient = Inr (Some s)" and "ads_StreamAggregatedResources (adsClient i) = Inr s"
      and "\<forall>j < i. connect_op adsClient j \<noteq> None" and "fst (Retry (connect_op adsClient)) = Suc i"
  | (Failed) i e where "connect Retry adsClient = Inl e" and "connect_op adsClient i = Some e"
      and "\<forall>j < i. connect_op adsClient j \<noteq> None" and "fst (Retry (connect_op adsClient)) = Suc i"
proof -
  obtain n err where r: "Retry (connect_op adsClient) = (n, err)" by fastforce
  have law: "0 < n" "\<And>i. Suc i < n \<Longrightarrow> connect_op adsClient i \<noteq> None" "err = connect_op adsClient (n - 1)"
    using assms r unfolding retries_def by (metis fst_conv snd_conv)+
  then obtain i where n: "n = Suc i" by (cases n) auto
  have fail: "\<forall>j < i. connect_op adsClient j \<noteq> None" using law(2) n by blast
  show thesis
  proof (cases "ads_StreamAggregatedResources (adsClient i)")
    case (Inl e)
    then show thesis using Failed [of e i] fail law(3) r n by (simp add: connect_def connect_op_def)
  next
    case (Inr s)
    then show thesis using Connected [of s i] fail law(3) r n by (simp add: connect_def connect_op_def)
  qed
qed

subsection \<open>The suites\<close>

definition NewXDSRouter ::
  "('ctx \<Rightarrow> (string, string) gomap) \<Rightarrow> 'ctx SuiteOption list \<Rightarrow> xdsResourceManager singletonManager \<Rightarrow> 'ctx SuiteOptions run" where
  "NewXDSRouter getAllValues opts s =
     (case getManager s of
        None \<Rightarrow> Panics ''xds resource manager has not been initialized''
      | Some m \<Rightarrow> Returns (NewSuiteOptions getAllValues opts))"

definition NewXDSResolver :: "xdsResourceManager singletonManager \<Rightarrow> unit run" where
  "NewXDSResolver s =
     (case getManager s of
        None \<Rightarrow> Panics ''xds resource manager has not been initialized''
      | Some m \<Rightarrow> Returns ())"

record 'ctx client_suite =
  cs_router :: "'ctx SuiteOptions"
  cs_breaker :: "cb_option \<times> circuitBreaker"
  cs_retry :: retrySuite

text \<open>
  \<open>NewClientSuite\<close>: its parts are built in the order of the literal. The manager is shared, so what the
  circuit breaker registers is there when the retry policy registers. \<open>h\<close> and \<open>h'\<close> number the two closures.
\<close>

definition NewClientSuite ::
  "('ctx \<Rightarrow> (string, string) gomap) \<Rightarrow> nat \<Rightarrow> nat \<Rightarrow> 'ctx SuiteOption list \<Rightarrow> xdsResourceManager singletonManager \<Rightarrow>
     ('ctx client_suite \<times> xdsResourceManager singletonManager) run" where
  "NewClientSuite getAllValues h h' opts s =
     run_bind (NewXDSRouter getAllValues opts s) (\<lambda>router.
     run_bind (NewXDSResolver s) (\<lambda>_.
     run_bind (NewCircuitBreaker (NewSuiteOptions getAllValues opts) h s) (\<lambda>(kind, cb, m).
     run_bind (NewRetryPolicy (NewSuiteOptions getAllValues opts) h' (Some m)) (\<lambda>(rs, m).
       Returns (\<lparr>cs_router = router, cs_breaker = (kind, cb), cs_retry = rs\<rparr>, Some m)))))"

definition NewServerSuite ::
  "('ctx \<Rightarrow> (string, string) gomap) \<Rightarrow> nat \<Rightarrow> 'ctx SuiteOption list \<Rightarrow> xdsResourceManager singletonManager \<Rightarrow>
     (limiter \<times> xdsResourceManager singletonManager) run" where
  "NewServerSuite getAllValues h opts s =
     run_bind (NewLimiter (NewSuiteOptions getAllValues opts) h s) (\<lambda>(l, m). Returns (l, Some m))"

text \<open>The options a suite gives to the framework, and the two wrappers; \<open>WithSuite\<close> is the framework's.\<close>

datatype 'ctx kitex_option =
    WithXDSSuite "'ctx SuiteOptions"
  | BreakerOption cb_option circuitBreaker
  | RetryOption retrySuite

definition clientSuite_Options :: "'ctx client_suite \<Rightarrow> 'ctx kitex_option list" where
  "clientSuite_Options c =
     [WithXDSSuite (cs_router c), BreakerOption (fst (cs_breaker c)) (snd (cs_breaker c)), RetryOption (cs_retry c)]"

definition NewClientOption ::
  "('ctx client_suite \<Rightarrow> 'opt) \<Rightarrow> ('ctx \<Rightarrow> (string, string) gomap) \<Rightarrow> nat \<Rightarrow> nat \<Rightarrow> 'ctx SuiteOption list \<Rightarrow>
     xdsResourceManager singletonManager \<Rightarrow> ('opt \<times> xdsResourceManager singletonManager) run" where
  "NewClientOption WithSuite getAllValues h h' opts s =
     run_bind (NewClientSuite getAllValues h h' opts s) (\<lambda>(suite, s). Returns (WithSuite suite, s))"

definition serverSuite_Options :: "limiter \<Rightarrow> limiter list" where
  "serverSuite_Options l = [l]"

definition NewServerOption ::
  "(limiter \<Rightarrow> 'opt) \<Rightarrow> ('ctx \<Rightarrow> (string, string) gomap) \<Rightarrow> nat \<Rightarrow> 'ctx SuiteOption list \<Rightarrow>
     xdsResourceManager singletonManager \<Rightarrow> ('opt \<times> xdsResourceManager singletonManager) run" where
  "NewServerOption WithSuite getAllValues h opts s =
     run_bind (NewServerSuite getAllValues h opts s) (\<lambda>(suite, s). Returns (WithSuite suite, s))"

subsection \<open>A suite that is built late\<close>

text \<open>The calls that a registration makes: one with the map of the type, if the cache has one.\<close>

lemma calls_of_Register:
  "calls_of h (RegisterXDSUpdateHandler rt h' m) =
     calls_of h m @ (if h = h' then (case map_of (m_cache m) rt of None \<Rightarrow> [] | Some res \<Rightarrow> [res]) else [])"
  by (simp add: calls_of_def RegisterXDSUpdateHandler_def Let_def split: option.split)

definition handlers_of :: "xdsResourceManager \<Rightarrow> ResourceType \<Rightarrow> nat list" where
  "handlers_of m rt = (case map_of (m_xdsHandlers m) rt of None \<Rightarrow> [] | Some hs \<Rightarrow> hs)"

lemma Register_frame [simp]:
  "m_cache (RegisterXDSUpdateHandler rt h m) = m_cache m"
  "handlers_of (RegisterXDSUpdateHandler rt h m) rt' =
     (if rt' = rt then handlers_of m rt @ [h] else handlers_of m rt')"
  by (simp_all add: RegisterXDSUpdateHandler_def Let_def handlers_of_def split: option.split)

lemma breaker_takes_over_cache:
  assumes "manager_inv m" "\<forall>k. abs_cache m ClusterType k \<noteq> Some (ResCluster None)"
  shows "\<exists>cb. cb_updates (case map_of (m_cache m) ClusterType of None \<Rightarrow> [] | Some res \<Rightarrow> [res]) new_cb = Returns cb \<and>
      (\<forall>k cl od. abs_cache m ClusterType k = Some (ResCluster (Some cl)) \<and> cr_OutlierDetection cl = Some od \<longrightarrow>
         cb_in_force cb k = Some (cb_config od))"
proof (cases "map_of (m_cache m) ClusterType")
  case None
  then have "abs_cache m ClusterType k = None" for k by (simp add: abs_cache_def gm2_get_def gm_sub_def)
  with None show ?thesis by simp
next
  case res: (Some res)
  have look: "abs_cache m ClusterType k = map_of res k" for k by (simp add: abs_cache_def gm2_get_def gm_sub_def res)
  have wf: "gm_wf res" using gm2_wf_sub [of "m_cache m" ClusterType] assms(1) by (simp add: manager_inv_def maps_wf_def gm_sub_def res)
  have "r \<noteq> ResCluster None" if "(k, r) \<in> set res" for k r
    using map_of_is_SomeI [OF wf that] assms(2) look [of k] by auto
  then have nn: "clusters_not_nil res" by (auto simp: clusters_not_nil_def list_all_iff)
  obtain cb where cb: "cb_updates [res] new_cb = Returns cb"
    and force: "\<And>k. case cb_want res k of Some p \<Rightarrow> cb_in_force cb k = Some p
       | None \<Rightarrow> cb_in_force cb k = None \<or> cb_in_force cb k = Some zero_CBConfig"
    using cb_updates_in_force [of "[]" res, OF _ wf nn] by auto
  have "cb_in_force cb k = Some (cb_config od)"
    if "abs_cache m ClusterType k = Some (ResCluster (Some cl))" "cr_OutlierDetection cl = Some od" for k cl od
    using force [of k] that by (simp add: look cb_want_def)
  with cb show ?thesis by (auto simp: res)
qed

text \<open>C27: a client suite needs the manager, and takes over what is already there. Without \<open>Init\<close> building it
  panics. With it, one handler is added for clusters and one for route configurations, the cache is left
  alone, and if clusters are already cached, the circuit breaker's handler has been called so that every
  key has exactly the configuration derived from the cluster cached under it.\<close>

theorem client_suite_takes_over:
  assumes "\<And>m. s = Some m \<Longrightarrow> manager_inv m \<and> calls_of h m = [] \<and> h \<noteq> h' \<and> (\<forall>k. abs_cache m ClusterType k \<noteq> Some (ResCluster None))"
  shows "case s of
      None \<Rightarrow> \<exists>p. NewClientSuite getAllValues h h' opts s = Panics p
    | Some m \<Rightarrow> \<exists>suite m' cb. NewClientSuite getAllValues h h' opts s = Returns (suite, Some m') \<and> manager_inv m' \<and>
        abs_cache m' = abs_cache m \<and>
        handlers_of m' ClusterType = handlers_of m ClusterType @ [h] \<and>
        handlers_of m' RouteConfigType = handlers_of m RouteConfigType @ [h'] \<and>
        cb_updates (calls_of h m') (snd (cs_breaker suite)) = Returns cb \<and>
        (\<forall>k cl od. abs_cache m' ClusterType k = Some (ResCluster (Some cl)) \<and> cr_OutlierDetection cl = Some od \<longrightarrow>
           cb_in_force cb k = Some (cb_config od))"
proof (cases s)
  case None
  then show ?thesis by (simp add: NewClientSuite_def NewXDSRouter_def getManager_def)
next
  case (Some m)
  note a = assms [OF Some]
  let ?m1 = "RegisterXDSUpdateHandler ClusterType h m"
  let ?m' = "RegisterXDSUpdateHandler RouteConfigType h' ?m1"
  let ?opt = "NewSuiteOptions getAllValues opts"
  let ?suite = "\<lparr>cs_router = ?opt, cs_breaker = (if so_enableServiceCircuitBreak ?opt then WithCircuitBreaker else WithInstanceMW, new_cb),
      cs_retry = new_rs (so_matchRetryMethod ?opt)\<rparr>"
  have run: "NewClientSuite getAllValues h h' opts s = Returns (?suite, Some ?m')"
    by (simp add: Some NewClientSuite_def NewXDSRouter_def NewXDSResolver_def NewCircuitBreaker_def NewRetryPolicy_def
        getManager_def new_cb_def new_rs_def)
  have cache: "abs_cache ?m' = abs_cache m" by (simp add: abs_cache_def fun_eq_iff)
  have calls: "calls_of h ?m' = (case map_of (m_cache m) ClusterType of None \<Rightarrow> [] | Some res \<Rightarrow> [res])"
    using a by (simp add: calls_of_Register)
  from breaker_takes_over_cache [of m] a obtain cb where "cb_updates (calls_of h ?m') new_cb = Returns cb"
    "\<forall>k cl od. abs_cache m ClusterType k = Some (ResCluster (Some cl)) \<and> cr_OutlierDetection cl = Some od \<longrightarrow>
         cb_in_force cb k = Some (cb_config od)" unfolding calls by blast
  moreover have "manager_inv ?m'" using a by (simp add: Register_inv)
  ultimately show ?thesis unfolding Some option.case
    by (intro exI [of _ ?suite] exI [of _ ?m'] exI [of _ cb]) (simp add: run [unfolded Some] cache)
qed

theorem client_suite_takes_over_witness:
  "\<exists>suite m' cb. NewClientSuite (\<lambda>_ :: unit. []) 3 4 []
       (Some (new_manager example_opts\<lparr>m_cache := [(ClusterType, [(''a'', ResCluster (Some example_od))])]\<rparr>)) = Returns (suite, Some m') \<and>
     cb_updates (calls_of 3 m') (snd (cs_breaker suite)) = Returns cb \<and>
     cb_in_force cb ''a'' = Some (cb_config \<lparr>od_FailurePercentageThreshold = 50, od_FailurePercentageRequestVolume = 100\<rparr>)"
proof -
  let ?m = "new_manager example_opts\<lparr>m_cache := [(ClusterType, [(''a'', ResCluster (Some example_od))])]\<rparr>"
  have c: "abs_cache ?m rt k = (if rt = ClusterType \<and> k = ''a'' then Some (ResCluster (Some example_od)) else None)" for rt k
    by (simp add: abs_cache_def gm2_get_def gm_sub_def)
  have "cache_typed ?m" using c by (auto simp: cache_typed_def abs_cache_def split: if_splits)
  then have "manager_inv ?m"
    using manager_inv_new [of example_opts] by (simp add: manager_inv_def maps_wf_def notifiers_ok_def gm2_wf_def)
  moreover have "calls_of 3 ?m = []" by (simp add: calls_of_def new_manager_def)
  moreover have "\<forall>k. abs_cache ?m ClusterType k \<noteq> Some (ResCluster None)" by (simp add: c)
  ultimately have "manager_inv m \<and> calls_of 3 m = [] \<and> (3 :: nat) \<noteq> 4 \<and> (\<forall>k. abs_cache m ClusterType k \<noteq> Some (ResCluster None))"
    if "Some ?m = Some m" for m using that by (auto simp only: option.inject)
  from client_suite_takes_over [of "Some ?m" 3 4 "\<lambda>_ :: unit. []" "[]", OF this]
  obtain suite m' cb where r: "NewClientSuite (\<lambda>_ :: unit. []) 3 4 [] (Some ?m) = Returns (suite, Some m')"
    and m': "abs_cache m' = abs_cache ?m" and u: "cb_updates (calls_of 3 m') (snd (cs_breaker suite)) = Returns cb"
    and f: "\<And>k cl od. abs_cache m' ClusterType k = Some (ResCluster (Some cl)) \<Longrightarrow> cr_OutlierDetection cl = Some od \<Longrightarrow>
         cb_in_force cb k = Some (cb_config od)"
    unfolding option.case by blast
  have "cr_OutlierDetection example_od = Some \<lparr>od_FailurePercentageThreshold = 50, od_FailurePercentageRequestVolume = 100\<rparr>"
    by (simp add: example_od_def)
  moreover have "abs_cache m' ClusterType ''a'' = Some (ResCluster (Some example_od))" by (simp only: m' c) simp
  ultimately show ?thesis using f r u by blast
qed

end
